(* ===== verification/Prelude.thy ===== *)
theory Prelude
  imports Complex_Main "HOL-Library.AList" "HOL-Library.List_Lexorder" "HOL-Library.Char_ord"
begin

text \<open>
  Shared vocabulary of the development: Python values the hub passes around, insertion-ordered
  dictionaries, slices, numbers rendered as text, ASCII case folding, UTC timestamps, and the
  generic lemmas about them that the component theories use.

  Python floats are modelled as exact reals: comparisons are exact, and the rounding error of
  single IEEE operations is not modelled. Datetimes are integers, the microseconds since
  1970-01-01T00:00:00 UTC (the resolution of Python's \<open>datetime\<close>; the hub only creates UTC
  ones). Fresh identifiers and clock readings are arguments of the operations that take them.
\<close>

named_theorems dict_simps \<open>lookup and domain of an updated dictionary\<close>
named_theorems inv_intros \<open>preservation of component invariants by their operations\<close>

section \<open>Python values\<close>

type_synonym timestamp = int

datatype pyval =
    PNone
  | PBool bool
  | PInt int
  | PFloat real
  | PStr string
  | PList "pyval list"
  | PDict "(string \<times> pyval) list"

section \<open>Insertion-ordered dictionaries\<close>

text \<open>
  \<open>d[k] = v\<close> overwrites in place when \<open>k\<close> is a key and appends otherwise, which is
  \<open>AList.update\<close>; \<open>del d[k]\<close> and \<open>d.pop(k)\<close> are \<open>AList.delete\<close>; the order of
  \<open>d.values()\<close> is the order of the list.
\<close>

type_synonym ('k, 'v) dict = "('k \<times> 'v) list"

definition dict_ok :: "('k, 'v) dict \<Rightarrow> bool" where
  "dict_ok d \<longleftrightarrow> distinct (map fst d)"

definition dget :: "('k, 'v) dict \<Rightarrow> 'k \<Rightarrow> 'v option" where
  "dget d k = map_of d k"

definition dget_or :: "('k, 'v) dict \<Rightarrow> 'k \<Rightarrow> 'v \<Rightarrow> 'v" where
  "dget_or d k v = (case dget d k of None \<Rightarrow> v | Some w \<Rightarrow> w)"

definition dset :: "('k, 'v) dict \<Rightarrow> 'k \<Rightarrow> 'v \<Rightarrow> ('k, 'v) dict" where
  "dset d k v = AList.update k v d"

definition ddel :: "('k, 'v) dict \<Rightarrow> 'k \<Rightarrow> ('k, 'v) dict" where
  "ddel d k = AList.delete k d"

definition dhas :: "('k, 'v) dict \<Rightarrow> 'k \<Rightarrow> bool" where
  "dhas d k \<longleftrightarrow> k \<in> set (map fst d)"

abbreviation dvalues :: "('k, 'v) dict \<Rightarrow> 'v list" where
  "dvalues d \<equiv> map snd d"

lemma dget_Nil [simp]: "dget [] k = None"
  by (simp add: dget_def)

lemma dget_dset [simp, dict_simps]: "dget (dset d k v) j = (if j = k then Some v else dget d j)"
  by (simp add: dget_def dset_def update_conv')

lemma dget_ddel [simp, dict_simps]: "dget (ddel d k) j = (if j = k then None else dget d j)"
  by (simp add: dget_def ddel_def delete_conv')

lemma dict_ok_Nil [simp, inv_intros]: "dict_ok []"
  by (simp add: dict_ok_def)

lemma dict_ok_dset [simp, inv_intros]: "dict_ok d \<Longrightarrow> dict_ok (dset d k v)"
  by (simp add: dict_ok_def dset_def distinct_update)

lemma dict_ok_ddel [simp, inv_intros]: "dict_ok d \<Longrightarrow> dict_ok (ddel d k)"
  by (simp add: dict_ok_def ddel_def distinct_delete)

lemma dhas_dget [dict_simps]: "dhas d k \<longleftrightarrow> dget d k \<noteq> None"
  by (auto simp: dhas_def dget_def map_of_eq_None_iff image_iff)

lemma dget_in_values: "dget d k = Some v \<Longrightarrow> v \<in> set (dvalues d)"
  by (auto simp: dget_def dest: map_of_SomeD intro: image_eqI [where x = "(k, v)"])

lemma dget_mem: "dict_ok d \<Longrightarrow> dget d k = Some v \<longleftrightarrow> (k, v) \<in> set d"
  by (simp add: dget_def dict_ok_def map_of_eq_Some_iff)

lemma values_dget: "dict_ok d \<Longrightarrow> v \<in> set (dvalues d) \<longleftrightarrow> (\<exists>k. dget d k = Some v)"
  by (force simp: dget_mem)

lemma set_dset: "dict_ok d \<Longrightarrow> set (dset d k v) = {(k, v)} \<union> {p \<in> set d. fst p \<noteq> k}"
proof -
  assume ok: "dict_ok d"
  have "(j, w) \<in> set (dset d k v) \<longleftrightarrow> (j, w) \<in> {(k, v)} \<union> {p \<in> set d. fst p \<noteq> k}" for j w
    by (auto simp flip: dget_mem [OF ok] dget_mem [OF dict_ok_dset [OF ok]] split: if_splits)
  then show ?thesis by auto
qed

lemma set_ddel: "set (ddel d k) = {p \<in> set d. fst p \<noteq> k}"
  by (auto simp: ddel_def AList.delete_eq)

lemma dset_fresh: "dget d k = None \<Longrightarrow> dset d k v = d @ [(k, v)]"
  by (induction d) (auto simp: dget_def dset_def split: if_splits)

lemma length_ddel: "dict_ok d \<Longrightarrow> length (ddel d k) = length d - (if dhas d k then 1 else 0)"
proof (induction d)
  case (Cons p d)
  then have ok: "dict_ok d" and fresh: "fst p \<notin> set (map fst d)"
    by (auto simp: dict_ok_def)
  show ?case
  proof (cases "fst p = k")
    case True
    then have "ddel d k = d"
      using fresh by (auto simp: ddel_def AList.delete_eq filter_id_conv image_iff)
    with True show ?thesis by (simp add: ddel_def dhas_def)
  next
    case False
    then have "ddel (p # d) k = p # ddel d k" and "dhas (p # d) k = dhas d k"
      by (auto simp: ddel_def dhas_def)
    moreover have "dhas d k \<Longrightarrow> length d > 0"
      by (auto simp: dhas_def)
    ultimately show ?thesis using Cons.IH [OF ok] by auto
  qed
qed (simp add: ddel_def dhas_def)

lemma sum_dset:
  fixes d :: "('k, int) dict"
  shows "sum_list (dvalues (dset d k v)) = sum_list (dvalues d) - dget_or d k 0 + v"
  by (induction d) (auto simp: dset_def dget_or_def dget_def)

lemma sum_dset_map:
  fixes f :: "'v \<Rightarrow> 'a :: ab_group_add"
  shows "sum_list (map f (dvalues (dset d k v))) =
    sum_list (map f (dvalues d)) + f v - (case dget d k of None \<Rightarrow> 0 | Some w \<Rightarrow> f w)"
  by (induction d) (auto simp: dset_def dget_def algebra_simps split: option.splits)

lemma set_values_dset: "x \<in> set (dvalues (dset d k v)) \<Longrightarrow> x = v \<or> x \<in> set (dvalues d)"
  by (induction d) (auto simp: dset_def split: if_splits)

lemma dset_memD: "(a, x) \<in> set (dset d k v) \<Longrightarrow> x = v \<or> (a, x) \<in> set d"
  by (induction d) (auto simp: dset_def split: if_splits)

lemma dget_Cons: "dget ((k, v) # d) j = (if j = k then Some v else dget d j)"
  by (simp add: dget_def)

lemma dget_or_values: "dget_or d k v = v \<or> dget_or d k v \<in> set (dvalues d)"
  by (auto simp: dget_or_def split: option.splits dest: dget_in_values)

text \<open>\<open>d[k] += 1\<close> on a \<open>defaultdict(int)\<close>.\<close>

definition dcount :: "'k \<Rightarrow> ('k, nat) dict \<Rightarrow> ('k, nat) dict" where
  "dcount k d = dset d k (dget_or d k 0 + 1)"

lemma sum_dcount: "sum_list (dvalues (dcount k d)) = sum_list (dvalues d) + 1"
proof -
  have "sum_list (dvalues (dset d k (dget_or d k 0 + m))) = sum_list (dvalues d) + m" for m
    by (induction d) (auto simp: dset_def dget_or_def dget_def)
  from this [of 1] show ?thesis by (simp add: dcount_def)
qed

lemma sum_fold_dcount:
  "sum_list (dvalues (fold (\<lambda>x. dcount (f x)) xs d)) = sum_list (dvalues d) + length xs"
  by (induction xs arbitrary: d) (simp_all add: sum_dcount)

lemma dget_dcount: "dget_or (dcount k d) j 0 = dget_or d j 0 + (if j = k then 1 else 0)"
  by (simp add: dcount_def dget_or_def)

lemma dget_fold_dcount:
  "dget_or (fold (\<lambda>x. dcount (f x)) xs d) j 0 = dget_or d j 0 + count_list (map f xs) j"
  by (induction xs arbitrary: d) (simp_all add: dget_dcount)

lemma sum_dget:
  fixes d :: "('k, 'v :: comm_monoid_add) dict"
  assumes "dict_ok d" "finite S" "set (map fst d) \<subseteq> S"
  shows "(\<Sum>k \<in> S. dget_or d k 0) = sum_list (dvalues d)"
  using assms(1,3)
proof (induction d)
  case Nil
  then show ?case by (simp add: dget_or_def)
next
  case (Cons p d)
  obtain k v where p: "p = (k, v)" by (cases p)
  have d: "dict_ok d" "set (map fst d) \<subseteq> S" "k \<in> S" "k \<notin> set (map fst d)"
    using Cons.prems by (auto simp: dict_ok_def p)
  then have "dget_or d k 0 = 0" by (simp add: dget_or_def dget_def map_of_eq_None_iff [THEN iffD2])
  then have "(\<Sum>j \<in> S. dget_or d j 0) = (\<Sum>j \<in> S - {k}. dget_or d j 0)"
    using d(3) assms(2) by (simp add: sum.remove)
  moreover have "(\<Sum>j \<in> S. dget_or (p # d) j 0) = v + (\<Sum>j \<in> S - {k}. dget_or (p # d) j 0)"
    using d(3) assms(2) by (simp add: sum.remove p dget_or_def dget_Cons)
  moreover have "(\<Sum>j \<in> S - {k}. dget_or (p # d) j 0) = (\<Sum>j \<in> S - {k}. dget_or d j 0)"
    by (rule sum.cong) (auto simp: p dget_or_def dget_Cons)
  ultimately show ?case using Cons.IH [OF d(1,2)] by (simp add: p)
qed

text \<open>A value changed in place: \<open>obj.field = x\<close> on a stored object.\<close>

definition dmap_value :: "('v \<Rightarrow> 'v) \<Rightarrow> ('k, 'v) dict \<Rightarrow> ('k, 'v) dict" where
  "dmap_value f d = map (\<lambda>(k, v). (k, f v)) d"

lemma dget_dmap_value [simp, dict_simps]: "dget (dmap_value f d) k = map_option f (dget d k)"
  by (induction d) (auto simp: dget_def dmap_value_def)

lemma dict_ok_dmap_value [simp, inv_intros]: "dict_ok (dmap_value f d) = dict_ok d"
proof -
  have "map fst (dmap_value f d) = map fst d"
    by (induction d) (auto simp: dmap_value_def)
  then show ?thesis by (simp add: dict_ok_def)
qed

text \<open>A dictionary mirrored under renamed keys.\<close>

definition dmirror :: "('k \<Rightarrow> 'j) \<Rightarrow> ('v \<Rightarrow> 'w) \<Rightarrow> ('k, 'v) dict \<Rightarrow> ('j, 'w) dict" where
  "dmirror f g d = map (\<lambda>(k, v). (f k, g v)) d"

lemma dmirror_dset: "inj f \<Longrightarrow> dset (dmirror f g d) (f k) (g v) = dmirror f g (dset d k v)"
  by (induction d) (auto simp: dmirror_def dset_def dest: injD)

lemma dmirror_ddel: "inj f \<Longrightarrow> ddel (dmirror f g d) (f k) = dmirror f g (ddel d k)"
  by (induction d) (auto simp: dmirror_def ddel_def dest: injD)

lemma insort_key_map: "insort_key f (h x) (map h xs) = map h (insort_key (f \<circ> h) x xs)"
  by (induction xs) auto

lemma sort_key_map: "sort_key f (map h xs) = map h (sort_key (f \<circ> h) xs)"
  by (induction xs) (simp_all add: insort_key_map [unfolded comp_def] comp_def)

lemma dget_permute: "dict_ok d \<Longrightarrow> dict_ok d' \<Longrightarrow> set d' = set d \<Longrightarrow> dget d' k = dget d k"
  unfolding dget_def dict_ok_def by (metis map_of_inject_set)

lemma dict_ok_sort_key [simp]: "dict_ok (sort_key f d) = dict_ok d"
  by (simp add: dict_ok_def distinct_map)

text \<open>Entering a list of pairs with distinct keys one by one.\<close>

lemma dget_fold_dset:
  "distinct (map fst qs) \<Longrightarrow>
   dget (fold (\<lambda>(k, v) d. dset d k v) qs d) k = (case dget qs k of None \<Rightarrow> dget d k | Some v \<Rightarrow> Some v)"
proof (induction qs arbitrary: d)
  case (Cons q qs)
  have "fst q \<notin> set (map fst qs)" using Cons.prems by auto
  then have "dget qs (fst q) = None" by (simp add: dget_def map_of_eq_None_iff)
  moreover have "dget (q # qs) k = (if k = fst q then Some (snd q) else dget qs k)"
    by (cases q) (simp add: dget_def)
  ultimately show ?case using Cons by (cases q) (auto split: option.splits)
qed simp

section \<open>Slices\<close>

text \<open>
  \<open>xs[-n:]\<close>. For \<open>n = 0\<close> Python reads \<open>xs[0:]\<close>, the whole list; for a negative \<open>n\<close> it
  drops \<open>-n\<close> elements from the front.
\<close>

definition slice_last :: "int \<Rightarrow> 'a list \<Rightarrow> 'a list" where
  "slice_last n xs = (if 0 < n then drop (length xs - nat n) xs else drop (nat (- n)) xs)"

text \<open>\<open>xs[:n]\<close>; a negative \<open>n\<close> counts from the end.\<close>

definition slice_first :: "int \<Rightarrow> 'a list \<Rightarrow> 'a list" where
  "slice_first n xs = (if 0 \<le> n then take (nat n) xs else take (length xs - nat (- n)) xs)"

lemma set_slice_last: "x \<in> set (slice_last n xs) \<Longrightarrow> x \<in> set xs"
  by (auto simp: slice_last_def split: if_splits dest: in_set_dropD)

lemma set_slice_first: "x \<in> set (slice_first n xs) \<Longrightarrow> x \<in> set xs"
  by (auto simp: slice_first_def split: if_splits dest: in_set_takeD)

lemma length_slice_last: "0 < n \<Longrightarrow> length (slice_last n xs) \<le> nat n"
  by (simp add: slice_last_def)

lemma length_slice_first: "0 \<le> n \<Longrightarrow> length (slice_first n xs) \<le> nat n"
  by (simp add: slice_first_def)

lemma slice_last_zero: "slice_last 0 xs = xs"
  by (simp add: slice_last_def)

section \<open>Numbers as text\<close>

definition digit :: "nat \<Rightarrow> char" where
  "digit d = ''0123456789'' ! (d mod 10)"

fun show_nat :: "nat \<Rightarrow> string" where
  "show_nat n = (if n < 10 then [digit n] else show_nat (n div 10) @ [digit n])"

declare show_nat.simps [simp del]

definition show_int :: "int \<Rightarrow> string" where
  "show_int i = (if i < 0 then ''-'' @ show_nat (nat (- i)) else show_nat (nat i))"

text \<open>\<open>{n:0wd}\<close>: at least \<open>w\<close> digits.\<close>

definition pad_nat :: "nat \<Rightarrow> nat \<Rightarrow> string" where
  "pad_nat w n = (let s = show_nat n in replicate (w - length s) CHR ''0'' @ s)"

text \<open>Round half to even, the rounding of Python's \<open>round\<close> and of \<open>{x:.2f}\<close>.\<close>

definition round_half_even :: "real \<Rightarrow> int" where
  "round_half_even x =
     (let f = \<lfloor>x\<rfloor>; d = x - real_of_int f
      in if d < 1 / 2 then f else if 1 / 2 < d then f + 1 else if even f then f else f + 1)"

definition round2 :: "real \<Rightarrow> real" where
  "round2 x = real_of_int (round_half_even (100 * x)) / 100"

lemma round_half_even_bounds:
  "real_of_int (round_half_even x) \<le> x + 1 / 2" "x - 1 / 2 \<le> real_of_int (round_half_even x)"
  unfolding round_half_even_def Let_def by (auto; linarith)+

lemma round_half_even_of_int [simp]: "round_half_even (real_of_int i) = i"
  by (simp add: round_half_even_def)

lemma round_half_even_mono: "x \<le> y \<Longrightarrow> round_half_even x \<le> round_half_even y"
proof (rule ccontr)
  assume le: "x \<le> y" and "\<not> round_half_even x \<le> round_half_even y"
  then have gt: "real_of_int (round_half_even y) + 1 \<le> real_of_int (round_half_even x)"
    by linarith
  with le round_half_even_bounds [of x] round_half_even_bounds [of y]
  have "x = y" by linarith
  with gt show False by simp
qed

lemma round2_mono: "x \<le> y \<Longrightarrow> round2 x \<le> round2 y"
  unfolding round2_def by (intro divide_right_mono) (auto intro: round_half_even_mono)

lemma round2_bounds: "\<bar>round2 x - x\<bar> \<le> 1 / 200"
proof -
  have "\<bar>real_of_int (round_half_even (100 * x)) - 100 * x\<bar> \<le> 1 / 2"
    using round_half_even_bounds [of "100 * x"] by linarith
  then show ?thesis by (simp add: round2_def abs_le_iff field_simps)
qed

lemma round2_zero [simp]: "round2 0 = 0"
  using round_half_even_of_int [of 0] by (simp add: round2_def)

lemma round2_hundred [simp]: "round2 100 = 100"
  using round_half_even_of_int [of 10000] by (simp add: round2_def)

lemma round2_nonneg: "0 \<le> x \<Longrightarrow> 0 \<le> round2 x"
  using round2_mono [of 0 x] by simp

text \<open>\<open>round(x, 6)\<close>\<close>

definition round6 :: "real \<Rightarrow> real" where
  "round6 x = real_of_int (round_half_even (1000000 * x)) / 1000000"

text \<open>\<open>{x:,.2f}\<close>: thousands separated by commas, two decimals.\<close>

fun group3 :: "string \<Rightarrow> string" where
  "group3 (a # b # c # d # s) = a # b # c # CHR '','' # group3 (d # s)"
| "group3 s = s"

definition fmt_money :: "real \<Rightarrow> string" where
  "fmt_money x =
     (let c = round_half_even (100 * x); n = nat \<bar>c\<bar>
      in (if x < 0 then ''-'' else []) @ rev (group3 (rev (show_nat (n div 100)))) @ ''.'' @
         pad_nat 2 (n mod 100))"

text \<open>\<open>{x:.1f}\<close>.\<close>

definition fmt_1f :: "real \<Rightarrow> string" where
  "fmt_1f x =
     (let n = nat \<bar>round_half_even (10 * x)\<bar>
      in (if x < 0 then ''-'' else []) @ show_nat (n div 10) @ ''.'' @ show_nat (n mod 10))"

text \<open>\<open>{x:.0f}\<close> and \<open>{x:.2f}\<close>.\<close>

definition fmt_0f :: "real \<Rightarrow> string" where
  "fmt_0f x = (if x < 0 then ''-'' else []) @ show_nat (nat \<bar>round_half_even x\<bar>)"

definition fmt_2f :: "real \<Rightarrow> string" where
  "fmt_2f x =
     (let n = nat \<bar>round_half_even (100 * x)\<bar>
      in (if x < 0 then ''-'' else []) @ show_nat (n div 100) @ ''.'' @ pad_nat 2 (n mod 100))"

text \<open>\<open>{x:+.1f}\<close>.\<close>

definition fmt_signed_1f :: "real \<Rightarrow> string" where
  "fmt_signed_1f x = (if x < 0 then [] else ''+'') @ fmt_1f x"

section \<open>Text\<close>

text \<open>\<open>sep.join(xs)\<close>\<close>

fun join :: "string \<Rightarrow> string list \<Rightarrow> string" where
  "join sep [] = []"
| "join sep [x] = x"
| "join sep (x # y # ys) = x @ sep @ join sep (y # ys)"

text \<open>The em dash of the messages, in UTF-8.\<close>

definition em_dash :: string where
  "em_dash = [CHR 0xE2, CHR 0x80, CHR 0x94]"

text \<open>A text between single quotation marks.\<close>

definition quoted :: "string \<Rightarrow> string" where
  "quoted s = CHR 0x27 # s @ [CHR 0x27]"

text \<open>\<open>p in s\<close> for strings.\<close>

fun is_prefix :: "string \<Rightarrow> string \<Rightarrow> bool" where
  "is_prefix [] s = True"
| "is_prefix (c # p) [] = False"
| "is_prefix (c # p) (d # s) = (c = d \<and> is_prefix p s)"

fun substr :: "string \<Rightarrow> string \<Rightarrow> bool" where
  "substr p [] = (p = [])"
| "substr p (c # s) = (is_prefix p (c # s) \<or> substr p s)"

lemma is_prefix_append [simp]: "is_prefix p (p @ s)"
  by (induction p) auto

lemma is_prefix_iff: "is_prefix p s \<longleftrightarrow> (\<exists>t. s = p @ t)"
  by (induction p s rule: is_prefix.induct) auto

lemma substr_append: "substr p (a @ p @ s)"
proof (induction a)
  case Nil
  show ?case using is_prefix_append [of p s] by (cases "p @ s") (auto simp del: is_prefix_append)
qed simp

text \<open>\<open>s.lower()\<close> and \<open>s.upper()\<close> on ASCII letters; other characters are kept.\<close>

definition lower_char :: "char \<Rightarrow> char" where
  "lower_char c = (let n = (of_char c :: nat) in if 65 \<le> n \<and> n \<le> 90 then char_of (n + 32) else c)"

definition upper_char :: "char \<Rightarrow> char" where
  "upper_char c = (let n = (of_char c :: nat) in if 97 \<le> n \<and> n \<le> 122 then char_of (n - 32) else c)"

definition lower :: "string \<Rightarrow> string" where
  "lower s = map lower_char s"

definition upper :: "string \<Rightarrow> string" where
  "upper s = map upper_char s"

lemma lower_char_idem [simp]: "lower_char (lower_char c) = lower_char c"
  by (simp add: lower_char_def Let_def)

lemma lower_idem [simp]: "lower (lower s) = lower s"
  by (simp add: lower_def)

text \<open>\<open>a or b\<close> on strings: the empty string is falsy.\<close>

definition str_or :: "string \<Rightarrow> string \<Rightarrow> string" where
  "str_or a b = (if a = [] then b else a)"

text \<open>\<open>{s:<w}\<close> and \<open>{s:>w}\<close>.\<close>

definition ljust :: "nat \<Rightarrow> string \<Rightarrow> string" where
  "ljust w s = s @ replicate (w - length s) CHR '' ''"

definition rjust :: "nat \<Rightarrow> string \<Rightarrow> string" where
  "rjust w s = replicate (w - length s) CHR '' '' @ s"

text \<open>\<open>for i, x in enumerate(xs)\<close>\<close>

definition numbered :: "(nat \<Rightarrow> 'a \<Rightarrow> 'b) \<Rightarrow> 'a list \<Rightarrow> 'b list" where
  "numbered f xs = map (\<lambda>(i, x). f i x) (enumerate 0 xs)"

definition newline :: string where
  "newline = [CHR 0x0A]"

text \<open>\<open>str(v)\<close>; \<open>repr\<close> renders the floats and containers.\<close>

fun py_str :: "(pyval \<Rightarrow> string) \<Rightarrow> pyval \<Rightarrow> string" where
  "py_str repr (PStr s) = s"
| "py_str repr (PInt i) = show_int i"
| "py_str repr (PBool b) = (if b then ''True'' else ''False'')"
| "py_str repr PNone = ''None''"
| "py_str repr v = repr v"

text \<open>The truth value of a Python value.\<close>

fun truthy :: "pyval \<Rightarrow> bool" where
  "truthy PNone = False"
| "truthy (PBool b) = b"
| "truthy (PInt i) = (i \<noteq> 0)"
| "truthy (PFloat x) = (x \<noteq> 0)"
| "truthy (PStr s) = (s \<noteq> [])"
| "truthy (PList xs) = (xs \<noteq> [])"
| "truthy (PDict d) = (d \<noteq> [])"

section \<open>Parsing small texts\<close>

text \<open>\<open>s.strip()\<close> on ASCII whitespace.\<close>

definition is_space :: "char \<Rightarrow> bool" where
  "is_space c \<longleftrightarrow> (let n = (of_char c :: nat) in n = 32 \<or> 9 \<le> n \<and> n \<le> 13 \<or> 28 \<le> n \<and> n \<le> 31)"

definition strip :: "string \<Rightarrow> string" where
  "strip s = rev (dropWhile is_space (rev (dropWhile is_space s)))"

text \<open>\<open>s.split(c)\<close> for one character, and \<open>s.split(c, 1)\<close> of a text that contains it.\<close>

fun split_on :: "char \<Rightarrow> string \<Rightarrow> string list" where
  "split_on c [] = [[]]"
| "split_on c (d # s) =
     (if d = c then [] # split_on c s
      else (case split_on c s of [] \<Rightarrow> [[d]] | x # xs \<Rightarrow> (d # x) # xs))"

definition split_once :: "char \<Rightarrow> string \<Rightarrow> string \<times> string" where
  "split_once c s = (takeWhile (\<lambda>d. d \<noteq> c) s, tl (dropWhile (\<lambda>d. d \<noteq> c) s))"

text \<open>\<open>int(s)\<close>: an optional sign, decimal digits, single underscores between digits.\<close>

definition is_digit :: "char \<Rightarrow> bool" where
  "is_digit c \<longleftrightarrow> (let n = (of_char c :: nat) in 48 \<le> n \<and> n \<le> 57)"

fun py_digits :: "bool \<Rightarrow> int \<Rightarrow> string \<Rightarrow> int option" where
  "py_digits ok acc [] = (if ok then Some acc else None)"
| "py_digits ok acc (c # s) =
     (if is_digit c then py_digits True (10 * acc + int (of_char c - 48)) s
      else if c = CHR ''_'' \<and> ok then py_digits False acc s
      else None)"

definition py_int :: "string \<Rightarrow> int option" where
  "py_int s =
     (case strip s of
        [] \<Rightarrow> None
      | c # t \<Rightarrow> if c = CHR ''-'' then map_option uminus (py_digits False 0 t)
                 else if c = CHR ''+'' then py_digits False 0 t
                 else py_digits False 0 (c # t))"

section \<open>Timestamps\<close>

definition us_per_day :: int where
  "us_per_day = 86400000000"

definition day_of :: "timestamp \<Rightarrow> int" where
  "day_of t = t div us_per_day"

text \<open>\<open>t.hour * 60 + t.minute\<close>\<close>

definition minute_of_day :: "timestamp \<Rightarrow> int" where
  "minute_of_day t = (t mod us_per_day) div 60000000"

lemma minute_of_day_range: "0 \<le> minute_of_day t" "minute_of_day t < 1440"
proof -
  have "0 \<le> t mod us_per_day" "t mod us_per_day < us_per_day"
    by (simp_all add: us_per_day_def)
  then show "0 \<le> minute_of_day t" "minute_of_day t < 1440"
    unfolding minute_of_day_def us_per_day_def by auto
qed

lemma day_of_mono: "s \<le> t \<Longrightarrow> day_of s \<le> day_of t"
  by (simp add: day_of_def us_per_day_def zdiv_mono1)

text \<open>The proleptic Gregorian date of a day number (day 0 is 1970-01-01).\<close>

definition civil_from_days :: "int \<Rightarrow> int \<times> int \<times> int" where
  "civil_from_days d =
     (let z = d + 719468; era = z div 146097; doe = z mod 146097;
          yoe = (doe - doe div 1460 + doe div 36524 - doe div 146096) div 365;
          doy = doe - (365 * yoe + yoe div 4 - yoe div 100);
          mp = (5 * doy + 2) div 153;
          m = (if mp < 10 then mp + 3 else mp - 9)
      in (yoe + era * 400 + (if m \<le> 2 then 1 else 0), m, doy - (153 * mp + 2) div 5 + 1))"

text \<open>\<open>t.strftime("%Y-%m-%d")\<close>\<close>

definition date_str :: "timestamp \<Rightarrow> string" where
  "date_str t =
     (let (y, m, d) = civil_from_days (day_of t)
      in pad_nat 4 (nat y) @ ''-'' @ pad_nat 2 (nat m) @ ''-'' @ pad_nat 2 (nat d))"

text \<open>\<open>t.strftime("%Y-%m-%d %H:%M UTC")\<close>\<close>

definition minute_str :: "timestamp \<Rightarrow> string" where
  "minute_str t = date_str t @ '' '' @ pad_nat 2 (nat (minute_of_day t div 60)) @ '':'' @
     pad_nat 2 (nat (minute_of_day t mod 60)) @ '' UTC''"

text \<open>\<open>t.isoformat()\<close> of a UTC datetime; the fraction is left out when it is zero.\<close>

definition isoformat :: "timestamp \<Rightarrow> string" where
  "isoformat t =
     (let us = t mod us_per_day; s = us div 1000000; f = us mod 1000000
      in date_str t @ ''T'' @ pad_nat 2 (nat (s div 3600)) @ '':'' @
         pad_nat 2 (nat (s div 60 mod 60)) @ '':'' @ pad_nat 2 (nat (s mod 60)) @
         (if f = 0 then [] else ''.'' @ pad_nat 6 (nat f)) @ ''+00:00'')"

definition iso_chars :: "char set" where
  "iso_chars = set ''0123456789-T:.+''"

lemma digit_iso: "digit n \<in> iso_chars"
proof -
  have "n mod 10 < length ''0123456789''" by simp
  then have "digit n \<in> set ''0123456789''" unfolding digit_def by (rule nth_mem)
  then show ?thesis by (auto simp: iso_chars_def)
qed

lemma show_nat_iso: "set (show_nat n) \<subseteq> iso_chars"
proof (induction n rule: show_nat.induct)
  case (1 n)
  then show ?case using digit_iso [of n] by (subst show_nat.simps) auto
qed

lemma pad_nat_iso: "set (pad_nat w n) \<subseteq> iso_chars"
  using show_nat_iso [of n] by (auto simp: pad_nat_def Let_def iso_chars_def)

lemma isoformat_chars: "set (isoformat t) \<subseteq> iso_chars"
proof -
  have seps: "set ''T'' \<subseteq> iso_chars" "set '':'' \<subseteq> iso_chars" "set ''.'' \<subseteq> iso_chars"
    "set ''-'' \<subseteq> iso_chars" "set ''+00:00'' \<subseteq> iso_chars"
    by (auto simp: iso_chars_def)
  have "set (date_str t) \<subseteq> iso_chars"
    using pad_nat_iso seps by (auto simp: date_str_def Let_def split: prod.splits)
  then show ?thesis
    using pad_nat_iso seps unfolding isoformat_def Let_def set_append Un_subset_iff
    by (auto split: if_splits)
qed

text \<open>Texts free of a separator split uniquely at it.\<close>

lemma append_sep_inject:
  "c \<notin> set a \<Longrightarrow> c \<notin> set b \<Longrightarrow> a @ c # s = b @ c # t \<longleftrightarrow> a = b \<and> s = t"
proof (induction a arbitrary: b)
  case Nil
  then show ?case by (cases b) auto
next
  case (Cons x a)
  then show ?case by (cases b) auto
qed

section \<open>Counting over lists\<close>

text \<open>\<open>statistics.mean\<close> and \<open>statistics.stdev\<close>; both raise on too few values.\<close>

definition mean :: "real list \<Rightarrow> real" where
  "mean xs = sum_list xs / real (length xs)"

definition stdev :: "real list \<Rightarrow> real" where
  "stdev xs = sqrt (sum_list (map (\<lambda>x. (x - mean xs)\<^sup>2) xs) / real (length xs - 1))"

lemma stdev_nonneg: "0 \<le> stdev xs"
proof -
  have "0 \<le> sum_list (map (\<lambda>x. (x - mean xs)\<^sup>2) xs)" by (rule sum_list_nonneg) auto
  then show ?thesis by (simp add: stdev_def)
qed

lemma sum_list_filter_split:
  fixes f :: "'a \<Rightarrow> 'b :: comm_monoid_add"
  shows "sum_list (map f (filter P xs)) + sum_list (map f (filter (\<lambda>x. \<not> P x) xs))
    = sum_list (map f xs)"
  by (induction xs) (auto simp: ac_simps)

end
