(* ===== verification/Lifecycle.thy ===== *)
theory Lifecycle
  imports Prelude
begin

text \<open>
  The agent lifecycle state machine, \<open>core/lifecycle.py\<close>: the transition table, the
  \<open>AgentLifecycle\<close> object and its guarded \<open>transition\<close>. The lemmas show that the recorded
  history is a path of the table, that it stays bounded, and that a terminated agent stays so.
\<close>

section \<open>States and the transition table\<close>

datatype agent_state = Created | Initialized | Active | Degraded | Paused | Errored | Terminated

fun valid_transitions :: "agent_state \<Rightarrow> agent_state set" where
  "valid_transitions Created = {Initialized, Terminated}"
| "valid_transitions Initialized = {Active, Errored, Terminated}"
| "valid_transitions Active = {Degraded, Paused, Errored, Terminated}"
| "valid_transitions Degraded = {Active, Errored, Paused, Terminated}"
| "valid_transitions Paused = {Active, Degraded, Terminated}"
| "valid_transitions Errored = {Active, Degraded, Initialized, Terminated}"
| "valid_transitions Terminated = {}"

record transition_record =
  tr_from :: agent_state
  tr_to :: agent_state
  tr_timestamp :: timestamp
  tr_reason :: string

record agent_lifecycle =
  lc_agent_name :: string
  lc_state :: agent_state
  lc_state_since :: real
  lc_created_at :: timestamp
  lc_history :: "transition_record list"
  lc_error_count :: nat

section \<open>Operations\<close>

definition init_lifecycle :: "string \<Rightarrow> real \<Rightarrow> timestamp \<Rightarrow> agent_lifecycle" where
  "init_lifecycle name clk now =
     \<lparr>lc_agent_name = name, lc_state = Created, lc_state_since = clk, lc_created_at = now,
      lc_history = [], lc_error_count = 0\<rparr>"

definition is_operational :: "agent_lifecycle \<Rightarrow> bool" where
  "is_operational l \<longleftrightarrow> lc_state l \<in> {Active, Degraded}"

definition uptime_seconds :: "real \<Rightarrow> agent_lifecycle \<Rightarrow> real" where
  "uptime_seconds clk l = clk - lc_state_since l"

text \<open>
  \<open>transition(new_state, reason=...)\<close> at monotonic time \<open>clk\<close> and wall-clock time \<open>now\<close>:
  a self transition is accepted and changes nothing, a transition the table lacks is rejected,
  any other is recorded, and the history is cut to its last 200 records.
\<close>

definition transition ::
  "real \<Rightarrow> timestamp \<Rightarrow> agent_state \<Rightarrow> string \<Rightarrow> agent_lifecycle \<Rightarrow> bool \<times> agent_lifecycle" where
  "transition clk now new reason l =
     (let old = lc_state l in
      if new = old then (True, l)
      else if new \<notin> valid_transitions old then (False, l)
      else
        let r = \<lparr>tr_from = old, tr_to = new, tr_timestamp = now, tr_reason = reason\<rparr>;
            hist = lc_history l @ [r]
        in (True, l\<lparr>lc_state := new, lc_state_since := clk,
              lc_error_count := lc_error_count l + (if new = Errored then 1 else 0),
              lc_history := (if 200 < length hist then slice_last 200 hist else hist)\<rparr>))"

definition get_transition_history :: "int \<Rightarrow> agent_lifecycle \<Rightarrow> transition_record list" where
  "get_transition_history limit l = slice_last limit (lc_history l)"

section \<open>Well-formed histories\<close>

text \<open>Consecutive records chain, each step is in the table, and the path ends in the state.\<close>

fun history_path :: "transition_record list \<Rightarrow> agent_state \<Rightarrow> bool" where
  "history_path [] s = True"
| "history_path [r] s = (tr_to r \<in> valid_transitions (tr_from r) \<and> tr_to r = s)"
| "history_path (r # q # rs) s =
     (tr_to r \<in> valid_transitions (tr_from r) \<and> tr_to r = tr_from q \<and> history_path (q # rs) s)"

definition lifecycle_ok :: "agent_lifecycle \<Rightarrow> bool" where
  "lifecycle_ok l \<longleftrightarrow>
     history_path (lc_history l) (lc_state l) \<and> length (lc_history l) \<le> 200 \<and>
     (lc_history l = [] \<longrightarrow> lc_state l = Created) \<and>
     length (filter (\<lambda>r. tr_to r = Errored) (lc_history l)) \<le> lc_error_count l"

lemma history_path_snoc:
  "history_path hs s \<Longrightarrow> tr_from r = s \<or> hs = [] \<Longrightarrow> tr_to r \<in> valid_transitions (tr_from r) \<Longrightarrow>
   history_path (hs @ [r]) (tr_to r)"
  by (induction hs s rule: history_path.induct) auto

lemma history_path_drop: "history_path hs s \<Longrightarrow> history_path (drop n hs) s"
proof (induction hs s arbitrary: n rule: history_path.induct)
  case (2 r s)
  then show ?case by (cases n) auto
next
  case (3 r q rs s)
  then show ?case by (cases n) auto
qed simp

lemma no_transition_out_of_terminated:
  "lc_state l = Terminated \<Longrightarrow> snd (transition clk now new reason l) = l"
  by (simp add: transition_def Let_def)

lemma transition_rejected: "\<not> fst (transition clk now new reason l) \<Longrightarrow>
    snd (transition clk now new reason l) = l"
  by (auto simp: transition_def Let_def split: if_splits)

lemma transition_accepted_iff:
  "fst (transition clk now new reason l) \<longleftrightarrow>
     new = lc_state l \<or> new \<in> valid_transitions (lc_state l)"
  by (auto simp: transition_def Let_def)

lemma transition_state:
  "fst (transition clk now new reason l) \<Longrightarrow> lc_state (snd (transition clk now new reason l)) = new"
  by (auto simp: transition_def Let_def split: if_splits)

lemma filter_drop_le: "length (filter P (drop n xs)) \<le> length (filter P xs)"
proof -
  have "length (filter P xs) = length (filter P (take n xs)) + length (filter P (drop n xs))"
    by (metis append_take_drop_id filter_append length_append)
  then show ?thesis by simp
qed

lemma lifecycle_ok_init [inv_intros]: "lifecycle_ok (init_lifecycle name clk now)"
  by (simp add: lifecycle_ok_def init_lifecycle_def)

lemma lifecycle_ok_transition [inv_intros]:
  assumes ok: "lifecycle_ok l"
  shows "lifecycle_ok (snd (transition clk now new reason l))"
proof (cases "new = lc_state l \<or> new \<notin> valid_transitions (lc_state l)")
  case True
  then show ?thesis using ok by (auto simp: transition_def Let_def)
next
  case False
  let ?r = "\<lparr>tr_from = lc_state l, tr_to = new, tr_timestamp = now, tr_reason = reason\<rparr>"
  let ?h = "lc_history l @ [?r]"
  let ?k = "length ?h - 200"
  have path: "history_path ?h new"
    using ok False history_path_snoc [of "lc_history l" "lc_state l" ?r]
    by (simp add: lifecycle_ok_def)
  have errs: "length (filter (\<lambda>r. tr_to r = Errored) ?h)
      \<le> lc_error_count l + (if new = Errored then 1 else 0)"
    using ok by (simp add: lifecycle_ok_def)
  have "lc_history (snd (transition clk now new reason l)) = drop ?k ?h"
    using False by (auto simp: transition_def Let_def slice_last_def)
  moreover have "length (filter (\<lambda>r. tr_to r = Errored) (drop ?k ?h))
      \<le> length (filter (\<lambda>r. tr_to r = Errored) ?h)"
    by (rule filter_drop_le)
  moreover have "lc_state (snd (transition clk now new reason l)) = new"
      "lc_error_count (snd (transition clk now new reason l))
         = lc_error_count l + (if new = Errored then 1 else 0)"
    using False by (auto simp: transition_def Let_def)
  ultimately show ?thesis
    using history_path_drop [OF path, of ?k] errs by (auto simp: lifecycle_ok_def)
qed

section \<open>Runs\<close>

type_synonym transition_call = "real \<times> timestamp \<times> agent_state \<times> string"

fun run_lifecycle :: "transition_call list \<Rightarrow> agent_lifecycle \<Rightarrow> agent_lifecycle" where
  "run_lifecycle [] l = l"
| "run_lifecycle ((clk, now, new, reason) # cs) l =
     run_lifecycle cs (snd (transition clk now new reason l))"

lemma run_lifecycle_ok: "lifecycle_ok l \<Longrightarrow> lifecycle_ok (run_lifecycle cs l)"
  by (induction cs l rule: run_lifecycle.induct) (auto intro: inv_intros)

lemma run_lifecycle_terminated: "lc_state l = Terminated \<Longrightarrow> run_lifecycle cs l = l"
  by (induction cs l rule: run_lifecycle.induct) (auto simp: no_transition_out_of_terminated)

lemma run_lifecycle_append: "run_lifecycle (cs @ ds) l = run_lifecycle ds (run_lifecycle cs l)"
  by (induction cs l rule: run_lifecycle.induct) auto

text \<open>
  Whatever transitions are requested of a new agent, its history is a chain of table
  transitions that ends in its current state, holds at most 200 records and never more errors
  than were counted; and an agent that has terminated ignores every further request.
\<close>
theorem lifecycle_run_wellformed:
  fixes cs nm clk now
  defines "l \<equiv> run_lifecycle cs (init_lifecycle nm clk now)"
  shows "history_path (lc_history l) (lc_state l) \<and> length (lc_history l) \<le> 200 \<and>
    (lc_history l = [] \<longrightarrow> lc_state l = Created) \<and>
    length (filter (\<lambda>r. tr_to r = Errored) (lc_history l)) \<le> lc_error_count l \<and>
    (lc_state l = Terminated \<longrightarrow>
       run_lifecycle (cs @ ds) (init_lifecycle nm clk now) = l)"
  using run_lifecycle_ok [OF lifecycle_ok_init [of nm clk now], of cs] run_lifecycle_terminated
  by (simp add: l_def lifecycle_ok_def run_lifecycle_append)

theorem lifecycle_run_wellformed_witness:
  "run_lifecycle ([(1, 1, Terminated, ''drain'')] @ [(2, 2, Active, ''again'')]) (init_lifecycle ''a'' 0 0) =
   run_lifecycle [(1, 1, Terminated, ''drain'')] (init_lifecycle ''a'' 0 0)"
proof -
  have "lc_state (run_lifecycle [(1, 1, Terminated, ''drain'')] (init_lifecycle ''a'' 0 0)) = Terminated"
    by (simp add: transition_def Let_def init_lifecycle_def)
  then show ?thesis
    using lifecycle_run_wellformed [of "[(1, 1, Terminated, ''drain'')]" "''a''" 0 0
        "[(2, 2, Active, ''again'')]"] by blast
qed

end
