(* ===== verification/Models.thy ===== *)
theory Models
  imports Prelude
begin

text \<open>
  The data model, \<open>core/models.py\<close>: one datatype per \<open>StrEnum\<close> with its string value, one
  record per Pydantic model, field for field and in the source's order. Identifiers and times the
  source draws from \<open>uuid4()\<close> and \<open>datetime.now(UTC)\<close> are fields like any other; the operations
  that create a record receive them as arguments.
\<close>

datatype cloud_provider = AWS | GCP | AZURE

datatype severity = INFO | WARNING | CRITICAL | EMERGENCY

datatype action_status = PENDING | ACKNOWLEDGED | IN_PROGRESS | RESOLVED | ESCALATED

fun provider_value :: "cloud_provider \<Rightarrow> string" where
  "provider_value AWS = ''aws''"
| "provider_value GCP = ''gcp''"
| "provider_value AZURE = ''azure''"

fun severity_value :: "severity \<Rightarrow> string" where
  "severity_value INFO = ''info''"
| "severity_value WARNING = ''warning''"
| "severity_value CRITICAL = ''critical''"
| "severity_value EMERGENCY = ''emergency''"

fun status_value :: "action_status \<Rightarrow> string" where
  "status_value PENDING = ''pending''"
| "status_value ACKNOWLEDGED = ''acknowledged''"
| "status_value IN_PROGRESS = ''in_progress''"
| "status_value RESOLVED = ''resolved''"
| "status_value ESCALATED = ''escalated''"

text \<open>Severities are ordered by urgency, the order in which the alert engine tests them.\<close>

fun severity_rank :: "severity \<Rightarrow> nat" where
  "severity_rank INFO = 0"
| "severity_rank WARNING = 1"
| "severity_rank CRITICAL = 2"
| "severity_rank EMERGENCY = 3"

lemma severity_rank_inj: "severity_rank a = severity_rank b \<Longrightarrow> a = b"
  by (cases a; cases b) simp_all

instantiation severity :: linorder
begin

definition less_eq_severity :: "severity \<Rightarrow> severity \<Rightarrow> bool" where
  "less_eq_severity a b \<longleftrightarrow> severity_rank a \<le> severity_rank b"

definition less_severity :: "severity \<Rightarrow> severity \<Rightarrow> bool" where
  "less_severity a b \<longleftrightarrow> severity_rank a < severity_rank b"

instance
  by standard (auto simp: less_eq_severity_def less_severity_def intro: severity_rank_inj)

end

record resource_event =
  ev_event_id :: string
  ev_correlation_id :: string
  ev_provider :: cloud_provider
  ev_timestamp :: timestamp
  ev_account_id :: string
  ev_region :: string
  ev_resource_type :: string
  ev_resource_id :: string
  ev_resource_name :: string
  ev_creator_identity :: string
  ev_creator_email :: string
  ev_cost :: real
  ev_purchase_type :: string
  ev_tags :: "(string, string) dict"
  ev_raw_event :: "(string, pyval) dict"

record cost_threshold =
  th_provider :: cloud_provider
  th_resource_type :: string
  th_warning_usd :: real
  th_critical_usd :: real
  th_emergency_usd :: real
  th_baseline_monthly_usd :: real
  th_anomaly_multiplier :: real
  th_last_updated :: timestamp

record cost_alert =
  al_alert_id :: string
  al_created_at :: timestamp
  al_severity :: severity
  al_provider :: cloud_provider
  al_account_id :: string
  al_region :: string
  al_title :: string
  al_summary :: string
  al_resource_creator :: string
  al_creator_email :: string
  al_team :: string
  al_cost_centre :: string
  al_resource_type :: string
  al_resource_id :: string
  al_resource_name :: string
  al_cost :: real
  al_threshold_exceeded_usd :: real
  al_baseline_monthly_usd :: real
  al_cost_increase_percentage :: real
  al_recommended_actions :: "string list"
  al_accountability_note :: string
  al_escalation_path :: string
  al_status :: action_status
  al_acknowledged_by :: string
  al_resolved_by :: string
  al_source_event_id :: string
  al_correlation_id :: string
  al_policy_id :: string

record cost_policy =
  po_policy_id :: string
  po_name :: string
  po_description :: string
  po_provider :: "cloud_provider option"
  po_resource_types :: "string list"
  po_max_monthly_cost_usd :: "real option"
  po_require_tags :: "string list"
  po_require_approval_above_usd :: "real option"
  po_auto_actions :: "string list"
  po_enabled :: bool
  po_created_at :: timestamp
  po_updated_at :: timestamp
  po_blocked_regions :: "string list"
  po_preferred_regions :: "string list"
  po_required_purchase_type :: "string option"
  po_schedule :: "(string, string) dict"
  po_min_commitment_coverage_pct :: "real option"
  po_acknowledgement_sla_hours :: "int option"
  po_resolution_sla_hours :: "int option"
  po_max_account_monthly_budget_usd :: "real option"
  po_unit_cost_metric :: "string option"
  po_unit_cost_threshold_usd :: "real option"

record audit_entry =
  ae_audit_id :: string
  ae_timestamp :: timestamp
  ae_action :: string
  ae_actor :: string
  ae_target :: string
  ae_provider :: "cloud_provider option"
  ae_correlation_id :: string
  ae_causation_id :: string
  ae_details :: "(string, pyval) dict"
  ae_outcome :: string
  ae_related_alert_id :: string
  ae_related_policy_id :: string
  ae_checksum :: string

text \<open>
  \<open>provider\<close> and \<open>resource_types\<close> scope a cost policy; the alert engine and the policy engine
  both test an event against them in this order.
\<close>

definition policy_applies :: "cost_policy \<Rightarrow> resource_event \<Rightarrow> bool" where
  "policy_applies p e \<longleftrightarrow>
     po_enabled p \<and>
     (case po_provider p of None \<Rightarrow> True | Some q \<Rightarrow> q = ev_provider e) \<and>
     (po_resource_types p = [] \<or> ev_resource_type e \<in> set (po_resource_types p))"

text \<open>\<open>event.tags.get(k1, event.tags.get(k2, default))\<close>\<close>

definition tag_get2 :: "resource_event \<Rightarrow> string \<Rightarrow> string \<Rightarrow> string \<Rightarrow> string" where
  "tag_get2 e k1 k2 v = dget_or (ev_tags e) k1 (dget_or (ev_tags e) k2 v)"

text \<open>\<open>[t for t in required if t not in event.tags]\<close>\<close>

definition missing_tags :: "string list \<Rightarrow> resource_event \<Rightarrow> string list" where
  "missing_tags required e = filter (\<lambda>t. \<not> dhas (ev_tags e) t) required"

lemma missing_tags_empty: "missing_tags ts e = [] \<longleftrightarrow> (\<forall>t \<in> set ts. dhas (ev_tags e) t)"
  by (auto simp: missing_tags_def filter_empty_conv)

end
