(* ===== verification/Iso_Time.thy ===== *)
theory Iso_Time
  imports Prelude
begin

text \<open>
  Timestamps as text: the calendar computation behind \<open>isoformat\<close> stays within its ranges, texts
  of timestamps of the years 0 to 9999 are ordered as the timestamps are (what the SQL backends
  rely on when they compare and sort them), and \<open>fromisoformat\<close> reads such a text back.
\<close>

section \<open>The calendar\<close>

definition year_gauge :: "int \<Rightarrow> int" where
  "year_gauge doe = doe - doe div 1460 + doe div 36524 - doe div 146096"

definition year_start :: "int \<Rightarrow> int" where
  "year_start y = 365 * y + y div 4 - y div 100"

lemma year_gauge_mono: "0 \<le> a \<Longrightarrow> a \<le> b \<Longrightarrow> b \<le> 146096 \<Longrightarrow> year_gauge a \<le> year_gauge b"
proof -
  assume *: "0 \<le> a" "a \<le> b" "b \<le> 146096"
  have "b div 1460 - a div 1460 \<le> b - a" using *(2) by linarith
  moreover have "a div 36524 - a div 146096 \<le> b div 36524 - b div 146096"
  proof (cases "b = 146096")
    case True
    have "a div 36524 - a div 146096 \<le> 3"
    proof (cases "a = 146096")
      case False
      then have "a div 146096 = 0" using * by (intro div_pos_pos_trivial) auto
      moreover have "a div 36524 \<le> 146095 div 36524" using * False by (intro zdiv_mono1) auto
      ultimately show ?thesis by simp
    qed simp
    with True show ?thesis by simp
  next
    case False
    then have "a div 146096 = 0" "b div 146096 = 0" using * by (auto intro: div_pos_pos_trivial)
    then show ?thesis using *(2) by (simp add: zdiv_mono1)
  qed
  ultimately show ?thesis by (simp add: year_gauge_def)
qed

text \<open>The year computed from a day of the era, checked at the first and last day of each year.\<close>

definition year_check :: "int \<Rightarrow> bool" where
  "year_check y \<longleftrightarrow> (y = 0 \<or> year_gauge (year_start y - 1) < 365 * y) \<and>
     365 * y \<le> year_gauge (year_start y)"

lemma years_checked: "list_all year_check [0..399]"
  by code_simp

lemma year_checked: "0 \<le> y \<Longrightarrow> y \<le> 399 \<Longrightarrow> year_check y"
  using years_checked by (simp add: list_all_iff)

lemma year_start_mono: "y \<le> y' \<Longrightarrow> year_start y \<le> year_start y'"
proof -
  assume "y \<le> y'"
  moreover have "y' div 100 - y div 100 \<le> y' - y" "y div 4 \<le> y' div 4"
    using \<open>y \<le> y'\<close> by linarith+
  ultimately show ?thesis by (simp add: year_start_def)
qed

lemma year_of_era:
  assumes "0 \<le> doe" "doe \<le> 146096"
  defines "yoe \<equiv> year_gauge doe div 365"
  shows "0 \<le> yoe" "yoe \<le> 399" "year_start yoe \<le> doe" "doe - year_start yoe \<le> 365"
proof -
  have "year_gauge 0 \<le> year_gauge doe" "year_gauge doe \<le> year_gauge 146096"
    using assms year_gauge_mono by auto
  then have g: "0 \<le> year_gauge doe" "year_gauge doe \<le> 145999" by (simp_all add: year_gauge_def)
  then show r: "0 \<le> yoe" "yoe \<le> 399" unfolding yoe_def by linarith+
  show lower: "year_start yoe \<le> doe"
  proof (rule ccontr)
    assume "\<not> year_start yoe \<le> doe"
    then have lt: "doe \<le> year_start yoe - 1" by simp
    have "year_start yoe \<le> year_start 399" using r by (simp add: year_start_mono)
    then have "year_start yoe - 1 \<le> 146096" by (simp add: year_start_def)
    from year_gauge_mono [OF assms(1) lt this] year_checked [OF r] lt assms(1)
    have "year_gauge doe < 365 * yoe \<or> yoe = 0" by (auto simp: year_check_def)
    moreover have "365 * yoe \<le> year_gauge doe" unfolding yoe_def by linarith
    moreover have "year_start 0 = 0" by (simp add: year_start_def)
    ultimately show False using lt assms(1) by auto
  qed
  show "doe - year_start yoe \<le> 365"
  proof (cases "yoe = 399")
    case True
    then show ?thesis using assms(2) by (simp add: year_start_def)
  next
    case False
    then have r': "0 \<le> yoe + 1" "yoe + 1 \<le> 399" using r by auto
    have "doe < year_start (yoe + 1)"
    proof (rule ccontr)
      assume "\<not> doe < year_start (yoe + 1)"
      then have le: "year_start (yoe + 1) \<le> doe" by simp
      have "year_start 0 \<le> year_start (yoe + 1)" using r'(1) by (rule year_start_mono)
      then have "0 \<le> year_start (yoe + 1)" by (simp add: year_start_def)
      from year_gauge_mono [OF this le assms(2)] year_checked [OF r']
      have "365 * (yoe + 1) \<le> year_gauge doe" by (simp add: year_check_def)
      moreover have "year_gauge doe < 365 * (yoe + 1)"
        using pos_mod_bound [of 365 "year_gauge doe"] div_mult_mod_eq [of "year_gauge doe" 365]
        by (simp add: yoe_def)
      ultimately show False by simp
    qed
    moreover have "year_start (yoe + 1) \<le> year_start yoe + 366"
    proof -
      have "(yoe + 1) div 4 \<le> yoe div 4 + 1" by linarith
      moreover have "yoe div 100 \<le> (yoe + 1) div 100" by (simp add: zdiv_mono1)
      ultimately show ?thesis by (simp add: year_start_def)
    qed
    ultimately show ?thesis by linarith
  qed
qed

text \<open>Month and day of a day of the year that starts in March.\<close>

lemma month_days_checked:
  "list_all (\<lambda>doy. 0 \<le> (5 * doy + 2) div 153 \<and> (5 * doy + 2) div 153 \<le> 11 \<and>
     1 \<le> doy - (153 * ((5 * doy + 2) div 153) + 2) div 5 + 1 \<and>
     doy - (153 * ((5 * doy + 2) div 153) + 2) div 5 + 1 \<le> (31::int)) [0..365]"
  by code_simp

definition march_year :: "int \<Rightarrow> int" where
  "march_year d = (let z = d + 719468 in year_gauge (z mod 146097) div 365 + z div 146097 * 400)"

definition march_doy :: "int \<Rightarrow> int" where
  "march_doy d = (let doe = (d + 719468) mod 146097 in doe - year_start (year_gauge doe div 365))"

definition march_month :: "int \<Rightarrow> int" where
  "march_month d = (5 * march_doy d + 2) div 153"

definition march_day :: "int \<Rightarrow> int" where
  "march_day d = march_doy d - (153 * march_month d + 2) div 5 + 1"

lemma era_range: "0 \<le> (z::int) mod 146097" "z mod 146097 \<le> 146096"
  using pos_mod_bound [of 146097 z] by auto

lemma march_doy_range: "0 \<le> march_doy d" "march_doy d \<le> 365"
  using year_of_era [OF era_range, of "d + 719468"] by (simp_all add: march_doy_def Let_def)

lemma march_ranges: "0 \<le> march_month d" "march_month d \<le> 11" "1 \<le> march_day d" "march_day d \<le> 31"
proof -
  have "march_doy d \<in> set [0..365]" using march_doy_range by simp
  with month_days_checked show "0 \<le> march_month d" "march_month d \<le> 11" "1 \<le> march_day d" "march_day d \<le> 31"
    unfolding march_month_def march_day_def list_all_iff by blast+
qed

text \<open>The calendar date as the months since year 0 and the day of the month.\<close>

definition month_index :: "int \<Rightarrow> int" where
  "month_index d = 12 * march_year d + march_month d + 2"

lemma civil_month_index:
  "civil_from_days d = (month_index d div 12, month_index d mod 12 + 1, march_day d)"
proof -
  have c: "civil_from_days d =
     (march_year d + (if (if march_month d < 10 then march_month d + 3 else march_month d - 9) \<le> 2 then 1 else 0),
      (if march_month d < 10 then march_month d + 3 else march_month d - 9), march_day d)"
    by (simp only: civil_from_days_def march_year_def march_doy_def march_month_def march_day_def
        year_gauge_def year_start_def Let_def)
  show ?thesis
  proof (cases "march_month d < 10")
    case True
    have "month_index d div 12 = march_year d" "month_index d mod 12 = march_month d + 2"
      using True march_ranges(1) [of d] unfolding month_index_def by presburger+
    with True march_ranges(1) [of d] show ?thesis by (simp add: c)
  next
    case False
    have "month_index d div 12 = march_year d + 1" "month_index d mod 12 = march_month d - 10"
      using False march_ranges(2) [of d] unfolding month_index_def by presburger+
    with False march_ranges(2) [of d] show ?thesis by (simp add: c)
  qed
qed

section \<open>Later days have later dates\<close>

lemma march_year_mono: "d \<le> e \<Longrightarrow> march_year d \<le> march_year e"
proof -
  assume "d \<le> e"
  let ?y = "d + 719468" and ?z = "e + 719468"
  have yr: "0 \<le> year_gauge (x mod 146097) div 365" "year_gauge (x mod 146097) div 365 \<le> 399" for x
    using year_of_era [OF era_range, of x] by auto
  show ?thesis
  proof (cases "?y div 146097 = ?z div 146097")
    case True
    then have "?y mod 146097 \<le> ?z mod 146097"
      using \<open>d \<le> e\<close> by (simp add: True minus_mult_div_eq_mod [symmetric])
    then have "year_gauge (?y mod 146097) \<le> year_gauge (?z mod 146097)"
      using year_gauge_mono era_range by blast
    with True show ?thesis by (simp add: march_year_def Let_def zdiv_mono1)
  next
    case False
    have "?y div 146097 \<le> ?z div 146097" using \<open>d \<le> e\<close> by (simp add: zdiv_mono1)
    with False have "?y div 146097 + 1 \<le> ?z div 146097" by simp
    with yr [of ?y] yr [of ?z] show ?thesis by (simp add: march_year_def Let_def)
  qed
qed

lemma era_days:
  fixes era doe yoe :: int
  assumes "0 \<le> yoe" "yoe \<le> 399"
  defines "Y \<equiv> yoe + era * 400"
  shows "146097 * era + doe =
    365 * Y + Y div 4 - Y div 100 + Y div 400 + (doe - (365 * yoe + yoe div 4 - yoe div 100))"
proof -
  have "Y div 400 = era" using assms(1,2) by (simp add: Y_def)
  moreover have "Y div 100 = yoe div 100 + 4 * era"
    using div_mult_self1 [of 100 yoe "4 * era"] by (simp add: Y_def algebra_simps)
  moreover have "Y div 4 = yoe div 4 + 100 * era"
    using div_mult_self1 [of 4 yoe "100 * era"] by (simp add: Y_def algebra_simps)
  ultimately show ?thesis by (simp add: Y_def algebra_simps)
qed

lemma march_doy_day: "d = 365 * march_year d + march_year d div 4 - march_year d div 100 +
    march_year d div 400 + march_doy d - 719468"
proof -
  have "146097 * ((d + 719468) div 146097) + (d + 719468) mod 146097 =
    365 * march_year d + march_year d div 4 - march_year d div 100 + march_year d div 400 + march_doy d"
    unfolding march_year_def march_doy_def year_start_def Let_def
    using year_of_era [OF era_range] by (intro era_days)
  moreover have "146097 * ((d + 719468) div 146097) + (d + 719468) mod 146097 = d + 719468"
    by (rule mult_div_mod_eq)
  ultimately show ?thesis by linarith
qed

lemma month_index_mono:
  assumes "d \<le> e"
  shows "month_index d \<le> month_index e"
proof (cases "march_year d = march_year e")
  case True
  then have "march_doy d \<le> march_doy e" using assms march_doy_day [of d] march_doy_day [of e] by simp
  then have "march_month d \<le> march_month e" by (simp add: march_month_def zdiv_mono1)
  with True show ?thesis by (simp add: month_index_def)
next
  case False
  with march_year_mono [OF assms] have "march_year d + 1 \<le> march_year e" by simp
  then show ?thesis using march_ranges [of d] march_ranges [of e] by (simp add: month_index_def)
qed

lemma div12_unique:
  "0 \<le> m \<Longrightarrow> m \<le> 11 \<Longrightarrow> 0 \<le> n \<Longrightarrow> n \<le> 11 \<Longrightarrow> 12 * a + m = 12 * b + n \<Longrightarrow> a = b \<and> m = (n::int)"
  by presburger

lemma month_index_same:
  assumes "month_index d = month_index e"
  shows "march_year d = march_year e" "march_month d = march_month e"
  using assms div12_unique [OF march_ranges(1,2) [of d] march_ranges(1,2) [of e]]
  by (auto simp: month_index_def)

lemma march_day_less:
  assumes "d < e" "month_index d = month_index e"
  shows "march_day d < march_day e"
  using assms(1) month_index_same [OF assms(2)] march_doy_day [of d] march_doy_day [of e]
  by (simp add: march_day_def)

section \<open>Ordered texts\<close>

lemma less_append: "length xs = length ys \<Longrightarrow> xs < ys \<Longrightarrow> xs @ u < ys @ (v :: 'a::linorder list)"
proof (induction xs ys rule: list_induct2)
  case (Cons x xs y ys)
  then show ?case by auto
qed simp

lemma less_append_same [simp]: "xs @ u < xs @ v \<longleftrightarrow> u < (v :: 'a::linorder list)"
  by (induction xs) auto

lemma digits_less: "n < m \<Longrightarrow> m < 10 \<Longrightarrow> digit n < digit m"
proof -
  have "list_all (\<lambda>m. list_all (\<lambda>n. n < m \<longrightarrow> digit n < digit m) [0..<10]) [0..<10]"
    by code_simp
  moreover assume "n < m" "m < 10"
  ultimately show ?thesis by (simp add: list_all_iff)
qed

lemma digit_mod [simp]: "digit (n mod 10) = digit n"
  by (simp add: digit_def)

lemma pad_nat_one: "n < 10 \<Longrightarrow> pad_nat 1 n = [digit n]"
  by (simp add: pad_nat_def show_nat.simps [of n])

lemma pad_nat_Suc:
  assumes "1 \<le> w" "n < 10 ^ Suc w"
  shows "pad_nat (Suc w) n = pad_nat w (n div 10) @ [digit n]"
proof (cases "n < 10")
  case True
  have zero: "show_nat 0 = [CHR ''0'']" by (simp add: show_nat.simps [of 0] digit_def)
  from True assms(1) show ?thesis
    by (cases w) (simp_all add: pad_nat_def show_nat.simps [of n] zero Let_def replicate_append_same)
next
  case False
  then show ?thesis by (simp add: pad_nat_def show_nat.simps [of n] Let_def)
qed

lemma length_pad_nat: "n < 10 ^ Suc w \<Longrightarrow> length (pad_nat (Suc w) n) = Suc w"
proof (induction w arbitrary: n)
  case 0
  then show ?case by (simp add: pad_nat_one [simplified])
next
  case (Suc w)
  then show ?case by (subst pad_nat_Suc) auto
qed

lemma pad_nat_less: "n < m \<Longrightarrow> m < 10 ^ Suc w \<Longrightarrow> pad_nat (Suc w) n < pad_nat (Suc w) m"
proof (induction w arbitrary: n m)
  case 0
  then show ?case by (simp add: pad_nat_one [simplified] digits_less)
next
  case (Suc w)
  have p: "pad_nat (Suc (Suc w)) n = pad_nat (Suc w) (n div 10) @ [digit n]"
    "pad_nat (Suc (Suc w)) m = pad_nat (Suc w) (m div 10) @ [digit m]"
    using Suc.prems by (auto intro!: pad_nat_Suc)
  show ?case
  proof (cases "n div 10 = m div 10")
    case True
    then have "n mod 10 < m mod 10" using Suc.prems(1) by (metis div_mult_mod_eq nat_add_left_cancel_less)
    then have "digit n < digit m" using digits_less [of "n mod 10" "m mod 10"] by simp
    with True p show ?thesis by simp
  next
    case False
    with Suc.prems(1) have "n div 10 < m div 10" by (meson div_le_mono le_neq_implies_less less_imp_le)
    moreover have "m div 10 < 10 ^ Suc w" "n div 10 < 10 ^ Suc w" using Suc.prems by auto
    ultimately show ?thesis
      unfolding p using Suc.IH by (intro less_append) (auto simp: length_pad_nat simp del: power_Suc)
  qed
qed

text \<open>One zero-padded field after another.\<close>

lemma field_less:
  assumes "0 < w" "0 \<le> i" "i \<le> j" "j < 10 ^ w" "i = j \<Longrightarrow> x < y"
  shows "pad_nat w (nat i) @ x < pad_nat w (nat j) @ (y :: string)"
proof (cases "i = j")
  case True
  with assms(5) show ?thesis by simp
next
  case False
  obtain k where w: "w = Suc k" using assms(1) gr0_conv_Suc by blast
  from False assms have ij: "nat i < nat j" by simp
  have "int (nat j) < int (10 ^ w)" using assms by simp
  then have j: "nat j < 10 ^ Suc k" unfolding w by (simp only: of_nat_less_iff)
  have "nat i < 10 ^ Suc k" using ij j by (rule less_trans)
  with j ij show ?thesis
    unfolding w by (intro less_append) (auto simp: length_pad_nat pad_nat_less simp del: power_Suc)
qed

section \<open>Later timestamps have later texts\<close>

text \<open>The range of Python's \<open>datetime\<close>: years 1 to 9999.\<close>

definition datetime_range :: "timestamp \<Rightarrow> bool" where
  "datetime_range t \<longleftrightarrow> -719162 \<le> day_of t \<and> day_of t \<le> 2932896"

lemma month_index_ends: "month_index (-719162) = 12" "month_index 2932896 = 119999"
  by (simp_all add: month_index_def march_year_def march_month_def march_doy_def year_gauge_def
      year_start_def Let_def)

lemma month_index_range:
  "datetime_range t \<Longrightarrow> 12 \<le> month_index (day_of t) \<and> month_index (day_of t) \<le> 119999"
  using month_index_mono [of "-719162" "day_of t"] month_index_mono [of "day_of t" 2932896]
  by (simp add: datetime_range_def month_index_ends)

lemma date_str_eq:
  "date_str t = pad_nat 4 (nat (month_index (day_of t) div 12)) @ ''-'' @
     pad_nat 2 (nat (month_index (day_of t) mod 12 + 1)) @ ''-'' @ pad_nat 2 (nat (march_day (day_of t)))"
  by (simp add: date_str_def civil_month_index)

lemma div_mod_same: "a div n = b div n \<Longrightarrow> a mod n = b mod n \<Longrightarrow> a = (b :: int)"
  by (metis div_mult_mod_eq)

lemma date_less:
  assumes "datetime_range t" "datetime_range u" "day_of t \<le> day_of u"
    and "day_of t = day_of u \<Longrightarrow> x < y"
  shows "date_str t @ x < date_str u @ y"
proof -
  let ?i = "month_index (day_of t)" and ?j = "month_index (day_of u)"
  have mono: "?i \<le> ?j" using assms(3) by (rule month_index_mono)
  have r: "12 \<le> ?i" "?j \<le> 119999" using month_index_range assms(1,2) by auto
  have days: "pad_nat 2 (nat (march_day (day_of t))) @ x < pad_nat 2 (nat (march_day (day_of u))) @ y"
    if "?i = ?j"
  proof (rule field_less)
    show "march_day (day_of t) \<le> march_day (day_of u)"
      using march_day_less [of "day_of t" "day_of u"] that assms(3) by (cases "day_of t = day_of u") auto
    show "march_day (day_of t) = march_day (day_of u) \<Longrightarrow> x < y"
      using march_day_less [of "day_of t" "day_of u"] that assms(3,4) by (cases "day_of t = day_of u") auto
  qed (use march_ranges [of "day_of t"] march_ranges [of "day_of u"] in auto)
  have months: "pad_nat 2 (nat (?i mod 12 + 1)) @ ''-'' @ pad_nat 2 (nat (march_day (day_of t))) @ x <
      pad_nat 2 (nat (?j mod 12 + 1)) @ ''-'' @ pad_nat 2 (nat (march_day (day_of u))) @ y"
    if "?i div 12 = ?j div 12"
  proof (rule field_less)
    have "?i mod 12 \<le> ?j mod 12"
      using mono that by (simp add: minus_mult_div_eq_mod [symmetric])
    then show "?i mod 12 + 1 \<le> ?j mod 12 + 1" by simp
    show "''-'' @ pad_nat 2 (nat (march_day (day_of t))) @ x < ''-'' @ pad_nat 2 (nat (march_day (day_of u))) @ y"
      if "?i mod 12 + 1 = ?j mod 12 + 1"
    proof -
      have "?i mod 12 = ?j mod 12" using that by simp
      then have "?i = ?j" by (rule div_mod_same [OF \<open>?i div 12 = ?j div 12\<close>])
      then show ?thesis using days by simp
    qed
  qed (auto simp: pos_mod_bound less_trans [OF pos_mod_bound [of 12 ?j]])
  show ?thesis
    unfolding date_str_eq append_assoc
  proof (rule field_less)
    show "?i div 12 \<le> ?j div 12" using mono by (simp add: zdiv_mono1)
    have "?j div 12 \<le> 119999 div 12" using r(2) by (rule zdiv_mono1) simp
    then show "?j div 12 < 10 ^ 4" by simp
    show "0 \<le> ?i div 12" using r(1) by simp
  qed (use months in simp_all)
qed

definition clock_str :: "int \<Rightarrow> string" where
  "clock_str s = pad_nat 2 (nat (s div 3600)) @ '':'' @ pad_nat 2 (nat (s div 60 mod 60)) @ '':'' @
     pad_nat 2 (nat (s mod 60))"

lemma clock_less:
  assumes "0 \<le> s" "s \<le> t" "t < 86400" "s = t \<Longrightarrow> x < y"
  shows "clock_str s @ x < clock_str t @ y"
proof -
  have secs: "pad_nat 2 (nat (s mod 60)) @ x < pad_nat 2 (nat (t mod 60)) @ y" if "s div 60 = t div 60"
  proof (rule field_less)
    show "s mod 60 \<le> t mod 60" using assms(2) that by (simp add: minus_mult_div_eq_mod [symmetric])
    show "t mod 60 < 10 ^ 2" using pos_mod_bound [of 60 t] by simp
    show "x < y" if "s mod 60 = t mod 60"
      using div_mod_same [OF \<open>s div 60 = t div 60\<close> that] by (rule assms(4))
  qed simp_all
  have hour: "s div 3600 = s div 60 div 60" "t div 3600 = t div 60 div 60"
    by (simp_all add: zdiv_zmult2_eq [symmetric])
  have m: "s div 60 \<le> t div 60" using assms(2) by (simp add: zdiv_mono1)
  have mins: "pad_nat 2 (nat (s div 60 mod 60)) @ '':'' @ pad_nat 2 (nat (s mod 60)) @ x <
      pad_nat 2 (nat (t div 60 mod 60)) @ '':'' @ pad_nat 2 (nat (t mod 60)) @ y"
    if "s div 3600 = t div 3600"
  proof (rule field_less)
    show "s div 60 mod 60 \<le> t div 60 mod 60"
      using m that hour by (simp add: minus_mult_div_eq_mod [symmetric])
    show "t div 60 mod 60 < 10 ^ 2" using pos_mod_bound [of 60 "t div 60"] by simp
    show "'':'' @ pad_nat 2 (nat (s mod 60)) @ x < '':'' @ pad_nat 2 (nat (t mod 60)) @ y"
      if "s div 60 mod 60 = t div 60 mod 60"
    proof -
      have "s div 60 = t div 60"
        using div_mod_same [OF _ that] \<open>s div 3600 = t div 3600\<close> by (simp only: hour)
      then show ?thesis using secs by simp
    qed
  qed simp_all
  show ?thesis
    unfolding clock_str_def append_assoc
  proof (rule field_less)
    show "s div 3600 \<le> t div 3600" using assms(2) by (simp add: zdiv_mono1)
    have "t div 3600 \<le> 86399 div 3600" using assms(3) by (intro zdiv_mono1) auto
    then show "t div 3600 < 10 ^ 2" by simp
    show "0 \<le> s div 3600" using assms(1) by simp
  qed (use mins in simp_all)
qed

definition fraction_str :: "int \<Rightarrow> string" where
  "fraction_str f = (if f = 0 then [] else ''.'' @ pad_nat 6 (nat f)) @ ''+00:00''"

lemma fraction_less:
  assumes "0 \<le> f" "f < g" "g < 1000000"
  shows "fraction_str f < fraction_str g"
proof (cases "f = 0")
  case True
  have "CHR ''+'' < CHR ''.''" by (simp add: less_char_def)
  with True assms show ?thesis by (simp add: fraction_str_def)
next
  case False
  have "pad_nat 6 (nat f) @ ''+00:00'' < pad_nat 6 (nat g) @ ''+00:00''"
    using assms by (intro field_less) auto
  with False assms show ?thesis by (simp add: fraction_str_def)
qed

lemma isoformat_eq:
  "isoformat t = date_str t @ ''T'' @ clock_str (t mod us_per_day div 1000000) @
     fraction_str (t mod us_per_day mod 1000000)"
  by (simp add: isoformat_def clock_str_def fraction_str_def Let_def)

theorem isoformat_less:
  assumes "datetime_range t" "datetime_range u" "t < u"
  shows "isoformat t < isoformat u"
proof -
  let ?a = "t mod us_per_day" and ?b = "u mod us_per_day"
  have rng: "0 \<le> x mod us_per_day" "x mod us_per_day < us_per_day" for x
    by (simp_all add: us_per_day_def)
  have "''T'' @ clock_str (?a div 1000000) @ fraction_str (?a mod 1000000) <
      ''T'' @ clock_str (?b div 1000000) @ fraction_str (?b mod 1000000)" if "day_of t = day_of u"
  proof -
    have lt: "?a < ?b"
      using assms(3) that by (simp add: minus_mult_div_eq_mod [symmetric] day_of_def)
    have "clock_str (?a div 1000000) @ fraction_str (?a mod 1000000) <
      clock_str (?b div 1000000) @ fraction_str (?b mod 1000000)"
    proof (rule clock_less)
      show "?a div 1000000 \<le> ?b div 1000000" using lt by (simp add: zdiv_mono1)
      have "?b div 1000000 \<le> 86399999999 div 1000000" using rng [of u]
        by (intro zdiv_mono1) (auto simp: us_per_day_def)
      then show "?b div 1000000 < 86400" by simp
      show "fraction_str (?a mod 1000000) < fraction_str (?b mod 1000000)"
        if "?a div 1000000 = ?b div 1000000"
        using lt that by (intro fraction_less) (simp_all add: minus_mult_div_eq_mod [symmetric])
      show "0 \<le> ?a div 1000000" using rng [of t] by simp
    qed
    then show ?thesis by simp
  qed
  then show ?thesis
    unfolding isoformat_eq using assms day_of_mono [of t u] by (intro date_less) auto
qed

lemma isoformat_le_iff:
  "datetime_range t \<Longrightarrow> datetime_range u \<Longrightarrow> isoformat t \<le> isoformat u \<longleftrightarrow> t \<le> u"
  by (metis isoformat_less leD le_less_linear less_imp_le order_refl not_less_iff_gr_or_eq)

lemma isoformat_inject:
  "datetime_range t \<Longrightarrow> datetime_range u \<Longrightarrow> isoformat t = isoformat u \<longleftrightarrow> t = u"
  by (metis isoformat_less less_irrefl linorder_neqE)

section \<open>Reading a text back\<close>

definition nat_of :: "string \<Rightarrow> nat" where
  "nat_of s = foldl (\<lambda>n c. 10 * n + (of_char c - 48)) 0 s"

definition days_from_civil :: "int \<Rightarrow> int \<Rightarrow> int \<Rightarrow> int" where
  "days_from_civil y m d =
     (let k = 12 * y + m - 3; yr = k div 12; mp = k mod 12
      in 365 * yr + yr div 4 - yr div 100 + yr div 400 + (153 * mp + 2) div 5 + d - 1 - 719468)"

text \<open>\<open>datetime.fromisoformat\<close> on the layout \<open>isoformat\<close> writes for a UTC datetime.\<close>

definition fromisoformat :: "string \<Rightarrow> timestamp option" where
  "fromisoformat s =
     (let y = nat_of (take 4 s); s = drop 5 s; m = nat_of (take 2 s); s = drop 3 s;
          d = nat_of (take 2 s); s = drop 3 s; h = nat_of (take 2 s); s = drop 3 s;
          mi = nat_of (take 2 s); s = drop 3 s; sec = nat_of (take 2 s); s = drop 2 s;
          base = days_from_civil (int y) (int m) (int d) * us_per_day +
                 (int h * 3600 + int mi * 60 + int sec) * 1000000
      in if s = ''+00:00'' then Some base
         else if take 1 s = ''.'' \<and> drop 7 s = ''+00:00'' then Some (base + int (nat_of (take 6 (drop 1 s))))
         else None)"

lemma nat_of_snoc: "nat_of (s @ [c]) = 10 * nat_of s + (of_char c - 48)"
  by (simp add: nat_of_def)

lemma digit_value: "(of_char (digit n) - 48 :: nat) = n mod 10"
proof -
  have "list_all (\<lambda>k. of_char (digit k) - 48 = k) [0..<10]" by code_simp
  then have "of_char (digit (n mod 10)) - 48 = n mod 10" by (simp add: list_all_iff del: digit_mod)
  then show ?thesis by (simp only: digit_mod)
qed

lemma nat_of_pad: "n < 10 ^ Suc w \<Longrightarrow> nat_of (pad_nat (Suc w) n) = n"
proof (induction w arbitrary: n)
  case 0
  then show ?case by (simp add: pad_nat_one [simplified] nat_of_def digit_value)
next
  case (Suc w)
  have "n div 10 < 10 ^ Suc w" using Suc.prems by auto
  moreover have "pad_nat (Suc (Suc w)) n = pad_nat (Suc w) (n div 10) @ [digit n]"
    using Suc.prems by (intro pad_nat_Suc) auto
  ultimately show ?case by (simp only: nat_of_snoc Suc.IH digit_value) simp
qed

lemma read_pad:
  assumes "0 < w" "0 \<le> i" "i < 10 ^ w"
  shows "int (nat_of (take w (pad_nat w (nat i) @ x))) = i"
    and "drop w (pad_nat w (nat i) @ x) = x"
    and "drop (Suc w) (pad_nat w (nat i) @ c # x) = x"
proof -
  obtain k where w: "w = Suc k" using assms(1) gr0_conv_Suc by blast
  have "int (nat i) < int (10 ^ w)" using assms by simp
  then have "nat i < 10 ^ Suc k" unfolding w by (simp only: of_nat_less_iff)
  then have "length (pad_nat w (nat i)) = w" "nat_of (pad_nat w (nat i)) = nat i"
    unfolding w by (simp_all only: length_pad_nat nat_of_pad)
  then show "int (nat_of (take w (pad_nat w (nat i) @ x))) = i"
    and "drop w (pad_nat w (nat i) @ x) = x" and "drop (Suc w) (pad_nat w (nat i) @ c # x) = x"
    using assms(2) by simp_all
qed

lemma read_pad2:
  assumes "0 \<le> i" "i < 100"
  shows "int (nat_of (take 2 (pad_nat 2 (nat i) @ x))) = i"
    and "drop 2 (pad_nat 2 (nat i) @ x) = x"
    and "drop 3 (pad_nat 2 (nat i) @ c # x) = x"
  using read_pad(1,2) [of 2 i x] read_pad(3) [of 2 i c x] assms by simp_all

lemma read_pad4:
  assumes "0 \<le> i" "i < 10000"
  shows "int (nat_of (take 4 (pad_nat 4 (nat i) @ x))) = i"
    and "drop 4 (pad_nat 4 (nat i) @ x) = x"
    and "drop 5 (pad_nat 4 (nat i) @ c # x) = x"
  using read_pad(1,2) [of 4 i x] read_pad(3) [of 4 i c x] assms by simp_all

lemma read_pad6:
  assumes "0 \<le> i" "i < 1000000"
  shows "int (nat_of (take 6 (pad_nat 6 (nat i) @ x))) = i"
    and "drop 6 (pad_nat 6 (nat i) @ x) = x"
    and "drop 7 (pad_nat 6 (nat i) @ c # x) = x"
  using read_pad(1,2) [of 6 i x] read_pad(3) [of 6 i c x] assms by simp_all

lemma days_from_civil_month_index:
  "days_from_civil (month_index d div 12) (month_index d mod 12 + 1) (march_day d) = d"
proof -
  have k: "12 * (month_index d div 12) + (month_index d mod 12 + 1) - 3 = 12 * march_year d + march_month d"
    using div_mult_mod_eq [of "month_index d" 12] by (simp add: month_index_def)
  have "(12 * march_year d + march_month d) div 12 = march_year d"
    "(12 * march_year d + march_month d) mod 12 = march_month d"
    using march_ranges [of d] by simp_all
  with k march_doy_day [of d] show ?thesis
    by (simp only: days_from_civil_def Let_def march_day_def)
qed

lemma clock_value: "(s div 3600) * 3600 + (s div 60 mod 60) * 60 + s mod 60 = (s :: int)"
proof -
  have "s div 3600 = s div 60 div 60" by (simp add: zdiv_zmult2_eq [symmetric])
  then have "(s div 3600) * 60 + s div 60 mod 60 = s div 60" by (simp only: div_mult_mod_eq)
  then have "((s div 3600) * 60 + s div 60 mod 60) * 60 + s mod 60 = s" by (simp only: div_mult_mod_eq)
  then show ?thesis by (simp add: algebra_simps)
qed

lemma fromisoformat_fields:
  fixes y m d h mi sec :: int
  assumes "0 \<le> y" "y < 10000" "0 \<le> m" "m < 100" "0 \<le> d" "d < 100" "0 \<le> h" "h < 100"
    and "0 \<le> mi" "mi < 100" "0 \<le> sec" "sec < 100"
  defines "base \<equiv> days_from_civil y m d * us_per_day + (h * 3600 + mi * 60 + sec) * 1000000"
  shows "fromisoformat (pad_nat 4 (nat y) @ CHR ''-'' # pad_nat 2 (nat m) @ CHR ''-'' #
      pad_nat 2 (nat d) @ CHR ''T'' # pad_nat 2 (nat h) @ CHR '':'' # pad_nat 2 (nat mi) @ CHR '':'' #
      pad_nat 2 (nat sec) @ tail) =
    (if tail = ''+00:00'' then Some base
     else if take 1 tail = ''.'' \<and> drop 7 tail = ''+00:00''
     then Some (base + int (nat_of (take 6 (drop 1 tail)))) else None)"
  unfolding fromisoformat_def Let_def base_def read_pad4 [OF assms(1,2)] read_pad2 [OF assms(3,4)]
    read_pad2 [OF assms(5,6)] read_pad2 [OF assms(7,8)] read_pad2 [OF assms(9,10)]
    read_pad2 [OF assms(11,12)] ..

lemma read_fraction:
  assumes "0 \<le> f" "f < 1000000"
  shows "(if fraction_str f = ''+00:00'' then Some base
     else if take 1 (fraction_str f) = ''.'' \<and> drop 7 (fraction_str f) = ''+00:00''
     then Some (base + int (nat_of (take 6 (drop 1 (fraction_str f))))) else None) = Some (base + f)"
proof (cases "f = 0")
  case True
  then show ?thesis by (simp add: fraction_str_def)
next
  case False
  then have "fraction_str f = CHR ''.'' # pad_nat 6 (nat f) @ ''+00:00''" by (simp add: fraction_str_def)
  then show ?thesis using read_pad6(1,2) [OF assms, of "''+00:00''"] by simp
qed

text \<open>The text of a datetime reads back as the same datetime, for the whole range of the type.\<close>

lemma fromisoformat_isoformat:
  assumes "datetime_range t"
  shows "fromisoformat (isoformat t) = Some t"
proof -
  define mi us where "mi = month_index (day_of t)" and "us = t mod us_per_day"
  define s f where "s = us div 1000000" and "f = us mod 1000000"
  have us: "0 \<le> us" "us < us_per_day" by (simp_all add: us_def us_per_day_def)
  have s: "0 \<le> s" "s \<le> 86399"
  proof -
    show "0 \<le> s" using us by (simp add: s_def)
    have "s \<le> 86399999999 div 1000000" using us unfolding s_def
      by (intro zdiv_mono1) (auto simp: us_per_day_def)
    then show "s \<le> 86399" by simp
  qed
  have "12 \<le> mi" "mi \<le> 119999" using month_index_range [OF assms] by (simp_all add: mi_def)
  then have "0 div 12 \<le> mi div 12" "mi div 12 \<le> 119999 div 12" by (auto intro!: zdiv_mono1)
  then have y: "0 \<le> mi div 12" "mi div 12 < 10000" by simp_all
  have m: "0 \<le> mi mod 12 + 1" "mi mod 12 + 1 < 100" using pos_mod_bound [of 12 mi] by auto
  have d: "0 \<le> march_day (day_of t)" "march_day (day_of t) < 100" using march_ranges [of "day_of t"] by auto
  have "0 div 3600 \<le> s div 3600" "s div 3600 \<le> 86399 div 3600" using s by (auto intro!: zdiv_mono1)
  then have h: "0 \<le> s div 3600" "s div 3600 < 100" by auto
  have mins: "0 \<le> s div 60 mod 60" "s div 60 mod 60 < 100" using pos_mod_bound [of 60 "s div 60"] by auto
  have sec: "0 \<le> s mod 60" "s mod 60 < 100" using pos_mod_bound [of 60 s] by auto
  have f: "0 \<le> f" "f < 1000000" by (simp_all add: f_def)
  have "day_of t * us_per_day + (s * 1000000 + f) = t"
    unfolding day_of_def s_def f_def us_def div_mult_mod_eq ..
  moreover have layout: "isoformat t = pad_nat 4 (nat (mi div 12)) @ CHR ''-'' #
     pad_nat 2 (nat (mi mod 12 + 1)) @ CHR ''-'' # pad_nat 2 (nat (march_day (day_of t))) @ CHR ''T'' #
     pad_nat 2 (nat (s div 3600)) @ CHR '':'' # pad_nat 2 (nat (s div 60 mod 60)) @ CHR '':'' #
     pad_nat 2 (nat (s mod 60)) @ fraction_str f"
    by (simp add: isoformat_eq date_str_eq clock_str_def mi_def s_def f_def us_def)
  ultimately show ?thesis
    unfolding layout fromisoformat_fields [OF y m d h mins sec] clock_value read_fraction [OF f]
    by (simp only: days_from_civil_month_index mi_def add.assoc)
qed

end
