(* ===== verification/Event_Store.thy ===== *)
theory Event_Store
  imports Models Iso_Time
begin

text \<open>
  Event persistence, \<open>core/event_store.py\<close>: the in-memory backend and the SQLite backend. The
  table of the SQL backend is the list of its rows in insertion order, timestamps are the texts it
  stores and compares, JSON columns hold the value that was dumped. SQL leaves the order of rows
  with equal timestamps open, so the ordering of a result is a parameter (\<open>sql_order\<close>). Both
  backends are instances of the interface \<open>event_store\<close>.
\<close>

section \<open>The in-memory backend\<close>

record mem_store =
  me_events :: "resource_event list"
  me_index :: "string set"

definition init_mem :: mem_store where
  "init_mem = \<lparr>me_events = [], me_index = {}\<rparr>"

definition mem_insert :: "resource_event \<Rightarrow> mem_store \<Rightarrow> bool \<times> mem_store" where
  "mem_insert e s =
     (if ev_event_id e \<notin> me_index s
      then (True, s\<lparr>me_events := me_events s @ [e], me_index := insert (ev_event_id e) (me_index s)\<rparr>)
      else (False, s))"

definition mem_store_event :: "resource_event \<Rightarrow> mem_store \<Rightarrow> mem_store" where
  "mem_store_event e s = snd (mem_insert e s)"

fun mem_store_batch :: "resource_event list \<Rightarrow> mem_store \<Rightarrow> nat \<times> mem_store" where
  "mem_store_batch [] s = (0, s)"
| "mem_store_batch (e # es) s =
     (let (new, s1) = mem_insert e s; (n, s2) = mem_store_batch es s1
      in ((if new then 1 else 0) + n, s2))"

text \<open>The filters of a query; an empty text is no filter.\<close>

record event_filter =
  ef_provider :: "cloud_provider option"
  ef_resource_type :: "string option"
  ef_creator :: "string option"
  ef_since :: "timestamp option"
  ef_until :: "timestamp option"

definition text_filter :: "string option \<Rightarrow> (string \<Rightarrow> bool) \<Rightarrow> bool" where
  "text_filter f P = (case f of None \<Rightarrow> True | Some x \<Rightarrow> x = [] \<or> P x)"

definition mem_matches :: "event_filter \<Rightarrow> resource_event \<Rightarrow> bool" where
  "mem_matches f e \<longleftrightarrow>
     (case ef_provider f of None \<Rightarrow> True | Some p \<Rightarrow> ev_provider e = p) \<and>
     text_filter (ef_resource_type f) (\<lambda>t. ev_resource_type e = t) \<and>
     text_filter (ef_creator f) (\<lambda>c. c = ev_creator_email e \<or> c = ev_creator_identity e) \<and>
     (case ef_since f of None \<Rightarrow> True | Some t \<Rightarrow> t \<le> ev_timestamp e) \<and>
     (case ef_until f of None \<Rightarrow> True | Some t \<Rightarrow> ev_timestamp e \<le> t)"

definition mem_query :: "event_filter \<Rightarrow> int \<Rightarrow> mem_store \<Rightarrow> resource_event list" where
  "mem_query f limit s = slice_last limit (filter (mem_matches f) (me_events s))"

definition mem_count :: "mem_store \<Rightarrow> nat" where
  "mem_count s = length (me_events s)"

definition mem_exists :: "string \<Rightarrow> mem_store \<Rightarrow> bool" where
  "mem_exists eid s \<longleftrightarrow> eid \<in> me_index s"

record cost_summary =
  cs_total_events :: nat
  cs_total_cost :: real
  cs_by_type :: "(string, nat \<times> real) dict"
  cs_by_team :: "(string, real) dict"

definition team_of :: "resource_event \<Rightarrow> string" where
  "team_of e = dget_or (ev_tags e) ''team'' ''Untagged''"

definition add_type :: "resource_event \<Rightarrow> (string, nat \<times> real) dict \<Rightarrow> (string, nat \<times> real) dict" where
  "add_type e d =
     (let (n, c) = dget_or d (ev_resource_type e) (0, 0)
      in dset d (ev_resource_type e) (n + 1, c + ev_cost e))"

definition add_team :: "resource_event \<Rightarrow> (string, real) dict \<Rightarrow> (string, real) dict" where
  "add_team e d = dset d (team_of e) (dget_or d (team_of e) 0 + ev_cost e)"

definition mem_cost_summary :: "cloud_provider option \<Rightarrow> timestamp option \<Rightarrow> mem_store \<Rightarrow> cost_summary" where
  "mem_cost_summary provider since s =
     (let es = filter (mem_matches \<lparr>ef_provider = provider, ef_resource_type = None,
                 ef_creator = None, ef_since = since, ef_until = None\<rparr>) (me_events s)
      in \<lparr>cs_total_events = length es, cs_total_cost = sum_list (map ev_cost es),
          cs_by_type = fold add_type es [], cs_by_team = fold add_team es []\<rparr>)"

section \<open>The SQLite backend\<close>

record event_row =
  er_event_id :: string
  er_correlation_id :: string
  er_provider :: string
  er_timestamp :: string
  er_account_id :: string
  er_region :: string
  er_resource_type :: string
  er_resource_id :: string
  er_resource_name :: string
  er_creator_identity :: string
  er_creator_email :: string
  er_cost :: real
  er_tags :: "(string, string) dict"
  er_raw_event :: "(string, pyval) dict"

definition event_row_of :: "resource_event \<Rightarrow> event_row" where
  "event_row_of e =
     \<lparr>er_event_id = ev_event_id e, er_correlation_id = ev_correlation_id e,
      er_provider = provider_value (ev_provider e), er_timestamp = isoformat (ev_timestamp e),
      er_account_id = ev_account_id e, er_region = ev_region e,
      er_resource_type = ev_resource_type e, er_resource_id = ev_resource_id e,
      er_resource_name = ev_resource_name e, er_creator_identity = ev_creator_identity e,
      er_creator_email = ev_creator_email e, er_cost = ev_cost e, er_tags = ev_tags e,
      er_raw_event = ev_raw_event e\<rparr>"

definition provider_of_value :: "string \<Rightarrow> cloud_provider option" where
  "provider_of_value s =
     (if s = ''aws'' then Some AWS else if s = ''gcp'' then Some GCP
      else if s = ''azure'' then Some AZURE else None)"

text \<open>
  \<open>_row_to_event\<close>. The table has no column for \<open>purchase_type\<close>, so the model's default comes back.
\<close>

definition row_to_event :: "event_row \<Rightarrow> resource_event option" where
  "row_to_event r =
     (case (provider_of_value (er_provider r), fromisoformat (er_timestamp r)) of
        (Some p, Some t) \<Rightarrow> Some
          \<lparr>ev_event_id = er_event_id r, ev_correlation_id = er_correlation_id r, ev_provider = p,
           ev_timestamp = t, ev_account_id = er_account_id r, ev_region = er_region r,
           ev_resource_type = er_resource_type r, ev_resource_id = er_resource_id r,
           ev_resource_name = er_resource_name r, ev_creator_identity = er_creator_identity r,
           ev_creator_email = er_creator_email r, ev_cost = er_cost r, ev_purchase_type = ''on-demand'',
           ev_tags = er_tags r, ev_raw_event = er_raw_event r\<rparr>
      | _ \<Rightarrow> None)"

text \<open>\<open>INSERT OR IGNORE\<close> on the primary key; the row count of the statement is 1 or 0.\<close>

definition sql_insert :: "resource_event \<Rightarrow> event_row list \<Rightarrow> bool \<times> event_row list" where
  "sql_insert e rows =
     (if list_ex (\<lambda>r. er_event_id r = ev_event_id e) rows then (False, rows)
      else (True, rows @ [event_row_of e]))"

definition sql_store_event :: "resource_event \<Rightarrow> event_row list \<Rightarrow> event_row list" where
  "sql_store_event e rows = snd (sql_insert e rows)"

fun sql_store_batch :: "resource_event list \<Rightarrow> event_row list \<Rightarrow> nat \<times> event_row list" where
  "sql_store_batch [] rows = (0, rows)"
| "sql_store_batch (e # es) rows =
     (let (new, rows1) = sql_insert e rows; (n, rows2) = sql_store_batch es rows1
      in ((if new then 1 else 0) + n, rows2))"

definition sql_matches :: "event_filter \<Rightarrow> event_row \<Rightarrow> bool" where
  "sql_matches f r \<longleftrightarrow>
     (case ef_provider f of None \<Rightarrow> True | Some p \<Rightarrow> er_provider r = provider_value p) \<and>
     text_filter (ef_resource_type f) (\<lambda>t. er_resource_type r = t) \<and>
     text_filter (ef_creator f) (\<lambda>c. er_creator_email r = c \<or> er_creator_identity r = c) \<and>
     (case ef_since f of None \<Rightarrow> True | Some t \<Rightarrow> isoformat t \<le> er_timestamp r) \<and>
     (case ef_until f of None \<Rightarrow> True | Some t \<Rightarrow> er_timestamp r \<le> isoformat t)"

text \<open>What \<open>ORDER BY c DESC\<close> promises of the selected rows, \<open>c\<close> a text column.\<close>

definition sql_order :: "('r \<Rightarrow> string) \<Rightarrow> ('r list \<Rightarrow> 'r list) \<Rightarrow> bool" where
  "sql_order column ord \<longleftrightarrow> (\<forall>rows. set (ord rows) = set rows \<and>
     (distinct rows \<longrightarrow> distinct (ord rows)) \<and>
     sorted_wrt (\<lambda>a b. column b \<le> column a) (ord rows))"

text \<open>\<open>LIMIT n\<close>: none for zero, all for a negative number.\<close>

definition sql_limit :: "int \<Rightarrow> 'a list \<Rightarrow> 'a list" where
  "sql_limit n xs = (if n < 0 then xs else take (nat n) xs)"

definition sql_query :: "(event_row list \<Rightarrow> event_row list) \<Rightarrow> event_filter \<Rightarrow> int \<Rightarrow> event_row list \<Rightarrow>
    resource_event list option" where
  "sql_query ord f limit rows =
     those (map row_to_event (rev (sql_limit limit (ord (filter (sql_matches f) rows)))))"

definition sql_count :: "event_row list \<Rightarrow> nat" where
  "sql_count rows = length rows"

definition sql_exists :: "string \<Rightarrow> event_row list \<Rightarrow> bool" where
  "sql_exists eid rows \<longleftrightarrow> list_ex (\<lambda>r. er_event_id r = eid) rows"

text \<open>
  The summary: one \<open>GROUP BY\<close> row per resource type and per team, each sum rounded. The team query
  needs the JSON functions of SQLite; without them the source answers with no teams.
\<close>

definition add_row_type :: "event_row \<Rightarrow> (string, nat \<times> real) dict \<Rightarrow> (string, nat \<times> real) dict" where
  "add_row_type r d =
     (let (n, c) = dget_or d (er_resource_type r) (0, 0)
      in dset d (er_resource_type r) (n + 1, c + er_cost r))"

definition add_row_team :: "event_row \<Rightarrow> (string, real) dict \<Rightarrow> (string, real) dict" where
  "add_row_team r d =
     (let t = dget_or (er_tags r) ''team'' ''Untagged'' in dset d t (dget_or d t 0 + er_cost r))"

definition sql_cost_summary :: "bool \<Rightarrow> cloud_provider option \<Rightarrow> timestamp option \<Rightarrow> event_row list \<Rightarrow>
    cost_summary" where
  "sql_cost_summary json1 provider since rows =
     (let rs = filter (sql_matches \<lparr>ef_provider = provider, ef_resource_type = None,
                 ef_creator = None, ef_since = since, ef_until = None\<rparr>) rows
      in \<lparr>cs_total_events = length rs, cs_total_cost = round2 (sum_list (map er_cost rs)),
          cs_by_type = map (map_prod id (map_prod id round2)) (fold add_row_type rs []),
          cs_by_team = (if json1 then map (map_prod id round2) (fold add_row_team rs []) else [])\<rparr>)"

section \<open>The interface\<close>

text \<open>The events whose id is not in \<open>seen\<close>, the first of each id only.\<close>

fun first_by_id :: "string set \<Rightarrow> resource_event list \<Rightarrow> resource_event list" where
  "first_by_id seen [] = []"
| "first_by_id seen (e # es) =
     (if ev_event_id e \<in> seen then first_by_id seen es
      else e # first_by_id (insert (ev_event_id e) seen) es)"

text \<open>
  What the agents rely on: storing an event with a new id appends what the backend keeps of it
  (\<open>kept\<close>), storing one with a known id changes nothing, and ids never repeat.
\<close>

locale event_store =
  fixes store :: "resource_event \<Rightarrow> 's \<Rightarrow> 's"
    and contents :: "'s \<Rightarrow> resource_event list"
    and ok :: "'s \<Rightarrow> bool"
    and valid :: "resource_event \<Rightarrow> bool"
    and kept :: "resource_event \<Rightarrow> resource_event"
  assumes store_new: "ok s \<Longrightarrow> valid e \<Longrightarrow> ev_event_id e \<notin> ev_event_id ` set (contents s) \<Longrightarrow>
      contents (store e s) = contents s @ [kept e]"
    and store_known: "ok s \<Longrightarrow> valid e \<Longrightarrow> ev_event_id e \<in> ev_event_id ` set (contents s) \<Longrightarrow> store e s = s"
    and ok_store: "ok s \<Longrightarrow> valid e \<Longrightarrow> ok (store e s)"
    and ok_ids: "ok s \<Longrightarrow> distinct (map ev_event_id (contents s))"
    and kept_id: "ev_event_id (kept e) = ev_event_id e"
begin

lemma run_ok: "ok s \<Longrightarrow> list_all valid es \<Longrightarrow> ok (fold store es s)"
  by (induction es arbitrary: s) (auto intro: ok_store)

lemma run_ids:
  "ok s \<Longrightarrow> list_all valid es \<Longrightarrow>
   ev_event_id ` set (contents (fold store es s)) = ev_event_id ` (set (contents s) \<union> set es)"
proof (induction es arbitrary: s)
  case (Cons e es)
  have "ev_event_id ` set (contents (store e s)) = insert (ev_event_id e) (ev_event_id ` set (contents s))"
    using Cons.prems
    by (cases "ev_event_id e \<in> ev_event_id ` set (contents s)") (auto simp: store_known store_new kept_id)
  with Cons show ?case by (simp add: ok_store image_Un)
qed simp

text \<open>The first event of each id is the one that stays, in the order of arrival.\<close>

lemma run_contents:
  "ok s \<Longrightarrow> list_all valid es \<Longrightarrow>
   contents (fold store es s) = contents s @ map kept (first_by_id (ev_event_id ` set (contents s)) es)"
proof (induction es arbitrary: s)
  case (Cons e es)
  show ?case
  proof (cases "ev_event_id e \<in> ev_event_id ` set (contents s)")
    case True
    with Cons show ?thesis by (simp add: store_known)
  next
    case False
    then have "contents (store e s) = contents s @ [kept e]" using Cons.prems by (intro store_new) auto
    with False Cons show ?thesis by (simp add: ok_store kept_id)
  qed
qed simp

text \<open>Replaying events that are already stored changes nothing.\<close>

lemma replay:
  "ok s \<Longrightarrow> list_all valid es \<Longrightarrow> ev_event_id ` set es \<subseteq> ev_event_id ` set (contents s) \<Longrightarrow> fold store es s = s"
  by (induction es) (auto simp: store_known)

lemma run_twice:
  assumes "ok s" "list_all valid es"
  shows "fold store es (fold store es s) = fold store es s"
  using replay [OF run_ok [OF assms] assms(2)] run_ids [OF assms] by auto

end

definition mem_ok :: "mem_store \<Rightarrow> bool" where
  "mem_ok s \<longleftrightarrow> distinct (map ev_event_id (me_events s)) \<and> me_index s = ev_event_id ` set (me_events s)"

interpretation mem: event_store mem_store_event me_events mem_ok "\<lambda>e. True" id
  by unfold_locales (auto simp: mem_store_event_def mem_insert_def mem_ok_def)

text \<open>A row of an event whose timestamp is a datetime reads back as the event.\<close>

definition storable :: "resource_event \<Rightarrow> bool" where
  "storable e \<longleftrightarrow> datetime_range (ev_timestamp e)"

lemma provider_value_back [simp]: "provider_of_value (provider_value p) = Some p"
  by (cases p) (simp_all add: provider_of_value_def)

lemma provider_value_inject [simp]: "provider_value p = provider_value q \<longleftrightarrow> p = q"
  by (metis option.inject provider_value_back)

definition sql_kept :: "resource_event \<Rightarrow> resource_event" where
  "sql_kept e = e\<lparr>ev_purchase_type := ''on-demand''\<rparr>"

lemma event_row_back [simp]: "storable e \<Longrightarrow> row_to_event (event_row_of e) = Some (sql_kept e)"
  by (simp add: row_to_event_def event_row_of_def storable_def fromisoformat_isoformat sql_kept_def)

lemma event_row_id [simp]: "er_event_id (event_row_of e) = ev_event_id e"
  by (simp add: event_row_of_def)

lemma sql_kept_id [simp]: "ev_event_id (sql_kept e) = ev_event_id e"
  by (simp add: sql_kept_def)

definition sql_contents :: "event_row list \<Rightarrow> resource_event list" where
  "sql_contents rows = map (the \<circ> row_to_event) rows"

definition sql_ok :: "event_row list \<Rightarrow> bool" where
  "sql_ok rows \<longleftrightarrow> distinct (map er_event_id rows) \<and>
     (\<forall>r \<in> set rows. \<exists>e. storable e \<and> r = event_row_of e)"

lemma sql_ids: "sql_ok rows \<Longrightarrow> map ev_event_id (sql_contents rows) = map er_event_id rows"
  by (fastforce simp: sql_contents_def sql_ok_def)

lemma sql_known:
  "sql_ok rows \<Longrightarrow> ev_event_id e \<in> ev_event_id ` set (sql_contents rows) \<longleftrightarrow>
     list_ex (\<lambda>r. er_event_id r = ev_event_id e) rows"
proof -
  assume "sql_ok rows"
  then have "ev_event_id ` set (sql_contents rows) = er_event_id ` set rows"
    using arg_cong [OF sql_ids, of rows set] by simp
  moreover have "ev_event_id e \<in> er_event_id ` set rows \<longleftrightarrow> list_ex (\<lambda>r. er_event_id r = ev_event_id e) rows"
    by (auto simp: list_ex_iff intro: rev_image_eqI)
  ultimately show ?thesis by simp
qed

interpretation sql: event_store sql_store_event sql_contents sql_ok storable sql_kept
proof unfold_locales
  fix rows e
  assume ok: "sql_ok rows" and e: "storable e"
  show "ev_event_id e \<notin> ev_event_id ` set (sql_contents rows) \<Longrightarrow>
      sql_contents (sql_store_event e rows) = sql_contents rows @ [sql_kept e]"
    using sql_known [OF ok, of e] e by (simp add: sql_store_event_def sql_insert_def sql_contents_def)
  show "ev_event_id e \<in> ev_event_id ` set (sql_contents rows) \<Longrightarrow> sql_store_event e rows = rows"
    using sql_known [OF ok, of e] by (simp add: sql_store_event_def sql_insert_def)
  show "sql_ok (sql_store_event e rows)"
    using ok e by (auto simp: sql_ok_def sql_store_event_def sql_insert_def list_ex_iff)
next
  fix rows
  assume "sql_ok rows"
  then show "distinct (map ev_event_id (sql_contents rows))"
    by (simp add: sql_ids) (simp add: sql_ok_def)
qed simp

section \<open>Deduplication\<close>

lemma mem_batch: "mem_store_batch es s = (length (first_by_id (me_index s) es), fold mem_store_event es s)"
proof (induction es arbitrary: s)
  case (Cons e es)
  then show ?case by (simp add: mem_insert_def mem_store_event_def Let_def)
qed simp

lemma sql_batch:
  "sql_store_batch es rows = (length (first_by_id (er_event_id ` set rows) es), fold sql_store_event es rows)"
proof (induction es arbitrary: rows)
  case (Cons e es)
  have known: "list_ex (\<lambda>r. er_event_id r = ev_event_id e) rows \<longleftrightarrow> ev_event_id e \<in> er_event_id ` set rows"
    by (auto simp: list_ex_iff intro: rev_image_eqI)
  with Cons show ?case by (simp add: sql_insert_def sql_store_event_def Let_def)
qed simp

lemma first_by_id_distinct: "distinct (map ev_event_id (first_by_id seen es)) \<and>
    ev_event_id ` set (first_by_id seen es) = ev_event_id ` set es - seen"
  by (induction seen es rule: first_by_id.induct) auto

lemma mem_ok_init [simp]: "mem_ok init_mem"
  by (simp add: mem_ok_def init_mem_def)

lemma sql_ok_init [simp]: "sql_ok []"
  by (simp add: sql_ok_def)

text \<open>
  Both backends keep the first event of every id in order of arrival (the SQL backend without
  its purchase type), report that number from a batch, and ignore the whole sequence when it is
  stored again.
\<close>
theorem event_stores_deduplicate:
  assumes "list_all storable es"
  defines "m \<equiv> fold mem_store_event es init_mem" and "q \<equiv> fold sql_store_event es []"
  shows "me_events m = first_by_id {} es \<and> sql_contents q = map sql_kept (first_by_id {} es) \<and>
    distinct (map ev_event_id (first_by_id {} es)) \<and>
    ev_event_id ` set (first_by_id {} es) = ev_event_id ` set es \<and>
    mem_store_batch es init_mem = (length (first_by_id {} es), m) \<and>
    sql_store_batch es [] = (length (first_by_id {} es), q) \<and>
    fold mem_store_event es m = m \<and> fold sql_store_event es q = q"
proof -
  have t: "list_all (\<lambda>e. True) es" by (simp add: list_all_iff)
  have "me_events m = first_by_id {} es"
    using mem.run_contents [OF mem_ok_init t] by (simp add: m_def init_mem_def)
  moreover have "sql_contents q = map sql_kept (first_by_id {} es)"
    using sql.run_contents [OF sql_ok_init assms(1)] by (simp add: q_def sql_contents_def)
  moreover have "fold mem_store_event es m = m" "fold sql_store_event es q = q"
    using mem.run_twice [OF mem_ok_init t] sql.run_twice [OF sql_ok_init assms(1)]
    by (simp_all add: m_def q_def)
  ultimately show ?thesis
    using first_by_id_distinct [of "{}" es] mem_batch [of es init_mem] sql_batch [of es "[]"]
    by (simp add: m_def q_def init_mem_def prod_eq_iff)
qed

definition ev :: "string \<Rightarrow> timestamp \<Rightarrow> real \<Rightarrow> resource_event" where
  "ev eid t cost = \<lparr>ev_event_id = eid, ev_correlation_id = [], ev_provider = AWS,
     ev_timestamp = t, ev_account_id = ''acct'', ev_region = ''eu-west-2'',
     ev_resource_type = ''ec2'', ev_resource_id = ''i-1'', ev_resource_name = [],
     ev_creator_identity = ''dev'', ev_creator_email = [], ev_cost = cost,
     ev_purchase_type = ''spot'', ev_tags = [(''team'', ''x'')], ev_raw_event = []\<rparr>"

lemma ev_storable: "0 \<le> t \<Longrightarrow> t < us_per_day \<Longrightarrow> storable (ev eid t cost)"
  by (simp add: storable_def ev_def datetime_range_def day_of_def us_per_day_def)

theorem event_stores_deduplicate_witness:
  "me_events (fold mem_store_event [ev ''a'' 1 5, ev ''b'' 2 6, ev ''a'' 3 7] init_mem) = [ev ''a'' 1 5, ev ''b'' 2 6] \<and>
   fst (sql_store_batch [ev ''a'' 1 5, ev ''b'' 2 6, ev ''a'' 3 7] []) = 2"
proof -
  have "list_all storable [ev ''a'' 1 5, ev ''b'' 2 6, ev ''a'' 3 7]"
    by (simp add: ev_storable us_per_day_def)
  note this [THEN event_stores_deduplicate]
  moreover have "first_by_id {} [ev ''a'' 1 5, ev ''b'' 2 6, ev ''a'' 3 7] = [ev ''a'' 1 5, ev ''b'' 2 6]"
    by (simp add: ev_def)
  ultimately show ?thesis by (simp only: fst_conv) simp
qed

section \<open>Queries of the two backends\<close>

definition filter_in_range :: "event_filter \<Rightarrow> bool" where
  "filter_in_range f \<longleftrightarrow> (case ef_since f of None \<Rightarrow> True | Some t \<Rightarrow> datetime_range t) \<and>
     (case ef_until f of None \<Rightarrow> True | Some t \<Rightarrow> datetime_range t)"

lemma sql_matches_row:
  "filter_in_range f \<Longrightarrow> storable e \<Longrightarrow> sql_matches f (event_row_of e) = mem_matches f e"
  by (auto simp: sql_matches_def mem_matches_def event_row_of_def filter_in_range_def storable_def
      isoformat_le_iff text_filter_def split: option.splits)

lemma filter_rows:
  "filter_in_range f \<Longrightarrow> list_all storable es \<Longrightarrow>
   filter (sql_matches f) (map event_row_of es) = map event_row_of (filter (mem_matches f) es)"
  by (induction es) (auto simp: sql_matches_row)

lemma sql_rows:
  "fold sql_store_event es rows = rows @ map event_row_of (first_by_id (er_event_id ` set rows) es)"
proof (induction es arbitrary: rows)
  case (Cons e es)
  have "list_ex (\<lambda>r. er_event_id r = ev_event_id e) rows \<longleftrightarrow> ev_event_id e \<in> er_event_id ` set rows"
    by (auto simp: list_ex_iff intro: rev_image_eqI)
  with Cons show ?case by (simp add: sql_store_event_def sql_insert_def)
qed simp

lemma set_first_by_id: "set (first_by_id seen es) \<subseteq> set es"
  by (induction seen es rule: first_by_id.induct) auto

lemma first_by_id_fresh:
  "distinct (map ev_event_id es) \<Longrightarrow> ev_event_id ` set es \<inter> seen = {} \<Longrightarrow> first_by_id seen es = es"
  by (induction es arbitrary: seen) auto

lemma mem_events: "me_events (fold mem_store_event es init_mem) = first_by_id {} es"
  using mem.run_contents [OF mem_ok_init, of es] by (simp add: init_mem_def list_all_iff)

lemma those_rows: "list_all storable es \<Longrightarrow> those (map row_to_event (map event_row_of es)) = Some (map sql_kept es)"
  by (induction es) auto

text \<open>With distinct timestamps there is only one descending order.\<close>

lemma sql_order_unique:
  assumes "sql_order er_timestamp ord" "sorted_wrt (\<lambda>a b. er_timestamp a < er_timestamp b) rows"
  shows "ord rows = rev rows"
proof -
  have ts: "sorted_wrt (<) (map er_timestamp rows)" using assms(2) by (simp add: sorted_wrt_map)
  then have "distinct (map er_timestamp rows)" by (simp add: strict_sorted_iff)
  then have d: "distinct rows" and inj: "inj_on er_timestamp (set rows)"
    by (simp_all add: distinct_map)
  have o: "set (ord rows) = set rows" "distinct (ord rows)"
    "sorted_wrt (\<lambda>a b. er_timestamp b \<le> er_timestamp a) (ord rows)"
    using assms(1) d by (auto simp: sql_order_def)
  have "sorted (map er_timestamp (rev (ord rows)))"
    using o(3) by (simp add: sorted_wrt_rev sorted_wrt_map)
  moreover have "distinct (map er_timestamp (rev (ord rows)))"
    using o inj by (simp add: distinct_map)
  ultimately have "map er_timestamp (rev (ord rows)) = map er_timestamp rows"
    using ts o(1) by (intro sorted_distinct_set_unique) (auto simp: strict_sorted_iff)
  moreover have "inj_on er_timestamp (set (rev (ord rows)) \<union> set rows)" using inj o(1) by simp
  ultimately have "rev (ord rows) = rows" by (rule map_inj_on)
  then show ?thesis by (metis rev_rev_ident)
qed


definition demo_order :: "event_row list \<Rightarrow> event_row list" where
  "demo_order rows = rev (sort_key er_timestamp rows)"

lemma demo_order_ok: "sql_order er_timestamp demo_order"
proof -
  have "sorted_wrt (\<lambda>a b. er_timestamp a \<le> er_timestamp b) (sort_key er_timestamp rows)"
    for rows :: "event_row list"
    using sorted_sort_key [of er_timestamp rows] by (simp add: sorted_wrt_map)
  then show ?thesis by (simp add: sql_order_def demo_order_def sorted_wrt_rev)
qed

definition no_filter :: event_filter where
  "no_filter = \<lparr>ef_provider = None, ef_resource_type = None, ef_creator = None, ef_since = None,
     ef_until = None\<rparr>"


text \<open>A limit of zero means everything in memory and nothing in SQL.\<close>

lemma query_limit_zero:
  "mem_query f 0 s = filter (mem_matches f) (me_events s)" "sql_query ord f 0 rows = Some []"
  by (simp_all add: mem_query_def slice_last_zero sql_query_def sql_limit_def)

section \<open>Cost summaries\<close>

lemma add_type_sum:
  "sum_list (map snd (dvalues (add_type e d))) = sum_list (map snd (dvalues d)) + ev_cost e"
  "sum_list (map (real \<circ> fst) (dvalues (add_type e d))) = sum_list (map (real \<circ> fst) (dvalues d)) + 1"
  by (simp_all add: add_type_def Let_def case_prod_beta sum_dset_map dget_or_def del: map_map
      split: option.splits)

lemma add_team_sum: "sum_list (dvalues (add_team e d)) = sum_list (dvalues d) + ev_cost e"
  using sum_dset_map [of id d "team_of e"]
  by (simp add: add_team_def dget_or_def split: option.splits)

lemma fold_add_sums:
  "sum_list (map snd (dvalues (fold add_type es d))) = sum_list (map snd (dvalues d)) + sum_list (map ev_cost es)"
  "sum_list (map (real \<circ> fst) (dvalues (fold add_type es d))) =
     sum_list (map (real \<circ> fst) (dvalues d)) + real (length es)"
  "sum_list (dvalues (fold add_team es t)) = sum_list (dvalues t) + sum_list (map ev_cost es)"
  by (induction es arbitrary: d t) (simp_all add: add_type_sum add_team_sum del: map_map)

lemma sum_counts: "sum_list (map (real \<circ> fst) xs) = real (sum_list (map fst xs))"
  by (induction xs) auto

text \<open>
  No cost is lost or counted twice: in the in-memory summary the totals per resource type and
  the totals per team each add up to the total cost, and the counts to the number of events; the
  SQL summary of the same events is that summary with every amount rounded to cents.
\<close>
theorem cost_summary_conserves:
  fixes provider :: "cloud_provider option"
  assumes "list_all storable es" and "case since of None \<Rightarrow> True | Some t \<Rightarrow> datetime_range t"
  defines "s \<equiv> mem_cost_summary provider since (fold mem_store_event es init_mem)"
  shows "sum_list (map snd (dvalues (cs_by_type s))) = cs_total_cost s \<and>
    sum_list (dvalues (cs_by_team s)) = cs_total_cost s \<and>
    sum_list (map fst (dvalues (cs_by_type s))) = cs_total_events s \<and>
    sql_cost_summary True provider since (fold sql_store_event es []) =
      \<lparr>cs_total_events = cs_total_events s, cs_total_cost = round2 (cs_total_cost s),
       cs_by_type = map (map_prod id (map_prod id round2)) (cs_by_type s),
       cs_by_team = map (map_prod id round2) (cs_by_team s)\<rparr>"
proof -
  let ?f = "\<lparr>ef_provider = provider, ef_resource_type = None, ef_creator = None, ef_since = since, ef_until = None\<rparr>"
  let ?first = "first_by_id {} es"
  let ?es = "filter (mem_matches ?f) ?first"
  have s: "s = \<lparr>cs_total_events = length ?es, cs_total_cost = sum_list (map ev_cost ?es),
      cs_by_type = fold add_type ?es [], cs_by_team = fold add_team ?es []\<rparr>"
    by (simp add: s_def mem_cost_summary_def mem_events Let_def)
  have st: "list_all storable ?first"
    using assms(1) set_first_by_id [of "{}" es] by (auto simp: list_all_iff)
  have rows: "fold sql_store_event es [] = map event_row_of ?first"
    using sql_rows [of es "[]"] by simp
  have "filter_in_range ?f" using assms(2) by (simp add: filter_in_range_def split: option.splits)
  note fr = filter_rows [OF this st]
  have cost: "er_cost \<circ> event_row_of = ev_cost" by (auto simp: event_row_of_def)
  have ty: "fold add_row_type (map event_row_of xs) d = fold add_type xs d" for xs d
    by (induction xs arbitrary: d) (simp_all add: add_row_type_def add_type_def event_row_of_def)
  have tm: "fold add_row_team (map event_row_of xs) d = fold add_team xs d" for xs d
    by (induction xs arbitrary: d) (simp_all add: add_row_team_def add_team_def team_of_def event_row_of_def Let_def)
  have "real (sum_list (map fst (dvalues (fold add_type ?es [])))) = real (length ?es)"
    using fold_add_sums(2) [of ?es "[]"] by (simp only: sum_counts [symmetric]) simp
  then have n: "sum_list (map fst (dvalues (fold add_type ?es []))) = length ?es"
    by (simp only: of_nat_eq_iff)
  show ?thesis
    using fold_add_sums(1) [of ?es "[]"] fold_add_sums(3) [of ?es "[]"] n
    by (simp add: s sql_cost_summary_def rows fr cost ty tm Let_def)
qed

theorem cost_summary_conserves_witness:
  "cs_total_cost (sql_cost_summary True None None (fold sql_store_event [ev ''a'' 1 5, ev ''b'' 2 6, ev ''a'' 3 7] [])) =
   round2 11"
proof -
  have "list_all storable [ev ''a'' 1 5, ev ''b'' 2 6, ev ''a'' 3 7]" by (simp add: ev_storable us_per_day_def)
  from cost_summary_conserves [OF this, of None None]
  have "sql_cost_summary True None None (fold sql_store_event [ev ''a'' 1 5, ev ''b'' 2 6, ev ''a'' 3 7] []) =
      \<lparr>cs_total_events = cs_total_events (mem_cost_summary None None
         (fold mem_store_event [ev ''a'' 1 5, ev ''b'' 2 6, ev ''a'' 3 7] init_mem)),
       cs_total_cost = round2 (cs_total_cost (mem_cost_summary None None
         (fold mem_store_event [ev ''a'' 1 5, ev ''b'' 2 6, ev ''a'' 3 7] init_mem))),
       cs_by_type = map (map_prod id (map_prod id round2)) (cs_by_type (mem_cost_summary None None
         (fold mem_store_event [ev ''a'' 1 5, ev ''b'' 2 6, ev ''a'' 3 7] init_mem))),
       cs_by_team = map (map_prod id round2) (cs_by_team (mem_cost_summary None None
         (fold mem_store_event [ev ''a'' 1 5, ev ''b'' 2 6, ev ''a'' 3 7] init_mem)))\<rparr>"
    by simp
  moreover have "cs_total_cost (mem_cost_summary None None
      (fold mem_store_event [ev ''a'' 1 5, ev ''b'' 2 6, ev ''a'' 3 7] init_mem)) = 11"
    unfolding mem_cost_summary_def mem_events Let_def
    by (simp add: ev_def mem_matches_def text_filter_def)
  ultimately show ?thesis by simp
qed

end
