(* ===== verification/Alert_Store.thy ===== *)
theory Alert_Store
  imports Event_Store
begin

text \<open>
  Alert persistence, \<open>core/alert_store.py\<close>: the in-memory dictionary and the SQLite table, both
  with store, get, query, status update and count. JSON columns hold the
  value that was dumped; the \<open>data\<close> column is the JSON of the whole alert and reads back as it. Both backends are instances of \<open>alert_store\<close>.
\<close>

section \<open>Status updates\<close>

definition with_status :: "action_status \<Rightarrow> string \<Rightarrow> string \<Rightarrow> cost_alert \<Rightarrow> cost_alert" where
  "with_status st ack res a =
     (let a = a\<lparr>al_status := st\<rparr>;
          a = (if ack \<noteq> [] then a\<lparr>al_acknowledged_by := ack\<rparr> else a)
      in if res \<noteq> [] then a\<lparr>al_resolved_by := res\<rparr> else a)"

record alert_filter =
  lf_severity :: "severity option"
  lf_status :: "action_status option"
  lf_provider :: "cloud_provider option"

section \<open>The in-memory backend\<close>

type_synonym mem_alerts = "(string, cost_alert) dict"

definition mem_alert_store :: "cost_alert \<Rightarrow> mem_alerts \<Rightarrow> mem_alerts" where
  "mem_alert_store a s = dset s (al_alert_id a) a"

definition mem_alert_get :: "string \<Rightarrow> mem_alerts \<Rightarrow> cost_alert option" where
  "mem_alert_get k s = dget s k"

definition alert_matches :: "alert_filter \<Rightarrow> cost_alert \<Rightarrow> bool" where
  "alert_matches f a \<longleftrightarrow>
     (case lf_severity f of None \<Rightarrow> True | Some v \<Rightarrow> al_severity a = v) \<and>
     (case lf_status f of None \<Rightarrow> True | Some v \<Rightarrow> al_status a = v) \<and>
     (case lf_provider f of None \<Rightarrow> True | Some v \<Rightarrow> al_provider a = v)"

definition mem_alert_query :: "alert_filter \<Rightarrow> int \<Rightarrow> mem_alerts \<Rightarrow> cost_alert list" where
  "mem_alert_query f limit s = slice_last limit (filter (alert_matches f) (dvalues s))"

definition mem_alert_update :: "string \<Rightarrow> action_status \<Rightarrow> string \<Rightarrow> string \<Rightarrow> mem_alerts \<Rightarrow> bool \<times> mem_alerts" where
  "mem_alert_update k st ack res s =
     (case dget s k of
        None \<Rightarrow> (False, s)
      | Some a \<Rightarrow> (True, dset s k (with_status st ack res a)))"

definition mem_alert_count :: "mem_alerts \<Rightarrow> nat" where
  "mem_alert_count s = length s"

section \<open>The SQLite backend\<close>

record alert_row =
  lr_alert_id :: string
  lr_created_at :: string
  lr_severity :: string
  lr_status :: string
  lr_provider :: string
  lr_account_id :: string
  lr_region :: string
  lr_title :: string
  lr_summary :: string
  lr_resource_creator :: string
  lr_creator_email :: string
  lr_team :: string
  lr_cost_centre :: string
  lr_resource_type :: string
  lr_resource_id :: string
  lr_resource_name :: string
  lr_cost :: real
  lr_threshold_exceeded_usd :: real
  lr_baseline_monthly_usd :: real
  lr_cost_increase_percentage :: real
  lr_recommended_actions :: "string list"
  lr_accountability_note :: string
  lr_escalation_path :: string
  lr_acknowledged_by :: string
  lr_resolved_by :: string
  lr_source_event_id :: string
  lr_correlation_id :: string
  lr_policy_id :: string
  lr_data :: cost_alert

definition alert_row_of :: "cost_alert \<Rightarrow> alert_row" where
  "alert_row_of a =
     \<lparr>lr_alert_id = al_alert_id a, lr_created_at = isoformat (al_created_at a),
      lr_severity = severity_value (al_severity a), lr_status = status_value (al_status a),
      lr_provider = provider_value (al_provider a),
      lr_account_id = al_account_id a, lr_region = al_region a,
      lr_title = al_title a, lr_summary = al_summary a,
      lr_resource_creator = al_resource_creator a, lr_creator_email = al_creator_email a,
      lr_team = al_team a, lr_cost_centre = al_cost_centre a,
      lr_resource_type = al_resource_type a, lr_resource_id = al_resource_id a,
      lr_resource_name = al_resource_name a, lr_cost = al_cost a,
      lr_threshold_exceeded_usd = al_threshold_exceeded_usd a, lr_baseline_monthly_usd = al_baseline_monthly_usd a,
      lr_cost_increase_percentage = al_cost_increase_percentage a, lr_recommended_actions = al_recommended_actions a,
      lr_accountability_note = al_accountability_note a, lr_escalation_path = al_escalation_path a,
      lr_acknowledged_by = al_acknowledged_by a, lr_resolved_by = al_resolved_by a,
      lr_source_event_id = al_source_event_id a, lr_correlation_id = al_correlation_id a,
      lr_policy_id = al_policy_id a,
      lr_data = a\<rparr>"

text \<open>\<open>INSERT OR REPLACE\<close> deletes the row with the key and inserts the new one.\<close>

definition sql_alert_store :: "cost_alert \<Rightarrow> alert_row list \<Rightarrow> alert_row list" where
  "sql_alert_store a rows = filter (\<lambda>r. lr_alert_id r \<noteq> al_alert_id a) rows @ [alert_row_of a]"

definition sql_alert_get :: "string \<Rightarrow> alert_row list \<Rightarrow> cost_alert option" where
  "sql_alert_get k rows = map_option lr_data (find (\<lambda>r. lr_alert_id r = k) rows)"

definition alert_row_matches :: "alert_filter \<Rightarrow> alert_row \<Rightarrow> bool" where
  "alert_row_matches f r \<longleftrightarrow>
     (case lf_severity f of None \<Rightarrow> True | Some v \<Rightarrow> lr_severity r = severity_value v) \<and>
     (case lf_status f of None \<Rightarrow> True | Some v \<Rightarrow> lr_status r = status_value v) \<and>
     (case lf_provider f of None \<Rightarrow> True | Some v \<Rightarrow> lr_provider r = provider_value v)"

definition sql_alert_query :: "(alert_row list \<Rightarrow> alert_row list) \<Rightarrow> alert_filter \<Rightarrow> int \<Rightarrow>
    alert_row list \<Rightarrow> cost_alert list" where
  "sql_alert_query ord f limit rows =
     map lr_data (rev (sql_limit limit (ord (filter (alert_row_matches f) rows))))"

definition sql_alert_update :: "string \<Rightarrow> action_status \<Rightarrow> string \<Rightarrow> string \<Rightarrow> alert_row list \<Rightarrow>
    bool \<times> alert_row list" where
  "sql_alert_update k st ack res rows =
     (case sql_alert_get k rows of
        None \<Rightarrow> (False, rows)
      | Some a \<Rightarrow> (True, sql_alert_store (with_status st ack res a) rows))"

definition sql_alert_count :: "alert_row list \<Rightarrow> nat" where
  "sql_alert_count rows = length rows"

section \<open>The interface\<close>

datatype alert_op =
    StoreAlert cost_alert
  | SetStatus string action_status string string

text \<open>The abstract store is a map from ids to alerts; an operation answers whether it applied.\<close>

fun spec_step :: "alert_op \<Rightarrow> (string \<Rightarrow> cost_alert option) \<Rightarrow> bool \<times> (string \<Rightarrow> cost_alert option)" where
  "spec_step (StoreAlert a) m = (True, m(al_alert_id a \<mapsto> a))"
| "spec_step (SetStatus k st ack res) m =
     (m k \<noteq> None, m(k := map_option (with_status st ack res) (m k)))"

fun alert_run :: "(alert_op \<Rightarrow> 's \<Rightarrow> bool \<times> 's) \<Rightarrow> alert_op list \<Rightarrow> 's \<Rightarrow> bool list \<times> 's" where
  "alert_run step [] s = ([], s)"
| "alert_run step (x # xs) s =
     (let (b, s1) = step x s; (bs, s2) = alert_run step xs s1 in (b # bs, s2))"

locale alert_store =
  fixes store :: "cost_alert \<Rightarrow> 's \<Rightarrow> 's"
    and update :: "string \<Rightarrow> action_status \<Rightarrow> string \<Rightarrow> string \<Rightarrow> 's \<Rightarrow> bool \<times> 's"
    and get :: "string \<Rightarrow> 's \<Rightarrow> cost_alert option"
    and alerts :: "'s \<Rightarrow> cost_alert list"
    and ok :: "'s \<Rightarrow> bool"
  assumes ok_store: "ok s \<Longrightarrow> ok (store a s)"
    and ok_update: "ok s \<Longrightarrow> ok (snd (update k st ack res s))"
    and get_store: "ok s \<Longrightarrow> get k (store a s) = (if k = al_alert_id a then Some a else get k s)"
    and get_update: "ok s \<Longrightarrow> get j (snd (update k st ack res s)) =
      (if j = k then map_option (with_status st ack res) (get k s) else get j s)"
    and update_found: "ok s \<Longrightarrow> fst (update k st ack res s) \<longleftrightarrow> get k s \<noteq> None"
    and alerts_get: "ok s \<Longrightarrow> a \<in> set (alerts s) \<longleftrightarrow> get (al_alert_id a) s = Some a"
    and alerts_ids: "ok s \<Longrightarrow> distinct (map al_alert_id (alerts s))"
begin

fun step :: "alert_op \<Rightarrow> 's \<Rightarrow> bool \<times> 's" where
  "step (StoreAlert a) s = (True, store a s)"
| "step (SetStatus k st ack res) s = update k st ack res s"

lemma step_ok: "ok s \<Longrightarrow> ok (snd (step x s))"
  by (cases x) (simp_all add: ok_store ok_update)

lemma run_ok: "ok s \<Longrightarrow> ok (snd (alert_run step xs s))"
  by (induction xs arbitrary: s) (auto simp: step_ok case_prod_beta Let_def)

text \<open>Every operation commutes with the abstraction of the store to its lookup function.\<close>

lemma step_refines:
  "ok s \<Longrightarrow> spec_step x (\<lambda>k. get k s) = (fst (step x s), \<lambda>k. get k (snd (step x s)))"
  by (cases x) (auto simp: get_store get_update update_found fun_eq_iff)

lemma run_refines:
  "ok s \<Longrightarrow> alert_run spec_step xs (\<lambda>k. get k s) =
     (fst (alert_run step xs s), \<lambda>k. get k (snd (alert_run step xs s)))"
proof (induction xs arbitrary: s)
  case (Cons x xs)
  have "ok (snd (step x s))" using Cons.prems by (rule step_ok)
  then show ?case
    using Cons.IH step_refines [OF Cons.prems, of x] by (simp add: case_prod_beta Let_def)
qed simp

lemma length_alerts: "ok s \<Longrightarrow> length (alerts s) = card {a. get (al_alert_id a) s = Some a}"
proof -
  assume ok: "ok s"
  then have "distinct (alerts s)" using alerts_ids [OF ok] by (simp add: distinct_map)
  then have "length (alerts s) = card (set (alerts s))" by (simp add: distinct_card)
  also have "set (alerts s) = {a. get (al_alert_id a) s = Some a}" using alerts_get [OF ok] by auto
  finally show ?thesis .
qed

end

section \<open>Both backends implement it\<close>

lemma with_status_id [simp]: "al_alert_id (with_status st ack res a) = al_alert_id a"
  by (simp add: with_status_def Let_def)

definition mem_alerts_ok :: "mem_alerts \<Rightarrow> bool" where
  "mem_alerts_ok s \<longleftrightarrow> dict_ok s \<and> (\<forall>(k, a) \<in> set s. al_alert_id a = k)"

lemma mem_alerts_key: "mem_alerts_ok s \<Longrightarrow> dget s k = Some a \<Longrightarrow> al_alert_id a = k"
  by (auto simp: mem_alerts_ok_def dget_mem)

lemma mem_alerts_set: "mem_alerts_ok s \<Longrightarrow> al_alert_id a = k \<Longrightarrow> mem_alerts_ok (dset s k a)"
  by (auto simp: mem_alerts_ok_def set_dset)

interpretation mem_alert: alert_store mem_alert_store mem_alert_update mem_alert_get
  "\<lambda>s. dvalues s" mem_alerts_ok
proof unfold_locales
  fix s k j st ack res a
  assume ok: "mem_alerts_ok s"
  show "mem_alerts_ok (mem_alert_store a s)" using ok by (simp add: mem_alert_store_def mem_alerts_set)
  show "mem_alerts_ok (snd (mem_alert_update k st ack res s))"
    using ok by (auto simp: mem_alert_update_def mem_alerts_set mem_alerts_key split: option.splits)
  show "mem_alert_get k (mem_alert_store a s) = (if k = al_alert_id a then Some a else mem_alert_get k s)"
    by (simp add: mem_alert_get_def mem_alert_store_def)
  show "mem_alert_get j (snd (mem_alert_update k st ack res s)) =
      (if j = k then map_option (with_status st ack res) (mem_alert_get k s) else mem_alert_get j s)"
    by (simp add: mem_alert_get_def mem_alert_update_def split: option.splits)
  show "fst (mem_alert_update k st ack res s) \<longleftrightarrow> mem_alert_get k s \<noteq> None"
    by (simp add: mem_alert_get_def mem_alert_update_def split: option.splits)
  show "a \<in> set (dvalues s) \<longleftrightarrow> mem_alert_get (al_alert_id a) s = Some a"
    using ok mem_alerts_key [OF ok] values_dget [of s a] by (auto simp: mem_alert_get_def mem_alerts_ok_def)
  have "map al_alert_id (dvalues s) = map fst s"
    using ok by (auto simp: mem_alerts_ok_def)
  with ok show "distinct (map al_alert_id (dvalues s))" by (simp add: mem_alerts_ok_def dict_ok_def del: map_map)
qed

definition sql_alerts_ok :: "alert_row list \<Rightarrow> bool" where
  "sql_alerts_ok rows \<longleftrightarrow> distinct (map lr_alert_id rows) \<and> (\<forall>r \<in> set rows. r = alert_row_of (lr_data r))"

lemma alert_row_simps [simp]:
  "lr_alert_id (alert_row_of a) = al_alert_id a" "lr_data (alert_row_of a) = a"
  by (simp_all add: alert_row_of_def)

lemma alert_row_inject [simp]: "alert_row_of a = alert_row_of b \<longleftrightarrow> a = b"
  by (metis alert_row_simps(2))

lemma sql_alert_get_iff:
  assumes "sql_alerts_ok rows"
  shows "sql_alert_get k rows = Some a \<longleftrightarrow> alert_row_of a \<in> set rows \<and> al_alert_id a = k"
proof
  assume "sql_alert_get k rows = Some a"
  then obtain r where "find (\<lambda>r. lr_alert_id r = k) rows = Some r" "lr_data r = a"
    by (auto simp: sql_alert_get_def)
  then have "r \<in> set rows" "lr_alert_id r = k" by (auto simp: find_Some_iff)
  with assms \<open>lr_data r = a\<close> show "alert_row_of a \<in> set rows \<and> al_alert_id a = k"
    by (metis alert_row_simps(1) sql_alerts_ok_def)
next
  assume a: "alert_row_of a \<in> set rows \<and> al_alert_id a = k"
  then obtain r where r: "find (\<lambda>r. lr_alert_id r = k) rows = Some r"
    by (metis (mono_tags, lifting) alert_row_simps(1) find_None_iff option.exhaust)
  then have "r \<in> set rows" "lr_alert_id r = k" by (auto simp: find_Some_iff)
  with a have "r = alert_row_of a"
    using assms inj_onD [of lr_alert_id "set rows" r "alert_row_of a"]
    by (simp add: sql_alerts_ok_def distinct_map)
  with r show "sql_alert_get k rows = Some a" by (simp add: sql_alert_get_def)
qed

lemma sql_alerts_ok_store: "sql_alerts_ok rows \<Longrightarrow> sql_alerts_ok (sql_alert_store a rows)"
  by (auto simp: sql_alerts_ok_def sql_alert_store_def distinct_map_filter)

lemma sql_get_store:
  assumes "sql_alerts_ok rows"
  shows "sql_alert_get k (sql_alert_store a rows) = (if k = al_alert_id a then Some a else sql_alert_get k rows)"
proof -
  have ok: "sql_alerts_ok (sql_alert_store a rows)" using assms by (rule sql_alerts_ok_store)
  have row: "alert_row_of b \<in> set (sql_alert_store a rows) \<longleftrightarrow>
      b = a \<or> (alert_row_of b \<in> set rows \<and> al_alert_id b \<noteq> al_alert_id a)" for b
    by (auto simp: sql_alert_store_def)
  have "sql_alert_get k (sql_alert_store a rows) = Some b \<longleftrightarrow>
      (if k = al_alert_id a then Some a else sql_alert_get k rows) = Some b" for b
    by (auto simp: sql_alert_get_iff [OF ok] sql_alert_get_iff [OF assms] row)
  then show ?thesis by (metis option.exhaust)
qed

interpretation sql_alert: alert_store sql_alert_store sql_alert_update sql_alert_get
  "\<lambda>rows. map lr_data rows" sql_alerts_ok
proof unfold_locales
  fix s k j st ack res a
  assume ok: "sql_alerts_ok s"
  have key: "sql_alert_get k s = Some b \<Longrightarrow> al_alert_id b = k" for k b
    using sql_alert_get_iff [OF ok] by blast
  show "sql_alerts_ok (sql_alert_store a s)" using ok by (rule sql_alerts_ok_store)
  show "sql_alerts_ok (snd (sql_alert_update k st ack res s))"
    using ok by (simp add: sql_alert_update_def sql_alerts_ok_store split: option.splits)
  show "sql_alert_get k (sql_alert_store a s) = (if k = al_alert_id a then Some a else sql_alert_get k s)"
    using ok by (rule sql_get_store)
  show "sql_alert_get j (snd (sql_alert_update k st ack res s)) =
      (if j = k then map_option (with_status st ack res) (sql_alert_get k s) else sql_alert_get j s)"
    by (auto simp: sql_alert_update_def sql_get_store [OF ok] key split: option.splits)
  show "fst (sql_alert_update k st ack res s) \<longleftrightarrow> sql_alert_get k s \<noteq> None"
    by (simp add: sql_alert_update_def split: option.splits)
  show "a \<in> set (map lr_data s) \<longleftrightarrow> sql_alert_get (al_alert_id a) s = Some a"
  proof
    assume "a \<in> set (map lr_data s)"
    then obtain r where "r \<in> set s" "a = lr_data r" by auto
    with ok have "alert_row_of a \<in> set s" by (auto simp: sql_alerts_ok_def)
    then show "sql_alert_get (al_alert_id a) s = Some a" by (simp add: sql_alert_get_iff [OF ok])
  next
    assume "sql_alert_get (al_alert_id a) s = Some a"
    then have "alert_row_of a \<in> set s" by (simp add: sql_alert_get_iff [OF ok])
    then show "a \<in> set (map lr_data s)" by force
  qed
  have "map al_alert_id (map lr_data s) = map lr_alert_id s"
    using ok by (auto simp: sql_alerts_ok_def) (metis alert_row_simps(1))
  with ok show "distinct (map al_alert_id (map lr_data s))" by (simp add: sql_alerts_ok_def del: map_map)
qed

section \<open>The backends agree\<close>

fun mem_alert_step :: "alert_op \<Rightarrow> mem_alerts \<Rightarrow> bool \<times> mem_alerts" where
  "mem_alert_step (StoreAlert a) s = (True, mem_alert_store a s)"
| "mem_alert_step (SetStatus k st ack res) s = mem_alert_update k st ack res s"

fun sql_alert_step :: "alert_op \<Rightarrow> alert_row list \<Rightarrow> bool \<times> alert_row list" where
  "sql_alert_step (StoreAlert a) s = (True, sql_alert_store a s)"
| "sql_alert_step (SetStatus k st ack res) s = sql_alert_update k st ack res s"

lemma mem_alert_step_eq: "mem_alert.step = mem_alert_step"
proof (intro ext)
  show "mem_alert.step x s = mem_alert_step x s" for x s by (cases x) simp_all
qed

lemma sql_alert_step_eq: "sql_alert.step = sql_alert_step"
proof (intro ext)
  show "sql_alert.step x s = sql_alert_step x s" for x s by (cases x) simp_all
qed

lemma severity_value_inject [simp]: "severity_value a = severity_value b \<longleftrightarrow> a = b"
  by (cases a; cases b) simp_all

lemma status_value_inject [simp]: "status_value a = status_value b \<longleftrightarrow> a = b"
  by (cases a; cases b) simp_all

lemma alert_row_matches_iff: "alert_row_matches f (alert_row_of a) = alert_matches f a"
  by (auto simp: alert_row_matches_def alert_matches_def alert_row_of_def split: option.splits)

lemma sql_alert_query_all:
  assumes "sql_alerts_ok rows" "sql_order lr_created_at ord" "length rows \<le> n"
  shows "set (sql_alert_query ord f (int n) rows) = {a \<in> set (map lr_data rows). alert_matches f a}"
proof -
  let ?sel = "filter (alert_row_matches f) rows"
  have d: "distinct ?sel" using assms(1) by (simp add: sql_alerts_ok_def distinct_map)
  then have "distinct (ord ?sel)" "set (ord ?sel) = set ?sel" using assms(2) by (auto simp: sql_order_def)
  then have "length (ord ?sel) = length ?sel" using d by (metis distinct_card)
  also have "\<dots> \<le> n" by (rule le_trans [OF length_filter_le assms(3)])
  finally have "take n (ord ?sel) = ord ?sel" by simp
  then have "set (sql_alert_query ord f (int n) rows) = lr_data ` set ?sel"
    using \<open>set (ord ?sel) = set ?sel\<close> by (simp add: sql_alert_query_def sql_limit_def)
  also have "\<dots> = {a \<in> set (map lr_data rows). alert_matches f a}"
  proof -
    have "alert_row_matches f r = alert_matches f (lr_data r)" if "r \<in> set rows" for r
      using that assms(1) alert_row_matches_iff [of f "lr_data r"] by (simp add: sql_alerts_ok_def)
    then show ?thesis by auto
  qed
  finally show ?thesis .
qed

lemma mem_alert_query_all:
  "length s \<le> n \<Longrightarrow> set (mem_alert_query f (int n) s) = {a \<in> set (dvalues s). alert_matches f a}"
proof -
  assume "length s \<le> n"
  then have "length (dvalues s) \<le> n" by simp
  from le_trans [OF length_filter_le this]
  have "length (filter (alert_matches f) (dvalues s)) \<le> n" .
  then have "slice_last (int n) (filter (alert_matches f) (dvalues s)) = filter (alert_matches f) (dvalues s)"
    by (simp add: slice_last_def)
  then show ?thesis by (auto simp: mem_alert_query_def)
qed

text \<open>
  C18: Both alert stores implement the same abstract store: after any sequence of stores and status
  updates the two give the same answers, hold the same alert under every id (the one the abstract
  map holds), count the same, and a query whose limit covers the store selects the same alerts,
  whatever order the database gives its rows.
\<close>
theorem alert_stores_refine:
  assumes "sql_order lr_created_at ord"
  defines "m \<equiv> \<lambda>xs. alert_run mem_alert_step xs []" and "q \<equiv> \<lambda>xs. alert_run sql_alert_step xs []"
  shows "fst (m xs) = fst (q xs) \<and>
    alert_run spec_step xs Map.empty = (fst (m xs), \<lambda>k. mem_alert_get k (snd (m xs))) \<and>
    (\<forall>k. mem_alert_get k (snd (m xs)) = sql_alert_get k (snd (q xs))) \<and>
    mem_alert_count (snd (m xs)) = sql_alert_count (snd (q xs)) \<and>
    set (mem_alert_query f (int (mem_alert_count (snd (m xs)))) (snd (m xs))) =
      set (sql_alert_query ord f (int (mem_alert_count (snd (m xs)))) (snd (q xs)))"
proof -
  have ok: "mem_alerts_ok []" "sql_alerts_ok []" by (simp_all add: mem_alerts_ok_def sql_alerts_ok_def)
  have empty: "(\<lambda>k. mem_alert_get k []) = Map.empty" "(\<lambda>k. sql_alert_get k []) = Map.empty"
    by (simp_all add: mem_alert_get_def sql_alert_get_def)
  have m: "alert_run spec_step xs Map.empty = (fst (m xs), \<lambda>k. mem_alert_get k (snd (m xs)))"
    using mem_alert.run_refines [OF ok(1), of xs] by (simp add: m_def mem_alert_step_eq empty)
  have q: "alert_run spec_step xs Map.empty = (fst (q xs), \<lambda>k. sql_alert_get k (snd (q xs)))"
    using sql_alert.run_refines [OF ok(2), of xs] by (simp add: q_def sql_alert_step_eq empty)
  have oks: "mem_alerts_ok (snd (m xs))" "sql_alerts_ok (snd (q xs))"
    using mem_alert.run_ok [OF ok(1), of xs] sql_alert.run_ok [OF ok(2), of xs]
    by (simp_all add: m_def q_def mem_alert_step_eq sql_alert_step_eq)
  from m q have flags: "fst (m xs) = fst (q xs)"
    and "(\<lambda>k. mem_alert_get k (snd (m xs))) = (\<lambda>k. sql_alert_get k (snd (q xs)))"
    by simp_all
  then have get: "mem_alert_get k (snd (m xs)) = sql_alert_get k (snd (q xs))" for k
    by (simp add: fun_eq_iff)
  have n: "length (snd (m xs)) = length (snd (q xs))"
    using mem_alert.length_alerts [OF oks(1)] sql_alert.length_alerts [OF oks(2)] by (simp add: get)
  have "set (dvalues (snd (m xs))) = set (map lr_data (snd (q xs)))"
    by (intro set_eqI, subst mem_alert.alerts_get [OF oks(1)], subst sql_alert.alerts_get [OF oks(2)])
      (simp only: get)
  then have "set (mem_alert_query f (int (length (snd (m xs)))) (snd (m xs))) =
      set (sql_alert_query ord f (int (length (snd (m xs)))) (snd (q xs)))"
    unfolding mem_alert_query_all [OF order_refl] sql_alert_query_all [OF oks(2) assms(1) eq_refl [OF n [symmetric]]]
    by simp
  then show ?thesis
    unfolding mem_alert_count_def sql_alert_count_def m fst_conv snd_conv by (intro conjI allI flags refl get n)
qed

definition demo_alert :: cost_alert where
  "demo_alert = \<lparr>al_alert_id = ''a1'', al_created_at = 0, al_severity = WARNING, al_provider = AWS,
     al_account_id = [], al_region = [], al_title = [], al_summary = [], al_resource_creator = [],
     al_creator_email = [], al_team = [], al_cost_centre = [], al_resource_type = [],
     al_resource_id = [], al_resource_name = [], al_cost = 0, al_threshold_exceeded_usd = 0,
     al_baseline_monthly_usd = 0, al_cost_increase_percentage = 0, al_recommended_actions = [],
     al_accountability_note = [], al_escalation_path = [], al_status = PENDING,
     al_acknowledged_by = [], al_resolved_by = [], al_source_event_id = [], al_correlation_id = [],
     al_policy_id = []\<rparr>"

theorem alert_stores_refine_witness:
  "map_option al_status (sql_alert_get ''a1'' (snd (alert_run sql_alert_step
     [StoreAlert demo_alert, SetStatus ''a1'' RESOLVED [] ''bob''] []))) = Some RESOLVED"
proof -
  let ?xs = "[StoreAlert demo_alert, SetStatus ''a1'' RESOLVED [] ''bob'']"
  have "sorted_wrt (\<lambda>a b. lr_created_at a \<le> lr_created_at b) (sort_key lr_created_at rows)"
    for rows :: "alert_row list"
    using sorted_sort_key [of lr_created_at rows] by (simp add: sorted_wrt_map)
  then have "sql_order lr_created_at (\<lambda>rows :: alert_row list. rev (sort_key lr_created_at rows))"
    by (simp add: sql_order_def sorted_wrt_rev)
  from alert_stores_refine [OF this, of ?xs]
  have "mem_alert_get ''a1'' (snd (alert_run mem_alert_step ?xs [])) =
      sql_alert_get ''a1'' (snd (alert_run sql_alert_step ?xs []))" by blast
  moreover have "map_option al_status (mem_alert_get ''a1'' (snd (alert_run mem_alert_step ?xs []))) = Some RESOLVED"
    by (simp add: mem_alert_store_def mem_alert_update_def mem_alert_get_def demo_alert_def with_status_def Let_def)
  ultimately show ?thesis by simp
qed

end
