(* ===== verification/Audit_Trail.thy ===== *)
theory Audit_Trail
  imports Models
begin

text \<open>
  The audit trail, \<open>core/audit.py\<close>: the checksum chain of \<open>AuditLogger\<close>, its day-rolled
  files, verification, loading with chain verification, queries, the compliance export and the
  signed daily manifest. SHA-256 and HMAC are parameters (\<open>sha\<close>, \<open>hmac\<close>), the Ed25519 key of
  the \<open>cryptography\<close> package another. A file \<open>audit-YYYY-MM-DD.jsonl\<close> is keyed by the day
  number its name encodes, so that sorting the files by name is sorting by that key; a line of it
  is blank, an entry (the JSON of its fields read back), or text that is not JSON.
\<close>

section \<open>State\<close>

datatype audit_line = Blank | Entry audit_entry | Garbage string

record audit_logger =
  au_entries :: "audit_entry list"
  au_previous_checksum :: string
  au_disk :: "(int, audit_line list) dict"

record log_args =
  la_action :: string
  la_actor :: string
  la_target :: string
  la_provider :: "cloud_provider option"
  la_details :: "(string, pyval) dict"
  la_outcome :: string
  la_related_alert_id :: string
  la_related_policy_id :: string
  la_correlation_id :: string
  la_causation_id :: string

text \<open>What a call draws from its surroundings: the fresh id, the clock, whether the write works.\<close>

record log_env =
  le_audit_id :: string
  le_now :: timestamp
  le_write_ok :: bool

definition default_args :: "string \<Rightarrow> string \<Rightarrow> string \<Rightarrow> log_args" where
  "default_args action actor target =
     \<lparr>la_action = action, la_actor = actor, la_target = target, la_provider = None,
      la_details = [], la_outcome = ''success'', la_related_alert_id = [],
      la_related_policy_id = [], la_correlation_id = [], la_causation_id = []\<rparr>"

definition init_audit :: "(int, audit_line list) dict \<Rightarrow> audit_logger" where
  "init_audit disk = \<lparr>au_entries = [], au_previous_checksum = [], au_disk = disk\<rparr>"

section \<open>Checksums, logging and persistence\<close>

definition checksum_payload :: "string \<Rightarrow> audit_entry \<Rightarrow> string" where
  "checksum_payload prev e =
     prev @ ''|'' @ ae_audit_id e @ ''|'' @ isoformat (ae_timestamp e) @ ''|'' @
     ae_action e @ ''|'' @ ae_actor e @ ''|'' @ ae_target e @ ''|'' @ ae_outcome e"

definition compute_checksum :: "(string \<Rightarrow> string) \<Rightarrow> string \<Rightarrow> audit_entry \<Rightarrow> string" where
  "compute_checksum sha prev e = sha (checksum_payload prev e)"

definition append_line :: "int \<Rightarrow> audit_line \<Rightarrow> (int, audit_line list) dict \<Rightarrow>
    (int, audit_line list) dict" where
  "append_line day l disk = dset disk day (dget_or disk day [] @ [l])"

definition persist_entry :: "bool \<Rightarrow> audit_entry \<Rightarrow> audit_logger \<Rightarrow> audit_logger" where
  "persist_entry write_ok e s =
     (if write_ok
      then s\<lparr>au_disk := append_line (day_of (ae_timestamp e)) (Entry e) (au_disk s)\<rparr> else s)"

definition make_entry :: "log_args \<Rightarrow> log_env \<Rightarrow> audit_entry" where
  "make_entry a v =
     \<lparr>ae_audit_id = le_audit_id v, ae_timestamp = le_now v, ae_action = la_action a,
      ae_actor = la_actor a, ae_target = la_target a, ae_provider = la_provider a,
      ae_correlation_id = la_correlation_id a, ae_causation_id = la_causation_id a,
      ae_details = la_details a, ae_outcome = la_outcome a,
      ae_related_alert_id = la_related_alert_id a,
      ae_related_policy_id = la_related_policy_id a, ae_checksum = []\<rparr>"

definition log_entry :: "(string \<Rightarrow> string) \<Rightarrow> log_args \<Rightarrow> log_env \<Rightarrow> audit_logger \<Rightarrow>
    audit_entry \<times> audit_logger" where
  "log_entry sha a v s =
     (let e0 = make_entry a v;
          e = e0\<lparr>ae_checksum := compute_checksum sha (au_previous_checksum s) e0\<rparr>;
          s1 = s\<lparr>au_entries := au_entries s @ [e], au_previous_checksum := ae_checksum e\<rparr>
      in (e, persist_entry (le_write_ok v) e s1))"

section \<open>Queries\<close>

definition MAX_AUDIT_QUERY :: int where
  "MAX_AUDIT_QUERY = 10000"

definition get_entries :: "string option \<Rightarrow> string option \<Rightarrow> cloud_provider option \<Rightarrow>
    timestamp option \<Rightarrow> int \<Rightarrow> audit_logger \<Rightarrow> audit_entry list" where
  "get_entries action actor provider since limit s =
     (let limit = min limit MAX_AUDIT_QUERY;
          r = au_entries s;
          r = (case action of Some a \<Rightarrow> if a = [] then r else filter (\<lambda>e. ae_action e = a) r
               | None \<Rightarrow> r);
          r = (case actor of Some a \<Rightarrow> if a = [] then r else filter (\<lambda>e. ae_actor e = a) r
               | None \<Rightarrow> r);
          r = (case provider of Some p \<Rightarrow> filter (\<lambda>e. ae_provider e = Some p) r | None \<Rightarrow> r);
          r = (case since of Some t \<Rightarrow> filter (\<lambda>e. t \<le> ae_timestamp e) r | None \<Rightarrow> r)
      in slice_last limit r)"

section \<open>Integrity\<close>

record violation =
  vi_audit_id :: string
  vi_timestamp :: string
  vi_action :: string
  vi_expected :: string
  vi_actual :: string

definition mk_violation :: "string \<Rightarrow> audit_entry \<Rightarrow> violation" where
  "mk_violation expected e =
     \<lparr>vi_audit_id = ae_audit_id e, vi_timestamp = isoformat (ae_timestamp e),
      vi_action = ae_action e, vi_expected = expected, vi_actual = ae_checksum e\<rparr>"

fun verify_from :: "(string \<Rightarrow> string) \<Rightarrow> string \<Rightarrow> audit_entry list \<Rightarrow> violation list" where
  "verify_from sha prev [] = []"
| "verify_from sha prev (e # es) =
     (let expected = compute_checksum sha prev e
      in (if ae_checksum e \<noteq> expected then [mk_violation expected e] else []) @
         verify_from sha (ae_checksum e) es)"

definition verify_integrity :: "(string \<Rightarrow> string) \<Rightarrow> audit_logger \<Rightarrow> violation list" where
  "verify_integrity sha s = verify_from sha [] (au_entries s)"

section \<open>Loading from disk\<close>

datatype load_error =
    JSONDecodeError int nat
  | AuditChainBroken int nat string string string

text \<open>
  One file, line by line. \<open>acc\<close> are the entries loaded so far (\<open>self._entries\<close> is extended as
  the loop runs, so an error leaves them behind), \<open>prev\<close> the running checksum.
\<close>

fun load_lines :: "(string \<Rightarrow> string) \<Rightarrow> bool \<Rightarrow> int \<Rightarrow> nat \<Rightarrow> audit_line list \<Rightarrow>
    audit_entry list \<Rightarrow> string \<Rightarrow> load_error option \<times> audit_entry list \<times> string" where
  "load_lines sha strict day n [] acc prev = (None, acc, prev)"
| "load_lines sha strict day n (Blank # ls) acc prev =
     load_lines sha strict day (Suc n) ls acc prev"
| "load_lines sha strict day n (Garbage t # ls) acc prev = (Some (JSONDecodeError day n), acc, prev)"
| "load_lines sha strict day n (Entry e # ls) acc prev =
     (let expected = compute_checksum sha prev e
      in if ae_checksum e \<noteq> expected \<and> strict
         then (Some (AuditChainBroken day n (ae_audit_id e) expected (ae_checksum e)), acc, prev)
         else load_lines sha strict day (Suc n) ls (acc @ [e]) (ae_checksum e))"

fun load_files :: "(string \<Rightarrow> string) \<Rightarrow> bool \<Rightarrow> (int \<times> audit_line list) list \<Rightarrow>
    audit_entry list \<Rightarrow> string \<Rightarrow> load_error option \<times> audit_entry list \<times> string" where
  "load_files sha strict [] acc prev = (None, acc, prev)"
| "load_files sha strict ((day, ls) # fs) acc prev =
     (case load_lines sha strict day 1 ls acc prev of
        (Some err, acc', prev') \<Rightarrow> (Some err, acc', prev')
      | (None, acc', prev') \<Rightarrow> load_files sha strict fs acc' prev')"

definition load_from_disk :: "(string \<Rightarrow> string) \<Rightarrow> bool \<Rightarrow> audit_logger \<Rightarrow>
    (load_error + nat) \<times> audit_logger" where
  "load_from_disk sha strict s =
     (case load_files sha strict (sort_key fst (au_disk s)) (au_entries s) [] of
        (Some err, es, prev) \<Rightarrow> (Inl err, s\<lparr>au_entries := es\<rparr>)
      | (None, es, prev) \<Rightarrow>
          (Inr (length es - length (au_entries s)),
           s\<lparr>au_entries := es, au_previous_checksum := prev\<rparr>))"

section \<open>Signing, manifests and exports\<close>

record signer =
  sg_ed25519 :: "string \<Rightarrow> (string \<Rightarrow> string) option"
  sg_hmac :: "string \<Rightarrow> string \<Rightarrow> string"

definition zero_key :: string where
  "zero_key = replicate 32 (char_of (0::nat))"

definition try_load_ed25519 :: "signer \<Rightarrow> string \<Rightarrow> (string \<Rightarrow> string) option" where
  "try_load_ed25519 sg material =
     (if material = [] \<or> \<not> substr ''BEGIN'' material then None else sg_ed25519 sg material)"

definition sign_with_algo :: "signer \<Rightarrow> string \<Rightarrow> string \<Rightarrow> string \<times> string" where
  "sign_with_algo sg key data =
     (case try_load_ed25519 sg key of
        Some sign \<Rightarrow> (sign data, ''ed25519'')
      | None \<Rightarrow>
          if 32 \<le> length key then (sg_hmac sg key data, ''hmac-sha256'')
          else (sg_hmac sg zero_key data, ''hmac-sha256-unkeyed''))"

definition sign :: "signer \<Rightarrow> string \<Rightarrow> string \<Rightarrow> string" where
  "sign sg key data = fst (sign_with_algo sg key data)"

record manifest =
  mf_date :: string
  mf_file :: string
  mf_file_sha256 :: string
  mf_entry_count :: nat
  mf_last_checksum :: string

datatype manifest_error = FileNotFound string | ManifestJSONError

definition nonblank :: "audit_line \<Rightarrow> bool" where
  "nonblank l \<longleftrightarrow> l \<noteq> Blank"

definition last_line_checksum :: "audit_line list \<Rightarrow> manifest_error + string" where
  "last_line_checksum ls =
     (case rev (filter nonblank ls) of
        [] \<Rightarrow> Inr []
      | Entry e # _ \<Rightarrow> Inr (ae_checksum e)
      | _ # _ \<Rightarrow> Inl ManifestJSONError)"

text \<open>
  \<open>text_of\<close> is the text of a file's lines and \<open>dumps\<close> the canonical JSON of the payload.
  \<open>splitlines\<close> and the stripping of each line give the non-blank lines of the file.
\<close>

definition write_daily_manifest :: "(string \<Rightarrow> string) \<Rightarrow> signer \<Rightarrow> string \<Rightarrow>
    (audit_line list \<Rightarrow> string) \<Rightarrow> (manifest \<Rightarrow> string) \<Rightarrow> timestamp \<Rightarrow> audit_logger \<Rightarrow>
    manifest_error + (manifest \<times> string)" where
  "write_daily_manifest sha sg key text_of dumps date s =
     (let date_s = date_str date; file = ''audit-'' @ date_s @ ''.jsonl''
      in case dget (au_disk s) (day_of date) of
           None \<Rightarrow> Inl (FileNotFound file)
         | Some ls \<Rightarrow>
             (case last_line_checksum ls of
                Inl err \<Rightarrow> Inl err
              | Inr lastc \<Rightarrow>
                  (let payload = \<lparr>mf_date = date_s, mf_file = file,
                         mf_file_sha256 = sha (text_of ls),
                         mf_entry_count = length (filter nonblank ls),
                         mf_last_checksum = lastc\<rparr>
                   in Inr (payload, sign sg key (dumps payload)))))"

record export_row =
  er_audit_id :: string
  er_timestamp :: string
  er_action :: string
  er_actor :: string
  er_target :: string
  er_provider :: "string option"
  er_outcome :: string
  er_details :: "(string, pyval) dict"
  er_integrity_checksum :: string

definition export_row_of :: "audit_entry \<Rightarrow> export_row" where
  "export_row_of e =
     \<lparr>er_audit_id = ae_audit_id e, er_timestamp = isoformat (ae_timestamp e),
      er_action = ae_action e, er_actor = ae_actor e, er_target = ae_target e,
      er_provider = map_option provider_value (ae_provider e), er_outcome = ae_outcome e,
      er_details = ae_details e, er_integrity_checksum = ae_checksum e\<rparr>"

definition export_for_compliance :: "timestamp option \<Rightarrow> timestamp option \<Rightarrow> audit_logger \<Rightarrow>
    export_row list" where
  "export_for_compliance since til s =
     (let es = au_entries s;
          es = (case since of None \<Rightarrow> es | Some t \<Rightarrow> filter (\<lambda>e. t \<le> ae_timestamp e) es);
          es = (case til of None \<Rightarrow> es | Some t \<Rightarrow> filter (\<lambda>e. ae_timestamp e \<le> t) es)
      in map export_row_of es)"

record signed_export =
  sx_exported_at :: string
  sx_since :: "string option"
  sx_until :: "string option"
  sx_entries :: "export_row list"

definition export_signed :: "signer \<Rightarrow> string \<Rightarrow> (signed_export \<Rightarrow> string) \<Rightarrow> timestamp \<Rightarrow>
    timestamp option \<Rightarrow> timestamp option \<Rightarrow> audit_logger \<Rightarrow>
    signed_export \<times> string \<times> string" where
  "export_signed sg key dumps now since til s =
     (let payload = \<lparr>sx_exported_at = isoformat now, sx_since = map_option isoformat since,
            sx_until = map_option isoformat til,
            sx_entries = export_for_compliance since til s\<rparr>
      in (payload, sign_with_algo sg key (dumps payload)))"

section \<open>The chain invariant\<close>

text \<open>Every checksum is the hash over its predecessor's; \<open>chain_head\<close> is the last one.\<close>

fun chain_ok :: "(string \<Rightarrow> string) \<Rightarrow> string \<Rightarrow> audit_entry list \<Rightarrow> bool" where
  "chain_ok sha prev [] = True"
| "chain_ok sha prev (e # es) =
     (ae_checksum e = compute_checksum sha prev e \<and> chain_ok sha (ae_checksum e) es)"

fun chain_head :: "string \<Rightarrow> audit_entry list \<Rightarrow> string" where
  "chain_head prev [] = prev"
| "chain_head prev (e # es) = chain_head (ae_checksum e) es"

definition audit_ok :: "(string \<Rightarrow> string) \<Rightarrow> audit_logger \<Rightarrow> bool" where
  "audit_ok sha s \<longleftrightarrow>
     chain_ok sha [] (au_entries s) \<and> au_previous_checksum s = chain_head [] (au_entries s)"

lemma chain_head_append [simp]: "chain_head p (xs @ ys) = chain_head (chain_head p xs) ys"
  by (induction xs arbitrary: p) auto

lemma chain_ok_append [simp]:
  "chain_ok sha p (xs @ ys) \<longleftrightarrow> chain_ok sha p xs \<and> chain_ok sha (chain_head p xs) ys"
  by (induction xs arbitrary: p) auto

lemma verify_from_append [simp]:
  "verify_from sha p (xs @ ys) = verify_from sha p xs @ verify_from sha (chain_head p xs) ys"
  by (induction xs arbitrary: p) (auto simp: Let_def)

lemma verify_from_Nil_iff: "verify_from sha p es = [] \<longleftrightarrow> chain_ok sha p es"
  by (induction es arbitrary: p) (auto simp: Let_def)

lemma payload_checksum_update [simp]:
  "checksum_payload p (e\<lparr>ae_checksum := c\<rparr>) = checksum_payload p e"
  by (simp add: checksum_payload_def)

lemma log_entry_entries [simp]:
  "au_entries (snd (log_entry sha a v s)) = au_entries s @ [fst (log_entry sha a v s)]"
  by (simp add: log_entry_def persist_entry_def Let_def)

lemma log_entry_previous:
  "au_previous_checksum (snd (log_entry sha a v s)) = ae_checksum (fst (log_entry sha a v s))"
  by (simp add: log_entry_def persist_entry_def Let_def)

lemma log_entry_checksum:
  "ae_checksum (fst (log_entry sha a v s)) =
     compute_checksum sha (au_previous_checksum s) (fst (log_entry sha a v s))"
  by (simp add: log_entry_def compute_checksum_def Let_def)

lemma log_entry_fields [simp]:
  "ae_audit_id (fst (log_entry sha a v s)) = le_audit_id v"
  "ae_timestamp (fst (log_entry sha a v s)) = le_now v"
  "ae_action (fst (log_entry sha a v s)) = la_action a"
  "ae_actor (fst (log_entry sha a v s)) = la_actor a"
  "ae_target (fst (log_entry sha a v s)) = la_target a"
  "ae_provider (fst (log_entry sha a v s)) = la_provider a"
  "ae_details (fst (log_entry sha a v s)) = la_details a"
  "ae_outcome (fst (log_entry sha a v s)) = la_outcome a"
  "ae_correlation_id (fst (log_entry sha a v s)) = la_correlation_id a"
  "ae_causation_id (fst (log_entry sha a v s)) = la_causation_id a"
  "ae_related_alert_id (fst (log_entry sha a v s)) = la_related_alert_id a"
  "ae_related_policy_id (fst (log_entry sha a v s)) = la_related_policy_id a"
  by (simp_all add: log_entry_def make_entry_def Let_def)

lemma audit_ok_init [simp, inv_intros]: "audit_ok sha (init_audit disk)"
  by (simp add: audit_ok_def init_audit_def)

lemma audit_ok_log [simp, inv_intros]:
  "audit_ok sha s \<Longrightarrow> audit_ok sha (snd (log_entry sha a v s))"
  by (simp add: audit_ok_def log_entry_previous log_entry_checksum)

lemma audit_ok_verify: "audit_ok sha s \<Longrightarrow> verify_integrity sha s = []"
  by (simp add: audit_ok_def verify_integrity_def verify_from_Nil_iff)

section \<open>The interface the rest of the hub relies on\<close>

text \<open>
  Policy engines, agents and the memory adapter only ever call \<open>log\<close>. What they rely on: a call
  appends the entry it returns, and keeps the sink's integrity.
\<close>

locale audit_sink =
  fixes emit :: "'args \<Rightarrow> 'env \<Rightarrow> 's \<Rightarrow> 'e \<times> 's"
    and entries :: "'s \<Rightarrow> 'e list"
    and ok :: "'s \<Rightarrow> bool"
  assumes emit_appends: "entries (snd (emit a v s)) = entries s @ [fst (emit a v s)]"
    and emit_ok: "ok s \<Longrightarrow> ok (snd (emit a v s))"
begin

fun emit_all :: "('args \<times> 'env) list \<Rightarrow> 's \<Rightarrow> 's" where
  "emit_all [] s = s"
| "emit_all ((a, v) # cs) s = emit_all cs (snd (emit a v s))"

lemma emit_all_ok: "ok s \<Longrightarrow> ok (emit_all cs s)"
  by (induction cs s rule: emit_all.induct) (auto intro: emit_ok)

lemma emit_all_extends: "\<exists>es. length es = length cs \<and> entries (emit_all cs s) = entries s @ es"
proof (induction cs s rule: emit_all.induct)
  case (2 a v cs s)
  then obtain es where "length es = length cs"
    "entries (emit_all cs (snd (emit a v s))) = entries (snd (emit a v s)) @ es"
    by blast
  then show ?case
    by (intro exI [of _ "fst (emit a v s) # es"]) (simp add: emit_appends)
qed simp

lemma emit_all_append_only: "take (length (entries s)) (entries (emit_all cs s)) = entries s"
  using emit_all_extends [of cs s] by auto

end

interpretation audit: audit_sink "log_entry sha" au_entries "audit_ok sha" for sha
  by unfold_locales (simp_all add: inv_intros)

text \<open>A sequence of \<open>log\<close> calls, at the top level.\<close>

fun log_all :: "(string \<Rightarrow> string) \<Rightarrow> (log_args \<times> log_env) list \<Rightarrow> audit_logger \<Rightarrow> audit_logger" where
  "log_all sha [] s = s"
| "log_all sha ((a, v) # cs) s = log_all sha cs (snd (log_entry sha a v s))"

lemma log_all_emit_all: "log_all sha cs s = audit.emit_all sha cs s"
  by (induction sha cs s rule: log_all.induct) auto

lemma log_all_ok: "audit_ok sha s \<Longrightarrow> audit_ok sha (log_all sha cs s)"
  by (simp add: log_all_emit_all audit.emit_all_ok)

section \<open>What a checksum covers\<close>

definition covered :: "audit_entry \<Rightarrow> string list" where
  "covered e = [ae_audit_id e, isoformat (ae_timestamp e), ae_action e, ae_actor e, ae_target e,
     ae_outcome e]"

definition pipe_free :: "audit_entry \<Rightarrow> bool" where
  "pipe_free e \<longleftrightarrow> (\<forall>f \<in> set (covered e). CHR ''|'' \<notin> set f)"

lemma isoformat_pipe_free: "CHR ''|'' \<notin> set (isoformat t)"
  using isoformat_chars [of t] by (auto simp: iso_chars_def)

lemma payload_inject:
  assumes "pipe_free e" "pipe_free e'" "CHR ''|'' \<notin> set p" "CHR ''|'' \<notin> set q"
    and eq: "checksum_payload p e = checksum_payload q e'"
  shows "p = q" and "covered e = covered e'"
proof -
  have free: "CHR ''|'' \<notin> set (ae_audit_id e)" "CHR ''|'' \<notin> set (ae_audit_id e')"
    "CHR ''|'' \<notin> set (ae_action e)" "CHR ''|'' \<notin> set (ae_action e')"
    "CHR ''|'' \<notin> set (ae_actor e)" "CHR ''|'' \<notin> set (ae_actor e')"
    "CHR ''|'' \<notin> set (ae_target e)" "CHR ''|'' \<notin> set (ae_target e')"
    using assms(1,2) by (simp_all add: pipe_free_def covered_def)
  note split = append_sep_inject [of "CHR ''|''"]
  from eq have "p = q \<and> ae_audit_id e = ae_audit_id e'
      \<and> isoformat (ae_timestamp e) = isoformat (ae_timestamp e') \<and> ae_action e = ae_action e'
      \<and> ae_actor e = ae_actor e' \<and> ae_target e = ae_target e' \<and> ae_outcome e = ae_outcome e'"
    using free assms(3,4) isoformat_pipe_free
    by (simp add: checksum_payload_def split)
  then show "p = q" and "covered e = covered e'" by (simp_all add: covered_def)
qed

text \<open>The hashed payloads of a chain, in order.\<close>

fun payloads :: "string \<Rightarrow> audit_entry list \<Rightarrow> string list" where
  "payloads prev [] = []"
| "payloads prev (e # es) = checksum_payload prev e # payloads (ae_checksum e) es"

lemma payloads_append [simp]: "payloads p (xs @ ys) = payloads p xs @ payloads (chain_head p xs) ys"
  by (induction xs arbitrary: p) auto

text \<open>A collision: two different texts hashed in the two trails, with the same hash.\<close>

definition collision :: "(string \<Rightarrow> string) \<Rightarrow> string list \<Rightarrow> string list \<Rightarrow> bool" where
  "collision sha xs ys \<longleftrightarrow> (\<exists>x \<in> set xs. \<exists>y \<in> set ys. x \<noteq> y \<and> sha x = sha y)"

lemma chain_head_pipe_free:
  assumes "\<And>x. CHR ''|'' \<notin> set (sha x)" and "chain_ok sha [] es"
  shows "CHR ''|'' \<notin> set (chain_head [] es)"
  using assms(2) by (cases es rule: rev_cases) (auto simp: assms(1) compute_checksum_def)

lemma chain_head_binds:
  assumes hex: "\<And>x. sha x \<noteq> [] \<and> CHR ''|'' \<notin> set (sha x)"
  shows "chain_ok sha [] es \<Longrightarrow> chain_ok sha [] es' \<Longrightarrow> chain_head [] es = chain_head [] es' \<Longrightarrow>
    \<forall>e \<in> set es. pipe_free e \<Longrightarrow> \<forall>e \<in> set es'. pipe_free e \<Longrightarrow>
    map covered es = map covered es' \<or> collision sha (payloads [] es) (payloads [] es')"
proof (induction es arbitrary: es' rule: rev_induct)
  case Nil
  then show ?case
    using hex [THEN conjunct1] hex [THEN conjunct1, THEN not_sym]
    by (cases es' rule: rev_cases) (auto simp: compute_checksum_def)
next
  case (snoc e es)
  show ?case
  proof (cases es' rule: rev_cases)
    case Nil
    with snoc.prems show ?thesis using hex by (auto simp: compute_checksum_def)
  next
    case (snoc fs f)
    let ?x = "checksum_payload (chain_head [] es) e" and ?y = "checksum_payload (chain_head [] fs) f"
    have chains: "chain_ok sha [] es" "chain_ok sha [] fs"
      and same: "sha ?x = sha ?y"
      using snoc snoc.prems by (auto simp: compute_checksum_def)
    show ?thesis
    proof (cases "?x = ?y")
      case False
      with same snoc show ?thesis by (auto simp: collision_def)
    next
      case True
      have pf: "pipe_free e" "pipe_free f" using snoc snoc.prems by auto
      note free = chain_head_pipe_free [OF _ chains(1)] chain_head_pipe_free [OF _ chains(2)]
      have inj: "chain_head [] es = chain_head [] fs" "covered e = covered f"
        using payload_inject [OF pf free True] hex by auto
      have "map covered es = map covered fs \<or> collision sha (payloads [] es) (payloads [] fs)"
        using snoc.IH [OF chains inj(1)] snoc snoc.prems by auto
      then show ?thesis using snoc inj(2) by (auto simp: collision_def)
    qed
  qed
qed

section \<open>Loading what was logged\<close>

definition disk_lines :: "(int, audit_line list) dict \<Rightarrow> audit_line list" where
  "disk_lines d = concat (map snd d)"

text \<open>The files are in date order, none is later than \<open>day\<close>, and together they hold the trail.\<close>

definition disk_ok :: "int \<Rightarrow> audit_logger \<Rightarrow> bool" where
  "disk_ok day s \<longleftrightarrow>
     sorted_wrt (<) (map fst (au_disk s)) \<and> (\<forall>d \<in> set (map fst (au_disk s)). d \<le> day) \<and>
     disk_lines (au_disk s) = map Entry (au_entries s)"

lemma append_line_last:
  assumes "sorted_wrt (<) (map fst d)" "\<forall>k \<in> set (map fst d). k \<le> day"
  shows "sorted_wrt (<) (map fst (append_line day l d)) \<and>
    (\<forall>k \<in> set (map fst (append_line day l d)). k \<le> day) \<and>
    disk_lines (append_line day l d) = disk_lines d @ [l]"
  using assms
proof (induction d)
  case Nil
  then show ?case by (simp add: append_line_def dset_def dget_or_def disk_lines_def)
next
  case (Cons p d)
  obtain k ls where p: "p = (k, ls)" by fastforce
  show ?case
  proof (cases "k = day")
    case True
    with Cons.prems p have "d = []" by (cases d) force+
    with True p show ?thesis
      by (simp add: append_line_def dset_def dget_or_def dget_def disk_lines_def)
  next
    case False
    then have step: "append_line day l (p # d) = p # append_line day l d"
      using p by (simp add: append_line_def dset_def dget_or_def dget_def)
    have less: "k < day" and "\<forall>j \<in> set (map fst d). k < j"
      using False Cons.prems p by auto
    moreover have "j = day \<or> j \<in> set (map fst d)" if "j \<in> set (map fst (append_line day l d))" for j
      using that by (simp add: append_line_def dset_def update_keys split: if_splits) blast?
    ultimately have "\<forall>j \<in> set (map fst (append_line day l d)). k < j" by blast
    moreover note Cons.IH Cons.prems
    ultimately show ?thesis using step p less by (simp add: disk_lines_def)
  qed
qed

lemma disk_ok_log:
  assumes "disk_ok day s" "day \<le> day_of (le_now v)" "le_write_ok v"
  shows "disk_ok (day_of (le_now v)) (snd (log_entry sha a v s))"
proof -
  let ?e = "fst (log_entry sha a v s)"
  have disk: "au_disk (snd (log_entry sha a v s))
      = append_line (day_of (le_now v)) (Entry ?e) (au_disk s)"
    using assms(3) by (simp add: log_entry_def persist_entry_def make_entry_def Let_def)
  have "\<forall>k \<in> set (map fst (au_disk s)). k \<le> day_of (le_now v)"
    using assms(1,2) by (auto simp: disk_ok_def)
  then show ?thesis
    using append_line_last [of "au_disk s" "day_of (le_now v)" "Entry ?e"] assms(1) disk
    by (simp add: disk_ok_def)
qed

text \<open>The days of the calls never go back, and every write works.\<close>

fun orderly :: "int \<Rightarrow> (log_args \<times> log_env) list \<Rightarrow> bool" where
  "orderly day [] = True"
| "orderly day ((a, v) # cs) =
     (day \<le> day_of (le_now v) \<and> le_write_ok v \<and> orderly (day_of (le_now v)) cs)"

lemma disk_ok_log_all: "disk_ok day s \<Longrightarrow> orderly day cs \<Longrightarrow> \<exists>d. disk_ok d (log_all sha cs s)"
  by (induction sha cs s arbitrary: day rule: log_all.induct) (auto intro: disk_ok_log)

lemma load_lines_chain:
  "chain_ok sha prev es \<Longrightarrow>
   load_lines sha strict day n (map Entry es) acc prev = (None, acc @ es, chain_head prev es)"
  by (induction es arbitrary: n acc prev) (auto simp: Let_def)

lemma load_files_chain:
  "concat (map snd fs) = map Entry es \<Longrightarrow> chain_ok sha prev es \<Longrightarrow>
   load_files sha strict fs acc prev = (None, acc @ es, chain_head prev es)"
proof (induction fs arbitrary: es acc prev)
  case (Cons f fs)
  obtain day ls where f: "f = (day, ls)" by fastforce
  with Cons.prems(1) have cat: "ls @ concat (map snd fs) = map Entry es" by simp
  then obtain xs ys where es: "es = xs @ ys" "ls = map Entry xs" "concat (map snd fs) = map Entry ys"
    by (auto simp: append_eq_map_conv)
  with Cons.prems(2) show ?case
    using Cons.IH [OF es(3), of "chain_head prev xs" "acc @ xs"] f
    by (simp add: load_lines_chain)
qed simp

lemma load_own_disk:
  assumes "disk_ok day s" "audit_ok sha s"
  shows "load_from_disk sha strict (init_audit (au_disk s)) = (Inr (length (au_entries s)), s)"
proof -
  have sorted: "sort_key fst (au_disk s) = au_disk s"
  proof -
    have "sorted (map fst (au_disk s))"
      using assms(1) by (auto simp: disk_ok_def intro: strict_sorted_imp_sorted)
    then show ?thesis by (rule sort_key_id_if_sorted)
  qed
  have "load_files sha strict (au_disk s) [] [] = (None, au_entries s, chain_head [] (au_entries s))"
    using load_files_chain [of "au_disk s" "au_entries s" sha "[]" strict "[]"] assms
    by (simp add: disk_ok_def audit_ok_def disk_lines_def)
  then show ?thesis
    using assms(2) by (simp add: load_from_disk_def init_audit_def sorted audit_ok_def)
qed

text \<open>What strict loading accepts is a chain, whatever wrote the files.\<close>

lemma load_lines_strict:
  "load_lines sha True day n ls acc prev = (None, acc', prev') \<Longrightarrow>
   \<exists>es. acc' = acc @ es \<and> chain_ok sha prev es \<and> prev' = chain_head prev es"
proof (induction sha "True" day n ls acc prev rule: load_lines.induct)
  case (4 sha day n e ls acc prev)
  then have ok: "ae_checksum e = compute_checksum sha prev e"
    by (auto simp: Let_def split: if_splits)
  with "4.prems" have "load_lines sha True day (Suc n) ls (acc @ [e]) (ae_checksum e) = (None, acc', prev')"
    by simp
  with "4.hyps" ok obtain es where "acc' = (acc @ [e]) @ es" "chain_ok sha (ae_checksum e) es"
    "prev' = chain_head (ae_checksum e) es" by blast
  with ok show ?case by (intro exI [of _ "e # es"]) simp
qed auto

lemma load_files_strict:
  "load_files sha True fs acc prev = (None, acc', prev') \<Longrightarrow>
   \<exists>es. acc' = acc @ es \<and> chain_ok sha prev es \<and> prev' = chain_head prev es"
proof (induction sha "True" fs acc prev rule: load_files.induct)
  case (2 sha day ls fs acc prev)
  then obtain a p where l: "load_lines sha True day 1 ls acc prev = (None, a, p)"
    "load_files sha True fs a p = (None, acc', prev')"
    by (auto split: prod.splits option.splits)
  obtain es where es: "a = acc @ es" "chain_ok sha prev es" "p = chain_head prev es"
    using load_lines_strict [OF l(1)] by blast
  obtain fs' where "acc' = a @ fs'" "chain_ok sha p fs'" "prev' = chain_head p fs'"
    using "2.hyps" [OF l(1) [symmetric] refl refl l(2)] by blast
  with es show ?case by (intro exI [of _ "es @ fs'"]) simp
qed simp

lemma load_strict_ok:
  assumes "load_from_disk sha True (init_audit d) = (Inr n, s)"
  shows "audit_ok sha s"
proof -
  from assms obtain es prev where "load_files sha True (sort_key fst d) [] [] = (None, es, prev)"
    "s = (init_audit d)\<lparr>au_entries := es, au_previous_checksum := prev\<rparr>"
    by (auto simp: load_from_disk_def init_audit_def split: prod.splits option.splits)
  with load_files_strict [OF this(1)] show ?thesis by (auto simp: audit_ok_def)
qed

section \<open>Properties\<close>

text \<open>The arguments an entry was logged with.\<close>

definition entry_args :: "audit_entry \<Rightarrow> log_args" where
  "entry_args e =
     \<lparr>la_action = ae_action e, la_actor = ae_actor e, la_target = ae_target e,
      la_provider = ae_provider e, la_details = ae_details e, la_outcome = ae_outcome e,
      la_related_alert_id = ae_related_alert_id e, la_related_policy_id = ae_related_policy_id e,
      la_correlation_id = ae_correlation_id e, la_causation_id = ae_causation_id e\<rparr>"

lemma entry_args_log [simp]: "entry_args (fst (log_entry sha a v s)) = a"
  by (simp add: entry_args_def)

lemma log_all_args:
  "map entry_args (au_entries (log_all sha cs s)) = map entry_args (au_entries s) @ map fst cs"
  by (induction sha cs s rule: log_all.induct) auto

lemma log_all_length: "length (au_entries (log_all sha cs s)) = length (au_entries s) + length cs"
  using arg_cong [OF log_all_args [of sha cs s], of length] by simp

lemma log_all_extends: "\<exists>es. au_entries (log_all sha cs s) = au_entries s @ es \<and> map entry_args es = map fst cs"
proof -
  obtain es where es: "au_entries (log_all sha cs s) = au_entries s @ es"
    using audit.emit_all_extends [of cs sha s] by (auto simp: log_all_emit_all)
  with log_all_args [of sha cs s] show ?thesis by auto
qed

text \<open>
  C7: a trail built by any sequence of \<open>log\<close> calls verifies without violations, and it holds
  exactly the calls that were made, with all their arguments, in their order.
\<close>

theorem audit_trail_verifies:
  "verify_integrity sha (log_all sha cs (init_audit d)) = [] \<and>
   map entry_args (au_entries (log_all sha cs (init_audit d))) = map fst cs"
  using audit_ok_verify [OF log_all_ok [OF audit_ok_init]] log_all_args [of sha cs "init_audit d"]
  by (simp add: init_audit_def)

lemma verify_edit:
  assumes ok: "chain_ok sha [] (xs @ e # ys)" and same: "ae_checksum e' = ae_checksum e"
    and diff: "compute_checksum sha (chain_head [] xs) e' \<noteq> ae_checksum e"
  shows "verify_from sha [] (xs @ e' # ys) =
    [mk_violation (compute_checksum sha (chain_head [] xs) e') e']"
proof -
  have "verify_from sha [] xs = []" "verify_from sha (ae_checksum e') ys = []"
    using ok same by (auto simp: verify_from_Nil_iff)
  then show ?thesis using diff same by (simp add: Let_def)
qed

text \<open>
  C8: editing one entry of a logged trail in a covered field (id, time, action, actor, target,
  outcome) is reported by \<open>verify_integrity\<close> as a violation of that entry and no other, unless
  the edited and the original payload collide under the hash. The fields are free of the
  delimiter; the hash is a hex digest.
\<close>

theorem audit_edit_detected:
  assumes trail: "au_entries (log_all sha cs (init_audit d)) = xs @ e # ys"
    and same: "ae_checksum e' = ae_checksum e"
    and edit: "covered e' \<noteq> covered e" and free: "pipe_free e" "pipe_free e'"
    and hex: "\<forall>x. CHR ''|'' \<notin> set (sha x)"
  defines "p \<equiv> chain_head [] xs"
  shows "verify_integrity sha ((log_all sha cs (init_audit d))\<lparr>au_entries := xs @ e' # ys\<rparr>) =
      [mk_violation (compute_checksum sha p e') e'] \<or>
    (checksum_payload p e \<noteq> checksum_payload p e' \<and>
     sha (checksum_payload p e) = sha (checksum_payload p e'))"
proof -
  have ok: "chain_ok sha [] (xs @ e # ys)"
    using log_all_ok [OF audit_ok_init, of sha cs d] trail by (auto simp: audit_ok_def)
  have "CHR ''|'' \<notin> set p"
    unfolding p_def using ok hex chain_head_pipe_free [of sha xs] by auto
  then have "checksum_payload p e \<noteq> checksum_payload p e'"
    using payload_inject(2) [OF free] edit by metis
  moreover have "ae_checksum e = sha (checksum_payload p e)"
    using ok by (simp add: p_def compute_checksum_def)
  ultimately show ?thesis
    using verify_edit [OF ok same] by (auto simp: verify_integrity_def compute_checksum_def p_def)
qed

text \<open>A hash for the witnesses: non-empty and free of the delimiter, as a hex digest is.\<close>

definition demo_sha :: "string \<Rightarrow> string" where
  "demo_sha x = CHR ''h'' # filter (\<lambda>c. c \<noteq> CHR ''|'') x"

definition demo_env :: "nat \<Rightarrow> log_env" where
  "demo_env n = \<lparr>le_audit_id = show_nat n, le_now = 86400000000 * int n, le_write_ok = True\<rparr>"

definition demo_calls :: "(log_args \<times> log_env) list" where
  "demo_calls = [(default_args ''policy.created'' ''alice'' ''p1'', demo_env 1),
                 (default_args ''policy.deleted'' ''bob'' ''p1'', demo_env 2)]"

definition demo_first :: audit_entry where
  "demo_first = fst (log_entry demo_sha (default_args ''policy.created'' ''alice'' ''p1'')
     (demo_env 1) (init_audit []))"

definition demo_second :: audit_entry where
  "demo_second = fst (log_entry demo_sha (default_args ''policy.deleted'' ''bob'' ''p1'') (demo_env 2)
     (snd (log_entry demo_sha (default_args ''policy.created'' ''alice'' ''p1'')
        (demo_env 1) (init_audit []))))"

lemma demo_sha_hex: "demo_sha x \<noteq> [] \<and> CHR ''|'' \<notin> set (demo_sha x)"
  by (simp add: demo_sha_def)

lemma demo_trail:
  "au_entries (log_all demo_sha demo_calls (init_audit [])) = [] @ demo_first # [demo_second]"
  by (simp add: demo_calls_def demo_first_def demo_second_def init_audit_def)

lemma demo_show_free: "CHR ''|'' \<notin> set (show_nat n)"
  using show_nat_iso [of n] by (auto simp: iso_chars_def)

lemma demo_pipe_free: "pipe_free demo_first" "pipe_free demo_second"
  "pipe_free (demo_first\<lparr>ae_actor := ''mallory''\<rparr>)"
  by (simp_all add: pipe_free_def covered_def isoformat_pipe_free demo_first_def demo_second_def
      demo_env_def default_args_def demo_show_free)

theorem audit_edit_detected_witness:
  "(let e' = demo_first\<lparr>ae_actor := ''mallory''\<rparr>
    in verify_integrity demo_sha
         ((log_all demo_sha demo_calls (init_audit []))\<lparr>au_entries := [] @ e' # [demo_second]\<rparr>) =
         [mk_violation (compute_checksum demo_sha (chain_head [] []) e') e'] \<or>
       (checksum_payload (chain_head [] []) demo_first \<noteq> checksum_payload (chain_head [] []) e' \<and>
        demo_sha (checksum_payload (chain_head [] []) demo_first) =
        demo_sha (checksum_payload (chain_head [] []) e')))"
proof -
  let ?e = "demo_first\<lparr>ae_actor := ''mallory''\<rparr>"
  have 1: "ae_checksum ?e = ae_checksum demo_first" by simp
  have 2: "covered ?e \<noteq> covered demo_first"
    by (simp add: covered_def demo_first_def default_args_def)
  have 3: "\<forall>x. CHR ''|'' \<notin> set (demo_sha x)" using demo_sha_hex by blast
  show ?thesis
    unfolding Let_def
    by (rule audit_edit_detected [OF demo_trail 1 2 demo_pipe_free(1,3) 3])
qed

text \<open>
  C9: the last checksum binds the whole trail: two logged trails with the same head agree in
  length and in every covered field of every entry, or two of their payloads collide. Signing the
  head, as the daily manifest does, therefore signs the history.
\<close>

theorem audit_head_binds_history:
  assumes hex: "\<forall>x. sha x \<noteq> [] \<and> CHR ''|'' \<notin> set (sha x)"
    and head: "au_previous_checksum (log_all sha cs (init_audit d)) =
      au_previous_checksum (log_all sha cs' (init_audit d'))"
    and free: "list_all pipe_free (au_entries (log_all sha cs (init_audit d)))"
      "list_all pipe_free (au_entries (log_all sha cs' (init_audit d')))"
  shows "map covered (au_entries (log_all sha cs (init_audit d))) =
      map covered (au_entries (log_all sha cs' (init_audit d'))) \<or>
    collision sha (payloads [] (au_entries (log_all sha cs (init_audit d))))
      (payloads [] (au_entries (log_all sha cs' (init_audit d'))))"
proof -
  let ?s = "log_all sha cs (init_audit d)" and ?t = "log_all sha cs' (init_audit d')"
  have "audit_ok sha ?s" "audit_ok sha ?t" by (simp_all add: log_all_ok)
  then show ?thesis
    using chain_head_binds [of sha "au_entries ?s" "au_entries ?t"] hex head free
    by (simp add: audit_ok_def list_all_iff)
qed

theorem audit_head_binds_history_witness:
  "map covered (au_entries (log_all demo_sha demo_calls (init_audit []))) =
     map covered (au_entries (log_all demo_sha demo_calls (init_audit [(0, [])]))) \<or>
   collision demo_sha (payloads [] (au_entries (log_all demo_sha demo_calls (init_audit []))))
     (payloads [] (au_entries (log_all demo_sha demo_calls (init_audit [(0, [])]))))"
proof (rule audit_head_binds_history)
  show "\<forall>x. demo_sha x \<noteq> [] \<and> CHR ''|'' \<notin> set (demo_sha x)" using demo_sha_hex by blast
  have same: "fst (log_entry sha a v s) = fst (log_entry sha a v t)"
    "au_previous_checksum (snd (log_entry sha a v s)) = au_previous_checksum (snd (log_entry sha a v t))"
    if "au_previous_checksum s = au_previous_checksum t" for sha a v s t
    using that by (simp_all add: log_entry_def persist_entry_def Let_def)
  have eq: "au_entries (log_all demo_sha demo_calls (init_audit [(0, [])])) = [demo_first, demo_second]"
    "au_previous_checksum (log_all demo_sha demo_calls (init_audit [(0, [])])) =
     au_previous_checksum (log_all demo_sha demo_calls (init_audit []))"
    unfolding demo_calls_def demo_first_def demo_second_def
    by (auto simp: init_audit_def intro!: same)
  show "au_previous_checksum (log_all demo_sha demo_calls (init_audit [])) =
    au_previous_checksum (log_all demo_sha demo_calls (init_audit [(0, [])]))"
    using eq by simp
  show "list_all pipe_free (au_entries (log_all demo_sha demo_calls (init_audit [])))"
    "list_all pipe_free (au_entries (log_all demo_sha demo_calls (init_audit [(0, [])])))"
    by (simp_all add: demo_trail eq demo_pipe_free)
qed

text \<open>
  C10: a trail whose calls never step back to an earlier day, and whose writes succeed, is read back
  by \<open>load_from_disk\<close> in a new process exactly as it was: every entry, the count, the running
  checksum and the files.
\<close>

theorem audit_reload_roundtrip:
  assumes "orderly day cs"
  shows "load_from_disk sha strict (init_audit (au_disk (log_all sha cs (init_audit [])))) =
    (Inr (length cs), log_all sha cs (init_audit []))"
proof -
  have "disk_ok day (init_audit [])" by (simp add: disk_ok_def init_audit_def disk_lines_def)
  then obtain d where "disk_ok d (log_all sha cs (init_audit []))"
    using disk_ok_log_all [OF _ assms] by blast
  from load_own_disk [OF this log_all_ok [OF audit_ok_init]] show ?thesis
    by (simp add: log_all_length init_audit_def)
qed

theorem audit_reload_roundtrip_witness:
  "load_from_disk demo_sha True
     (init_audit (au_disk (log_all demo_sha demo_calls (init_audit [])))) =
   (Inr (length demo_calls), log_all demo_sha demo_calls (init_audit []))"
proof (rule audit_reload_roundtrip)
  show "orderly 0 demo_calls" by (simp add: demo_calls_def demo_env_def day_of_def us_per_day_def)
qed

text \<open>
  Strict loading accepts only chains: when \<open>load_from_disk\<close> returns in strict mode,
  whoever wrote the files, \<open>verify_integrity\<close> finds nothing in what was loaded and the next
  \<open>log\<close> call continues the chain.
\<close>

theorem audit_strict_load_sound:
  assumes "load_from_disk sha True (init_audit d) = (Inr n, s)"
  shows "verify_integrity sha (log_all sha cs s) = []"
  using log_all_ok [OF load_strict_ok [OF assms]] by (rule audit_ok_verify)

theorem audit_strict_load_sound_witness:
  "verify_integrity demo_sha (log_all demo_sha demo_calls (init_audit [(3, [Blank])])) = []"
proof (rule audit_strict_load_sound)
  show "load_from_disk demo_sha True (init_audit [(3, [Blank])]) =
    (Inr 0, init_audit [(3, [Blank])])"
    by (simp add: load_from_disk_def init_audit_def)
qed

text \<open>
  the checksum leaves \<open>details\<close>, \<open>provider\<close>, the correlation and causation ids and the related
  alert and policy ids out: rewriting them in every entry changes nothing \<open>verify_integrity\<close> reports.
\<close>

theorem audit_details_unprotected:
  "verify_integrity sha (s\<lparr>au_entries := map (\<lambda>e. e\<lparr>ae_details := f e, ae_provider := p e,
      ae_correlation_id := c e, ae_causation_id := k e, ae_related_alert_id := al e,
      ae_related_policy_id := po e\<rparr>) (au_entries s)\<rparr>) = verify_integrity sha s"
proof -
  have "verify_from sha q (map (\<lambda>e. e\<lparr>ae_details := f e, ae_provider := p e,
      ae_correlation_id := c e, ae_causation_id := k e, ae_related_alert_id := al e,
      ae_related_policy_id := po e\<rparr>) es) = verify_from sha q es" for q es
    by (induction es arbitrary: q)
      (simp_all add: Let_def compute_checksum_def checksum_payload_def mk_violation_def)
  then show ?thesis by (simp add: verify_integrity_def)
qed

text \<open>The delimiter is not escaped: moving text across it leaves the payload as it was.\<close>

lemma audit_delimiter_ambiguous:
  "checksum_payload p (e\<lparr>ae_actor := ''a|b'', ae_target := ''c''\<rparr>) =
   checksum_payload p (e\<lparr>ae_actor := ''a'', ae_target := ''b|c''\<rparr>)"
  by (simp add: checksum_payload_def)

end
