(* ===== verification/Tagging.thy ===== *)
theory Tagging
  imports Audit_Trail
begin

text \<open>
  Tagging governance, \<open>core/tagging.py\<close>: the taggability registry, tagging policies and their
  resolution for an event, the verdict on one resource, and the aggregation of verdicts. The
  regular expression engine is a parameter: \<open>rx pattern text\<close> is \<open>Some\<close> the answer of
  \<open>re.fullmatch\<close>, or None when the pattern does not compile and \<open>re.error\<close> is raised, which
  nothing in the code catches.
\<close>

section \<open>Classification of resource types\<close>

datatype tag_status = COMPLIANT | NON_COMPLIANT | TAG_NON_TAGGABLE | EXEMPT

datatype taggability_class = TAGGABLE | NON_TAGGABLE | PARTIAL

definition aws_registry :: "(string, taggability_class) dict" where
  "aws_registry =
     [(''ec2:instance'', TAGGABLE), (''ec2:launch-template'', TAGGABLE),
      (''ec2:auto-scaling-group'', TAGGABLE), (''ec2:capacity-reservation'', TAGGABLE),
      (''lambda:function'', TAGGABLE), (''lambda:layer'', TAGGABLE), (''ecs:cluster'', TAGGABLE),
      (''ecs:service'', TAGGABLE), (''ecs:task-definition'', TAGGABLE),
      (''eks:cluster'', TAGGABLE), (''eks:nodegroup'', TAGGABLE),
      (''eks:fargate-profile'', TAGGABLE), (''batch:compute-environment'', TAGGABLE),
      (''batch:job-queue'', TAGGABLE), (''apprunner:service'', TAGGABLE),
      (''lightsail:instance'', TAGGABLE), (''ecr:repository'', TAGGABLE),
      (''ecr-public:repository'', TAGGABLE), (''codebuild:project'', TAGGABLE),
      (''codepipeline:pipeline'', TAGGABLE), (''rds:db'', TAGGABLE), (''rds:cluster'', TAGGABLE),
      (''rds:cluster-aurora-serverless'', TAGGABLE), (''rds:cluster-aurora-dsql'', TAGGABLE),
      (''dynamodb:table'', TAGGABLE), (''dynamodb:global-table'', TAGGABLE),
      (''elasticache:cluster'', TAGGABLE), (''elasticache:serverless-cache'', TAGGABLE),
      (''memorydb:cluster'', TAGGABLE), (''documentdb:cluster'', TAGGABLE),
      (''neptune:cluster'', TAGGABLE), (''keyspaces:keyspace'', TAGGABLE),
      (''timestream:database'', TAGGABLE), (''qldb:ledger'', TAGGABLE),
      (''redshift:cluster'', TAGGABLE), (''redshift-serverless:workgroup'', TAGGABLE),
      (''emr:cluster'', TAGGABLE), (''emr-serverless:application'', TAGGABLE),
      (''glue:job'', TAGGABLE), (''glue:crawler'', TAGGABLE), (''glue:database'', TAGGABLE),
      (''athena:workgroup'', TAGGABLE), (''msk:cluster'', TAGGABLE),
      (''msk-serverless:cluster'', TAGGABLE), (''kinesis:stream'', TAGGABLE),
      (''firehose:delivery-stream'', TAGGABLE), (''kinesis-video:stream'', TAGGABLE),
      (''opensearch:domain'', TAGGABLE), (''opensearch-serverless:collection'', TAGGABLE),
      (''quicksight:dataset'', TAGGABLE), (''bedrock:custom-model'', TAGGABLE),
      (''bedrock:provisioned-throughput'', TAGGABLE), (''bedrock:agent'', TAGGABLE),
      (''bedrock:knowledge-base'', TAGGABLE), (''bedrock:guardrail'', TAGGABLE),
      (''bedrock:flow'', TAGGABLE), (''sagemaker:endpoint'', TAGGABLE),
      (''sagemaker:training-job'', TAGGABLE), (''sagemaker:notebook-instance'', TAGGABLE),
      (''sagemaker:pipeline'', TAGGABLE), (''sagemaker:hyperpod-cluster'', TAGGABLE),
      (''sagemaker:feature-group'', TAGGABLE), (''sagemaker:model-package'', TAGGABLE),
      (''comprehend:endpoint'', TAGGABLE), (''rekognition:project'', TAGGABLE),
      (''q-business:application'', TAGGABLE), (''s3:bucket'', TAGGABLE),
      (''s3:access-point'', TAGGABLE), (''s3-tables:table-bucket'', TAGGABLE),
      (''s3-vectors:vector-bucket'', TAGGABLE), (''ebs:volume'', TAGGABLE),
      (''ebs:snapshot'', TAGGABLE), (''efs:filesystem'', TAGGABLE), (''fsx:filesystem'', TAGGABLE),
      (''fsx:volume'', TAGGABLE), (''backup:vault'', TAGGABLE), (''backup:plan'', TAGGABLE),
      (''elb:load-balancer'', TAGGABLE), (''elbv2:load-balancer'', TAGGABLE),
      (''elbv2:target-group'', TAGGABLE), (''cloudfront:distribution'', TAGGABLE),
      (''cloudfront:kvs'', TAGGABLE), (''global-accelerator:accelerator'', TAGGABLE),
      (''ec2:vpc'', TAGGABLE), (''ec2:transit-gateway'', TAGGABLE),
      (''ec2:nat-gateway'', TAGGABLE), (''ec2:vpc-endpoint'', TAGGABLE),
      (''directconnect:connection'', TAGGABLE), (''network-firewall:firewall'', TAGGABLE),
      (''vpc-lattice:service'', TAGGABLE), (''apigateway:rest-api'', TAGGABLE),
      (''apigatewayv2:http-api'', TAGGABLE), (''apigatewayv2:websocket-api'', TAGGABLE),
      (''appsync:graphql-api'', TAGGABLE), (''sqs:queue'', TAGGABLE), (''sns:topic'', TAGGABLE),
      (''eventbridge:event-bus'', TAGGABLE), (''eventbridge:pipe'', TAGGABLE),
      (''eventbridge-scheduler:schedule'', TAGGABLE), (''stepfunctions:state-machine'', TAGGABLE),
      (''mq:broker'', TAGGABLE), (''logs:log-group'', TAGGABLE), (''cloudwatch:alarm'', TAGGABLE),
      (''cloudwatch:dashboard'', TAGGABLE), (''cloudwatch-rum:app-monitor'', TAGGABLE),
      (''synthetics:canary'', TAGGABLE), (''xray:group'', TAGGABLE), (''iam:role'', TAGGABLE),
      (''iam:user'', TAGGABLE), (''kms:key'', TAGGABLE), (''secretsmanager:secret'', TAGGABLE),
      (''acm:certificate'', TAGGABLE), (''wafv2:web-acl'', TAGGABLE),
      (''shield:protection'', TAGGABLE), (''s3:object'', PARTIAL),
      (''iam:policy-version'', NON_TAGGABLE), (''ec2:spot-price'', NON_TAGGABLE),
      (''route53:hostedzone-record'', NON_TAGGABLE), (''cost-explorer:report'', NON_TAGGABLE),
      (''support:case'', NON_TAGGABLE), (''trusted-advisor:check'', NON_TAGGABLE),
      (''health:event'', NON_TAGGABLE)]"

definition gcp_registry :: "(string, taggability_class) dict" where
  "gcp_registry =
     [(''compute.instances'', TAGGABLE), (''compute.instance-templates'', TAGGABLE),
      (''compute.instance-groups'', TAGGABLE), (''compute.tpu-vms'', TAGGABLE),
      (''compute.reservations'', TAGGABLE), (''container.clusters'', TAGGABLE),
      (''container.node-pools'', TAGGABLE), (''run.services'', TAGGABLE), (''run.jobs'', TAGGABLE),
      (''run.workers'', TAGGABLE), (''cloudfunctions.functions'', TAGGABLE),
      (''batch.jobs'', TAGGABLE), (''appengine.services'', TAGGABLE),
      (''cloudsql.instances'', TAGGABLE), (''spanner.instances'', TAGGABLE),
      (''spanner.databases'', TAGGABLE), (''alloydb.clusters'', TAGGABLE),
      (''alloydb.instances'', TAGGABLE), (''bigtable.instances'', TAGGABLE),
      (''firestore.databases'', TAGGABLE), (''redis.instances'', TAGGABLE),
      (''memorystore.clusters'', TAGGABLE), (''memorystore.valkey-instances'', TAGGABLE),
      (''bigquery.datasets'', TAGGABLE), (''bigquery.tables'', TAGGABLE),
      (''bigquery.reservations'', TAGGABLE), (''bigquery-omni.connections'', TAGGABLE),
      (''biglake.catalogs'', TAGGABLE), (''dataproc.clusters'', TAGGABLE),
      (''dataproc-serverless.batches'', TAGGABLE), (''dataflow.jobs'', TAGGABLE),
      (''dataform.repositories'', TAGGABLE), (''composer.environments'', TAGGABLE),
      (''pubsub.topics'', TAGGABLE), (''pubsub.subscriptions'', TAGGABLE),
      (''pubsublite.topics'', TAGGABLE), (''looker.instances'', TAGGABLE),
      (''aiplatform.endpoints'', TAGGABLE), (''aiplatform.models'', TAGGABLE),
      (''aiplatform.pipelines'', TAGGABLE), (''aiplatform.training-jobs'', TAGGABLE),
      (''aiplatform.feature-stores'', TAGGABLE), (''aiplatform.notebooks'', TAGGABLE),
      (''aiplatform.vector-indexes'', TAGGABLE), (''aiplatform.agents'', TAGGABLE),
      (''aiplatform.gemini-tuning-jobs'', TAGGABLE), (''discoveryengine.datastores'', TAGGABLE),
      (''discoveryengine.engines'', TAGGABLE), (''storage.buckets'', TAGGABLE),
      (''compute.disks'', TAGGABLE), (''compute.snapshots'', TAGGABLE),
      (''compute.images'', TAGGABLE), (''filestore.instances'', TAGGABLE),
      (''backupdr.backup-vaults'', TAGGABLE), (''netapp.volumes'', TAGGABLE),
      (''compute.networks'', TAGGABLE), (''compute.subnetworks'', TAGGABLE),
      (''compute.forwarding-rules'', TAGGABLE), (''compute.target-https-proxies'', TAGGABLE),
      (''networkservices.edge-cache-services'', TAGGABLE), (''apigee.environments'', TAGGABLE),
      (''apigateway.gateways'', TAGGABLE), (''workflows.workflows'', TAGGABLE),
      (''cloudtasks.queues'', TAGGABLE), (''cloudscheduler.jobs'', TAGGABLE),
      (''eventarc.triggers'', TAGGABLE), (''cloudbuild.triggers'', TAGGABLE),
      (''artifactregistry.repositories'', TAGGABLE), (''cloudkms.key-rings'', TAGGABLE),
      (''cloudkms.crypto-keys'', TAGGABLE), (''secretmanager.secrets'', TAGGABLE),
      (''certificatemanager.certificates'', TAGGABLE), (''compute.addresses'', PARTIAL),
      (''iam.serviceaccounts'', NON_TAGGABLE), (''iam.roles'', NON_TAGGABLE),
      (''dns.managed-zones-records'', NON_TAGGABLE), (''billing.accounts'', NON_TAGGABLE),
      (''monitoring.metric-descriptors'', NON_TAGGABLE), (''logging.log-entries'', NON_TAGGABLE)]"

fun taggability_registry :: "cloud_provider \<Rightarrow> (string, taggability_class) dict" where
  "taggability_registry AWS = aws_registry"
| "taggability_registry GCP = gcp_registry"
| "taggability_registry AZURE = []"

definition is_resource_taggable :: "cloud_provider \<Rightarrow> string \<Rightarrow> taggability_class \<Rightarrow> taggability_class" where
  "is_resource_taggable p rt dflt = dget_or (taggability_registry p) rt dflt"

section \<open>Policies\<close>

record tagging_policy =
  tg_policy_id :: string
  tg_name :: string
  tg_description :: string
  tg_provider :: cloud_provider
  tg_required_tags :: "string list"
  tg_recommended_tags :: "string list"
  tg_resource_types :: "string list"
  tg_exempt_resource_types :: "string list"
  tg_tag_value_patterns :: "(string, string) dict"
  tg_severity_when_missing :: severity
  tg_enabled :: bool
  tg_created_at :: timestamp
  tg_updated_at :: timestamp

text \<open>A file of the policy directory: a policy, or a text that does not parse, with the error.\<close>

datatype tagging_file = TaggingJson tagging_policy | BadTagging string

record tagging_engine =
  te_dir :: string
  te_policies :: "(string, tagging_policy) dict"

text \<open>
  \<open>load_policies\<close>: the files in the order of their names, the \<open>n\<close>-th log call under \<open>envs n\<close>. The
  audit logger is the object the engine shares with its agent, so it is passed beside the engine.
\<close>

definition tagging_error_args :: "string \<Rightarrow> string \<Rightarrow> string \<Rightarrow> log_args" where
  "tagging_error_args dir nm msg =
     (default_args ''tagging_policy.load_error'' ''system'' (dir @ ''/'' @ nm))
       \<lparr>la_outcome := ''failure'', la_details := [(''error'', PStr msg), (''file'', PStr nm)]\<rparr>"

fun load_tagging_each :: "(string \<Rightarrow> string) \<Rightarrow> (nat \<Rightarrow> log_env) \<Rightarrow> (string \<times> tagging_file) list \<Rightarrow>
    nat \<Rightarrow> nat \<Rightarrow> tagging_engine \<Rightarrow> audit_logger \<Rightarrow> nat \<times> nat \<times> tagging_engine \<times> audit_logger" where
  "load_tagging_each sha envs [] count errors te au = (count, errors, te, au)"
| "load_tagging_each sha envs ((nm, TaggingJson p) # fs) count errors te au =
     load_tagging_each sha envs fs (count + 1) errors
       (te\<lparr>te_policies := dset (te_policies te) (tg_policy_id p) p\<rparr>) au"
| "load_tagging_each sha envs ((nm, BadTagging msg) # fs) count errors te au =
     load_tagging_each sha envs fs count (errors + 1) te
       (snd (log_entry sha (tagging_error_args (te_dir te) nm msg) (envs errors) au))"

definition load_tagging_policies :: "(string \<Rightarrow> string) \<Rightarrow> (nat \<Rightarrow> log_env) \<Rightarrow>
    (string, tagging_file) dict \<Rightarrow> tagging_engine \<Rightarrow> audit_logger \<Rightarrow>
    nat \<times> tagging_engine \<times> audit_logger" where
  "load_tagging_policies sha envs files te au =
     (let (count, errors, te1, au1) = load_tagging_each sha envs (sort_key fst files) 0 0 te au
      in (count, te1, snd (log_entry sha
           ((default_args ''tagging_policies.loaded'' ''system'' (te_dir te))
              \<lparr>la_details := [(''count'', PInt (int count)), (''errors'', PInt (int errors))]\<rparr>)
           (envs errors) au1)))"

definition register_tagging :: "tagging_policy \<Rightarrow> tagging_engine \<Rightarrow> tagging_engine" where
  "register_tagging p te = te\<lparr>te_policies := dset (te_policies te) (tg_policy_id p) p\<rparr>"

definition get_tagging_policies :: "cloud_provider option \<Rightarrow> bool \<Rightarrow> tagging_engine \<Rightarrow> tagging_policy list" where
  "get_tagging_policies provider enabled_only te =
     (let ps = dvalues (te_policies te);
          ps = (case provider of None \<Rightarrow> ps | Some q \<Rightarrow> filter (\<lambda>p. tg_provider p = q) ps)
      in if enabled_only then filter tg_enabled ps else ps)"

definition tag_candidate :: "resource_event \<Rightarrow> tagging_policy \<Rightarrow> bool" where
  "tag_candidate e p \<longleftrightarrow> tg_enabled p \<and> tg_provider p = ev_provider e \<and>
     ev_resource_type e \<notin> set (tg_exempt_resource_types p)"

definition resolve_policy :: "resource_event \<Rightarrow> tagging_engine \<Rightarrow> tagging_policy option" where
  "resolve_policy e te =
     (let candidates = filter (tag_candidate e) (dvalues (te_policies te));
          scoped = filter (\<lambda>p. ev_resource_type e \<in> set (tg_resource_types p)) candidates
      in if scoped \<noteq> [] then Some (hd scoped)
         else (let wildcard = filter (\<lambda>p. tg_resource_types p = []) candidates
               in if wildcard \<noteq> [] then Some (hd wildcard) else None))"

section \<open>The verdict on one resource\<close>

record tag_audit =
  ta_provider :: cloud_provider
  ta_account_id :: string
  ta_region :: string
  ta_resource_type :: string
  ta_resource_id :: string
  ta_resource_name :: string
  ta_status :: tag_status
  ta_taggability :: taggability_class
  ta_policy_id :: string
  ta_policy_name :: string
  ta_missing_required :: "string list"
  ta_missing_recommended :: "string list"
  ta_invalid_values :: "(string, string) dict"
  ta_severity :: severity
  ta_creator_identity :: string
  ta_creator_email :: string
  ta_team :: string
  ta_cost :: real
  ta_source_event_id :: string

fun invalid_values :: "(string \<Rightarrow> string \<Rightarrow> bool option) \<Rightarrow> resource_event \<Rightarrow> (string \<times> string) list \<Rightarrow>
    (string, string) dict \<Rightarrow> (string, string) dict option" where
  "invalid_values rx e [] bad = Some bad"
| "invalid_values rx e ((key, pattern) # ps) bad =
     (case dget (ev_tags e) key of
        None \<Rightarrow> invalid_values rx e ps bad
      | Some v \<Rightarrow>
          (case rx pattern v of
             None \<Rightarrow> None
           | Some True \<Rightarrow> invalid_values rx e ps bad
           | Some False \<Rightarrow> invalid_values rx e ps (dset bad key v)))"

text \<open>The fields common to every verdict, with those of a verdict without a policy.\<close>

definition tag_base :: "resource_event \<Rightarrow> tag_status \<Rightarrow> tag_audit" where
  "tag_base e st =
     \<lparr>ta_provider = ev_provider e, ta_account_id = ev_account_id e, ta_region = ev_region e,
      ta_resource_type = ev_resource_type e, ta_resource_id = ev_resource_id e,
      ta_resource_name = ev_resource_name e, ta_status = st,
      ta_taggability = is_resource_taggable (ev_provider e) (ev_resource_type e) TAGGABLE,
      ta_policy_id = [], ta_policy_name = [], ta_missing_required = [],
      ta_missing_recommended = [], ta_invalid_values = [], ta_severity = INFO,
      ta_creator_identity = ev_creator_identity e, ta_creator_email = ev_creator_email e,
      ta_team = tag_get2 e ''team'' ''Team'' [], ta_cost = ev_cost e,
      ta_source_event_id = ev_event_id e\<rparr>"

text \<open>\<open>build_resource_audit\<close>; None when a pattern raises.\<close>

definition build_resource_audit :: "(string \<Rightarrow> string \<Rightarrow> bool option) \<Rightarrow> resource_event \<Rightarrow>
    tagging_policy option \<Rightarrow> tag_audit option" where
  "build_resource_audit rx e policy =
     (if is_resource_taggable (ev_provider e) (ev_resource_type e) TAGGABLE = NON_TAGGABLE
      then Some (tag_base e TAG_NON_TAGGABLE)
      else case policy of
        None \<Rightarrow> Some (tag_base e EXEMPT)
      | Some p \<Rightarrow>
          (let missing = missing_tags (tg_required_tags p) e;
               recommended = missing_tags (tg_recommended_tags p) e
           in case invalid_values rx e (tg_tag_value_patterns p) [] of
                None \<Rightarrow> None
              | Some bad \<Rightarrow>
                  (let non_compliant = (missing \<noteq> [] \<or> bad \<noteq> [])
                   in Some ((tag_base e (if non_compliant then NON_COMPLIANT else COMPLIANT))
                        \<lparr>ta_severity := (if non_compliant then tg_severity_when_missing p else INFO),
                         ta_policy_id := tg_policy_id p, ta_policy_name := tg_name p,
                         ta_missing_required := missing, ta_missing_recommended := recommended,
                         ta_invalid_values := bad\<rparr>))))"

section \<open>Aggregation\<close>

record tag_aggregates =
  tt_total :: nat
  tt_compliant :: nat
  tt_non_compliant :: nat
  tt_non_taggable :: nat
  tt_exempt :: nat
  tt_rate_pct :: real
  tt_missing_counts :: "(string, nat) dict"
  tt_by_account :: "(string, nat) dict"
  tt_by_type :: "(string, nat) dict"
  tt_by_team :: "(string, nat) dict"
  tt_unattributed :: real

definition count_status :: "tag_status \<Rightarrow> tag_audit list \<Rightarrow> nat" where
  "count_status st audits = length (filter (\<lambda>a. ta_status a = st) audits)"

definition team_key :: "tag_audit \<Rightarrow> string" where
  "team_key a = str_or (ta_team a) ''Untagged''"

text \<open>The loop body of \<open>aggregate_audits\<close> for a non-compliant resource.\<close>

definition add_audit :: "tag_audit \<Rightarrow> tag_aggregates \<Rightarrow> tag_aggregates" where
  "add_audit a g =
     (if ta_status a \<noteq> NON_COMPLIANT then g
      else g\<lparr>tt_missing_counts := fold dcount (ta_missing_required a) (tt_missing_counts g),
             tt_by_account := dcount (ta_account_id a) (tt_by_account g),
             tt_by_type := dcount (ta_resource_type a) (tt_by_type g),
             tt_by_team := dcount (team_key a) (tt_by_team g),
             tt_unattributed := tt_unattributed g + ta_cost a\<rparr>)"

definition compliance_rate :: "nat \<Rightarrow> nat \<Rightarrow> real" where
  "compliance_rate good bad = (if good + bad = 0 then 100 else real good / real (good + bad) * 100)"

definition aggregate_audits :: "tag_audit list \<Rightarrow> tag_aggregates" where
  "aggregate_audits audits =
     (let good = count_status COMPLIANT audits; bad = count_status NON_COMPLIANT audits;
          g = fold add_audit audits
                \<lparr>tt_total = length audits, tt_compliant = good, tt_non_compliant = bad,
                 tt_non_taggable = count_status TAG_NON_TAGGABLE audits,
                 tt_exempt = count_status EXEMPT audits, tt_rate_pct = round2 (compliance_rate good bad),
                 tt_missing_counts = [], tt_by_account = [], tt_by_type = [], tt_by_team = [],
                 tt_unattributed = 0\<rparr>
      in g\<lparr>tt_unattributed := round2 (tt_unattributed g)\<rparr>)"

definition violations :: "tag_audit list \<Rightarrow> tag_audit list" where
  "violations audits = filter (\<lambda>a. ta_status a = NON_COMPLIANT) audits"

lemma fold_add_audit:
  "fold add_audit audits g = g
     \<lparr>tt_missing_counts := fold dcount (concat (map ta_missing_required (violations audits))) (tt_missing_counts g),
      tt_by_account := fold (\<lambda>a. dcount (ta_account_id a)) (violations audits) (tt_by_account g),
      tt_by_type := fold (\<lambda>a. dcount (ta_resource_type a)) (violations audits) (tt_by_type g),
      tt_by_team := fold (\<lambda>a. dcount (team_key a)) (violations audits) (tt_by_team g),
      tt_unattributed := tt_unattributed g + sum_list (map ta_cost (violations audits))\<rparr>"
  by (induction audits arbitrary: g) (auto simp: add_audit_def violations_def)

lemma count_violations: "count_status NON_COMPLIANT audits = length (violations audits)"
  by (simp add: count_status_def violations_def)

lemma count_status_total:
  "count_status COMPLIANT audits + count_status NON_COMPLIANT audits +
   count_status TAG_NON_TAGGABLE audits + count_status EXEMPT audits = length audits"
proof (induction audits)
  case (Cons a audits)
  then show ?case by (cases "ta_status a") (simp_all add: count_status_def)
qed (simp add: count_status_def)

lemma compliance_rate_range: "0 \<le> compliance_rate n m" "compliance_rate n m \<le> 100"
  by (auto simp: compliance_rate_def divide_le_eq)

lemma aggregate_counts [simp]:
  "tt_total (aggregate_audits audits) = length audits"
  "tt_compliant (aggregate_audits audits) = count_status COMPLIANT audits"
  "tt_non_compliant (aggregate_audits audits) = length (violations audits)"
  "tt_non_taggable (aggregate_audits audits) = count_status TAG_NON_TAGGABLE audits"
  "tt_exempt (aggregate_audits audits) = count_status EXEMPT audits"
  "tt_rate_pct (aggregate_audits audits) =
     round2 (compliance_rate (count_status COMPLIANT audits) (length (violations audits)))"
  "tt_unattributed (aggregate_audits audits) = round2 (sum_list (map ta_cost (violations audits)))"
  by (simp_all add: aggregate_audits_def fold_add_audit count_violations Let_def)

lemma aggregate_breakdowns:
  "sum_list (dvalues (tt_by_account (aggregate_audits audits))) = length (violations audits)"
  "sum_list (dvalues (tt_by_type (aggregate_audits audits))) = length (violations audits)"
  "sum_list (dvalues (tt_by_team (aggregate_audits audits))) = length (violations audits)"
  by (simp_all add: aggregate_audits_def fold_add_audit sum_fold_dcount Let_def)

lemma aggregate_lookups:
  "dget_or (tt_missing_counts (aggregate_audits audits)) t 0 =
     count_list (concat (map ta_missing_required (violations audits))) t"
  "dget_or (tt_by_team (aggregate_audits audits)) t 0 = count_list (map team_key (violations audits)) t"
  using dget_fold_dcount [of id "concat (map ta_missing_required (violations audits))" "[]" t]
    dget_fold_dcount [of team_key "violations audits" "[]" t]
  by (simp_all add: aggregate_audits_def fold_add_audit Let_def dget_or_def [of "[]"])

section \<open>What a policy demands of a resource\<close>

text \<open>The resource type is within the policy's scope; a type it names comes before a blanket policy.\<close>

definition named_by :: "resource_event \<Rightarrow> tagging_policy \<Rightarrow> bool" where
  "named_by e p \<longleftrightarrow> tag_candidate e p \<and> ev_resource_type e \<in> set (tg_resource_types p)"

definition blanket :: "resource_event \<Rightarrow> tagging_policy \<Rightarrow> bool" where
  "blanket e p \<longleftrightarrow> tag_candidate e p \<and> tg_resource_types p = []"

text \<open>\<open>pattern_answer rx e b p\<close>: some pattern on a tag the resource carries gives the answer \<open>b\<close>.\<close>

definition pattern_answer :: "(string \<Rightarrow> string \<Rightarrow> bool option) \<Rightarrow> resource_event \<Rightarrow> bool option \<Rightarrow>
    tagging_policy \<Rightarrow> bool" where
  "pattern_answer rx e b p \<longleftrightarrow>
     list_ex (\<lambda>(k, pat). case dget (ev_tags e) k of None \<Rightarrow> False | Some v \<Rightarrow> rx pat v = b)
       (tg_tag_value_patterns p)"

definition well_tagged :: "(string \<Rightarrow> string \<Rightarrow> bool option) \<Rightarrow> resource_event \<Rightarrow> tagging_policy \<Rightarrow> bool" where
  "well_tagged rx e p \<longleftrightarrow> (\<forall>t \<in> set (tg_required_tags p). dhas (ev_tags e) t) \<and>
     \<not> pattern_answer rx e (Some False) p"

lemma resolve_policy_spec:
  "case resolve_policy e te of
     None \<Rightarrow> (\<forall>p \<in> set (dvalues (te_policies te)). \<not> named_by e p \<and> \<not> blanket e p)
   | Some p \<Rightarrow> p \<in> set (dvalues (te_policies te)) \<and>
       (named_by e p \<or> blanket e p \<and> (\<forall>q \<in> set (dvalues (te_policies te)). \<not> named_by e q))"
proof -
  let ?ps = "dvalues (te_policies te)"
  have sel: "filter (\<lambda>p. ev_resource_type e \<in> set (tg_resource_types p)) (filter (tag_candidate e) ?ps) =
      filter (named_by e) ?ps"
    "filter (\<lambda>p. tg_resource_types p = []) (filter (tag_candidate e) ?ps) = filter (blanket e) ?ps"
    unfolding filter_filter by (rule filter_cong, simp, simp add: named_by_def blanket_def)+
  have eq: "resolve_policy e te =
      (case filter (named_by e) ?ps of p # _ \<Rightarrow> Some p
       | [] \<Rightarrow> (case filter (blanket e) ?ps of p # _ \<Rightarrow> Some p | [] \<Rightarrow> None))"
    unfolding resolve_policy_def Let_def sel by (simp split: list.splits)
  have mem: "p \<in> set ?ps \<and> P p" if "filter P ?ps = p # qs" for P p qs
    using arg_cong [OF that, of set] by auto
  show ?thesis
  proof (cases "filter (named_by e) ?ps")
    case (Cons p qs)
    then show ?thesis using mem [OF Cons] by (simp add: eq)
  next
    case named: Nil
    then have none: "\<not> named_by e q" if "q \<in> set ?ps" for q using that by (auto simp: filter_empty_conv)
    show ?thesis
    proof (cases "filter (blanket e) ?ps")
      case Nil
      then have "\<not> blanket e q" if "q \<in> set ?ps" for q using that by (auto simp: filter_empty_conv)
      then show ?thesis using none by (simp add: eq named Nil)
    next
      case (Cons p qs)
      then show ?thesis using mem [OF Cons] none by (simp add: eq named)
    qed
  qed
qed

lemma invalid_values_None:
  "invalid_values rx e ps bad = None \<longleftrightarrow>
     list_ex (\<lambda>(k, pat). case dget (ev_tags e) k of None \<Rightarrow> False | Some v \<Rightarrow> rx pat v = None) ps"
  by (induction rx e ps bad rule: invalid_values.induct) (auto split: option.splits bool.splits)

lemma dset_not_Nil [simp]: "dset d k v \<noteq> []"
  by (cases d) (auto simp: dset_def)

lemma invalid_values_Nil:
  "invalid_values rx e ps bad = Some bad' \<Longrightarrow> bad' = [] \<longleftrightarrow> bad = [] \<and>
     \<not> list_ex (\<lambda>(k, pat). case dget (ev_tags e) k of None \<Rightarrow> False | Some v \<Rightarrow> rx pat v = Some False) ps"
  by (induction rx e ps bad rule: invalid_values.induct) (auto split: option.splits bool.splits)

lemma tag_base_status [simp]: "ta_status (tag_base e st) = st"
  by (simp add: tag_base_def)

text \<open>
  The verdict on a resource is exact. It raises exactly when the type can carry tags and a
  pattern of the policy in force, on a tag the resource carries, does not compile. Otherwise the
  resource is non-taggable exactly when the registry says so; else exempt exactly when no enabled
  policy of its provider names its type or covers all types without exempting it; else it is
  judged by such a policy, one that names the type when there is one, and compliant exactly when
  it carries every required tag and no pattern rejects a value.
\<close>
theorem tag_verdict_exact:
  "case build_resource_audit rx e (resolve_policy e te) of
     None \<Rightarrow> is_resource_taggable (ev_provider e) (ev_resource_type e) TAGGABLE \<noteq> NON_TAGGABLE \<and>
       (\<exists>p \<in> set (dvalues (te_policies te)). (named_by e p \<or> blanket e p) \<and> pattern_answer rx e None p)
   | Some a \<Rightarrow>
       (case ta_status a of
          TAG_NON_TAGGABLE \<Rightarrow> is_resource_taggable (ev_provider e) (ev_resource_type e) TAGGABLE = NON_TAGGABLE
        | EXEMPT \<Rightarrow> \<not> (\<exists>p \<in> set (dvalues (te_policies te)). named_by e p \<or> blanket e p)
        | st \<Rightarrow> \<exists>p \<in> set (dvalues (te_policies te)).
            ta_policy_id a = tg_policy_id p \<and>
            (named_by e p \<or> blanket e p \<and> \<not> (\<exists>q \<in> set (dvalues (te_policies te)). named_by e q)) \<and>
            ta_missing_required a = missing_tags (tg_required_tags p) e \<and>
            (st = COMPLIANT) = well_tagged rx e p \<and>
            ta_severity a = (if st = COMPLIANT then INFO else tg_severity_when_missing p))"
proof (cases "is_resource_taggable (ev_provider e) (ev_resource_type e) TAGGABLE = NON_TAGGABLE")
  case True
  then show ?thesis by (simp add: build_resource_audit_def)
next
  case taggable: False
  show ?thesis
  proof (cases "resolve_policy e te")
    case None
    then show ?thesis using taggable resolve_policy_spec [where e = e and te = te]
      by (auto simp: build_resource_audit_def)
  next
    case (Some p)
    with resolve_policy_spec [where e = e and te = te]
    have p: "p \<in> set (dvalues (te_policies te))"
      "named_by e p \<or> blanket e p \<and> \<not> (\<exists>q \<in> set (dvalues (te_policies te)). named_by e q)"
      by auto
    show ?thesis
    proof (cases "invalid_values rx e (tg_tag_value_patterns p) []")
      case None
      with Some taggable have r: "build_resource_audit rx e (resolve_policy e te) = None"
        by (simp add: build_resource_audit_def Let_def)
      have "pattern_answer rx e None p" using None by (simp add: invalid_values_None pattern_answer_def)
      with r p taggable show ?thesis by auto
    next
      case (Some bad)
      have well: "missing_tags (tg_required_tags p) e = [] \<and> bad = [] \<longleftrightarrow> well_tagged rx e p"
        using invalid_values_Nil [OF Some] by (simp add: well_tagged_def missing_tags_empty pattern_answer_def)
      let ?st = "if well_tagged rx e p then COMPLIANT else NON_COMPLIANT"
      have "build_resource_audit rx e (resolve_policy e te) = Some ((tag_base e ?st)
          \<lparr>ta_severity := (if well_tagged rx e p then INFO else tg_severity_when_missing p),
           ta_policy_id := tg_policy_id p, ta_policy_name := tg_name p,
           ta_missing_required := missing_tags (tg_required_tags p) e,
           ta_missing_recommended := missing_tags (tg_recommended_tags p) e, ta_invalid_values := bad\<rparr>)"
        using taggable Some well \<open>resolve_policy e te = Some p\<close>
        unfolding build_resource_audit_def Let_def well [symmetric]
        by (cases "missing_tags (tg_required_tags p) e = []"; cases "bad = []"; simp)
      then show ?thesis using p by (cases "well_tagged rx e p") auto
    qed
  qed
qed

end
