(* ===== verification/Tagging_Health.thy ===== *)
theory Tagging_Health
  imports Tagging "HOL-Library.Multiset"
begin

text \<open>
  The tagging health agent, \<open>agents/tagging_health_agent.py\<close>: batch scans, the weekly report with
  its trend against the previous report of the same scope, the ranking of remediation work, and
  the text of a report. The agent shares the audit logger with its policy engine.
\<close>

section \<open>State\<close>

record remediation =
  rm_resource_id :: string
  rm_resource_type :: string
  rm_account_id :: string
  rm_region :: string
  rm_severity :: string
  rm_missing_required :: "string list"
  rm_missing_recommended :: "string list"
  rm_invalid_values :: "(string, string) dict"
  rm_cost :: real
  rm_owner :: string
  rm_policy_name :: string
  rm_action :: string

record tag_report =
  tr_report_id :: string
  tr_generated_at :: timestamp
  tr_period_start :: timestamp
  tr_period_end :: timestamp
  tr_provider :: "cloud_provider option"
  tr_total :: nat
  tr_compliant :: nat
  tr_non_compliant :: nat
  tr_non_taggable :: nat
  tr_exempt :: nat
  tr_rate_pct :: real
  tr_missing_counts :: "(string, nat) dict"
  tr_by_account :: "(string, nat) dict"
  tr_by_type :: "(string, nat) dict"
  tr_by_team :: "(string, nat) dict"
  tr_unattributed :: real
  tr_trend_pct :: real
  tr_priorities :: "remediation list"
  tr_recommendations :: "string list"

record tagging_agent =
  tx_engine :: tagging_engine
  tx_audit :: audit_logger
  tx_window_days :: int
  tx_history :: "tag_report list"

text \<open>The constructor raises for a window that is not positive.\<close>

definition init_tagging_agent :: "tagging_engine \<Rightarrow> audit_logger \<Rightarrow> int \<Rightarrow> tagging_agent option" where
  "init_tagging_agent te au days =
     (if days \<le> 0 then None
      else Some \<lparr>tx_engine = te, tx_audit = au, tx_window_days = days, tx_history = []\<rparr>)"

definition MAX_REPORT_HISTORY :: int where
  "MAX_REPORT_HISTORY = 52"

section \<open>Scanning\<close>

definition of_provider :: "cloud_provider option \<Rightarrow> resource_event \<Rightarrow> bool" where
  "of_provider provider e = (case provider of None \<Rightarrow> True | Some p \<Rightarrow> ev_provider e = p)"

text \<open>The list comprehension over \<open>build_resource_audit\<close>: a call that raises abandons it.\<close>

definition audit_events :: "(string \<Rightarrow> string \<Rightarrow> bool option) \<Rightarrow> tagging_engine \<Rightarrow> resource_event list \<Rightarrow>
    tag_audit list option" where
  "audit_events rx te es = those (map (\<lambda>e. build_resource_audit rx e (resolve_policy e te)) es)"

definition scan_tags :: "(string \<Rightarrow> string) \<Rightarrow> (string \<Rightarrow> string \<Rightarrow> bool option) \<Rightarrow> log_env \<Rightarrow>
    resource_event list \<Rightarrow> cloud_provider option \<Rightarrow> tagging_agent \<Rightarrow> tag_audit list option \<times> tagging_agent" where
  "scan_tags sha rx v es provider ta =
     (case audit_events rx (tx_engine ta) (filter (of_provider provider) es) of
        None \<Rightarrow> (None, ta)
      | Some audits \<Rightarrow> (Some audits, ta\<lparr>tx_audit := snd (log_entry sha
          ((default_args ''tagging.scan_completed'' ''system'' ''tagging_health_agent'')
             \<lparr>la_provider := provider,
              la_details := [(''evaluated'', PInt (int (length audits))),
                (''non_compliant'', PInt (int (count_status NON_COMPLIANT audits))),
                (''non_taggable'', PInt (int (count_status TAG_NON_TAGGABLE audits))),
                (''exempt'', PInt (int (count_status EXEMPT audits)))]\<rparr>) v (tx_audit ta))\<rparr>))"

section \<open>The weekly report\<close>

definition compute_trend :: "real \<Rightarrow> cloud_provider option \<Rightarrow> tag_report list \<Rightarrow> real" where
  "compute_trend rate provider history =
     (case rev (filter (\<lambda>r. tr_provider r = provider) history) of
        [] \<Rightarrow> 0
      | previous # _ \<Rightarrow> round2 (rate - tr_rate_pct previous))"

definition remediation_of :: "tag_audit \<Rightarrow> remediation" where
  "remediation_of a =
     \<lparr>rm_resource_id = ta_resource_id a, rm_resource_type = ta_resource_type a,
      rm_account_id = ta_account_id a, rm_region = ta_region a,
      rm_severity = severity_value (ta_severity a), rm_missing_required = ta_missing_required a,
      rm_missing_recommended = ta_missing_recommended a, rm_invalid_values = ta_invalid_values a,
      rm_cost = round2 (ta_cost a),
      rm_owner = str_or (ta_creator_email a) (str_or (ta_creator_identity a) ''unknown''),
      rm_policy_name = ta_policy_name a,
      rm_action = (if ta_missing_required a \<noteq> []
        then ''Add missing tags: '' @ join '', '' (ta_missing_required a)
        else ''Correct invalid tag values: '' @ join '', '' (map fst (ta_invalid_values a)))\<rparr>"

text \<open>A stable sort with \<open>reverse=True\<close> keeps the order of equal elements.\<close>

definition rank_remediation :: "tag_audit list \<Rightarrow> remediation list" where
  "rank_remediation audits =
     map remediation_of (sort_key (\<lambda>a. - ta_cost a) (filter (\<lambda>a. ta_status a = NON_COMPLIANT) audits))"

definition by_count :: "(string, nat) dict \<Rightarrow> (string \<times> nat) list" where
  "by_count d = sort_key (\<lambda>x. - int (snd x)) d"

definition tag_recommendations :: "tag_aggregates \<Rightarrow> string list" where
  "tag_recommendations g =
     (if tt_non_compliant g = 0 \<and> 0 < tt_total g
      then [''All resources are tag-compliant. Maintain current enforcement.'']
      else
       (if tt_rate_pct g < 80
        then [''Compliance rate is '' @ fmt_1f (tt_rate_pct g) @ ''% '' @ em_dash @
          '' below 80% target. Escalate to cloud platform team for enforcement at '' @
          ''resource-creation time (IaC guardrails, SCPs, org policies).''] else []) @
       (case by_count (tt_missing_counts g) of
          [] \<Rightarrow> []
        | (tag, n) # _ \<Rightarrow> [quoted tag @ '' is the most frequently missing tag ('' @ show_nat n @
            '' resource(s)). Add it to the IaC template defaults and CI validation.'']) @
       (if dget_or (tt_by_team g) ''Untagged'' 0 \<noteq> 0
        then [show_nat (dget_or (tt_by_team g) ''Untagged'' 0) @
          '' non-compliant resource(s) have no team tag. Block further creation without a '' @
          quoted ''team'' @ '' tag via preventative policy.''] else []) @
       (if 0 < tt_unattributed g
        then [''$'' @ fmt_money (tt_unattributed g) @ ''/month of spend '' @
          ''cannot be attributed due to missing tags. This is the maximum '' @
          ''potential savings from better cost allocation hygiene.''] else []) @
       (if tt_non_taggable g \<noteq> 0
        then [show_nat (tt_non_taggable g) @ '' resource(s) are non-taggable by '' @
          ''provider design '' @ em_dash @ '' attribute them via their parent resource or '' @
          ''project/account-level tags.''] else []))"

text \<open>What a report draws on: the clock, the fresh id and the audit environment.\<close>

record tag_env =
  tv_now :: timestamp
  tv_report_id :: string
  tv_generated_at :: timestamp
  tv_log :: log_env

definition in_period :: "timestamp \<Rightarrow> timestamp \<Rightarrow> cloud_provider option \<Rightarrow> resource_event \<Rightarrow> bool" where
  "in_period start end_time provider e \<longleftrightarrow>
     start \<le> ev_timestamp e \<and> ev_timestamp e \<le> end_time \<and> of_provider provider e"

definition make_report :: "tag_env \<Rightarrow> timestamp \<Rightarrow> timestamp \<Rightarrow> cloud_provider option \<Rightarrow> tag_audit list \<Rightarrow>
    tag_report list \<Rightarrow> tag_report" where
  "make_report v start end_time provider audits history =
     (let g = aggregate_audits audits
      in \<lparr>tr_report_id = tv_report_id v, tr_generated_at = tv_generated_at v, tr_period_start = start,
          tr_period_end = end_time, tr_provider = provider, tr_total = tt_total g,
          tr_compliant = tt_compliant g, tr_non_compliant = tt_non_compliant g,
          tr_non_taggable = tt_non_taggable g, tr_exempt = tt_exempt g, tr_rate_pct = tt_rate_pct g,
          tr_missing_counts = tt_missing_counts g, tr_by_account = tt_by_account g,
          tr_by_type = tt_by_type g, tr_by_team = tt_by_team g, tr_unattributed = tt_unattributed g,
          tr_trend_pct = compute_trend (tt_rate_pct g) provider history,
          tr_priorities = rank_remediation audits, tr_recommendations = tag_recommendations g\<rparr>)"

definition generate_weekly_report :: "(string \<Rightarrow> string) \<Rightarrow> (string \<Rightarrow> string \<Rightarrow> bool option) \<Rightarrow> tag_env \<Rightarrow>
    resource_event list \<Rightarrow> timestamp option \<Rightarrow> cloud_provider option \<Rightarrow> tagging_agent \<Rightarrow>
    tag_report option \<times> tagging_agent" where
  "generate_weekly_report sha rx v es period_end provider ta =
     (let end_time = (case period_end of None \<Rightarrow> tv_now v | Some t \<Rightarrow> t);
          start = end_time - tx_window_days ta * us_per_day
      in case audit_events rx (tx_engine ta) (filter (in_period start end_time provider) es) of
           None \<Rightarrow> (None, ta)
         | Some audits \<Rightarrow>
             (let r = make_report v start end_time provider audits (tx_history ta);
                  history = tx_history ta @ [r]
              in (Some r, ta
                \<lparr>tx_history := (if MAX_REPORT_HISTORY < int (length history)
                                then slice_last MAX_REPORT_HISTORY history else history),
                 tx_audit := snd (log_entry sha
                   ((default_args ''tagging.report_generated'' ''system'' (tr_report_id r))
                      \<lparr>la_provider := provider,
                       la_details := [(''period'', PStr (isoformat start @ '' to '' @ isoformat end_time)),
                         (''total'', PInt (int (tr_total r))),
                         (''compliance_rate_pct'', PFloat (tr_rate_pct r)),
                         (''unattributed_monthly_cost_usd'', PFloat (tr_unattributed r))]\<rparr>)
                   (tv_log v) (tx_audit ta))\<rparr>)))"

definition get_report_history :: "int \<Rightarrow> tagging_agent \<Rightarrow> tag_report list" where
  "get_report_history limit ta = slice_last limit (tx_history ta)"

section \<open>The text of a report\<close>

definition count_lines :: "(string, nat) dict \<Rightarrow> string" where
  "count_lines d =
     str_or (join newline (map (\<lambda>(k, n). ''    '' @ ljust 30 k @ '' '' @ rjust 6 (show_nat n)) (by_count d)))
       ''    None''"

definition priority_line :: "nat \<Rightarrow> remediation \<Rightarrow> string" where
  "priority_line i p =
     ''    '' @ show_nat (i + 1) @ ''. ['' @ rm_severity p @ ''] '' @ rm_resource_type p @ '' ('' @
     rm_account_id p @ '') '' @ em_dash @ '' $'' @ fmt_money (rm_cost p) @ ''/mo, owner: '' @ rm_owner p"

definition report_rule :: string where
  "report_rule = replicate 72 CHR ''=''"

definition format_report :: "tag_report \<Rightarrow> string" where
  "format_report r = join newline
     [[],
      report_rule,
      ''FINOPS TAGGING HEALTH REPORT '' @ em_dash @ '' '' @
        (case tr_provider r of None \<Rightarrow> ''ALL PROVIDERS'' | Some p \<Rightarrow> upper (provider_value p)),
      ''Period: '' @ date_str (tr_period_start r) @ '' to '' @ date_str (tr_period_end r),
      ''Generated: '' @ minute_str (tr_generated_at r),
      report_rule,
      [],
      ''EXECUTIVE SUMMARY:'',
      ''    Total Resources Evaluated:   '' @ show_nat (tr_total r),
      ''    Compliant:                   '' @ show_nat (tr_compliant r),
      ''    Non-Compliant:               '' @ show_nat (tr_non_compliant r),
      ''    Non-Taggable:                '' @ show_nat (tr_non_taggable r),
      ''    Exempt (no policy):          '' @ show_nat (tr_exempt r),
      ''    Compliance Rate:             '' @ fmt_1f (tr_rate_pct r) @ ''%'',
      ''    Trend vs Previous Period:    '' @ fmt_signed_1f (tr_trend_pct r) @ ''%'',
      ''    Unattributed Monthly Spend:  $'' @ fmt_money (tr_unattributed r),
      [],
      ''MISSING REQUIRED TAGS (count):'',
      count_lines (tr_missing_counts r),
      [],
      ''NON-COMPLIANCE BY ACCOUNT:'',
      count_lines (tr_by_account r),
      [],
      ''NON-COMPLIANCE BY TEAM (Untagged = no owner):'',
      count_lines (tr_by_team r),
      [],
      ''REMEDIATION PRIORITIES (ranked by cost impact):'',
      str_or (join newline (numbered priority_line (take 10 (tr_priorities r)))) ''    None'',
      [],
      ''RECOMMENDATIONS:'',
      str_or (join newline (numbered (\<lambda>i s. ''    '' @ show_nat (i + 1) @ ''. '' @ s) (tr_recommendations r)))
        ''    No recommendations'',
      [],
      ''Report ID: '' @ tr_report_id r,
      report_rule,
      []]"

section \<open>Scans and reports\<close>

lemma those_map:
  "those (map f xs) = Some ys \<longleftrightarrow> map f xs = map Some ys"
  by (induction xs arbitrary: ys) (auto split: option.splits)

lemma those_map_None: "those (map f xs) = None \<longleftrightarrow> (\<exists>x \<in> set xs. f x = None)"
  by (induction xs) (auto split: option.splits)

text \<open>
  C19: A scan is all or nothing. It raises exactly when the tagging verdict raises for some event of
  the provider, that is when a pattern of the policy in force does not compile; then no verdict is
  returned and nothing is logged. Otherwise it returns the verdict of every event of the provider,
  in order, and appends one entry to the trail, which stays intact; the policies are untouched.
\<close>
theorem tag_scan_all_or_nothing:
  fixes ta :: tagging_agent and es :: "resource_event list" and provider :: "cloud_provider option"
  assumes "audit_ok sha (tx_audit ta)"
  defines "scope \<equiv> filter (of_provider provider) es"
  shows "case scan_tags sha rx v es provider ta of
     (None, ta') \<Rightarrow> ta' = ta \<and>
       (\<exists>e \<in> set scope. build_resource_audit rx e (resolve_policy e (tx_engine ta)) = None)
   | (Some audits, ta') \<Rightarrow>
       map (\<lambda>e. build_resource_audit rx e (resolve_policy e (tx_engine ta))) scope = map Some audits \<and>
       verify_integrity sha (tx_audit ta') = [] \<and>
       butlast (au_entries (tx_audit ta')) = au_entries (tx_audit ta) \<and>
       tx_engine ta' = tx_engine ta \<and> tx_history ta' = tx_history ta"
proof (cases "audit_events rx (tx_engine ta) scope")
  case None
  then have "\<exists>e \<in> set scope. build_resource_audit rx e (resolve_policy e (tx_engine ta)) = None"
    by (simp add: audit_events_def those_map_None)
  with None show ?thesis by (simp add: scan_tags_def flip: scope_def)
next
  case (Some audits)
  have "verify_integrity sha (snd (log_entry sha a w (tx_audit ta))) = []" for a w
    using audit_ok_verify [OF audit_ok_log [OF assms(1)]] .
  moreover have "map (\<lambda>e. build_resource_audit rx e (resolve_policy e (tx_engine ta))) scope = map Some audits"
    using Some by (simp only: audit_events_def those_map)
  ultimately show ?thesis using Some by (simp add: scan_tags_def flip: scope_def)
qed

text \<open>
  A weekly report accounts for every resource of its period. Its four status counts add up to
  the events of the period; each of the breakdowns by account, by type and by team adds up to the
  violations; a tag's count is the number of times a violation misses it, and the untagged team's
  is the number of violations without a team; the rate is a percentage; the remediation list has
  one item per violation, dearest first; the report is the latest of a history of at most 52.
\<close>
theorem tag_report_accounts:
  assumes "generate_weekly_report sha rx v es (Some end_time) provider ta = (Some r, ta')"
  defines "start \<equiv> end_time - tx_window_days ta * us_per_day"
  shows "tr_total r = length (filter (in_period start end_time provider) es) \<and>
    tr_total r = tr_compliant r + tr_non_compliant r + tr_non_taggable r + tr_exempt r \<and>
    sum_list (dvalues (tr_by_account r)) = tr_non_compliant r \<and>
    sum_list (dvalues (tr_by_type r)) = tr_non_compliant r \<and>
    sum_list (dvalues (tr_by_team r)) = tr_non_compliant r \<and>
    (\<exists>audits. length audits = tr_total r \<and> set audits \<subseteq>
       {a. \<exists>e \<in> set es. in_period start end_time provider e \<and>
          build_resource_audit rx e (resolve_policy e (tx_engine ta)) = Some a} \<and>
       (\<forall>t. dget_or (tr_missing_counts r) t 0 =
          count_list (concat (map ta_missing_required (violations audits))) t) \<and>
       (\<forall>t. dget_or (tr_by_team r) t 0 = count_list (map team_key (violations audits)) t) \<and>
       tr_unattributed r = round2 (sum_list (map ta_cost (violations audits))) \<and>
       mset (tr_priorities r) = mset (map remediation_of (violations audits))) \<and>
    0 \<le> tr_rate_pct r \<and> tr_rate_pct r \<le> 100 \<and>
    sorted (map (\<lambda>p. - rm_cost p) (tr_priorities r)) \<and>
    last (tx_history ta') = r \<and> length (tx_history ta') \<le> 52"
proof -
  obtain audits where a: "audit_events rx (tx_engine ta) (filter (in_period start end_time provider) es) = Some audits"
    and r: "r = make_report v start end_time provider audits (tx_history ta)"
    and h: "tx_history ta' = (if MAX_REPORT_HISTORY < int (length (tx_history ta @ [r]))
      then slice_last MAX_REPORT_HISTORY (tx_history ta @ [r]) else tx_history ta @ [r])"
    using assms(1) by (auto simp: generate_weekly_report_def Let_def start_def split: option.splits)
  have m: "map (\<lambda>e. build_resource_audit rx e (resolve_policy e (tx_engine ta)))
      (filter (in_period start end_time provider) es) = map Some audits"
    using a by (simp add: audit_events_def those_map)
  then have len: "length (filter (in_period start end_time provider) es) = length audits"
    by (metis length_map)
  have "Some x \<in> set (map Some audits)" if "x \<in> set audits" for x using that by simp
  then have from_events: "set audits \<subseteq> {a. \<exists>e \<in> set es. in_period start end_time provider e \<and>
      build_resource_audit rx e (resolve_policy e (tx_engine ta)) = Some a}"
    unfolding m [symmetric] by (auto simp: image_iff) metis
  have rank: "mset (tr_priorities r) = mset (map remediation_of (violations audits))"
    by (simp add: r make_report_def Let_def rank_remediation_def violations_def)
  have "sorted (map (\<lambda>a. - ta_cost a) (sort_key (\<lambda>a. - ta_cost a) (violations audits)))"
    by simp
  then have "sorted (map (\<lambda>a. - round2 (ta_cost a)) (sort_key (\<lambda>a. - ta_cost a) (violations audits)))"
    unfolding sorted_map by (rule sorted_wrt_mono_rel [rotated]) (auto intro: round2_mono)
  then have sorted: "sorted (map (\<lambda>p. - rm_cost p) (tr_priorities r))"
    by (simp add: r make_report_def Let_def rank_remediation_def violations_def comp_def remediation_of_def)
  have "last (tx_history ta') = r \<and> length (tx_history ta') \<le> 52"
    unfolding h by (auto simp: slice_last_def MAX_REPORT_HISTORY_def last_drop)
  moreover have "0 \<le> tr_rate_pct r" "tr_rate_pct r \<le> 100"
    using round2_mono [OF compliance_rate_range(1)] round2_mono [OF compliance_rate_range(2)]
    by (simp_all add: r make_report_def Let_def)
  ultimately show ?thesis
    using len from_events rank sorted aggregate_breakdowns [of audits] count_status_total [of audits]
    by (intro conjI exI [of _ audits]) (simp_all add: r make_report_def Let_def aggregate_lookups count_violations)
qed

section \<open>Concrete runs\<close>

definition tag_demo_event :: resource_event where
  "tag_demo_event = \<lparr>ev_event_id = ''e1'', ev_correlation_id = [], ev_provider = AWS,
     ev_timestamp = 0, ev_account_id = ''acct'', ev_region = [],
     ev_resource_type = ''s3:bucket'', ev_resource_id = ''b-1'', ev_resource_name = [],
     ev_creator_identity = ''dev'', ev_creator_email = [], ev_cost = 40,
     ev_purchase_type = ''on-demand'', ev_tags = [(''team'', ''x'')], ev_raw_event = []\<rparr>"

definition tag_demo_policy :: tagging_policy where
  "tag_demo_policy = \<lparr>tg_policy_id = ''t1'', tg_name = ''owners'', tg_description = [],
     tg_provider = AWS, tg_required_tags = [''owner''], tg_recommended_tags = [],
     tg_resource_types = [], tg_exempt_resource_types = [], tg_tag_value_patterns = [],
     tg_severity_when_missing = WARNING, tg_enabled = True, tg_created_at = 0, tg_updated_at = 0\<rparr>"

definition tag_demo_agent :: tagging_agent where
  "tag_demo_agent = \<lparr>tx_engine = register_tagging tag_demo_policy \<lparr>te_dir = ''d'', te_policies = []\<rparr>,
     tx_audit = init_audit [], tx_window_days = 7, tx_history = []\<rparr>"

definition tag_demo_env :: tag_env where
  "tag_demo_env = \<lparr>tv_now = 0, tv_report_id = ''r1'', tv_generated_at = 0,
     tv_log = \<lparr>le_audit_id = ''a1'', le_now = 0, le_write_ok = True\<rparr>\<rparr>"

lemma tag_demo_verdict:
  "build_resource_audit rx tag_demo_event (resolve_policy tag_demo_event (tx_engine tag_demo_agent)) =
     Some ((tag_base tag_demo_event NON_COMPLIANT)\<lparr>ta_severity := WARNING, ta_policy_id := ''t1'',
       ta_policy_name := ''owners'', ta_missing_required := [''owner'']\<rparr>)"
proof -
  have "is_resource_taggable AWS ''s3:bucket'' TAGGABLE = TAGGABLE"
    by (simp add: is_resource_taggable_def aws_registry_def dget_or_def dget_def)
  moreover have "resolve_policy tag_demo_event (tx_engine tag_demo_agent) = Some tag_demo_policy"
    by (simp add: resolve_policy_def tag_demo_agent_def register_tagging_def tag_demo_event_def
        tag_demo_policy_def tag_candidate_def dset_def)
  ultimately show ?thesis
    by (simp add: build_resource_audit_def tag_demo_event_def tag_demo_policy_def missing_tags_def
        dhas_def tag_base_def)
qed

theorem tag_scan_all_or_nothing_witness:
  "length (au_entries (tx_audit (snd (scan_tags (\<lambda>x. ''c'' @ x) (\<lambda>p s. Some True) (tv_log tag_demo_env)
     [tag_demo_event] None tag_demo_agent)))) = 1"
proof -
  let ?rx = "\<lambda>p s :: string. Some True"
  let ?s = "scan_tags (\<lambda>x. ''c'' @ x) ?rx (tv_log tag_demo_env) [tag_demo_event] None tag_demo_agent"
  have empty: "au_entries (tx_audit tag_demo_agent) = []" by (simp add: tag_demo_agent_def init_audit_def)
  have "audit_ok (\<lambda>x. ''c'' @ x) (tx_audit tag_demo_agent)" by (simp add: tag_demo_agent_def)
  from tag_scan_all_or_nothing [OF this, of None "[tag_demo_event]" ?rx "tv_log tag_demo_env"]
  have "fst ?s \<noteq> None \<and> butlast (au_entries (tx_audit (snd ?s))) = [] \<and>
      au_entries (tx_audit (snd ?s)) \<noteq> []"
    by (auto simp: of_provider_def tag_demo_verdict scan_tags_def audit_events_def empty
        split: prod.splits option.splits)
  then show ?thesis by (cases "au_entries (tx_audit (snd ?s))") (auto split: if_splits)
qed

theorem tag_report_accounts_witness:
  "\<exists>r ta'. generate_weekly_report (\<lambda>x. x) (\<lambda>p s. Some True) tag_demo_env [tag_demo_event] (Some 0) None
     tag_demo_agent = (Some r, ta') \<and> tr_total r = 1 \<and> sum_list (dvalues (tr_by_team r)) = 1"
proof -
  let ?rx = "\<lambda>p s :: string. Some True"
  let ?g = "generate_weekly_report (\<lambda>x. x) ?rx tag_demo_env [tag_demo_event] (Some 0) None tag_demo_agent"
  have scope: "filter (in_period (0 - tx_window_days tag_demo_agent * us_per_day) 0 None) [tag_demo_event] =
      [tag_demo_event]"
    by (simp add: in_period_def of_provider_def tag_demo_event_def tag_demo_agent_def us_per_day_def)
  obtain r ta' where g: "?g = (Some r, ta')" and "tr_non_compliant r = 1"
    using scope by (auto simp: generate_weekly_report_def audit_events_def tag_demo_verdict make_report_def
        violations_def Let_def simp del: filter.simps)
  with tag_report_accounts [OF g] scope show ?thesis by (auto simp del: filter.simps)
qed

end
