(* ===== verification/Pricing.thy ===== *)
theory Pricing
  imports Prelude
begin

text \<open>
  Price estimates, \<open>core/pricing.py\<close>: the bundled tables and estimators of \<open>LocalPricingService\<close>,
  over exact reals, and the TTL cache of \<open>CachedPricingService\<close> around any backend. A resource's
  configuration is a dictionary of Python values; a value of the wrong type makes the estimate raise
  \<open>TypeError\<close>, the result \<open>None\<close>.
\<close>

section \<open>Tables\<close>

definition AWS_EC2 :: "(string, real) dict" where
  "AWS_EC2 =
    [(''t3.micro'', 920 / 100), (''t3.small'', 1840 / 100), (''t3.medium'', 3679 / 100),
     (''t3.large'', 7358 / 100), (''m5.large'', 9636 / 100), (''m5.xlarge'', 19272 / 100),
     (''m5.2xlarge'', 38544 / 100), (''m5.4xlarge'', 77088 / 100), (''m6i.large'', 9636 / 100),
     (''m6i.xlarge'', 19272 / 100), (''m6i.2xlarge'', 38544 / 100), (''m7i.large'', 10074 / 100),
     (''m7i.xlarge'', 20148 / 100), (''c5.large'', 8176 / 100), (''c5.xlarge'', 16352 / 100),
     (''c5.2xlarge'', 32704 / 100), (''c6i.large'', 8176 / 100), (''c6i.xlarge'', 16352 / 100),
     (''c7i.large'', 8578 / 100), (''c7i.xlarge'', 17155 / 100), (''r5.large'', 12614 / 100),
     (''r5.xlarge'', 25229 / 100), (''r5.2xlarge'', 50458 / 100), (''r6i.large'', 12614 / 100),
     (''r6i.xlarge'', 25229 / 100), (''r7i.large'', 13286 / 100), (''r7i.xlarge'', 26572 / 100),
     (''p3.2xlarge'', 244128 / 100), (''p4d.24xlarge'', 2441280 / 100),
     (''g4dn.xlarge'', 52668 / 100), (''g5.xlarge'', 876), (''inf2.xlarge'', 54810 / 100)]"

definition AWS_RDS :: "(string, real) dict" where
  "AWS_RDS =
    [(''db.t3.micro'', 1460 / 100), (''db.t3.small'', 2920 / 100), (''db.t3.medium'', 5840 / 100),
     (''db.m5.large'', 13870 / 100), (''db.m5.xlarge'', 27740 / 100),
     (''db.m5.2xlarge'', 55480 / 100), (''db.m6i.large'', 14564 / 100),
     (''db.m6i.xlarge'', 29127 / 100), (''db.r5.large'', 18250 / 100), (''db.r5.xlarge'', 365),
     (''db.r6i.large'', 19163 / 100), (''db.r6i.xlarge'', 38325 / 100)]"

definition GCP_COMPUTE :: "(string, real) dict" where
  "GCP_COMPUTE =
    [(''e2-micro'', 767 / 100), (''e2-small'', 1533 / 100), (''e2-medium'', 3066 / 100),
     (''e2-standard-2'', 6798 / 100), (''e2-standard-4'', 13596 / 100),
     (''e2-standard-8'', 27192 / 100), (''n2-standard-2'', 8030 / 100),
     (''n2-standard-4'', 16060 / 100), (''n2-standard-8'', 32120 / 100),
     (''n2-standard-16'', 64240 / 100), (''n2-standard-32'', 128480 / 100),
     (''n2-highmem-2'', 10760 / 100), (''n2-highmem-4'', 21519 / 100),
     (''n2-highmem-8'', 43038 / 100), (''n2d-standard-2'', 7008 / 100),
     (''n2d-standard-4'', 14016 / 100), (''c2-standard-4'', 16768 / 100),
     (''c2-standard-8'', 33536 / 100), (''c3-standard-4'', 17606 / 100),
     (''c3-standard-8'', 35213 / 100), (''a2-highgpu-1g'', 306630 / 100), (''g2-standard-4'', 876)]"

definition GCP_CLOUDSQL :: "(string, real) dict" where
  "GCP_CLOUDSQL =
    [(''db-f1-micro'', 937 / 100), (''db-g1-small'', 2728 / 100), (''db-custom-1-3840'', 5250 / 100),
     (''db-custom-2-7680'', 105), (''db-custom-4-15360'', 210), (''db-custom-8-30720'', 420),
     (''db-custom-16-61440'', 840)]"

definition AWS_RESOURCE_TYPES :: "string list" where
  "AWS_RESOURCE_TYPES =
    [''ec2:instance'', ''rds:db'', ''rds:cluster'', ''eks:cluster'', ''s3:bucket'',
     ''lambda:function'', ''elasticache:cluster'', ''nat_gateway'', ''ebs:volume'',
     ''elb:load-balancer'', ''redshift:cluster'', ''dynamodb:table'', ''sqs:queue'', ''sns:topic'',
     ''cloudfront:distribution'']"

definition GCP_RESOURCE_TYPES :: "string list" where
  "GCP_RESOURCE_TYPES =
    [''compute.instances'', ''compute.disks'', ''compute.addresses'', ''cloudsql.instances'',
     ''container.clusters'', ''storage.buckets'', ''cloudfunctions.functions'', ''bigquery.datasets'',
     ''redis.instances'', ''run.services'', ''dataflow.jobs'', ''pubsub.topics'',
     ''spanner.instances'']"

section \<open>Reading a configuration\<close>

type_synonym price_config = "(string, pyval) dict"

text \<open>\<open>c.get(key, default)\<close> as an operand of an arithmetic expression over floats.\<close>

definition number :: "price_config \<Rightarrow> string \<Rightarrow> real \<Rightarrow> real option" where
  "number c key d =
     (case dget c key of
        None \<Rightarrow> Some d
      | Some v \<Rightarrow> (case v of PInt i \<Rightarrow> Some (real_of_int i) | PFloat x \<Rightarrow> Some x
          | PBool b \<Rightarrow> Some (if b then 1 else 0) | _ \<Rightarrow> None))"

text \<open>\<open>table.get(c.get(key, k0), d)\<close>; a list or dictionary is not hashable.\<close>

definition price_of :: "(string, real) dict \<Rightarrow> price_config \<Rightarrow> string \<Rightarrow> string \<Rightarrow> real \<Rightarrow> real option" where
  "price_of table c key k0 d =
     (case dget_or c key (PStr k0) of
        PStr k \<Rightarrow> Some (dget_or table k d) | PList xs \<Rightarrow> None | PDict e \<Rightarrow> None | _ \<Rightarrow> Some d)"

definition lift2 :: "(real \<Rightarrow> real \<Rightarrow> real) \<Rightarrow> real option \<Rightarrow> real option \<Rightarrow> real option" where
  "lift2 f a b = (case (a, b) of (Some x, Some y) \<Rightarrow> Some (f x y) | _ \<Rightarrow> None)"

section \<open>AWS estimators\<close>

definition aws_ec2 :: "price_config \<Rightarrow> real option" where
  "aws_ec2 c = lift2 (*) (price_of AWS_EC2 c ''instance_type'' ''m5.large'' (9636 / 100)) (number c ''count'' 1)"

definition aws_rds :: "price_config \<Rightarrow> real option" where
  "aws_rds c = lift2 (\<lambda>base gb. (if truthy (dget_or c ''multi_az'' (PBool False)) then base * 2 else base) + gb * (115 / 1000))
     (price_of AWS_RDS c ''instance_class'' ''db.m5.large'' (13870 / 100)) (number c ''storage_gb'' 100)"

definition aws_eks :: "price_config \<Rightarrow> real option" where
  "aws_eks c = lift2 (\<lambda>nodes cost. 73 + nodes * cost) (number c ''node_count'' 3)
     (price_of AWS_EC2 c ''node_type'' ''m5.large'' (9636 / 100))"

definition aws_s3 :: "price_config \<Rightarrow> real option" where
  "aws_s3 c = map_option (\<lambda>gb. gb * (23 / 1000)) (number c ''storage_gb'' 0)"

text \<open>GB-seconds of a function's invocations.\<close>

definition gb_seconds :: "price_config \<Rightarrow> real option" where
  "gb_seconds c = lift2 (\<lambda>ms mem. (ms / 1000) * (mem / 1024))
     (lift2 (*) (number c ''invocations_per_month'' 1000000) (number c ''avg_duration_ms'' 200)) (number c ''memory_mb'' 256)"

definition aws_lambda :: "price_config \<Rightarrow> real option" where
  "aws_lambda c = lift2 (\<lambda>gb_s inv. gb_s * (166667 / 10000000000) + inv * (2 / 10000000)) (gb_seconds c)
     (number c ''invocations_per_month'' 1000000)"

definition aws_elasticache :: "price_config \<Rightarrow> real option" where
  "aws_elasticache c = lift2 (*)
     (price_of [(''cache.t3.micro'', 1241 / 100), (''cache.m5.large'', 12410 / 100), (''cache.r5.large'', 165)] c
       ''node_type'' ''cache.m5.large'' (12410 / 100)) (number c ''node_count'' 1)"

definition aws_nat :: "price_config \<Rightarrow> real option" where
  "aws_nat c = map_option (\<lambda>gb. 48 / 1000 * 730 + gb * (48 / 1000)) (number c ''data_processed_gb_month'' 100)"

definition aws_ebs :: "price_config \<Rightarrow> real option" where
  "aws_ebs c = lift2 (*) (number c ''size_gb'' 100)
     (price_of [(''gp3'', 8 / 100), (''gp2'', 10 / 100), (''io1'', 125 / 1000), (''io2'', 125 / 1000),
       (''st1'', 45 / 1000), (''sc1'', 25 / 1000)] c ''volume_type'' ''gp3'' (8 / 100))"

definition aws_elb :: "price_config \<Rightarrow> real option" where
  "aws_elb c = map_option (\<lambda>lcu. 252 / 10000 * 730 + 8 / 1000 * lcu * 730) (number c ''lcu_estimate'' 5)"

definition aws_redshift :: "price_config \<Rightarrow> real option" where
  "aws_redshift c = lift2 (*)
     (price_of [(''dc2.large'', 18250 / 100), (''dc2.8xlarge'', 3650), (''ra3.xlplus'', 27430 / 100)] c
       ''node_type'' ''dc2.large'' (18250 / 100)) (number c ''node_count'' 2)"

definition aws_dynamodb :: "price_config \<Rightarrow> real option" where
  "aws_dynamodb c = lift2 (\<lambda>wcu rcu. wcu * (735 / 1000000) * 730 + rcu * (147 / 1000000) * 730)
     (number c ''write_capacity_units'' 5) (number c ''read_capacity_units'' 5)"

type_synonym estimators = "(string, price_config \<Rightarrow> real option) dict"

definition aws_estimators :: estimators where
  "aws_estimators =
     [(''ec2:instance'', aws_ec2), (''rds:db'', aws_rds), (''rds:cluster'', aws_rds), (''eks:cluster'', aws_eks),
      (''s3:bucket'', aws_s3), (''lambda:function'', aws_lambda), (''elasticache:cluster'', aws_elasticache),
      (''nat_gateway'', aws_nat), (''ebs:volume'', aws_ebs), (''elb:load-balancer'', aws_elb),
      (''redshift:cluster'', aws_redshift), (''dynamodb:table'', aws_dynamodb)]"

text \<open>\<open>round(fn(config), 2) if fn else 0.0\<close>\<close>

definition estimate :: "estimators \<Rightarrow> string \<Rightarrow> price_config \<Rightarrow> real option" where
  "estimate es rt c = (case dget es rt of None \<Rightarrow> Some 0 | Some f \<Rightarrow> map_option round2 (f c))"

section \<open>GCP estimators\<close>

definition gcp_compute :: "price_config \<Rightarrow> real option" where
  "gcp_compute c = lift2 (*) (price_of GCP_COMPUTE c ''machine_type'' ''n2-standard-2'' (8030 / 100)) (number c ''count'' 1)"

definition gcp_disk :: "price_config \<Rightarrow> real option" where
  "gcp_disk c = lift2 (*) (number c ''size_gb'' 100)
     (price_of [(''pd-standard'', 4 / 100), (''pd-balanced'', 10 / 100), (''pd-ssd'', 17 / 100),
       (''pd-extreme'', 125 / 1000)] c ''disk_type'' ''pd-balanced'' (10 / 100))"

definition gcp_static_ip :: "price_config \<Rightarrow> real option" where
  "gcp_static_ip c = map_option (\<lambda>n. 730 / 100 * n) (number c ''count'' 1)"

text \<open>\<open>c.get(key) == s\<close>\<close>

definition field_is :: "price_config \<Rightarrow> string \<Rightarrow> string \<Rightarrow> bool" where
  "field_is c key s = (case dget c key of Some (PStr t) \<Rightarrow> t = s | _ \<Rightarrow> False)"

definition gcp_cloudsql :: "price_config \<Rightarrow> real option" where
  "gcp_cloudsql c = lift2 (\<lambda>base gb. (if field_is c ''availability_type'' ''REGIONAL'' then base * 2 else base) + gb * (17 / 100))
     (price_of GCP_CLOUDSQL c ''tier'' ''db-custom-2-7680'' 105) (number c ''storage_gb'' 100)"

definition gcp_gke :: "price_config \<Rightarrow> real option" where
  "gcp_gke c = lift2 (\<lambda>nodes cost. 73 + nodes * cost) (number c ''node_count'' 3)
     (price_of GCP_COMPUTE c ''machine_type'' ''n2-standard-2'' (8030 / 100))"

definition gcp_storage :: "price_config \<Rightarrow> real option" where
  "gcp_storage c = lift2 (*) (number c ''storage_gb'' 0)
     (price_of [(''STANDARD'', 20 / 1000), (''NEARLINE'', 10 / 1000), (''COLDLINE'', 4 / 1000),
       (''ARCHIVE'', 12 / 10000)] c ''storage_class'' ''STANDARD'' (20 / 1000))"

definition gcp_functions :: "price_config \<Rightarrow> real option" where
  "gcp_functions c = lift2 (\<lambda>gb_s inv. gb_s * (25 / 10000000) + inv * (4 / 10000000)) (gb_seconds c)
     (number c ''invocations_per_month'' 1000000)"

definition gcp_bigquery :: "price_config \<Rightarrow> real option" where
  "gcp_bigquery c = lift2 (\<lambda>gb tb. gb * (2 / 100) + tb * (625 / 100)) (number c ''storage_gb'' 100)
     (number c ''queries_tb_month'' 1)"

definition gcp_redis :: "price_config \<Rightarrow> real option" where
  "gcp_redis c = map_option (\<lambda>gb. gb * (if field_is c ''tier'' ''STANDARD_HA'' then 98 / 1000 else 49 / 1000) * 730)
     (number c ''capacity_gb'' 5)"

definition gcp_cloud_run :: "price_config \<Rightarrow> real option" where
  "gcp_cloud_run c = lift2 (+)
     (lift2 (\<lambda>requests cpu. requests * (4 / 10000000) + cpu * (24 / 1000000)) (number c ''requests_per_month'' 1000000)
       (number c ''cpu_seconds_per_month'' 50000))
     (map_option (\<lambda>mem. mem * (25 / 10000000)) (number c ''memory_gib_seconds_per_month'' 100000))"

definition gcp_estimators :: estimators where
  "gcp_estimators =
     [(''compute.instances'', gcp_compute), (''compute.disks'', gcp_disk), (''compute.addresses'', gcp_static_ip),
      (''cloudsql.instances'', gcp_cloudsql), (''container.clusters'', gcp_gke), (''storage.buckets'', gcp_storage),
      (''cloudfunctions.functions'', gcp_functions), (''bigquery.datasets'', gcp_bigquery),
      (''redis.instances'', gcp_redis), (''run.services'', gcp_cloud_run)]"

section \<open>The local service\<close>

definition local_monthly_cost :: "string \<Rightarrow> string \<Rightarrow> price_config \<Rightarrow> string option \<Rightarrow> real option" where
  "local_monthly_cost provider rt c region =
     (if provider = ''aws'' then estimate aws_estimators rt c
      else if provider = ''gcp'' then estimate gcp_estimators rt c else Some 0)"

definition unit_price :: "(string, real) dict \<Rightarrow> string \<Rightarrow> real option" where
  "unit_price table u = (case dget table u of None \<Rightarrow> None | Some m \<Rightarrow> if m \<noteq> 0 then Some (round6 (m / 730)) else None)"

definition local_price_per_unit :: "string \<Rightarrow> string \<Rightarrow> string \<Rightarrow> string option \<Rightarrow> real option" where
  "local_price_per_unit provider rt u region =
     (if provider = ''aws'' \<and> rt = ''ec2:instance'' then unit_price AWS_EC2 u
      else if provider = ''gcp'' \<and> rt = ''compute.instances'' then unit_price GCP_COMPUTE u else None)"

definition local_resource_types :: "string \<Rightarrow> string list" where
  "local_resource_types provider =
     (if provider = ''aws'' then AWS_RESOURCE_TYPES else if provider = ''gcp'' then GCP_RESOURCE_TYPES else [])"

section \<open>The cache\<close>

record price_query =
  pq_provider :: string
  pq_resource_type :: string
  pq_config :: price_config
  pq_region :: "string option"

text \<open>
  The backend and the cache key (the MD5 of the query's JSON) are arguments. A call reads the clock
  once when the key is cached, and once more when it stores.
\<close>

record price_cache =
  pc_ttl :: real
  pc_cache :: "(string, real \<times> real) dict"

record price_clock =
  pk_lookup :: real
  pk_store :: real

type_synonym price_backend = "price_query \<Rightarrow> real option"

definition init_cache :: "real \<Rightarrow> price_cache" where
  "init_cache ttl = \<lparr>pc_ttl = ttl, pc_cache = []\<rparr>"

definition cached_monthly_cost :: "(price_query \<Rightarrow> string) \<Rightarrow> price_backend \<Rightarrow> price_clock \<Rightarrow> price_query \<Rightarrow> price_cache \<Rightarrow>
    real option \<times> price_cache" where
  "cached_monthly_cost key backend now q pc =
     (let fetch = (case backend q of
            None \<Rightarrow> (None, pc)
          | Some cost \<Rightarrow> (Some cost, pc\<lparr>pc_cache := dset (pc_cache pc) (key q) (cost, pk_store now)\<rparr>))
      in case dget (pc_cache pc) (key q) of
           None \<Rightarrow> fetch
         | Some (cost, t) \<Rightarrow> if pk_lookup now - t < pc_ttl pc then (Some cost, pc) else fetch)"

section \<open>Prices are prices\<close>

definition numbers_nonneg :: "price_config \<Rightarrow> bool" where
  "numbers_nonneg c \<longleftrightarrow> (\<forall>k i x. (dget c k = Some (PInt i) \<longrightarrow> 0 \<le> i) \<and> (dget c k = Some (PFloat x) \<longrightarrow> 0 \<le> x))"

definition nonneg_price :: "real option \<Rightarrow> bool" where
  "nonneg_price p = (case p of None \<Rightarrow> True | Some x \<Rightarrow> 0 \<le> x)"

named_theorems price_nonneg

lemma number_nonneg [price_nonneg]: "numbers_nonneg c \<Longrightarrow> 0 \<le> d \<Longrightarrow> nonneg_price (number c k d)"
  by (auto simp: numbers_nonneg_def number_def nonneg_price_def split: option.splits pyval.splits)

lemma table_get: "list_all (\<lambda>(k, x). P x) table \<Longrightarrow> dget table k = Some x \<Longrightarrow> P x"
  by (induction table) (auto simp: dget_Cons split: if_splits)

lemma price_of_nonneg [price_nonneg]:
  "list_all (\<lambda>(k, x). 0 \<le> x) table \<Longrightarrow> 0 \<le> d \<Longrightarrow> nonneg_price (price_of table c key k0 d)"
  using table_get [of "\<lambda>x. 0 \<le> x" table]
  by (auto simp: price_of_def nonneg_price_def dget_or_def split: option.splits pyval.splits)

lemma lift2_nonneg [price_nonneg]:
  "(\<And>x y. 0 \<le> x \<Longrightarrow> 0 \<le> y \<Longrightarrow> 0 \<le> f x y) \<Longrightarrow> nonneg_price a \<Longrightarrow> nonneg_price b \<Longrightarrow> nonneg_price (lift2 f a b)"
  by (auto simp: lift2_def nonneg_price_def split: option.splits)

lemma map_nonneg [price_nonneg]:
  "(\<And>x. 0 \<le> x \<Longrightarrow> 0 \<le> f x) \<Longrightarrow> nonneg_price a \<Longrightarrow> nonneg_price (map_option f a)"
  by (auto simp: nonneg_price_def split: option.splits)

lemma gb_seconds_nonneg [price_nonneg]: "numbers_nonneg c \<Longrightarrow> nonneg_price (gb_seconds c)"
  unfolding gb_seconds_def by (intro price_nonneg) auto

lemma tables_nonneg [price_nonneg]:
  "list_all (\<lambda>(k, x). 0 \<le> x) AWS_EC2" "list_all (\<lambda>(k, x). 0 \<le> x) AWS_RDS"
  "list_all (\<lambda>(k, x). 0 \<le> x) GCP_COMPUTE" "list_all (\<lambda>(k, x). 0 \<le> x) GCP_CLOUDSQL"
  by (simp_all add: AWS_EC2_def AWS_RDS_def GCP_COMPUTE_def GCP_CLOUDSQL_def)

lemma aws_nonneg:
  assumes "numbers_nonneg c"
  shows "list_all (\<lambda>(rt, f). nonneg_price (f c)) aws_estimators"
  unfolding aws_estimators_def list.pred_inject prod.case aws_ec2_def aws_rds_def aws_eks_def aws_s3_def
    aws_lambda_def aws_elasticache_def aws_nat_def aws_ebs_def aws_elb_def aws_redshift_def aws_dynamodb_def
  by (intro conjI price_nonneg assms) auto

lemma gcp_nonneg:
  assumes "numbers_nonneg c"
  shows "list_all (\<lambda>(rt, f). nonneg_price (f c)) gcp_estimators"
  unfolding gcp_estimators_def list.pred_inject prod.case gcp_compute_def gcp_disk_def gcp_static_ip_def
    gcp_cloudsql_def gcp_gke_def gcp_storage_def gcp_functions_def gcp_bigquery_def gcp_redis_def gcp_cloud_run_def
  by (intro conjI price_nonneg assms) auto

lemma estimate_nonneg: "list_all (\<lambda>(rt, f). nonneg_price (f c)) es \<Longrightarrow> nonneg_price (estimate es rt c)"
  using table_get [of "\<lambda>f. nonneg_price (f c)" es rt]
  by (fastforce simp: estimate_def nonneg_price_def round2_nonneg split: option.splits)

text \<open>No configuration with non-negative numbers has a negative estimate.\<close>

lemma monthly_cost_nonneg: "numbers_nonneg c \<Longrightarrow> local_monthly_cost provider rt c region = Some x \<Longrightarrow> 0 \<le> x"
  using estimate_nonneg [OF aws_nonneg, of c rt] estimate_nonneg [OF gcp_nonneg, of c rt]
  by (auto simp: local_monthly_cost_def nonneg_price_def split: if_splits)

text \<open>The listed types without an estimator: a resource of such a type is priced at zero.\<close>

lemma supported_but_unpriced:
  "filter (\<lambda>rt. \<not> dhas aws_estimators rt) (local_resource_types ''aws'') =
     [''sqs:queue'', ''sns:topic'', ''cloudfront:distribution'']"
  "filter (\<lambda>rt. \<not> dhas gcp_estimators rt) (local_resource_types ''gcp'') =
     [''dataflow.jobs'', ''pubsub.topics'', ''spanner.instances'']"
  "\<not> dhas aws_estimators rt \<Longrightarrow> local_monthly_cost ''aws'' rt c region = Some 0"
  by (simp_all add: local_resource_types_def AWS_RESOURCE_TYPES_def GCP_RESOURCE_TYPES_def aws_estimators_def
      gcp_estimators_def dhas_dget local_monthly_cost_def estimate_def dget_Cons)

section \<open>The cache is transparent\<close>

fun cached_run :: "(price_query \<Rightarrow> string) \<Rightarrow> price_backend \<Rightarrow> (price_clock \<times> price_query) list \<Rightarrow> price_cache \<Rightarrow>
    real option list \<times> price_cache" where
  "cached_run key backend [] pc = ([], pc)"
| "cached_run key backend ((now, q) # qs) pc =
     (let (x, pc1) = cached_monthly_cost key backend now q pc; (xs, pc2) = cached_run key backend qs pc1
      in (x # xs, pc2))"

definition cache_ok :: "(price_query \<Rightarrow> string) \<Rightarrow> price_backend \<Rightarrow> price_query set \<Rightarrow> price_cache \<Rightarrow> bool" where
  "cache_ok key backend qs pc \<longleftrightarrow>
     (\<forall>k cost t. dget (pc_cache pc) k = Some (cost, t) \<longrightarrow> (\<exists>q \<in> qs. key q = k \<and> backend q = Some cost))"

lemma cached_call:
  assumes "cache_ok key backend qs pc" and "q \<in> qs" and "inj_on key qs"
    and "cached_monthly_cost key backend now q pc = (x, pc')"
  shows "x = backend q \<and> cache_ok key backend qs pc'"
proof (cases "dget (pc_cache pc) (key q)")
  case None
  with assms show ?thesis by (auto simp: cached_monthly_cost_def cache_ok_def split: option.splits if_splits)
next
  case (Some ct)
  obtain cost t where ct: "ct = (cost, t)" by (cases ct)
  obtain q' where "q' \<in> qs" "key q' = key q" "backend q' = Some cost"
    using assms(1) Some ct by (auto simp: cache_ok_def)
  then have "backend q = Some cost" using assms(2,3) by (auto dest: inj_onD)
  with assms Some ct show ?thesis by (auto simp: cached_monthly_cost_def cache_ok_def split: if_splits)
qed

lemma cached_run_agrees:
  "cache_ok key backend qs pc \<Longrightarrow> snd ` set xs \<subseteq> qs \<Longrightarrow> inj_on key qs \<Longrightarrow>
   fst (cached_run key backend xs pc) = map (backend \<circ> snd) xs"
proof (induction xs arbitrary: pc)
  case (Cons x xs)
  obtain now q where x: "x = (now, q)" by (cases x)
  obtain p pc' where call: "cached_monthly_cost key backend now q pc = (p, pc')" by fastforce
  from cached_call [OF Cons.prems(1) _ Cons.prems(3) call] Cons.prems(2) x
  have "p = backend q" "cache_ok key backend qs pc'" by auto
  with Cons x call show ?case by (simp add: Let_def case_prod_beta)
qed simp


end
