(* ===== verification/Config.thy ===== *)
theory Config
  imports Prelude
begin

text \<open>
  The layered configuration, \<open>core/config.py\<close>: the built-in defaults, the tree of a config file
  merged over them under dotted keys, the environment variables coerced over both, and the typed
  getters. The file's tree is an argument (what the YAML or JSON parser returned; a file that does
  not parse is no tree), the environment is a dictionary of texts.
\<close>

section \<open>Defaults\<close>

type_synonym config = "(string, pyval) dict"

abbreviation levels :: "int \<Rightarrow> int \<Rightarrow> int \<Rightarrow> pyval" where
  "levels w c e \<equiv> PDict [(''warning'', PInt w), (''critical'', PInt c), (''emergency'', PInt e)]"

definition config_defaults :: config where
  "config_defaults = [
     (''hub.version'', PStr ''0.3.0''),
     (''hub.audit_dir'', PStr ''audit_store''),
     (''hub.policy_dir'', PStr ''policies''),
     (''hub.event_store_backend'', PStr ''memory''),
     (''hub.event_store_path'', PStr ''events.db''),
     (''thresholds.anomaly_multiplier'', PFloat 2),
     (''thresholds.min_datapoints'', PInt 3),
     (''thresholds.defaults.ec2:instance'', levels 500 2000 5000),
     (''thresholds.defaults.rds:db'', levels 800 3000 8000),
     (''thresholds.defaults.rds:cluster'', levels 800 3000 8000),
     (''thresholds.defaults.eks:cluster'', levels 2000 5000 15000),
     (''thresholds.defaults.s3:bucket'', levels 200 1000 3000),
     (''thresholds.defaults.lambda:function'', levels 100 500 2000),
     (''thresholds.defaults.elasticache:cluster'', levels 500 2000 5000),
     (''thresholds.defaults.redshift:cluster'', levels 1000 5000 15000),
     (''thresholds.defaults.nat_gateway'', levels 300 1000 3000),
     (''thresholds.defaults.compute.instances'', levels 500 2000 5000),
     (''thresholds.defaults.cloudsql.instances'', levels 800 3000 8000),
     (''thresholds.defaults.container.clusters'', levels 2000 5000 15000),
     (''thresholds.defaults.storage.buckets'', levels 200 1000 3000),
     (''thresholds.defaults.cloudfunctions.functions'', levels 100 500 2000),
     (''thresholds.defaults.bigquery.datasets'', levels 500 2000 8000),
     (''thresholds.defaults.redis.instances'', levels 500 2000 5000),
     (''thresholds.defaults.ebs:volume'', levels 100 500 2000),
     (''thresholds.defaults.elb:load-balancer'', levels 200 800 3000),
     (''thresholds.defaults.compute.disks'', levels 100 500 2000),
     (''thresholds.defaults.compute.addresses'', levels 50 200 500),
     (''thresholds.defaults.run.services'', levels 100 500 2000),
     (''thresholds.defaults.dataflow.jobs'', levels 500 2000 8000),
     (''tags.required'', PList [PStr ''team'', PStr ''cost-centre'', PStr ''environment'', PStr ''owner'']),
     (''tags.case_sensitive'', PBool False),
     (''escalation.emergency'', PStr ''1 hour''),
     (''escalation.critical'', PStr ''24 hours''),
     (''escalation.warning'', PStr ''7 days''),
     (''escalation.info'', PStr ''next review cycle''),
     (''notifications.channels'', PList []),
     (''monitoring.poll_interval_seconds'', PInt 900),
     (''pricing.default_region.aws'', PStr ''eu-west-2''),
     (''pricing.default_region.gcp'', PStr ''europe-west2''),
     (''pricing.cache_ttl_hours'', PInt 24)]"

definition env_map :: "(string \<times> string) list" where
  "env_map = [
     (''FINOPS_AUDIT_DIR'', ''hub.audit_dir''),
     (''FINOPS_POLICY_DIR'', ''hub.policy_dir''),
     (''FINOPS_EVENT_STORE'', ''hub.event_store_backend''),
     (''FINOPS_EVENT_STORE_PATH'', ''hub.event_store_path''),
     (''FINOPS_ANOMALY_MULTIPLIER'', ''thresholds.anomaly_multiplier''),
     (''FINOPS_POLL_INTERVAL'', ''monitoring.poll_interval_seconds''),
     (''FINOPS_REQUIRED_TAGS'', ''tags.required''),
     (''FINOPS_AWS_REGION'', ''pricing.default_region.aws''),
     (''FINOPS_GCP_REGION'', ''pricing.default_region.gcp''),
     (''FINOPS_SLACK_WEBHOOK'', ''notifications.slack_webhook''),
     (''FINOPS_PAGERDUTY_KEY'', ''notifications.pagerduty_routing_key''),
     (''FINOPS_WEBHOOK_URL'', ''notifications.webhook_url''),
     (''FINOPS_AWS_REGIONS'', ''aws.regions''),
     (''FINOPS_GCP_PROJECTS'', ''gcp.projects'')]"

section \<open>Numbers in text\<close>

text \<open>
  \<open>float(s)\<close> of a decimal literal: sign, digits (with single
  underscores between them), fraction, exponent. The spellings of infinities
  and NaN have no real value and read as failures here.
\<close>

fun digit_run :: "bool \<Rightarrow> string \<Rightarrow> string \<times> string" where
  "digit_run prev [] = ([], [])"
| "digit_run prev (c # s) =
     (if is_digit c then (let (d, r) = digit_run True s in (c # d, r))
      else if c = CHR ''_'' \<and> prev \<and> (case s of [] \<Rightarrow> False | d # t \<Rightarrow> is_digit d) then digit_run False s
      else ([], c # s))"

definition digits_real :: "string \<Rightarrow> real" where
  "digits_real ds = real_of_int (foldl (\<lambda>n c. 10 * n + int (of_char c - 48)) 0 ds)"

definition exponent_of :: "string \<Rightarrow> int option" where
  "exponent_of s =
     (case s of
        [] \<Rightarrow> Some 0
      | c # t \<Rightarrow>
          if c = CHR ''e'' \<or> c = CHR ''E'' then
            (let (neg, u) = (case t of [] \<Rightarrow> (False, [])
                 | d # r \<Rightarrow> if d = CHR ''-'' then (True, r) else if d = CHR ''+'' then (False, r)
                           else (False, d # r));
                 (ds, rest) = digit_run False u
             in if ds = [] \<or> rest \<noteq> [] then None
                else Some (if neg then - \<lfloor>digits_real ds\<rfloor> else \<lfloor>digits_real ds\<rfloor>))
          else None)"

definition unsigned_float :: "string \<Rightarrow> real option" where
  "unsigned_float s =
     (let (whole, r) = digit_run False s;
          (frac, r) = (case r of [] \<Rightarrow> ([], [])
             | c # t \<Rightarrow> if c = CHR ''.'' then digit_run False t else ([], c # t))
      in if whole = [] \<and> frac = [] then None
         else (case exponent_of r of None \<Rightarrow> None
           | Some x \<Rightarrow> Some ((digits_real whole + digits_real frac / 10 ^ length frac) *
               (if 0 \<le> x then 10 ^ nat x else 1 / 10 ^ nat (- x)))))"

definition py_float :: "string \<Rightarrow> real option" where
  "py_float s =
     (case strip s of
        [] \<Rightarrow> None
      | c # t \<Rightarrow> if c = CHR ''-'' then map_option uminus (unsigned_float t)
                 else if c = CHR ''+'' then unsigned_float t
                 else unsigned_float (c # t))"

section \<open>Merging a file\<close>

definition is_threshold_dict :: "(string \<times> pyval) list \<Rightarrow> bool" where
  "is_threshold_dict d \<longleftrightarrow> set (map fst d) \<subseteq> {''warning'', ''critical'', ''emergency''}"

definition full_key :: "string \<Rightarrow> string \<Rightarrow> string" where
  "full_key prefix key = (if prefix = [] then key else prefix @ ''.'' @ key)"

fun merge_config :: "string \<Rightarrow> (string \<times> pyval) list \<Rightarrow> config \<Rightarrow> config" where
  "merge_config prefix [] cfg = cfg"
| "merge_config prefix ((key, PDict d) # rest) cfg =
     (if \<not> is_threshold_dict d
      then merge_config prefix rest (merge_config (full_key prefix key) d cfg)
      else merge_config prefix rest (dset cfg (full_key prefix key) (PDict d)))"
| "merge_config prefix ((key, v) # rest) cfg =
     merge_config prefix rest (dset cfg (full_key prefix key) v)"

text \<open>\<open>_load_yaml\<close> after parsing; a tree that is not a mapping is ignored (a falsy one is empty).\<close>

definition load_tree :: "pyval option \<Rightarrow> config \<Rightarrow> config" where
  "load_tree tree cfg = (case tree of Some (PDict d) \<Rightarrow> merge_config [] d cfg | _ \<Rightarrow> cfg)"

section \<open>Environment overrides\<close>

definition coerce :: "config \<Rightarrow> string \<Rightarrow> string \<Rightarrow> pyval" where
  "coerce cfg key v =
     (case dget cfg key of
        Some (PBool b) \<Rightarrow> PBool (lower v \<in> {''true'', ''1'', ''yes''})
      | Some (PInt i) \<Rightarrow> (case py_int v of Some j \<Rightarrow> PInt j | None \<Rightarrow> PInt i)
      | Some (PFloat x) \<Rightarrow> (case py_float v of Some y \<Rightarrow> PFloat y | None \<Rightarrow> PFloat x)
      | Some (PList xs) \<Rightarrow> PList (map (\<lambda>t. PStr (strip t)) (split_on CHR '','' v))
      | _ \<Rightarrow> PStr v)"

fun apply_env :: "(string, string) dict \<Rightarrow> (string \<times> string) list \<Rightarrow> config \<Rightarrow> config" where
  "apply_env env [] cfg = cfg"
| "apply_env env ((var, key) # rest) cfg =
     apply_env env rest (case dget env var of None \<Rightarrow> cfg | Some v \<Rightarrow> dset cfg key (coerce cfg key v))"

definition load_config :: "pyval option \<Rightarrow> (string, string) dict \<Rightarrow> config" where
  "load_config tree env = apply_env env env_map (load_tree tree config_defaults)"

section \<open>Getters\<close>

definition get_value :: "config \<Rightarrow> string \<Rightarrow> pyval \<Rightarrow> pyval" where
  "get_value cfg key dflt = dget_or cfg key dflt"

text \<open>\<open>int(v)\<close> and \<open>float(v)\<close> of a stored value; None is the TypeError or ValueError.\<close>

fun int_of_value :: "pyval \<Rightarrow> int option" where
  "int_of_value (PInt i) = Some i"
| "int_of_value (PBool b) = Some (if b then 1 else 0)"
| "int_of_value (PFloat x) = Some (if 0 \<le> x then \<lfloor>x\<rfloor> else \<lceil>x\<rceil>)"
| "int_of_value (PStr s) = py_int s"
| "int_of_value _ = None"

fun float_of_value :: "pyval \<Rightarrow> real option" where
  "float_of_value (PInt i) = Some (real_of_int i)"
| "float_of_value (PBool b) = Some (if b then 1 else 0)"
| "float_of_value (PFloat x) = Some x"
| "float_of_value (PStr s) = py_float s"
| "float_of_value _ = None"

definition get_int :: "config \<Rightarrow> string \<Rightarrow> int \<Rightarrow> int option" where
  "get_int cfg key dflt = int_of_value (dget_or cfg key (PInt dflt))"

definition get_float :: "config \<Rightarrow> string \<Rightarrow> real \<Rightarrow> real option" where
  "get_float cfg key dflt = float_of_value (dget_or cfg key (PFloat dflt))"

definition get_str :: "(pyval \<Rightarrow> string) \<Rightarrow> config \<Rightarrow> string \<Rightarrow> string \<Rightarrow> string" where
  "get_str repr cfg key dflt = py_str repr (dget_or cfg key (PStr dflt))"

definition get_list :: "config \<Rightarrow> string \<Rightarrow> pyval list \<Rightarrow> pyval list" where
  "get_list cfg key dflt =
     (case dget_or cfg key (PList dflt) of PList xs \<Rightarrow> xs | v \<Rightarrow> [v])"

definition threshold_prefix :: string where
  "threshold_prefix = ''thresholds.defaults.''"

fun get_threshold_defaults :: "config \<Rightarrow> (string, (string, pyval) dict) dict" where
  "get_threshold_defaults [] = []"
| "get_threshold_defaults ((key, PDict d) # cfg) =
     (if is_prefix threshold_prefix key
      then (drop (length threshold_prefix) key, d) # get_threshold_defaults cfg
      else get_threshold_defaults cfg)"
| "get_threshold_defaults ((key, v) # cfg) = get_threshold_defaults cfg"

definition get_escalation_timeframe :: "(pyval \<Rightarrow> string) \<Rightarrow> config \<Rightarrow> string \<Rightarrow> string" where
  "get_escalation_timeframe repr cfg sev = get_str repr cfg (''escalation.'' @ sev) ''7 days''"

definition default_required_tags :: "string list" where
  "default_required_tags = [''team'', ''cost-centre'', ''environment'', ''owner'']"

definition get_required_tags :: "config \<Rightarrow> pyval list" where
  "get_required_tags cfg = get_list cfg ''tags.required'' (map PStr default_required_tags)"

definition set_value :: "config \<Rightarrow> string \<Rightarrow> pyval \<Rightarrow> config" where
  "set_value cfg key v = dset cfg key v"

section \<open>Which layer wins\<close>

text \<open>The dotted keys and values a tree assigns, in the order they are assigned.\<close>

fun flatten :: "string \<Rightarrow> (string \<times> pyval) list \<Rightarrow> config" where
  "flatten prefix [] = []"
| "flatten prefix ((key, PDict d) # rest) =
     (if \<not> is_threshold_dict d then flatten (full_key prefix key) d
      else [(full_key prefix key, PDict d)]) @ flatten prefix rest"
| "flatten prefix ((key, v) # rest) = (full_key prefix key, v) # flatten prefix rest"

lemma merge_flatten: "merge_config prefix d cfg = fold (\<lambda>(k, v) c. dset c k v) (flatten prefix d) cfg"
  by (induction prefix d cfg rule: merge_config.induct) auto

text \<open>The last assignment to a key is the one that stays.\<close>

lemma dget_fold_last:
  "dget (fold (\<lambda>(k, v) c. dset c k v) kvs cfg) k =
     (case dget (rev kvs) k of None \<Rightarrow> dget cfg k | Some v \<Rightarrow> Some v)"
proof (induction kvs arbitrary: cfg)
  case (Cons kv kvs)
  have "dget (rev kvs @ [kv]) k = (case dget (rev kvs) k of
      None \<Rightarrow> if fst kv = k then Some (snd kv) else None | Some v \<Rightarrow> Some v)"
    by (cases kv) (auto simp: dget_def map_add_def split: option.splits)
  with Cons show ?case by (cases kv) (auto split: option.splits)
qed simp

text \<open>The variable that overrides a key, when it is set.\<close>

definition env_value :: "(string, string) dict \<Rightarrow> (string \<times> string) list \<Rightarrow> string \<Rightarrow> string option" where
  "env_value env mapping k =
     (case dget (map prod.swap mapping) k of None \<Rightarrow> None | Some var \<Rightarrow> dget env var)"

lemma coerce_dset_other: "j \<noteq> k \<Longrightarrow> coerce (dset cfg j x) k v = coerce cfg k v"
  by (simp add: coerce_def)

lemma apply_env_get:
  "distinct (map snd mapping) \<Longrightarrow>
   dget (apply_env env mapping cfg) k = (case env_value env mapping k of
     None \<Rightarrow> dget cfg k | Some v \<Rightarrow> Some (coerce cfg k v))"
proof (induction env mapping cfg rule: apply_env.induct)
  case (2 env var key rest cfg)
  let ?cfg = "case dget env var of None \<Rightarrow> cfg | Some v \<Rightarrow> dset cfg key (coerce cfg key v)"
  have IH: "dget (apply_env env rest ?cfg) k = (case env_value env rest k of
      None \<Rightarrow> dget ?cfg k | Some v \<Rightarrow> Some (coerce ?cfg k v))"
    using "2.IH" "2.prems" by simp
  show ?case
  proof (cases "key = k")
    case True
    with "2.prems" have "k \<notin> fst ` set (map prod.swap rest)" by (auto simp: image_iff)
    then have "map_of (map prod.swap rest) k = None" by (simp only: map_of_eq_None_iff simp_thms)
    then have "env_value env rest k = None" by (simp add: env_value_def dget_def)
    moreover from True have "env_value env ((var, key) # rest) k = dget env var"
      by (simp add: env_value_def dget_def)
    ultimately show ?thesis using True IH by (simp split: option.splits)
  next
    case False
    then have "env_value env ((var, key) # rest) k = env_value env rest k"
      by (simp add: env_value_def dget_def)
    with False IH show ?thesis by (simp add: coerce_dset_other split: option.splits)
  qed
qed (simp add: env_value_def)

lemma env_map_distinct: "distinct (map snd env_map)"
  by (simp add: env_map_def)

text \<open>
  Every key of the loaded configuration comes from the highest layer that has it: the
  environment variable mapped to it, coerced to the type the lower layers give the key, else the
  last assignment the file's tree makes to the dotted key, else the built-in default.
\<close>
theorem config_precedence:
  "dget (load_config (Some (PDict d)) env) k =
     (case env_value env env_map k of
        Some v \<Rightarrow> Some (coerce (load_tree (Some (PDict d)) config_defaults) k v)
      | None \<Rightarrow> (case dget (rev (flatten [] d)) k of
          Some v \<Rightarrow> Some v
        | None \<Rightarrow> dget config_defaults k))"
  by (auto simp: load_config_def apply_env_get [OF env_map_distinct] load_tree_def merge_flatten
      dget_fold_last split: option.splits)

text \<open>A bad number in the environment never replaces a number.\<close>

lemma coerce_keeps_type:
  "dget cfg k = Some (PInt i) \<Longrightarrow> \<exists>j. coerce cfg k v = PInt j"
  "dget cfg k = Some (PFloat x) \<Longrightarrow> \<exists>y. coerce cfg k v = PFloat y"
  by (auto simp: coerce_def split: option.splits)

section \<open>The shipped thresholds\<close>

definition int_level :: "(string, pyval) dict \<Rightarrow> string \<Rightarrow> int option" where
  "int_level d k = (case dget d k of Some (PInt i) \<Rightarrow> Some i | _ \<Rightarrow> None)"

definition ordered_levels :: "(string, pyval) dict \<Rightarrow> bool" where
  "ordered_levels d \<longleftrightarrow>
     (case (int_level d ''warning'', int_level d ''critical'', int_level d ''emergency'') of
        (Some w, Some c, Some e) \<Rightarrow> 0 < w \<and> w \<le> c \<and> c \<le> e
      | _ \<Rightarrow> False)"

lemma int_level_Some: "int_level d k = Some i \<longleftrightarrow> dget d k = Some (PInt i)"
  by (auto simp: int_level_def split: option.splits pyval.splits)

lemma ordered_levelsE:
  assumes "ordered_levels d"
  obtains w c e where "dget d ''warning'' = Some (PInt w)" "dget d ''critical'' = Some (PInt c)"
    "dget d ''emergency'' = Some (PInt e)" "0 < w" "w \<le> c" "c \<le> e"
proof -
  from assms obtain w c e where "int_level d ''warning'' = Some w" "int_level d ''critical'' = Some c"
    "int_level d ''emergency'' = Some e" "0 < w" "w \<le> c" "c \<le> e"
    by (auto simp: ordered_levels_def split: option.splits)
  then show thesis using that [of w c e] by (simp add: int_level_Some)
qed

lemma shipped_thresholds_ordered:
  "list_all (\<lambda>(k, d). ordered_levels d) (get_threshold_defaults config_defaults)"
  by (simp add: config_defaults_def threshold_prefix_def ordered_levels_def int_level_def
      dget_def)

lemma get_threshold_defaults_iff:
  "(rt, d) \<in> set (get_threshold_defaults cfg) \<longleftrightarrow> (threshold_prefix @ rt, PDict d) \<in> set cfg"
proof (induction cfg rule: get_threshold_defaults.induct)
  case (2 key d' cfg)
  have "is_prefix threshold_prefix key \<Longrightarrow> threshold_prefix @ drop (length threshold_prefix) key = key"
    by (auto simp: is_prefix_iff)
  with 2 show ?case by auto
qed auto

end
