(* ===== verification/Alerts.thy ===== *)
theory Alerts
  imports Models Config
begin

text \<open>
  Dynamic thresholds, \<open>core/thresholds.py\<close>, and the alert engine, \<open>core/alerts.py\<close>: a cost
  history per resource type, thresholds from its mean and sample standard deviation or from the
  configured defaults, and alerts built from them. An error (too few points for a standard
  deviation, a default that lacks a level) is the value \<open>Inl\<close>.
\<close>

section \<open>The threshold engine\<close>

datatype threshold_error = StatisticsError | KeyErr string | TypeErr

record threshold_engine =
  te_anomaly_multiplier :: real
  te_min_datapoints :: int
  te_cost_history :: "(string, real list) dict"
  te_default_thresholds :: "(string, (string, pyval) dict) dict"

definition fallback_levels :: "(string, pyval) dict" where
  "fallback_levels = [(''warning'', PInt 500), (''critical'', PInt 2000), (''emergency'', PInt 5000)]"

definition init_thresholds :: "real \<Rightarrow> config option \<Rightarrow> threshold_engine option" where
  "init_thresholds multiplier cfg =
     (case cfg of
        None \<Rightarrow> Some \<lparr>te_anomaly_multiplier = multiplier, te_min_datapoints = 3,
                  te_cost_history = [], te_default_thresholds = []\<rparr>
      | Some c \<Rightarrow>
          (case (get_float c ''thresholds.anomaly_multiplier'' multiplier,
                 get_int c ''thresholds.min_datapoints'' 3) of
             (Some m, Some n) \<Rightarrow>
               Some \<lparr>te_anomaly_multiplier = m, te_min_datapoints = n, te_cost_history = [],
                 te_default_thresholds = get_threshold_defaults c\<rparr>
           | _ \<Rightarrow> None))"

definition history_of :: "threshold_engine \<Rightarrow> string \<Rightarrow> real list" where
  "history_of te rt = dget_or (te_cost_history te) rt []"

definition record_cost :: "string \<Rightarrow> real \<Rightarrow> threshold_engine \<Rightarrow> threshold_engine" where
  "record_cost rt x te =
     te\<lparr>te_cost_history := dset (te_cost_history te) rt (history_of te rt @ [x])\<rparr>"

definition level_of :: "(string, pyval) dict \<Rightarrow> string \<Rightarrow> threshold_error + real" where
  "level_of d k =
     (case dget d k of None \<Rightarrow> Inl (KeyErr k)
      | Some v \<Rightarrow> (case v of PInt i \<Rightarrow> Inr (real_of_int i) | PFloat x \<Rightarrow> Inr x
          | PBool b \<Rightarrow> Inr (if b then 1 else 0) | _ \<Rightarrow> Inl TypeErr))"

text \<open>Baseline, warning, critical and emergency before rounding.\<close>

definition raw_levels :: "string \<Rightarrow> threshold_engine \<Rightarrow> threshold_error + real \<times> real \<times> real \<times> real" where
  "raw_levels rt te =
     (let xs = history_of te rt
      in if te_min_datapoints te \<le> int (length xs)
         then (if length xs < 2 then Inl StatisticsError
               else (let b = mean xs; s = stdev xs in Inr (b, b + s, b + 2 * s, b + 3 * s)))
         else (let d = dget_or (te_default_thresholds te) rt fallback_levels
               in case level_of d ''warning'' of
                    Inl e \<Rightarrow> Inl e
                  | Inr w \<Rightarrow> (case level_of d ''critical'' of
                      Inl e \<Rightarrow> Inl e
                    | Inr c \<Rightarrow> (case level_of d ''emergency'' of
                        Inl e \<Rightarrow> Inl e
                      | Inr m \<Rightarrow> Inr (w / 2, w, c, m)))))"

definition calculate_threshold :: "timestamp \<Rightarrow> cloud_provider \<Rightarrow> string \<Rightarrow> threshold_engine \<Rightarrow>
    threshold_error + cost_threshold" where
  "calculate_threshold now provider rt te =
     (case raw_levels rt te of
        Inl e \<Rightarrow> Inl e
      | Inr (b, w, c, m) \<Rightarrow>
          Inr \<lparr>th_provider = provider, th_resource_type = rt, th_warning_usd = round2 w,
               th_critical_usd = round2 c, th_emergency_usd = round2 m,
               th_baseline_monthly_usd = round2 b, th_anomaly_multiplier = te_anomaly_multiplier te,
               th_last_updated = now\<rparr>)"

text \<open>With a configured minimum of no points, the mean of no points raises.\<close>

definition is_anomaly :: "string \<Rightarrow> real \<Rightarrow> threshold_engine \<Rightarrow> threshold_error + bool" where
  "is_anomaly rt cost te =
     (let xs = history_of te rt
      in if int (length xs) < te_min_datapoints te then Inr False
         else if xs = [] then Inl StatisticsError
         else Inr (0 < mean xs \<and> mean xs * te_anomaly_multiplier te < cost))"

definition get_cost_increase_pct :: "string \<Rightarrow> real \<Rightarrow> threshold_engine \<Rightarrow> real" where
  "get_cost_increase_pct rt cost te =
     (let xs = history_of te rt
      in if xs = [] then 0
         else if mean xs \<le> 0 then 0
         else round2 ((cost - mean xs) / mean xs * 100))"

section \<open>The alert engine\<close>

record alert_engine =
  an_thresholds :: threshold_engine
  an_config :: "config option"
  an_alerts :: "cost_alert list"

definition determine_severity :: "real \<Rightarrow> cost_threshold \<Rightarrow> severity option" where
  "determine_severity cost th =
     (if th_emergency_usd th \<le> cost then Some EMERGENCY
      else if th_critical_usd th \<le> cost then Some CRITICAL
      else if th_warning_usd th \<le> cost then Some WARNING
      else None)"

definition exceeded_level :: "real \<Rightarrow> cost_threshold \<Rightarrow> string" where
  "exceeded_level cost th =
     (if th_emergency_usd th \<le> cost then ''emergency''
      else if th_critical_usd th \<le> cost then ''critical'' else ''warning'')"

definition exceeded_threshold :: "real \<Rightarrow> cost_threshold \<Rightarrow> real" where
  "exceeded_threshold cost th =
     (if th_emergency_usd th \<le> cost then th_emergency_usd th
      else if th_critical_usd th \<le> cost then th_critical_usd th else th_warning_usd th)"

definition creator_of :: "resource_event \<Rightarrow> string" where
  "creator_of e = str_or (ev_creator_email e) (ev_creator_identity e)"

definition build_title :: "resource_event \<Rightarrow> severity \<Rightarrow> real \<Rightarrow> string" where
  "build_title e sev cost =
     ''['' @ upper (severity_value sev) @ ''] '' @ (if ev_provider e = AWS then ''AWS'' else ''GCP'') @
     '' Cost Alert: '' @ ev_resource_type e @ '' in '' @ ev_account_id e @ '' estimated at $'' @
     fmt_money cost @ ''/month''"

definition build_summary :: "resource_event \<Rightarrow> real \<Rightarrow> cost_threshold \<Rightarrow> real \<Rightarrow> string" where
  "build_summary e cost th pct =
     creator_of e @ '' created a '' @ ev_resource_type e @ '' resource'' @
     (if ev_resource_name e = [] then [] else '' ('' @ ev_resource_name e @ '')'') @
     '' ['' @ ev_resource_id e @ ''] in '' @ ev_region e @ '' with an estimated monthly cost of $'' @
     fmt_money cost @ ''. This exceeds the '' @ exceeded_level cost th @ '' threshold of $'' @
     fmt_money (exceeded_threshold cost th) @ ''/month.'' @
     (if 0 < pct
      then '' This is '' @ fmt_1f pct @ ''% above the historical baseline of $'' @
           fmt_money (th_baseline_monthly_usd th) @ ''/month.''
      else []) @
     '' Account: '' @ ev_account_id e @ ''.''"

text \<open>The configured tags are texts.\<close>

fun text_of :: "pyval \<Rightarrow> string" where
  "text_of (PStr t) = t"
| "text_of _ = []"

text \<open>\<open>_check_missing_tags\<close>: the policy's tags when it requires any, else the configured ones.\<close>

definition required_tags :: "config option \<Rightarrow> cost_policy option \<Rightarrow> string list" where
  "required_tags cfg p =
     (case p of
        Some q \<Rightarrow> if po_require_tags q = [] then
            (case cfg of None \<Rightarrow> default_required_tags
             | Some c \<Rightarrow> map text_of (get_required_tags c)) else po_require_tags q
      | None \<Rightarrow> (case cfg of None \<Rightarrow> default_required_tags
             | Some c \<Rightarrow> map text_of (get_required_tags c)))"

definition check_missing_tags :: "config option \<Rightarrow> resource_event \<Rightarrow> cost_policy option \<Rightarrow> string list" where
  "check_missing_tags cfg e p = missing_tags (required_tags cfg p) e"

fun severity_actions :: "severity \<Rightarrow> string list" where
  "severity_actions EMERGENCY =
     [''URGENT: Confirm this resource is authorised. If not, terminate immediately and raise an incident with the security team.'',
      ''ESCALATE: Notify the Engineering Lead and Finance within 1 hour.'',
      ''REVIEW: Check if this workload can use reserved/committed-use pricing to reduce costs by up to 60%.'']"
| "severity_actions CRITICAL =
     [''REVIEW: Validate the resource sizing. Consider right-sizing to a smaller instance type or tier if the workload permits.'',
      ''OPTIMISE: Evaluate reserved instances or committed-use discounts.'',
      ''APPROVE: Obtain written cost approval from the team lead within 24 hours.'']"
| "severity_actions WARNING =
     [''MONITOR: Track this resource'' @ [CHR 0x27] @ ''s actual usage over the next 7 days.'',
      ''OPTIMISE: Consider scheduling (auto-stop during non-business hours) to reduce costs by up to 65%.'',
      ''DOCUMENT: Ensure the business justification is recorded in the resource tags or CMDB.'']"
| "severity_actions INFO = []"

definition build_recommendations :: "config option \<Rightarrow> resource_event \<Rightarrow> severity \<Rightarrow>
    cost_policy option \<Rightarrow> string list" where
  "build_recommendations cfg e sev p =
     (let missing = check_missing_tags cfg e p
      in (if missing = [] then []
          else [''IMMEDIATE: Add missing required tags: '' @ join '', '' missing @
                ''. Untagged resources cannot be attributed to a cost centre.'']) @
         severity_actions sev @
         [''ACCOUNTABILITY: '' @ creator_of e @ '' is responsible for this resource'' @ [CHR 0x27] @
          ''s cost. Ensure a review is logged within the appropriate timeframe.''])"

fun default_timeframe :: "severity \<Rightarrow> string" where
  "default_timeframe EMERGENCY = ''1 hour''"
| "default_timeframe CRITICAL = ''24 hours''"
| "default_timeframe WARNING = ''7 days''"
| "default_timeframe INFO = ''next review cycle''"

definition build_accountability_note :: "(pyval \<Rightarrow> string) \<Rightarrow> config option \<Rightarrow> resource_event \<Rightarrow>
    severity \<Rightarrow> string" where
  "build_accountability_note repr cfg e sev =
     creator_of e @ '' created this resource and is the accountable owner. '' @
     ''They must review and respond to this alert within '' @
     (case cfg of None \<Rightarrow> default_timeframe sev
      | Some c \<Rightarrow> get_escalation_timeframe repr c (severity_value sev)) @
     ''. If unresolved, this will be escalated to '' @ tag_get2 e ''team'' ''Team'' ''their team lead'' @
     ''. All actions taken are logged in the audit trail for governance compliance.''"

fun build_escalation_path :: "severity \<Rightarrow> string" where
  "build_escalation_path EMERGENCY =
     ''Team Lead (1h) -> Engineering Director (2h) -> CTO/CFO (4h) -> Incident Management''"
| "build_escalation_path CRITICAL =
     ''Team Lead (24h) -> Engineering Manager (48h) -> Head of Engineering (72h)''"
| "build_escalation_path WARNING = ''Team Lead (7d) -> Engineering Manager (14d)''"
| "build_escalation_path INFO = ''Included in next periodic cost review''"

definition match_policy :: "resource_event \<Rightarrow> cost_policy list \<Rightarrow> cost_policy option" where
  "match_policy e ps = find (\<lambda>p. policy_applies p e) ps"

text \<open>What building an alert draws from its surroundings: fresh id, clock, \<open>repr\<close>.\<close>

record alert_env =
  aw_alert_id :: string
  aw_now :: timestamp
  aw_repr :: "pyval \<Rightarrow> string"

definition make_alert :: "alert_env \<Rightarrow> alert_engine \<Rightarrow> resource_event \<Rightarrow> cost_policy list \<Rightarrow>
    cost_threshold \<Rightarrow> severity \<Rightarrow> cost_alert" where
  "make_alert v an e ps th sev =
     (let cost = ev_cost e; cfg = an_config an;
          pct = get_cost_increase_pct (ev_resource_type e) cost (an_thresholds an);
          p = match_policy e ps
      in \<lparr>al_alert_id = aw_alert_id v, al_created_at = aw_now v, al_severity = sev,
          al_provider = ev_provider e, al_account_id = ev_account_id e, al_region = ev_region e,
          al_title = build_title e sev cost, al_summary = build_summary e cost th pct,
          al_resource_creator = ev_creator_identity e, al_creator_email = ev_creator_email e,
          al_team = tag_get2 e ''team'' ''Team'' ''Unknown'',
          al_cost_centre = tag_get2 e ''cost-centre'' ''CostCentre'' ''Unknown'',
          al_resource_type = ev_resource_type e, al_resource_id = ev_resource_id e,
          al_resource_name = ev_resource_name e, al_cost = cost,
          al_threshold_exceeded_usd = exceeded_threshold cost th,
          al_baseline_monthly_usd = th_baseline_monthly_usd th, al_cost_increase_percentage = pct,
          al_recommended_actions = build_recommendations cfg e sev p,
          al_accountability_note = build_accountability_note (aw_repr v) cfg e sev,
          al_escalation_path = build_escalation_path sev, al_status = PENDING,
          al_acknowledged_by = [], al_resolved_by = [], al_source_event_id = ev_event_id e,
          al_correlation_id = ev_correlation_id e,
          al_policy_id = (case p of None \<Rightarrow> [] | Some q \<Rightarrow> po_policy_id q)\<rparr>)"

definition evaluate_alert :: "alert_env \<Rightarrow> resource_event \<Rightarrow> cost_policy list \<Rightarrow> alert_engine \<Rightarrow>
    (threshold_error + cost_alert option) \<times> alert_engine" where
  "evaluate_alert v e ps an =
     (case calculate_threshold (aw_now v) (ev_provider e) (ev_resource_type e) (an_thresholds an) of
        Inl err \<Rightarrow> (Inl err, an)
      | Inr th \<Rightarrow> (case determine_severity (ev_cost e) th of
          None \<Rightarrow> (Inr None, an)
        | Some sev \<Rightarrow> (let a = make_alert v an e ps th sev
            in (Inr (Some a), an\<lparr>an_alerts := an_alerts an @ [a]\<rparr>))))"

section \<open>Ordered thresholds\<close>

definition ordered_threshold :: "cost_threshold \<Rightarrow> bool" where
  "ordered_threshold th \<longleftrightarrow> th_baseline_monthly_usd th \<le> th_warning_usd th \<and>
     th_warning_usd th \<le> th_critical_usd th \<and> th_critical_usd th \<le> th_emergency_usd th"

lemma threshold_of_levels:
  "calculate_threshold now pr rt te = Inr th \<Longrightarrow> raw_levels rt te = Inr (b, w, c, m) \<Longrightarrow>
   b \<le> w \<Longrightarrow> w \<le> c \<Longrightarrow> c \<le> m \<Longrightarrow> ordered_threshold th"
  by (auto simp: calculate_threshold_def ordered_threshold_def intro: round2_mono)

lemma history_levels:
  assumes "raw_levels rt te = Inr (b, w, c, m)" "te_min_datapoints te \<le> int (length (history_of te rt))"
  shows "b \<le> w \<and> w \<le> c \<and> c \<le> m"
  using assms stdev_nonneg [of "history_of te rt"]
  by (auto simp: raw_levels_def Let_def split: if_splits)

lemma default_levels:
  assumes "ordered_levels (dget_or (te_default_thresholds te) rt fallback_levels)"
    and "int (length (history_of te rt)) < te_min_datapoints te"
  shows "\<exists>w c m. raw_levels rt te = Inr (w / 2, w, c, m) \<and> w / 2 \<le> w \<and> w \<le> c \<and> c \<le> m"
proof -
  let ?d = "dget_or (te_default_thresholds te) rt fallback_levels"
  obtain w c m where d: "dget ?d ''warning'' = Some (PInt w)" "dget ?d ''critical'' = Some (PInt c)"
    "dget ?d ''emergency'' = Some (PInt m)" and ord: "0 < w" "w \<le> c" "c \<le> m"
    using assms(1) by (rule ordered_levelsE)
  have "level_of ?d ''warning'' = Inr (real_of_int w)" "level_of ?d ''critical'' = Inr (real_of_int c)"
    "level_of ?d ''emergency'' = Inr (real_of_int m)"
    by (simp_all add: level_of_def d)
  then have "raw_levels rt te = Inr (real_of_int w / 2, real_of_int w, real_of_int c, real_of_int m)"
    using assms(2) by (simp add: raw_levels_def Let_def)
  with ord show ?thesis by auto
qed

definition defaults_ordered :: "threshold_engine \<Rightarrow> bool" where
  "defaults_ordered te \<longleftrightarrow> list_all (\<lambda>(k, d). ordered_levels d) (te_default_thresholds te)"

lemma defaults_ordered_get:
  assumes "defaults_ordered te"
  shows "ordered_levels (dget_or (te_default_thresholds te) rt fallback_levels)"
proof (cases "dget (te_default_thresholds te) rt")
  case None
  then show ?thesis by (simp add: dget_or_def fallback_levels_def ordered_levels_def int_level_def
        dget_def)
next
  case (Some d)
  then have "(rt, d) \<in> set (te_default_thresholds te)" by (simp add: dget_def map_of_SomeD)
  with assms Some show ?thesis by (auto simp: defaults_ordered_def list_all_iff dget_or_def)
qed

lemma threshold_ordered:
  assumes "defaults_ordered te" "calculate_threshold now pr rt te = Inr th"
  shows "ordered_threshold th"
proof -
  obtain b w c m where raw: "raw_levels rt te = Inr (b, w, c, m)"
    using assms(2) by (cases "raw_levels rt te") (auto simp: calculate_threshold_def)
  have "b \<le> w \<and> w \<le> c \<and> c \<le> m"
  proof (cases "te_min_datapoints te \<le> int (length (history_of te rt))")
    case True
    then show ?thesis by (rule history_levels [OF raw])
  next
    case False
    with default_levels [OF defaults_ordered_get [OF assms(1)], of rt] raw show ?thesis by auto
  qed
  with threshold_of_levels [OF assms(2) raw] show ?thesis by blast
qed

lemma defaults_ordered_record [simp]: "defaults_ordered (record_cost rt x te) = defaults_ordered te"
  by (simp add: defaults_ordered_def record_cost_def)

lemma defaults_ordered_observe:
  "defaults_ordered te \<Longrightarrow> defaults_ordered (fold (\<lambda>(rt, x). record_cost rt x) obs te)"
  by (induction obs arbitrary: te) auto

lemma defaults_ordered_init:
  assumes "init_thresholds k cfg = Some te" "cfg = None \<or> cfg = Some config_defaults"
  shows "defaults_ordered te"
  using assms shipped_thresholds_ordered
  by (auto simp: init_thresholds_def defaults_ordered_def split: option.splits)

text \<open>A default or three points are always enough for a threshold.\<close>

lemma calculate_threshold_total:
  assumes "defaults_ordered te" "2 \<le> te_min_datapoints te"
  shows "\<exists>th. calculate_threshold now pr rt te = Inr th"
proof -
  have "\<exists>b w c m. raw_levels rt te = Inr (b, w, c, m)"
  proof (cases "te_min_datapoints te \<le> int (length (history_of te rt))")
    case True
    with assms(2) show ?thesis by (auto simp: raw_levels_def Let_def)
  next
    case False
    with default_levels [OF defaults_ordered_get [OF assms(1)], of rt] show ?thesis by fastforce
  qed
  then show ?thesis by (auto simp: calculate_threshold_def)
qed

lemma observe_min: "te_min_datapoints (fold (\<lambda>(rt, x). record_cost rt x) obs te) = te_min_datapoints te"
  by (induction obs arbitrary: te) (auto simp: record_cost_def)

lemma init_min:
  "init_thresholds k cfg = Some te \<Longrightarrow> cfg = None \<or> cfg = Some config_defaults \<Longrightarrow> te_min_datapoints te = 3"
  by (auto simp: init_thresholds_def get_int_def dget_or_def dget_def config_defaults_def
      split: option.splits)



section \<open>Alerts\<close>

lemma match_policy_applies: "match_policy e ps = Some p \<Longrightarrow> p \<in> set ps \<and> policy_applies p e"
  by (auto simp: match_policy_def find_Some_iff)

text \<open>
  Over ordered thresholds an event raises no alert exactly when it costs less than the warning
  level; otherwise one alert is appended whose severity is the highest level the cost reaches,
  whose threshold is that level, that names the event, starts pending, cites no policy or one of
  the given policies that applies, and recommends something to do.
\<close>
theorem alert_matches_cost:
  assumes "calculate_threshold (aw_now v) (ev_provider e) (ev_resource_type e) (an_thresholds an) = Inr th"
    and "defaults_ordered (an_thresholds an)"
  shows "if ev_cost e < th_warning_usd th then evaluate_alert v e ps an = (Inr None, an)
    else (\<exists>a. evaluate_alert v e ps an = (Inr (Some a), an\<lparr>an_alerts := an_alerts an @ [a]\<rparr>) \<and>
      (al_severity a = EMERGENCY \<longleftrightarrow> th_emergency_usd th \<le> ev_cost e) \<and>
      (CRITICAL \<le> al_severity a \<longleftrightarrow> th_critical_usd th \<le> ev_cost e) \<and> WARNING \<le> al_severity a \<and>
      al_threshold_exceeded_usd a \<le> ev_cost e \<and>
      al_threshold_exceeded_usd a \<in> {th_warning_usd th, th_critical_usd th, th_emergency_usd th} \<and>
      al_source_event_id a = ev_event_id e \<and> al_status a = PENDING \<and> al_recommended_actions a \<noteq> [] \<and>
      (al_policy_id a = [] \<or> (\<exists>p \<in> set ps. policy_applies p e \<and> al_policy_id a = po_policy_id p)))"
proof -
  have ord: "th_warning_usd th \<le> th_critical_usd th" "th_critical_usd th \<le> th_emergency_usd th"
    using threshold_ordered [OF assms(2,1)] by (simp_all add: ordered_threshold_def)
  show ?thesis
  proof (cases "ev_cost e < th_warning_usd th")
    case True
    with ord have "determine_severity (ev_cost e) th = None" by (simp add: determine_severity_def)
    with True show ?thesis by (simp add: evaluate_alert_def assms(1))
  next
    case False
    then have "determine_severity (ev_cost e) th \<noteq> None" by (simp add: determine_severity_def)
    then obtain sev where sev: "determine_severity (ev_cost e) th = Some sev" by blast
    let ?a = "make_alert v an e ps th sev"
    have run: "evaluate_alert v e ps an = (Inr (Some ?a), an\<lparr>an_alerts := an_alerts an @ [?a]\<rparr>)"
      by (simp add: evaluate_alert_def assms(1) sev Let_def)
    have "(sev = EMERGENCY \<longleftrightarrow> th_emergency_usd th \<le> ev_cost e) \<and>
      (CRITICAL \<le> sev \<longleftrightarrow> th_critical_usd th \<le> ev_cost e) \<and> WARNING \<le> sev"
      using sev ord by (auto simp: determine_severity_def less_eq_severity_def split: if_splits)
    moreover have "exceeded_threshold (ev_cost e) th \<le> ev_cost e"
      "exceeded_threshold (ev_cost e) th \<in> {th_warning_usd th, th_critical_usd th, th_emergency_usd th}"
      using False by (auto simp: exceeded_threshold_def)
    moreover have "al_policy_id ?a = [] \<or> (\<exists>p \<in> set ps. policy_applies p e \<and> al_policy_id ?a = po_policy_id p)"
      using match_policy_applies [of e ps] by (auto simp: make_alert_def Let_def split: option.splits)
    ultimately show ?thesis using False run
      by (auto simp: make_alert_def build_recommendations_def Let_def)
  qed
qed

definition demo_alert_event :: resource_event where
  "demo_alert_event = \<lparr>ev_event_id = ''e1'', ev_correlation_id = [], ev_provider = GCP,
     ev_timestamp = 0, ev_account_id = ''acct'', ev_region = ''europe-west2'',
     ev_resource_type = ''vm'', ev_resource_id = ''i-1'', ev_resource_name = [],
     ev_creator_identity = ''dev'', ev_creator_email = [], ev_cost = 2500,
     ev_purchase_type = ''on_demand'', ev_tags = [], ev_raw_event = []\<rparr>"

definition demo_alerts :: alert_engine where
  "demo_alerts = \<lparr>an_thresholds = \<lparr>te_anomaly_multiplier = 2, te_min_datapoints = 3,
     te_cost_history = [], te_default_thresholds = []\<rparr>, an_config = None, an_alerts = []\<rparr>"

definition demo_alert_env :: alert_env where
  "demo_alert_env = \<lparr>aw_alert_id = ''a1'', aw_now = 0, aw_repr = (\<lambda>v. [])\<rparr>"

lemma demo_threshold:
  "\<exists>th. calculate_threshold (aw_now demo_alert_env) (ev_provider demo_alert_event)
     (ev_resource_type demo_alert_event) (an_thresholds demo_alerts) = Inr th \<and>
   th_warning_usd th = 500 \<and> th_critical_usd th = 2000 \<and> th_emergency_usd th = 5000"
proof -
  have "round2 500 = 500" "round2 2000 = 2000" "round2 5000 = 5000"
    using round_half_even_of_int [of 50000] round_half_even_of_int [of 200000]
      round_half_even_of_int [of 500000] by (simp_all add: round2_def)
  then show ?thesis
    by (simp add: calculate_threshold_def raw_levels_def history_of_def dget_or_def dget_def
        fallback_levels_def level_of_def demo_alerts_def Let_def)
qed

lemma demo_defaults: "defaults_ordered (an_thresholds demo_alerts)"
  by (simp add: defaults_ordered_def demo_alerts_def)

theorem alert_matches_cost_witness:
  "\<exists>a an'. evaluate_alert demo_alert_env demo_alert_event [] demo_alerts = (Inr (Some a), an') \<and>
     al_severity a = CRITICAL"
proof -
  obtain th where th: "calculate_threshold (aw_now demo_alert_env) (ev_provider demo_alert_event)
      (ev_resource_type demo_alert_event) (an_thresholds demo_alerts) = Inr th"
    "th_warning_usd th = 500" "th_critical_usd th = 2000" "th_emergency_usd th = 5000"
    using demo_threshold by blast
  have "ev_cost demo_alert_event = 2500" by (simp add: demo_alert_event_def)
  with alert_matches_cost [OF th(1) demo_defaults, of "[]"] th obtain a where
    a: "evaluate_alert demo_alert_env demo_alert_event [] demo_alerts =
        (Inr (Some a), demo_alerts\<lparr>an_alerts := an_alerts demo_alerts @ [a]\<rparr>)"
    and "al_severity a \<noteq> EMERGENCY" "CRITICAL \<le> al_severity a"
    by auto
  from this(2,3) have "al_severity a = CRITICAL"
    by (cases "al_severity a") (auto simp: less_eq_severity_def)
  with a show ?thesis by blast
qed

text \<open>
  Severity is monotone in cost: of two events the same engine evaluates for the same provider
  and resource type, the dearer one is alerted whenever the cheaper one is, at least as severely.
\<close>
theorem alert_severity_monotone:
  assumes "ev_provider e' = ev_provider e" "ev_resource_type e' = ev_resource_type e"
    and "ev_cost e \<le> ev_cost e'" and "evaluate_alert v e ps an = (Inr (Some a), an1)"
  shows "\<exists>a' an2. evaluate_alert v e' ps' an = (Inr (Some a'), an2) \<and> al_severity a \<le> al_severity a'"
proof -
  obtain th sev where th: "calculate_threshold (aw_now v) (ev_provider e) (ev_resource_type e)
        (an_thresholds an) = Inr th" and sev: "determine_severity (ev_cost e) th = Some sev"
    and a: "a = make_alert v an e ps th sev"
    using assms(4) by (auto simp: evaluate_alert_def Let_def split: sum.splits option.splits)
  have "\<exists>sev'. determine_severity (ev_cost e') th = Some sev' \<and> sev \<le> sev'"
    using sev assms(3) by (auto simp: determine_severity_def less_eq_severity_def split: if_splits)
  then obtain sev' where sev': "determine_severity (ev_cost e') th = Some sev'" and le: "sev \<le> sev'"
    by blast
  show ?thesis
    using th sev' le by (auto simp: evaluate_alert_def assms(1,2) a make_alert_def Let_def)
qed

theorem alert_severity_monotone_witness:
  "\<exists>a' an2. evaluate_alert demo_alert_env (demo_alert_event\<lparr>ev_cost := 9000\<rparr>) [] demo_alerts =
     (Inr (Some a'), an2)"
proof -
  obtain th where th: "calculate_threshold (aw_now demo_alert_env) (ev_provider demo_alert_event)
      (ev_resource_type demo_alert_event) (an_thresholds demo_alerts) = Inr th"
    "th_warning_usd th = 500" "th_critical_usd th = 2000" "th_emergency_usd th = 5000"
    using demo_threshold by blast
  then have "\<exists>a an1. evaluate_alert demo_alert_env demo_alert_event [] demo_alerts = (Inr (Some a), an1)"
    by (simp add: evaluate_alert_def determine_severity_def demo_alert_event_def Let_def)
  then obtain a an1 where "evaluate_alert demo_alert_env demo_alert_event [] demo_alerts = (Inr (Some a), an1)"
    by blast
  from alert_severity_monotone [OF _ _ _ this, of "demo_alert_event\<lparr>ev_cost := 9000\<rparr>" "[]"]
  show ?thesis by (auto simp: demo_alert_event_def)
qed

text \<open>An anomaly of at least twice the baseline is an increase of at least a hundred percent.\<close>

lemma anomaly_increase:
  assumes "is_anomaly rt cost te = Inr True" "2 \<le> te_anomaly_multiplier te"
  shows "100 \<le> get_cost_increase_pct rt cost te"
proof -
  let ?m = "mean (history_of te rt)"
  have m: "0 < ?m" "?m * te_anomaly_multiplier te < cost" and ne: "history_of te rt \<noteq> []"
    using assms(1) by (auto simp: is_anomaly_def Let_def split: if_splits)
  have "?m * 2 \<le> ?m * te_anomaly_multiplier te" using assms(2) m(1) by simp
  with m have "2 * ?m \<le> cost" by linarith
  with m(1) have "1 \<le> (cost - ?m) / ?m" by (simp add: field_simps)
  then have "1 * 100 \<le> (cost - ?m) / ?m * 100" by (rule mult_right_mono) simp
  then have "100 \<le> (cost - ?m) / ?m * 100" by simp
  then have "round2 100 \<le> round2 ((cost - ?m) / ?m * 100)" by (rule round2_mono)
  with m ne show ?thesis by (simp add: get_cost_increase_pct_def Let_def)
qed

text \<open>The title of an alert for an Azure resource says GCP.\<close>

lemma azure_titled_gcp: "ev_provider e = AZURE \<Longrightarrow> build_title e sev cost = build_title (e\<lparr>ev_provider := GCP\<rparr>) sev cost"
  by (simp add: build_title_def)

end
