(* ===== verification/Reports.thy ===== *)
theory Reports
  imports Audit_Trail Alerts "HOL-Library.Multiset"
begin

text \<open>
  The cost report, \<open>agents/report_agent.py\<close> with the model \<open>CostReport\<close> of \<open>core/models.py\<close>: the
  events and alerts of a period are grouped by resource type, team, account and creator, turned into
  recommendations and a summary per team, and the generation is audited. Where the source makes a
  list of a Python set, whose order is open, the model keeps the set.
\<close>

section \<open>The report\<close>

record cost_creator =
  cc_creator :: string
  cc_total_cost :: real
  cc_resource_count :: nat
  cc_resource_types :: "string set"

record cost_report =
  cp_report_id :: string
  cp_generated_at :: timestamp
  cp_period_start :: timestamp
  cp_period_end :: timestamp
  cp_provider :: "cloud_provider option"
  cp_total_cost_usd :: real
  cp_cost_by_resource_type :: "(string, real) dict"
  cp_cost_by_team :: "(string, real) dict"
  cp_cost_by_account :: "(string, real) dict"
  cp_top_cost_creators :: "cost_creator list"
  cp_anomalies_detected :: nat
  cp_alerts_generated :: nat
  cp_alerts_resolved :: nat
  cp_trend_pct :: real
  cp_recommendations :: "string list"
  cp_accountability_summary :: "(string \<times> string) list"

record report_env =
  re_report_id :: string
  re_now :: timestamp
  re_log :: log_env

section \<open>Filters and groups\<close>

definition in_report :: "timestamp \<Rightarrow> timestamp \<Rightarrow> cloud_provider option \<Rightarrow> timestamp \<Rightarrow> cloud_provider \<Rightarrow> bool" where
  "in_report start end_time provider t p \<longleftrightarrow>
     start \<le> t \<and> t \<le> end_time \<and> (case provider of None \<Rightarrow> True | Some q \<Rightarrow> p = q)"

definition filter_events :: "resource_event list \<Rightarrow> timestamp \<Rightarrow> timestamp \<Rightarrow> cloud_provider option \<Rightarrow>
    resource_event list" where
  "filter_events es start end_time provider =
     filter (\<lambda>e. in_report start end_time provider (ev_timestamp e) (ev_provider e)) es"

definition filter_alerts :: "cost_alert list \<Rightarrow> timestamp \<Rightarrow> timestamp \<Rightarrow> cloud_provider option \<Rightarrow>
    cost_alert list" where
  "filter_alerts as start end_time provider =
     filter (\<lambda>a. in_report start end_time provider (al_created_at a) (al_provider a)) as"

definition event_team :: "resource_event \<Rightarrow> string" where
  "event_team e = tag_get2 e ''team'' ''Team'' ''Untagged''"

text \<open>\<open>groups[k] = groups.get(k, 0) + cost\<close> over the events.\<close>

definition add_cost :: "string \<Rightarrow> real \<Rightarrow> (string, real) dict \<Rightarrow> (string, real) dict" where
  "add_cost k x d = dset d k (dget_or d k 0 + x)"

definition tally :: "(resource_event \<Rightarrow> string) \<Rightarrow> resource_event list \<Rightarrow> (string, real) dict" where
  "tally f es = fold (\<lambda>e. add_cost (f e) (ev_cost e)) es []"

definition group_cost :: "(resource_event \<Rightarrow> string) \<Rightarrow> resource_event list \<Rightarrow> (string, real) dict" where
  "group_cost f es = dmap_value round2 (tally f es)"

definition group_cost_by_resource_type :: "resource_event list \<Rightarrow> (string, real) dict" where
  "group_cost_by_resource_type es = group_cost ev_resource_type es"

definition group_cost_by_team :: "resource_event list \<Rightarrow> (string, real) dict" where
  "group_cost_by_team es = group_cost event_team es"

definition group_cost_by_account :: "resource_event list \<Rightarrow> (string, real) dict" where
  "group_cost_by_account es = group_cost ev_account_id es"

section \<open>Creators\<close>

definition creator_key :: "resource_event \<Rightarrow> string" where
  "creator_key e = str_or (ev_creator_email e) (ev_creator_identity e)"

definition add_creator :: "resource_event \<Rightarrow> (string, cost_creator) dict \<Rightarrow> (string, cost_creator) dict" where
  "add_creator e d =
     (let k = creator_key e;
          c = dget_or d k \<lparr>cc_creator = k, cc_total_cost = 0, cc_resource_count = 0, cc_resource_types = {}\<rparr>
      in dset d k (c\<lparr>cc_total_cost := cc_total_cost c + ev_cost e, cc_resource_count := cc_resource_count c + 1,
           cc_resource_types := insert (ev_resource_type e) (cc_resource_types c)\<rparr>))"

text \<open>\<open>sorted(..., reverse=True)\<close> keeps the order of equal keys.\<close>

definition get_top_creators :: "resource_event list \<Rightarrow> cost_creator list" where
  "get_top_creators es =
     map (\<lambda>c. c\<lparr>cc_total_cost := round2 (cc_total_cost c)\<rparr>)
       (sort_key (\<lambda>c. - cc_total_cost c) (dvalues (fold add_creator es [])))"

section \<open>Recommendations\<close>

definition total_of :: "resource_event list \<Rightarrow> real" where
  "total_of es = sum_list (map ev_cost es)"

definition untagged_note :: "resource_event list \<Rightarrow> string list" where
  "untagged_note es =
     (let n = length (filter (\<lambda>e. dget_or (ev_tags e) ''team'' [] = []) es)
      in if n = 0 then []
         else [show_nat n @ '' resource(s) lack team tags. Enforce tagging policies to ensure cost attribution and accountability.''])"

definition unresolved_note :: "cost_alert list \<Rightarrow> string list" where
  "unresolved_note as =
     (let n = length (filter (\<lambda>a. (al_severity a = CRITICAL \<or> al_severity a = EMERGENCY) \<and> al_status a = PENDING) as)
      in if n = 0 then []
         else [show_nat n @ '' critical/emergency alert(s) remain unresolved. Prioritise acknowledgement and remediation.''])"

definition concentration_note :: "resource_event list \<Rightarrow> string list" where
  "concentration_note es =
     (case get_top_creators es of
        [] \<Rightarrow> []
      | leader # rest \<Rightarrow>
          (let total = total_of es
           in if 0 < total \<and> 1 / 2 < cc_total_cost leader / total
              then [cc_creator leader @ '' accounts for '' @ fmt_0f (cc_total_cost leader / total * 100) @
                    ''% of total cost. Review whether this concentration is intentional.'']
              else []))"

definition reserved_note :: "resource_event list \<Rightarrow> string list" where
  "reserved_note es =
     (let types = sort (remdups (map ev_resource_type (filter (\<lambda>e. 500 < ev_cost e) es)))
      in if types = [] then []
         else [''Consider reserved instances/committed-use discounts for high-cost resource types: '' @
               join '', '' types @ ''. Potential savings of 30-60%.''])"

definition generate_recommendations :: "resource_event list \<Rightarrow> cost_alert list \<Rightarrow> string list" where
  "generate_recommendations es as =
     (let rs = untagged_note es @ unresolved_note as @ (if es = [] then [] else concentration_note es) @
            reserved_note es
      in if rs = [] then [''No immediate actions required. Continue monitoring.''] else rs)"

section \<open>Accountability\<close>

record team_data =
  td_cost :: real
  td_resources :: nat
  td_alerts :: nat
  td_unresolved :: nat

definition add_team_event :: "resource_event \<Rightarrow> (string, team_data) dict \<Rightarrow> (string, team_data) dict" where
  "add_team_event e d =
     (let t = dget_or d (event_team e) \<lparr>td_cost = 0, td_resources = 0, td_alerts = 0, td_unresolved = 0\<rparr>
      in dset d (event_team e) (t\<lparr>td_cost := td_cost t + ev_cost e, td_resources := td_resources t + 1\<rparr>))"

definition add_team_alert :: "cost_alert \<Rightarrow> (string, team_data) dict \<Rightarrow> (string, team_data) dict" where
  "add_team_alert a d =
     (let team = str_or (al_team a) ''Untagged''
      in case dget d team of
           None \<Rightarrow> d
         | Some t \<Rightarrow> dset d team (t\<lparr>td_alerts := td_alerts t + 1,
             td_unresolved := td_unresolved t + (if al_status a = PENDING then 1 else 0)\<rparr>))"

definition team_summary :: "team_data \<Rightarrow> string" where
  "team_summary t = CHR 0x24 # fmt_money (td_cost t) @ '' across '' @ show_nat (td_resources t) @ '' resource(s), '' @
     show_nat (td_alerts t) @ '' alert(s) ('' @ show_nat (td_unresolved t) @ '' unresolved)''"

definition build_accountability_summary :: "resource_event list \<Rightarrow> cost_alert list \<Rightarrow> (string \<times> string) list" where
  "build_accountability_summary es as =
     map (\<lambda>(team, t). (team, team_summary t))
       (sort_key (\<lambda>(team, t). - td_cost t) (fold add_team_alert as (fold add_team_event es [])))"

section \<open>Generating a report\<close>

definition make_cost_report :: "report_env \<Rightarrow> resource_event list \<Rightarrow> cost_alert list \<Rightarrow> timestamp \<Rightarrow> timestamp \<Rightarrow>
    cloud_provider option \<Rightarrow> cost_report" where
  "make_cost_report v es as start end_time provider =
     \<lparr>cp_report_id = re_report_id v, cp_generated_at = re_now v, cp_period_start = start, cp_period_end = end_time,
      cp_provider = provider, cp_total_cost_usd = round2 (total_of es),
      cp_cost_by_resource_type = group_cost_by_resource_type es, cp_cost_by_team = group_cost_by_team es,
      cp_cost_by_account = group_cost_by_account es, cp_top_cost_creators = get_top_creators es,
      cp_anomalies_detected = length (filter (\<lambda>a. 100 < al_cost_increase_percentage a) as),
      cp_alerts_generated = length as, cp_alerts_resolved = length (filter (\<lambda>a. al_status a = RESOLVED) as),
      cp_trend_pct = 0, cp_recommendations = generate_recommendations es as,
      cp_accountability_summary = build_accountability_summary es as\<rparr>"

definition report_args :: "cost_report \<Rightarrow> resource_event list \<Rightarrow> cost_alert list \<Rightarrow> log_args" where
  "report_args r es as = (default_args ''report.generated'' ''system'' (cp_report_id r))
     \<lparr>la_provider := cp_provider r,
      la_details := [(''period'', PStr (isoformat (cp_period_start r) @ '' to '' @ isoformat (cp_period_end r))),
        (''total_cost'', PFloat (cp_total_cost_usd r)), (''events_analysed'', PInt (int (length es))),
        (''alerts_included'', PInt (int (length as)))]\<rparr>"

definition generate_report :: "(string \<Rightarrow> string) \<Rightarrow> report_env \<Rightarrow> resource_event list \<Rightarrow> cost_alert list \<Rightarrow>
    timestamp \<Rightarrow> timestamp \<Rightarrow> cloud_provider option \<Rightarrow> audit_logger \<Rightarrow> cost_report \<times> audit_logger" where
  "generate_report sha v events alerts start end_time provider au =
     (let es = filter_events events start end_time provider; as = filter_alerts alerts start end_time provider;
          r = make_cost_report v es as start end_time provider
      in (r, snd (log_entry sha (report_args r es as) (re_log v) au)))"

section \<open>The report as a text\<close>

definition indent :: string where
  "indent = ''    ''"

definition cost_line :: "string \<times> real \<Rightarrow> string" where
  "cost_line kc = indent @ ljust 35 (fst kc) @ '' $'' @ rjust 12 (fmt_money (snd kc))"

definition cost_lines :: "(string, real) dict \<Rightarrow> string" where
  "cost_lines d = join newline (map cost_line (sort_key (\<lambda>kc. - snd kc) d))"

definition creator_line :: "nat \<Rightarrow> cost_creator \<Rightarrow> string" where
  "creator_line i c = indent @ show_nat (i + 1) @ ''. '' @ ljust 30 (cc_creator c) @ '' $'' @
     rjust 12 (fmt_money (cc_total_cost c)) @ ''  ('' @ show_nat (cc_resource_count c) @ '' resources)''"

definition format_report_for_humans :: "cost_report \<Rightarrow> string" where
  "format_report_for_humans r =
     (let separator = replicate 72 CHR ''='';
          label = (case cp_provider r of None \<Rightarrow> ''ALL PROVIDERS'' | Some p \<Rightarrow> upper (provider_value p));
          creators = join newline (numbered creator_line (take 10 (cp_top_cost_creators r)));
          teams = join newline (map (\<lambda>(team, s). ''    - '' @ team @ '': '' @ s) (cp_accountability_summary r));
          advice = join newline (numbered (\<lambda>i t. indent @ show_nat (i + 1) @ ''. '' @ t) (cp_recommendations r))
      in join newline
        [[], separator, ''FINOPS COST REPORT - '' @ label,
         ''Period: '' @ date_str (cp_period_start r) @ '' to '' @ date_str (cp_period_end r),
         ''Generated: '' @ minute_str (cp_generated_at r), separator, [],
         ''EXECUTIVE SUMMARY:'',
         ''    Total Estimated Monthly Cost:  $'' @ fmt_money (cp_total_cost_usd r),
         ''    Trend vs Previous Period:      '' @ fmt_signed_1f (cp_trend_pct r) @ ''%'',
         ''    Alerts Generated:              '' @ show_nat (cp_alerts_generated r),
         ''    Alerts Resolved:               '' @ show_nat (cp_alerts_resolved r),
         ''    Anomalies Detected:            '' @ show_nat (cp_anomalies_detected r), [],
         ''COST BY RESOURCE TYPE:'',
         str_or (cost_lines (cp_cost_by_resource_type r)) ''    No resources in this period'', [],
         ''COST BY TEAM:'',
         str_or (cost_lines (cp_cost_by_team r)) ''    No team data available'', [],
         ''TOP COST CREATORS (Accountability):'', str_or creators ''    No creator data available'', [],
         ''ACCOUNTABILITY SUMMARY:'', str_or teams ''    No accountability data available'', [],
         ''RECOMMENDATIONS:'', str_or advice ''    No recommendations at this time'', [],
         ''Report ID: '' @ cp_report_id r, separator, []])"

section \<open>What a breakdown says\<close>

lemma dget_tally_from:
  "dget (fold (\<lambda>e. add_cost (f e) (ev_cost e)) es d) k =
     (if dget d k = None \<and> (\<forall>e \<in> set es. f e \<noteq> k) then None
      else Some (dget_or d k 0 + total_of (filter (\<lambda>e. f e = k) es)))"
  by (induction es arbitrary: d)
    (auto simp: total_of_def add_cost_def dget_or_def split: option.splits)

lemma dget_tally:
  "dget (tally f es) k = (if k \<in> f ` set es then Some (total_of (filter (\<lambda>e. f e = k) es)) else None)"
  by (auto simp: tally_def dget_tally_from dget_or_def)

lemma dict_ok_tally: "dict_ok (tally f es)"
proof -
  have "dict_ok d \<Longrightarrow> dict_ok (fold (\<lambda>e. add_cost (f e) (ev_cost e)) es d)" for d
    by (induction es arbitrary: d) (auto simp: add_cost_def)
  then show ?thesis by (simp add: tally_def)
qed

lemma sum_tally: "sum_list (dvalues (tally f es)) = total_of es"
proof -
  have "sum_list (dvalues (fold (\<lambda>e. add_cost (f e) (ev_cost e)) es d)) = sum_list (dvalues d) + total_of es" for d
  proof (induction es arbitrary: d)
    case (Cons e es)
    have "sum_list (dvalues (add_cost k x d)) = sum_list (dvalues d) + x" for k x
      using sum_dset_map [of id d k] by (auto simp: add_cost_def dget_or_def split: option.splits)
    with Cons show ?case by (simp add: total_of_def)
  qed (simp add: total_of_def)
  then show ?thesis by (simp add: tally_def)
qed

lemma dget_group_cost:
  "dget (group_cost f es) k = (if k \<in> f ` set es then Some (round2 (total_of (filter (\<lambda>e. f e = k) es))) else None)"
  by (simp add: group_cost_def dget_tally)

lemma abs_sum_diff: "\<bar>a - b\<bar> \<le> x \<Longrightarrow> \<bar>c - d\<bar> \<le> y \<Longrightarrow> \<bar>(a + c) - (b + d)\<bar> \<le> x + (y :: real)"
  by linarith

lemma abs_diff_via: "\<bar>a - b\<bar> \<le> x \<Longrightarrow> \<bar>c - b\<bar> \<le> y \<Longrightarrow> \<bar>a - c\<bar> \<le> x + (y :: real)"
  by linarith

text \<open>Rounding each line moves the sum by at most half a cent a line.\<close>

lemma sum_rounded: "\<bar>sum_list (map round2 xs) - sum_list xs\<bar> \<le> real (length xs) / 200"
proof (induction xs)
  case (Cons x xs)
  have "\<bar>sum_list (map round2 (x # xs)) - sum_list (x # xs)\<bar> \<le> real (length xs) / 200 + 1 / 200"
    using abs_sum_diff [OF Cons round2_bounds [of x]] by (simp add: add.commute)
  then show ?case by (simp add: add_divide_distrib)
qed simp

lemma sum_group_cost:
  "\<bar>sum_list (dvalues (group_cost f es)) - total_of es\<bar> \<le> real (length (group_cost f es)) / 200"
proof -
  have "dvalues (group_cost f es) = map round2 (dvalues (tally f es))"
    by (simp add: group_cost_def dmap_value_def case_prod_beta o_def)
  moreover have "length (group_cost f es) = length (dvalues (tally f es))"
    by (simp add: group_cost_def dmap_value_def)
  ultimately show ?thesis using sum_rounded [of "dvalues (tally f es)"] by (simp add: sum_tally)
qed

lemma group_cost_total:
  "\<bar>sum_list (dvalues (group_cost f es)) - round2 (total_of es)\<bar> \<le> real (length (group_cost f es) + 1) / 200"
  using abs_diff_via [OF sum_group_cost [of f es] round2_bounds [of "total_of es"]] by (simp add: add_divide_distrib)

section \<open>Creators and teams account for every event\<close>

lemma creators_count:
  "sum_list (map cc_resource_count (dvalues (fold add_creator es d))) =
     sum_list (map cc_resource_count (dvalues d)) + length es"
proof (induction es arbitrary: d)
  case (Cons e es)
  have "sum_list (map cc_resource_count (dvalues (add_creator e d))) = sum_list (map cc_resource_count (dvalues d)) + 1"
  proof -
    have step: "sum_list (map cc_resource_count (dvalues (dset d k c))) + (case dget d k of None \<Rightarrow> 0 | Some w \<Rightarrow> cc_resource_count w) =
        sum_list (map cc_resource_count (dvalues d)) + cc_resource_count c" for k c
      by (induction d) (auto simp: dset_def dget_def split: option.splits)
    obtain c where c: "add_creator e d = dset d (creator_key e) c"
      "cc_resource_count c = (case dget d (creator_key e) of None \<Rightarrow> 0 | Some w \<Rightarrow> cc_resource_count w) + 1"
      by (cases "dget d (creator_key e)") (simp_all add: add_creator_def Let_def dget_or_def)
    show ?thesis using step [of "creator_key e" c] c(2) unfolding c(1) by linarith
  qed
  with Cons show ?case by simp
qed simp

lemma sum_list_sorted: "sum_list (map g (sort_key f xs)) = sum_list (map (g :: 'a \<Rightarrow> nat) xs)"
  by (metis mset_map mset_sort sum_mset_sum_list)

lemma top_creators_count: "sum_list (map cc_resource_count (get_top_creators es)) = length es"
  using creators_count [of es "[]"] by (simp add: get_top_creators_def o_def sum_list_sorted)

lemma top_creators_sorted: "sorted (map (\<lambda>c. - cc_total_cost c) (get_top_creators es))"
proof -
  let ?cs = "sort_key (\<lambda>c. - cc_total_cost c) (dvalues (fold add_creator es []))"
  have "sorted (map (\<lambda>c. - cc_total_cost c) ?cs)" by simp
  then have "sorted_wrt (\<lambda>c c'. cc_total_cost c' \<le> cc_total_cost c) ?cs" by (simp add: sorted_map)
  then have "sorted_wrt (\<lambda>c c'. round2 (cc_total_cost c') \<le> round2 (cc_total_cost c)) ?cs"
    by (rule sorted_wrt_mono_rel [rotated]) (rule round2_mono)
  then show ?thesis by (simp add: get_top_creators_def sorted_map sorted_wrt_map o_def)
qed

text \<open>
  C33: A report accounts for its period: it covers exactly the events and alerts of the period and the
  provider; each line of a breakdown is the rounded cost of the events under that key, every key of
  an event has its line, and each breakdown adds up to the reported total within half a cent per
  line and one more; the creators are listed by falling cost and share out every event; resolved
  and anomalous alerts are among the counted ones; one audit entry reports the period and the
  totals and leaves the trail verifiable.
\<close>
theorem report_accounts_for_period:
  assumes "generate_report sha v events alerts start end_time provider au = (r, au')" and "audit_ok sha au"
  defines "es \<equiv> filter (\<lambda>e. start \<le> ev_timestamp e \<and> ev_timestamp e \<le> end_time \<and>
    (provider = None \<or> provider = Some (ev_provider e))) events"
  shows "(\<forall>(f, d) \<in> {(ev_resource_type, cp_cost_by_resource_type r), (event_team, cp_cost_by_team r),
        (ev_account_id, cp_cost_by_account r)}.
      dict_ok d \<and>
      (\<forall>k. dget d k = (if k \<in> f ` set es then Some (round2 (total_of (filter (\<lambda>e. f e = k) es))) else None)) \<and>
      \<bar>sum_list (dvalues d) - cp_total_cost_usd r\<bar> \<le> real (length d + 1) / 200) \<and>
    sorted (map (\<lambda>c. - cc_total_cost c) (cp_top_cost_creators r)) \<and>
    sum_list (map cc_resource_count (cp_top_cost_creators r)) = length es \<and>
    cp_alerts_resolved r \<le> cp_alerts_generated r \<and> cp_anomalies_detected r \<le> cp_alerts_generated r \<and>
    cp_recommendations r \<noteq> [] \<and> verify_integrity sha au' = [] \<and>
    (\<exists>x. au_entries au' = au_entries au @ [x] \<and> ae_action x = ''report.generated'' \<and> ae_target x = cp_report_id r \<and>
       dget (ae_details x) ''events_analysed'' = Some (PInt (int (length es))))"
proof -
  let ?as = "filter_alerts alerts start end_time provider"
  have es: "filter_events events start end_time provider = es"
    by (cases provider) (auto simp: es_def filter_events_def in_report_def intro!: filter_cong)
  have r: "r = make_cost_report v es ?as start end_time provider"
    and au': "au' = snd (log_entry sha (report_args r es ?as) (re_log v) au)"
    using assms(1) by (auto simp: generate_report_def es Let_def)
  have group: "dict_ok (group_cost f es) \<and>
      (\<forall>k. dget (group_cost f es) k = (if k \<in> f ` set es then Some (round2 (total_of (filter (\<lambda>e. f e = k) es))) else None)) \<and>
      \<bar>sum_list (dvalues (group_cost f es)) - cp_total_cost_usd r\<bar> \<le> real (length (group_cost f es) + 1) / 200" for f
    using group_cost_total [of f es] dget_group_cost [of f es] dict_ok_tally [of f es]
    by (simp add: r make_cost_report_def group_cost_def)
  have breakdowns: "cp_cost_by_resource_type r = group_cost ev_resource_type es" "cp_cost_by_team r = group_cost event_team es"
    "cp_cost_by_account r = group_cost ev_account_id es"
    by (simp_all add: r make_cost_report_def group_cost_by_resource_type_def group_cost_by_team_def group_cost_by_account_def)
  have "verify_integrity sha au' = []"
    unfolding au' by (intro audit_ok_verify audit_ok_log assms(2))
  moreover have "\<exists>x. au_entries au' = au_entries au @ [x] \<and> ae_action x = ''report.generated'' \<and> ae_target x = cp_report_id r \<and>
       dget (ae_details x) ''events_analysed'' = Some (PInt (int (length es)))"
    by (simp add: au' report_args_def default_args_def dget_Cons)
  moreover have "cp_recommendations r \<noteq> []"
    by (simp add: r make_cost_report_def generate_recommendations_def Let_def)
  ultimately show ?thesis
    using group top_creators_sorted [of es] top_creators_count [of es]
    unfolding breakdowns by (simp add: r make_cost_report_def)
qed

definition demo_report_env :: report_env where
  "demo_report_env = \<lparr>re_report_id = ''r1'', re_now = 0, re_log = demo_env 0\<rparr>"

theorem report_accounts_for_period_witness:
  "sum_list (map cc_resource_count (cp_top_cost_creators (fst (generate_report demo_sha demo_report_env
     [demo_alert_event, demo_alert_event\<lparr>ev_timestamp := 9\<rparr>] [] 0 5 None (init_audit []))))) = 1"
proof -
  let ?run = "generate_report demo_sha demo_report_env [demo_alert_event, demo_alert_event\<lparr>ev_timestamp := 9\<rparr>] [] 0 5
    None (init_audit [])"
  note facts = report_accounts_for_period [OF prod.collapse [symmetric] audit_ok_init,
      of demo_sha demo_report_env "[demo_alert_event, demo_alert_event\<lparr>ev_timestamp := 9\<rparr>]" "[]" 0 5 None "[]"]
  have "sum_list (map cc_resource_count (cp_top_cost_creators (fst ?run))) =
      length (filter (\<lambda>e. 0 \<le> ev_timestamp e \<and> ev_timestamp e \<le> 5 \<and> ((None :: cloud_provider option) = None \<or> None = Some (ev_provider e)))
        [demo_alert_event, demo_alert_event\<lparr>ev_timestamp := 9\<rparr>])"
    by (rule facts [THEN conjunct2, THEN conjunct2, THEN conjunct1])
  also have "\<dots> = 1" by (simp add: demo_alert_event_def)
  finally show ?thesis .
qed

text \<open>
  An event without a team tag is grouped under \<open>Untagged\<close>, its alert carries the team \<open>Unknown\<close>, so
  such alerts are in no line of the accountability summary.
\<close>

lemma untagged_alerts_uncounted:
  assumes "dget (ev_tags e) ''team'' = None" and "dget (ev_tags e) ''Team'' = None"
    and "dget d ''Unknown'' = None"
  shows "event_team e = ''Untagged''" and "add_team_alert (make_alert v an e ps th sev) d = d"
  using assms by (simp_all add: event_team_def tag_get2_def dget_or_def add_team_alert_def make_alert_def str_or_def Let_def)

end
