(* ===== verification/Cost_Monitor.thy ===== *)
theory Cost_Monitor
  imports Audit_Trail "HOL-Library.Sublist"
begin

text \<open>
  The cost monitor, \<open>agents/cost_monitor.py\<close>: polling the configured providers, deduplication
  against a bounded history, and the audit entries of a poll. A listener is an argument that may
  raise, over a world \<open>'w\<close>; \<open>py_list\<close> is the order in which Python lists a set. The loop of \<open>start\<close>
  and a \<open>stop\<close> from elsewhere are the step relation \<open>monitor_step\<close>; sleeping changes nothing.
\<close>

section \<open>State\<close>

record cost_monitor =
  cm_audit :: audit_logger
  cm_providers :: "cloud_provider list"
  cm_poll_interval :: int
  cm_history :: "resource_event list"
  cm_running :: bool

record 'w monitor_setup =
  mo_sha :: "string \<Rightarrow> string"
  mo_listen :: "cloud_provider \<Rightarrow> 'w \<Rightarrow> (string + resource_event list) \<times> 'w"
  mo_py_list :: "string set \<Rightarrow> string list"

definition MAX_EVENT_HISTORY :: nat where
  "MAX_EVENT_HISTORY = 50000"

text \<open>The configurations are only tested for being there and not empty.\<close>

definition init_monitor :: "bool \<Rightarrow> bool \<Rightarrow> int \<Rightarrow> audit_logger \<Rightarrow> cost_monitor" where
  "init_monitor aws gcp interval au =
     \<lparr>cm_audit = au, cm_providers = (if aws then [AWS] else []) @ (if gcp then [GCP] else []),
      cm_poll_interval = interval, cm_history = [], cm_running = False\<rparr>"

definition monitor_log :: "'w monitor_setup \<Rightarrow> log_args \<Rightarrow> log_env \<Rightarrow> cost_monitor \<Rightarrow> cost_monitor" where
  "monitor_log su a v m = m\<lparr>cm_audit := snd (log_entry (mo_sha su) a v (cm_audit m))\<rparr>"

section \<open>Polling\<close>

definition deduplicate :: "resource_event list \<Rightarrow> cost_monitor \<Rightarrow> resource_event list" where
  "deduplicate es m =
     (let seen_ids = ev_event_id ` set (cm_history m);
          seen_resources = (\<lambda>e. (ev_resource_id e, ev_resource_type e)) ` set (cm_history m)
      in filter (\<lambda>e. ev_event_id e \<notin> seen_ids \<and> (ev_resource_id e, ev_resource_type e) \<notin> seen_resources) es)"

definition detected_args :: "'w monitor_setup \<Rightarrow> cloud_provider \<Rightarrow> resource_event list \<Rightarrow> log_args" where
  "detected_args su p new = (default_args ''monitor.events_detected'' ''system'' (provider_value p))
     \<lparr>la_provider := Some p,
      la_details := [(''event_count'', PInt (int (length new))),
        (''resource_types'', PList (map PStr (mo_py_list su (ev_resource_type ` set new)))),
        (''total_estimated_cost'', PFloat (sum_list (map ev_cost new)))]\<rparr>"

definition poll_error_args :: "cloud_provider \<Rightarrow> log_args" where
  "poll_error_args p = (default_args ''monitor.poll_error'' ''system'' (provider_value p))
     \<lparr>la_provider := Some p, la_outcome := ''failure''\<rparr>"

text \<open>The loop of \<open>poll_once\<close>; the \<open>n\<close>-th provider's log call has the environment \<open>envs n\<close>.\<close>

fun poll_each :: "'w monitor_setup \<Rightarrow> (nat \<Rightarrow> log_env) \<Rightarrow> nat \<Rightarrow> cloud_provider list \<Rightarrow> cost_monitor \<Rightarrow> 'w \<Rightarrow>
    resource_event list \<times> cost_monitor \<times> 'w" where
  "poll_each su envs n [] m w = ([], m, w)"
| "poll_each su envs n (p # ps) m w =
     (case mo_listen su p w of
        (Inl e, w1) \<Rightarrow> poll_each su envs (n + 1) ps (monitor_log su (poll_error_args p) (envs n) m) w1
      | (Inr es, w1) \<Rightarrow>
          (let new = deduplicate es m;
               m1 = (if new = [] then m else monitor_log su (detected_args su p new) (envs n) m);
               (rest, m2, w2) = poll_each su envs (n + 1) ps m1 w1
           in (new @ rest, m2, w2)))"

definition evict :: "resource_event list \<Rightarrow> resource_event list" where
  "evict h = (if MAX_EVENT_HISTORY < length h then slice_last (int MAX_EVENT_HISTORY) h else h)"

definition poll_once :: "'w monitor_setup \<Rightarrow> (nat \<Rightarrow> log_env) \<Rightarrow> cost_monitor \<Rightarrow> 'w \<Rightarrow>
    resource_event list \<times> cost_monitor \<times> 'w" where
  "poll_once su envs m w =
     (let (es, m1, w1) = poll_each su envs 0 (cm_providers m) m w
      in (es, m1\<lparr>cm_history := evict (cm_history m1 @ es)\<rparr>, w1))"

definition start_monitor :: "'w monitor_setup \<Rightarrow> log_env \<Rightarrow> cost_monitor \<Rightarrow> cost_monitor" where
  "start_monitor su v m =
     (let m1 = m\<lparr>cm_running := True\<rparr>
      in monitor_log su ((default_args ''monitor.started'' ''system'' ''cost_monitor_agent'')
           \<lparr>la_details := [(''providers'', PList (map (PStr \<circ> provider_value) (cm_providers m1))),
              (''poll_interval_seconds'', PInt (cm_poll_interval m1))]\<rparr>) v m1)"

definition stop_monitor :: "'w monitor_setup \<Rightarrow> log_env \<Rightarrow> cost_monitor \<Rightarrow> cost_monitor" where
  "stop_monitor su v m =
     monitor_log su (default_args ''monitor.stopped'' ''system'' ''cost_monitor_agent'') v (m\<lparr>cm_running := False\<rparr>)"

text \<open>One turn of the loop of \<open>start\<close>, or a \<open>stop\<close>.\<close>

inductive monitor_step :: "'w monitor_setup \<Rightarrow> cost_monitor \<times> 'w \<Rightarrow> cost_monitor \<times> 'w \<Rightarrow> bool" for su where
  poll: "cm_running m \<Longrightarrow> poll_once su envs m w = (es, m', w') \<Longrightarrow> monitor_step su (m, w) (m', w')"
| stop: "monitor_step su (m, w) (stop_monitor su v m, w)"

inductive monitor_reach :: "'w monitor_setup \<Rightarrow> cost_monitor \<times> 'w \<Rightarrow> cost_monitor \<times> 'w \<Rightarrow> bool" for su s0 where
  here: "monitor_reach su s0 s0"
| next_step: "monitor_reach su s0 s \<Longrightarrow> monitor_step su s s' \<Longrightarrow> monitor_reach su s0 s'"

inductive_cases monitor_stepE: "monitor_step su (m, w) s'"

section \<open>Queries\<close>

definition get_recent_events :: "cloud_provider option \<Rightarrow> int \<Rightarrow> cost_monitor \<Rightarrow> resource_event list" where
  "get_recent_events provider limit m =
     slice_last limit (case provider of None \<Rightarrow> cm_history m
       | Some p \<Rightarrow> filter (\<lambda>e. ev_provider e = p) (cm_history m))"

definition add_monitor_type :: "resource_event \<Rightarrow> (string, nat \<times> real) dict \<Rightarrow> (string, nat \<times> real) dict" where
  "add_monitor_type e d =
     (let (n, c) = dget_or d (ev_resource_type e) (0, 0) in dset d (ev_resource_type e) (n + 1, c + ev_cost e))"

definition group_by_resource_type :: "cost_monitor \<Rightarrow> (string, nat \<times> real) dict" where
  "group_by_resource_type m = fold add_monitor_type (cm_history m) []"

definition get_cost_summary :: "cost_monitor \<Rightarrow> (string, pyval) dict" where
  "get_cost_summary m =
     (if cm_history m = [] then [(''total_events'', PInt 0), (''total_estimated_monthly_cost'', PFloat 0)]
      else
        (let of_provider = (\<lambda>p. filter (\<lambda>e. ev_provider e = p) (cm_history m))
         in [(''total_events'', PInt (int (length (cm_history m)))),
             (''total_estimated_monthly_cost'', PFloat (sum_list (map ev_cost (cm_history m)))),
             (''by_provider'', PDict (map (\<lambda>p. (provider_value p,
                PDict [(''events'', PInt (int (length (of_provider p)))),
                       (''cost'', PFloat (sum_list (map ev_cost (of_provider p))))])) [AWS, GCP, AZURE])),
             (''by_resource_type'', PDict (map (map_prod id (\<lambda>(n, c).
                PDict [(''count'', PInt (int n)), (''total_cost'', PFloat c)])) (group_by_resource_type m)))]))"

section \<open>One poll\<close>

lemma monitor_log_simps [simp]:
  "cm_history (monitor_log su a v m) = cm_history m" "cm_providers (monitor_log su a v m) = cm_providers m"
  "cm_running (monitor_log su a v m) = cm_running m" "cm_poll_interval (monitor_log su a v m) = cm_poll_interval m"
  "au_entries (cm_audit (monitor_log su a v m)) = au_entries (cm_audit m) @ [fst (log_entry (mo_sha su) a v (cm_audit m))]"
  by (simp_all add: monitor_log_def)

lemma monitor_log_ok [simp]:
  "audit_ok (mo_sha su) (cm_audit m) \<Longrightarrow> audit_ok (mo_sha su) (cm_audit (monitor_log su a v m))"
  by (simp add: monitor_log_def)

lemma deduplicate_history: "cm_history m' = cm_history m \<Longrightarrow> deduplicate es m' = deduplicate es m"
  by (simp add: deduplicate_def)

text \<open>What the providers answer, one after the other.\<close>

fun answers :: "'w monitor_setup \<Rightarrow> cloud_provider list \<Rightarrow> 'w \<Rightarrow> (cloud_provider \<times> (string + resource_event list)) list \<times> 'w" where
  "answers su [] w = ([], w)"
| "answers su (p # ps) w = (let (r, w1) = mo_listen su p w; (rs, w2) = answers su ps w1 in ((p, r) # rs, w2))"

definition fresh_events :: "cost_monitor \<Rightarrow> cloud_provider \<times> (string + resource_event list) \<Rightarrow> resource_event list" where
  "fresh_events m x = (case snd x of Inl e \<Rightarrow> [] | Inr es \<Rightarrow> deduplicate es m)"

definition poll_calls :: "'w monitor_setup \<Rightarrow> cost_monitor \<Rightarrow> cloud_provider \<times> (string + resource_event list) \<Rightarrow> log_args list" where
  "poll_calls su m x = (case snd x of
     Inl e \<Rightarrow> [poll_error_args (fst x)]
   | Inr es \<Rightarrow> if deduplicate es m = [] then [] else [detected_args su (fst x) (deduplicate es m)])"

lemma poll_each_exact:
  "\<exists>m'. poll_each su envs n ps m w =
       (concat (map (fresh_events m) (fst (answers su ps w))), m', snd (answers su ps w)) \<and>
     m' = m\<lparr>cm_audit := cm_audit m'\<rparr> \<and>
     map entry_args (au_entries (cm_audit m')) =
       map entry_args (au_entries (cm_audit m)) @ concat (map (poll_calls su m) (fst (answers su ps w))) \<and>
     (audit_ok (mo_sha su) (cm_audit m) \<longrightarrow> audit_ok (mo_sha su) (cm_audit m'))"
proof (induction ps arbitrary: n m w)
  case (Cons p ps)
  obtain r w1 where r: "mo_listen su p w = (r, w1)" by fastforce
  define m1 where "m1 = (case r of Inl e \<Rightarrow> monitor_log su (poll_error_args p) (envs n) m
    | Inr es \<Rightarrow> if deduplicate es m = [] then m else monitor_log su (detected_args su p (deduplicate es m)) (envs n) m)"
  have m1: "m1 = m\<lparr>cm_audit := cm_audit m1\<rparr>" "cm_history m1 = cm_history m"
    "map entry_args (au_entries (cm_audit m1)) = map entry_args (au_entries (cm_audit m)) @ poll_calls su m (p, r)"
    "audit_ok (mo_sha su) (cm_audit m) \<longrightarrow> audit_ok (mo_sha su) (cm_audit m1)"
    by (auto simp: m1_def poll_calls_def monitor_log_def split: sum.splits)
  have same: "fresh_events m1 = fresh_events m" "poll_calls su m1 = poll_calls su m"
    using deduplicate_history [OF m1(2)] by (auto simp: fun_eq_iff fresh_events_def poll_calls_def split: sum.splits)
  have run: "poll_each su envs n (p # ps) m w =
      (let (rest, m2, w2) = poll_each su envs (n + 1) ps m1 w1 in (fresh_events m (p, r) @ rest, m2, w2))"
    by (cases r) (simp_all add: r m1_def fresh_events_def Let_def case_prod_beta)
  from Cons.IH [of "n + 1" m1 w1] obtain m2 where
    "poll_each su envs (n + 1) ps m1 w1 = (concat (map (fresh_events m) (fst (answers su ps w1))), m2, snd (answers su ps w1))"
    "m2 = m1\<lparr>cm_audit := cm_audit m2\<rparr>"
    "map entry_args (au_entries (cm_audit m2)) =
       map entry_args (au_entries (cm_audit m1)) @ concat (map (poll_calls su m) (fst (answers su ps w1)))"
    "audit_ok (mo_sha su) (cm_audit m1) \<longrightarrow> audit_ok (mo_sha su) (cm_audit m2)"
    unfolding same by blast
  moreover from this(2) m1(1) have "m2 = m\<lparr>cm_audit := cm_audit m2\<rparr>"
    by (metis cost_monitor.update_convs(1) cost_monitor.surjective)
  ultimately show ?case using run m1(3,4) r by (auto simp: Let_def case_prod_beta)
qed simp


lemma fresh_events_new:
  "e \<in> set (fresh_events m x) \<Longrightarrow>
   ev_event_id e \<notin> ev_event_id ` set (cm_history m) \<and>
   (ev_resource_id e, ev_resource_type e) \<notin> (\<lambda>e. (ev_resource_id e, ev_resource_type e)) ` set (cm_history m)"
  by (auto simp: fresh_events_def deduplicate_def Let_def split: sum.splits)

lemma length_evict: "length (evict h) \<le> MAX_EVENT_HISTORY"
  by (simp add: evict_def slice_last_def MAX_EVENT_HISTORY_def)

lemma suffix_evict: "suffix (evict h) h"
  by (auto simp: evict_def slice_last_def suffix_drop)

lemma poll_onceE:
  assumes "poll_once su envs m w = (es, m', w')"
  obtains "es = concat (map (fresh_events m) (fst (answers su (cm_providers m) w)))"
    "m' = m\<lparr>cm_history := evict (cm_history m @ es), cm_audit := cm_audit m'\<rparr>"
    "w' = snd (answers su (cm_providers m) w)"
    "map entry_args (au_entries (cm_audit m')) =
       map entry_args (au_entries (cm_audit m)) @ concat (map (poll_calls su m) (fst (answers su (cm_providers m) w)))"
    "audit_ok (mo_sha su) (cm_audit m) \<longrightarrow> audit_ok (mo_sha su) (cm_audit m')"
proof -
  obtain m1 where m1: "poll_each su envs 0 (cm_providers m) m w =
       (concat (map (fresh_events m) (fst (answers su (cm_providers m) w))), m1, snd (answers su (cm_providers m) w))"
    "m1 = m\<lparr>cm_audit := cm_audit m1\<rparr>"
    "map entry_args (au_entries (cm_audit m1)) =
       map entry_args (au_entries (cm_audit m)) @ concat (map (poll_calls su m) (fst (answers su (cm_providers m) w)))"
    "audit_ok (mo_sha su) (cm_audit m) \<longrightarrow> audit_ok (mo_sha su) (cm_audit m1)"
    using poll_each_exact [of su envs 0 "cm_providers m" m w] by blast
  have h: "cm_history m1 = cm_history m" by (subst m1(2)) simp
  have m': "m' = m1\<lparr>cm_history := evict (cm_history m1 @ es)\<rparr>"
    and es: "es = concat (map (fresh_events m) (fst (answers su (cm_providers m) w)))"
    and w': "w' = snd (answers su (cm_providers m) w)"
    using assms by (auto simp: poll_once_def m1(1))
  have a: "cm_audit m' = cm_audit m1" by (simp add: m')
  have "m' = m\<lparr>cm_history := evict (cm_history m @ es), cm_audit := cm_audit m'\<rparr>"
    unfolding a by (subst m', subst m1(2)) (simp add: h)
  then show ?thesis using es w' m1(3,4) unfolding a [symmetric] by (intro that)
qed

section \<open>The loop\<close>

definition resource_key :: "resource_event \<Rightarrow> string \<times> string" where
  "resource_key e = (ev_resource_id e, ev_resource_type e)"

text \<open>What every turn keeps, from the monitor \<open>m0\<close> on.\<close>

definition monitor_ok :: "'w monitor_setup \<Rightarrow> cost_monitor \<Rightarrow> cost_monitor \<Rightarrow> bool" where
  "monitor_ok su m0 m \<longleftrightarrow>
     length (cm_history m) \<le> MAX_EVENT_HISTORY \<and>
     distinct (map ev_event_id (cm_history m)) \<and> distinct (map resource_key (cm_history m)) \<and>
     audit_ok (mo_sha su) (cm_audit m) \<and>
     prefix (map entry_args (au_entries (cm_audit m0))) (map entry_args (au_entries (cm_audit m))) \<and>
     cm_providers m = cm_providers m0"

text \<open>No two events of one poll share their id, or the resource they are about.\<close>

definition distinct_polls :: "'w monitor_setup \<Rightarrow> cloud_provider list \<Rightarrow> bool" where
  "distinct_polls su ps \<longleftrightarrow>
     (\<forall>w. let es = concat (map (\<lambda>x. case snd x of Inl e \<Rightarrow> [] | Inr es \<Rightarrow> es) (fst (answers su ps w)))
          in distinct (map ev_event_id es) \<and> distinct (map resource_key es))"

lemma distinct_map_concat_filter:
  "distinct (map f (concat (map g xs))) \<Longrightarrow> distinct (map f (concat (map (\<lambda>x. filter P (g x)) xs)))"
  by (induction xs) (auto simp: distinct_map_filter)

lemma distinct_map_append:
  "distinct (map f xs) \<Longrightarrow> distinct (map f ys) \<Longrightarrow> \<forall>y \<in> set ys. f y \<notin> f ` set xs \<Longrightarrow> distinct (map f (xs @ ys))"
  unfolding map_append distinct_append set_map by (simp add: disjoint_iff image_iff) metis

lemma fresh_events_filter:
  "fresh_events m x = filter (\<lambda>e. ev_event_id e \<notin> ev_event_id ` set (cm_history m) \<and>
     (ev_resource_id e, ev_resource_type e) \<notin> (\<lambda>e. (ev_resource_id e, ev_resource_type e)) ` set (cm_history m))
     (case snd x of Inl e \<Rightarrow> [] | Inr es \<Rightarrow> es)"
  by (simp add: fresh_events_def deduplicate_def Let_def split: sum.splits)

lemma distinct_suffix: "suffix ys xs \<Longrightarrow> distinct (map f xs) \<Longrightarrow> distinct (map f ys)"
  by (auto simp: suffix_def)

lemma monitor_ok_log [intro]: "monitor_ok su m0 m \<Longrightarrow> monitor_ok su m0 (monitor_log su a v m)"
  by (auto simp: monitor_ok_def prefix_def)

lemma monitor_ok_poll:
  assumes ok: "monitor_ok su m0 m" and run: "poll_once su envs m w = (es, m', w')"
    and batch: "distinct_polls su (cm_providers m0)"
  shows "monitor_ok su m0 m'"
proof -
  have ps: "cm_providers m = cm_providers m0" using ok by (simp add: monitor_ok_def)
  from run obtain es: "es = concat (map (fresh_events m) (fst (answers su (cm_providers m) w)))"
    and m': "m' = m\<lparr>cm_history := evict (cm_history m @ es), cm_audit := cm_audit m'\<rparr>"
    and log: "map entry_args (au_entries (cm_audit m')) =
       map entry_args (au_entries (cm_audit m)) @ concat (map (poll_calls su m) (fst (answers su (cm_providers m) w)))"
    and au: "audit_ok (mo_sha su) (cm_audit m) \<longrightarrow> audit_ok (mo_sha su) (cm_audit m')"
    by (rule poll_onceE)
  have batch': "distinct (map ev_event_id es)" "distinct (map resource_key es)"
    unfolding es ps fresh_events_filter
    by (rule distinct_map_concat_filter, use batch in \<open>simp add: distinct_polls_def Let_def\<close>)+
  have fresh: "\<forall>e \<in> set es. ev_event_id e \<notin> ev_event_id ` set (cm_history m) \<and> resource_key e \<notin> resource_key ` set (cm_history m)"
    unfolding es resource_key_def using fresh_events_new [of _ m] by auto
  have "distinct (map ev_event_id (cm_history m @ es))" "distinct (map resource_key (cm_history m @ es))"
    using ok batch' fresh by (auto simp: monitor_ok_def intro!: distinct_map_append simp del: distinct_map map_append)
  then have "distinct (map ev_event_id (evict (cm_history m @ es)))" "distinct (map resource_key (evict (cm_history m @ es)))"
    by (blast intro: distinct_suffix suffix_evict)+
  moreover have "cm_history m' = evict (cm_history m @ es)" "cm_providers m' = cm_providers m"
    by (subst m', simp)+
  ultimately show ?thesis using ok log au length_evict [of "cm_history m @ es"]
    by (auto simp: monitor_ok_def prefix_def)
qed

lemma monitor_ok_step:
  assumes "monitor_step su (m, w) (m', w')" and "monitor_ok su m0 m" and "distinct_polls su (cm_providers m0)"
  shows "monitor_ok su m0 m'"
proof (rule monitor_stepE [OF assms(1)])
  fix envs es m'' w''
  assume "(m', w') = (m'', w'')" "poll_once su envs m w = (es, m'', w'')"
  then show ?thesis using monitor_ok_poll [OF assms(2)] assms(3) by blast
next
  fix v
  assume "(m', w') = (stop_monitor su v m, w)"
  moreover have "monitor_ok su m0 (m\<lparr>cm_running := False\<rparr>)" using assms(2) by (simp add: monitor_ok_def)
  ultimately show ?thesis by (auto simp: stop_monitor_def)
qed

lemma monitor_ok_reach:
  assumes "monitor_reach su s1 s" and "monitor_ok su m0 (fst s1)" and "distinct_polls su (cm_providers m0)"
  shows "monitor_ok su m0 (fst s)"
  using assms(1)
proof induction
  case (next_step s s')
  then show ?case using monitor_ok_step [of su "fst s" "snd s" "fst s'" "snd s'"] assms(3) by simp
qed (rule assms(2))

lemma stopped_stays:
  assumes "monitor_step su (m, w) (m', w')" and "\<not> cm_running m"
  shows "cm_history m' = cm_history m \<and> w' = w \<and> \<not> cm_running m'"
  using assms by (auto elim!: monitor_stepE simp: stop_monitor_def)

lemma stopped_reach:
  "monitor_reach su s s' \<Longrightarrow> \<not> cm_running (fst s) \<Longrightarrow>
   snd s' = snd s \<and> cm_history (fst s') = cm_history (fst s) \<and> \<not> cm_running (fst s')"
proof (induction rule: monitor_reach.induct)
  case (next_step s' s'')
  then show ?case by (cases s', cases s'') (auto dest: stopped_stays)
qed simp

lemma stopped_forever:
  "monitor_reach su (m, w) (m', w') \<Longrightarrow> \<not> cm_running m \<Longrightarrow> w' = w \<and> cm_history m' = cm_history m"
  using stopped_reach [of su "(m, w)" "(m', w')"] by simp

text \<open>Two events about one resource in the same batch are both kept.\<close>

lemma duplicate_in_batch_kept:
  "cm_history m = [] \<Longrightarrow> deduplicate [e, e] m = [e, e]"
  by (simp add: deduplicate_def)

section \<open>Properties\<close>

text \<open>
  A poll asks every configured provider once, in order, also after one of them raised. It returns,
  and appends to the history, exactly the events whose id and whose resource are not in the history,
  logs one entry for a provider with new events and one failure for a provider that raised, and changes
  nothing else of the monitor.
\<close>

theorem poll_reports_new_events:
  assumes "poll_once su envs m w = (es, m', w')"
  shows "(\<exists>as. answers su (cm_providers m) w = (as, w') \<and> map fst as = cm_providers m \<and>
       es = concat (map (\<lambda>(p, r). case r of Inl e \<Rightarrow> []
         | Inr xs \<Rightarrow> filter (\<lambda>e. \<forall>h \<in> set (cm_history m). ev_event_id h \<noteq> ev_event_id e \<and> resource_key h \<noteq> resource_key e) xs) as) \<and>
       map entry_args (au_entries (cm_audit m')) =
         map entry_args (au_entries (cm_audit m)) @ concat (map (poll_calls su m) as)) \<and>
     cm_history m' = evict (cm_history m @ es) \<and> length (cm_history m') \<le> MAX_EVENT_HISTORY \<and>
     m' = m\<lparr>cm_history := cm_history m', cm_audit := cm_audit m'\<rparr>"
proof -
  from assms obtain es: "es = concat (map (fresh_events m) (fst (answers su (cm_providers m) w)))"
    and m': "m' = m\<lparr>cm_history := evict (cm_history m @ es), cm_audit := cm_audit m'\<rparr>"
    and w': "w' = snd (answers su (cm_providers m) w)"
    and log: "map entry_args (au_entries (cm_audit m')) =
       map entry_args (au_entries (cm_audit m)) @ concat (map (poll_calls su m) (fst (answers su (cm_providers m) w)))"
    by (rule poll_onceE)
  have asked: "map fst (fst (answers su ps v)) = ps" for ps v
    by (induction ps arbitrary: v) (simp_all add: Let_def case_prod_beta)
  have fresh: "fresh_events m = (\<lambda>(p, r). case r of Inl e \<Rightarrow> []
      | Inr xs \<Rightarrow> filter (\<lambda>e. \<forall>h \<in> set (cm_history m). ev_event_id h \<noteq> ev_event_id e \<and> resource_key h \<noteq> resource_key e) xs)"
    by (auto simp: fun_eq_iff fresh_events_filter resource_key_def image_iff split: sum.splits intro!: filter_cong)
  have h: "cm_history m' = evict (cm_history m @ es)" by (subst m') simp
  show ?thesis
  proof (intro conjI exI [of _ "fst (answers su (cm_providers m) w)"])
    show "answers su (cm_providers m) w = (fst (answers su (cm_providers m) w), w')" by (simp add: w')
    show "m' = m\<lparr>cm_history := cm_history m', cm_audit := cm_audit m'\<rparr>" unfolding h by (rule m')
  qed (fact es [unfolded fresh] asked log h | simp add: h length_evict)+
qed


definition demo_listened :: "cloud_provider \<Rightarrow> resource_event" where
  "demo_listened p = \<lparr>ev_event_id = provider_value p, ev_correlation_id = [], ev_provider = p,
     ev_timestamp = 0, ev_account_id = ''acct'', ev_region = [],
     ev_resource_type = ''vm'', ev_resource_id = provider_value p, ev_resource_name = [],
     ev_creator_identity = ''dev'', ev_creator_email = [], ev_cost = 1,
     ev_purchase_type = ''on_demand'', ev_tags = [(''team'', ''x'')], ev_raw_event = []\<rparr>"

definition demo_listen :: "cloud_provider \<Rightarrow> nat \<Rightarrow> (string + resource_event list) \<times> nat" where
  "demo_listen p n = ((if p = AWS \<and> n = 0 then Inl ''unreachable''
     else Inr [demo_listened p]), n + 1)"

definition demo_monitor_setup :: "nat monitor_setup" where
  "demo_monitor_setup = \<lparr>mo_sha = demo_sha, mo_listen = demo_listen, mo_py_list = (\<lambda>S. [])\<rparr>"

abbreviation demo_monitor :: cost_monitor where
  "demo_monitor \<equiv> init_monitor True True 60 (init_audit [])"

lemma demo_polls: "distinct_polls demo_monitor_setup [AWS, GCP]"
  by (simp add: distinct_polls_def demo_monitor_setup_def demo_listen_def demo_listened_def resource_key_def Let_def)

theorem poll_reports_new_events_witness:
  "map ev_event_id (fst (poll_once demo_monitor_setup demo_env demo_monitor 0)) = [''gcp'']"
proof -
  obtain es m' w' where run: "poll_once demo_monitor_setup demo_env demo_monitor 0 = (es, m', w')"
    by (metis prod_cases3)
  note facts = poll_reports_new_events [OF run]
  then have "es = [demo_listened GCP]"
    by (auto simp: init_monitor_def demo_monitor_setup_def demo_listen_def Let_def)
  then show ?thesis by (simp add: run demo_listened_def)
qed



end
