(* ===== verification/Circuit.thy ===== *)
theory Circuit
  imports Prelude
begin

text \<open>
  Fault tolerance: the circuit breaker of \<open>core/circuit_breaker.py\<close> and the retry loop of
  \<open>core/retry.py\<close>. Readings of \<open>time.monotonic()\<close> are arguments of the breaker's operations;
  the retry loop runs over a world \<open>'w\<close> that its callbacks (the function called, the sleep, the
  \<open>on_retry\<close> hook) transform and from which the clock is read.
\<close>

section \<open>Circuit breaker\<close>

datatype circuit_state = Closed | Open | HalfOpen

record circuit_breaker =
  cb_name :: string
  cb_failure_threshold :: int
  cb_recovery_timeout :: real
  cb_success_threshold :: int
  cb_state :: circuit_state
  cb_failure_count :: int
  cb_success_count :: int
  cb_last_failure_time :: real

definition init_breaker :: "string \<Rightarrow> int \<Rightarrow> real \<Rightarrow> int \<Rightarrow> circuit_breaker" where
  "init_breaker nm ft rt st =
     \<lparr>cb_name = nm, cb_failure_threshold = ft, cb_recovery_timeout = rt,
      cb_success_threshold = st, cb_state = Closed, cb_failure_count = 0,
      cb_success_count = 0, cb_last_failure_time = 0\<rparr>"

text \<open>Reading the \<open>state\<close> property may itself move an open circuit to half-open.\<close>

definition read_state :: "real \<Rightarrow> circuit_breaker \<Rightarrow> circuit_state \<times> circuit_breaker" where
  "read_state now cb =
     (let cb' = (if cb_state cb = Open \<and> cb_recovery_timeout cb \<le> now - cb_last_failure_time cb
                 then cb\<lparr>cb_state := HalfOpen, cb_success_count := 0\<rparr> else cb)
      in (cb_state cb', cb'))"

definition allow_request :: "real \<Rightarrow> circuit_breaker \<Rightarrow> bool \<times> circuit_breaker" where
  "allow_request now cb =
     (let (s, cb') = read_state now cb
      in (if s = Closed then True else s = HalfOpen, cb'))"

definition record_success :: "circuit_breaker \<Rightarrow> circuit_breaker" where
  "record_success cb =
     (if cb_state cb = HalfOpen then
        (let n = cb_success_count cb + 1
         in if cb_success_threshold cb \<le> n
            then cb\<lparr>cb_state := Closed, cb_failure_count := 0, cb_success_count := 0\<rparr>
            else cb\<lparr>cb_success_count := n\<rparr>)
      else cb\<lparr>cb_failure_count := 0\<rparr>)"

definition record_failure :: "real \<Rightarrow> circuit_breaker \<Rightarrow> circuit_breaker" where
  "record_failure now cb =
     (let cb1 = cb\<lparr>cb_failure_count := cb_failure_count cb + 1, cb_last_failure_time := now\<rparr>
      in if cb_state cb1 = HalfOpen then cb1\<lparr>cb_state := Open\<rparr>
         else if cb_failure_threshold cb1 \<le> cb_failure_count cb1 then cb1\<lparr>cb_state := Open\<rparr>
         else cb1)"

definition reset_breaker :: "circuit_breaker \<Rightarrow> circuit_breaker" where
  "reset_breaker cb = cb\<lparr>cb_state := Closed, cb_failure_count := 0, cb_success_count := 0\<rparr>"

fun state_value :: "circuit_state \<Rightarrow> string" where
  "state_value Closed = ''closed''"
| "state_value Open = ''open''"
| "state_value HalfOpen = ''half_open''"

definition get_status :: "real \<Rightarrow> circuit_breaker \<Rightarrow> (string, pyval) dict \<times> circuit_breaker" where
  "get_status now cb =
     (let (st, cb1) = read_state now cb
      in ([(''name'', PStr (cb_name cb)), (''state'', PStr (state_value st)),
           (''failure_count'', PInt (cb_failure_count cb1)),
           (''failure_threshold'', PInt (cb_failure_threshold cb1)),
           (''recovery_timeout_seconds'', PFloat (cb_recovery_timeout cb1))], cb1))"

text \<open>A closed circuit is below its failure threshold, a probing one below its success threshold.\<close>

definition breaker_ok :: "circuit_breaker \<Rightarrow> bool" where
  "breaker_ok cb \<longleftrightarrow>
     1 \<le> cb_failure_threshold cb \<and> 1 \<le> cb_success_threshold cb \<and>
     0 \<le> cb_failure_count cb \<and> 0 \<le> cb_success_count cb \<and>
     (cb_state cb = Closed \<longrightarrow> cb_failure_count cb < cb_failure_threshold cb) \<and>
     (cb_state cb = HalfOpen \<longrightarrow> cb_success_count cb < cb_success_threshold cb)"

lemma breaker_ok_init [inv_intros]: "1 \<le> ft \<Longrightarrow> 1 \<le> st \<Longrightarrow> breaker_ok (init_breaker nm ft rt st)"
  by (simp add: breaker_ok_def init_breaker_def)

lemma breaker_ok_read [inv_intros]: "breaker_ok cb \<Longrightarrow> breaker_ok (snd (read_state now cb))"
  by (auto simp: breaker_ok_def read_state_def Let_def)

lemma breaker_ok_allow [inv_intros]: "breaker_ok cb \<Longrightarrow> breaker_ok (snd (allow_request now cb))"
  using breaker_ok_read [of cb now] by (simp add: allow_request_def case_prod_beta)

lemma breaker_ok_success [inv_intros]: "breaker_ok cb \<Longrightarrow> breaker_ok (record_success cb)"
  by (auto simp: breaker_ok_def record_success_def Let_def)

lemma breaker_ok_failure [inv_intros]: "breaker_ok cb \<Longrightarrow> breaker_ok (record_failure now cb)"
  by (auto simp: breaker_ok_def record_failure_def Let_def)

lemma breaker_ok_reset [inv_intros]: "breaker_ok cb \<Longrightarrow> breaker_ok (reset_breaker cb)"
  by (auto simp: breaker_ok_def reset_breaker_def)

datatype breaker_op = Ask real | Success | Failure real | Reset

fun breaker_step :: "breaker_op \<Rightarrow> circuit_breaker \<Rightarrow> circuit_breaker" where
  "breaker_step (Ask t) cb = snd (allow_request t cb)"
| "breaker_step Success cb = record_success cb"
| "breaker_step (Failure t) cb = record_failure t cb"
| "breaker_step Reset cb = reset_breaker cb"

fun breaker_run :: "breaker_op list \<Rightarrow> circuit_breaker \<Rightarrow> circuit_breaker" where
  "breaker_run [] cb = cb"
| "breaker_run (x # xs) cb = breaker_run xs (breaker_step x cb)"

lemma breaker_run_ok: "breaker_ok cb \<Longrightarrow> breaker_ok (breaker_run xs cb)"
proof (induction xs arbitrary: cb)
  case (Cons x xs)
  then show ?case by (cases x) (auto intro: inv_intros)
qed simp

text \<open>An open circuit rejects until its recovery timeout has passed since the last failure.\<close>

lemma open_rejects:
  "cb_state cb = Open \<Longrightarrow> now - cb_last_failure_time cb < cb_recovery_timeout cb \<Longrightarrow>
   allow_request now cb = (False, cb)"
  by (simp add: allow_request_def read_state_def Let_def)

lemma open_probes:
  "cb_state cb = Open \<Longrightarrow> cb_recovery_timeout cb \<le> now - cb_last_failure_time cb \<Longrightarrow>
   allow_request now cb = (True, cb\<lparr>cb_state := HalfOpen, cb_success_count := 0\<rparr>)"
  by (simp add: allow_request_def read_state_def Let_def)

lemma half_open_allows: "cb_state cb = HalfOpen \<Longrightarrow> allow_request now cb = (True, cb)"
  by (simp add: allow_request_def read_state_def Let_def)

lemma closed_allows: "cb_state cb = Closed \<Longrightarrow> allow_request now cb = (True, cb)"
  by (simp add: allow_request_def read_state_def Let_def)

lemmas allow_request_cases = open_rejects open_probes half_open_allows closed_allows

text \<open>\<open>ops_before d xs\<close>: no reset and no failure in \<open>xs\<close>, every question asked before \<open>d\<close>.\<close>

fun ops_before :: "real \<Rightarrow> breaker_op list \<Rightarrow> bool" where
  "ops_before d [] = True"
| "ops_before d (Ask t # xs) = (t < d \<and> ops_before d xs)"
| "ops_before d (Success # xs) = ops_before d xs"
| "ops_before d (Failure t # xs) = False"
| "ops_before d (Reset # xs) = False"

lemma open_stays_open:
  "cb_state cb = Open \<Longrightarrow> ops_before (cb_last_failure_time cb + cb_recovery_timeout cb) xs \<Longrightarrow>
   cb_state (breaker_run xs cb) = Open \<and>
   cb_last_failure_time (breaker_run xs cb) = cb_last_failure_time cb \<and>
   cb_recovery_timeout (breaker_run xs cb) = cb_recovery_timeout cb"
proof (induction xs arbitrary: cb)
  case (Cons x xs)
  show ?case
  proof (cases x)
    case (Ask t)
    with Cons.prems have "allow_request t cb = (False, cb)" by (simp add: open_rejects)
    with Ask Cons.prems show ?thesis by (simp add: Cons.IH)
  next
    case Success
    have "cb_state (record_success cb) = Open"
      and "cb_last_failure_time (record_success cb) = cb_last_failure_time cb"
      and "cb_recovery_timeout (record_success cb) = cb_recovery_timeout cb"
      using Cons.prems by (simp_all add: record_success_def)
    with Success Cons.prems show ?thesis using Cons.IH [of "record_success cb"] by simp
  qed (use Cons.prems in auto)
qed simp

text \<open>Failures in a row on a closed circuit: it opens exactly at the threshold.\<close>

lemma failures_run:
  "cb_state cb = Closed \<Longrightarrow> cb_failure_count cb + int (length ts) < cb_failure_threshold cb \<Longrightarrow>
   cb_state (breaker_run (map Failure ts) cb) = Closed \<and>
   cb_failure_count (breaker_run (map Failure ts) cb) = cb_failure_count cb + int (length ts)"
  by (induction ts arbitrary: cb) (auto simp: record_failure_def Let_def)

lemma failure_keeps_open: "cb_state cb = Open \<Longrightarrow> cb_state (record_failure t cb) = Open"
  by (simp add: record_failure_def Let_def)

lemma failures_keep_open: "cb_state cb = Open \<Longrightarrow> cb_state (breaker_run (map Failure ts) cb) = Open"
  by (induction ts arbitrary: cb) (auto simp: failure_keeps_open)

lemma failures_open_iff:
  assumes "cb_state cb = Closed" and "cb_failure_count cb < cb_failure_threshold cb"
  shows "cb_state (breaker_run (map Failure ts) cb) = Open \<longleftrightarrow>
    cb_failure_threshold cb \<le> cb_failure_count cb + int (length ts)"
  using assms
proof (induction ts arbitrary: cb)
  case (Cons t ts)
  let ?cb = "record_failure t cb"
  show ?case
  proof (cases "cb_failure_threshold cb \<le> cb_failure_count cb + 1")
    case True
    with Cons.prems have "cb_state ?cb = Open" by (simp add: record_failure_def Let_def)
    with True show ?thesis by (simp add: failures_keep_open)
  next
    case False
    with Cons.prems have "cb_state ?cb = Closed" "cb_failure_count ?cb = cb_failure_count cb + 1"
      "cb_failure_threshold ?cb = cb_failure_threshold cb"
      by (simp_all add: record_failure_def Let_def)
    with False Cons.IH [of ?cb] show ?thesis by (simp add: algebra_simps)
  qed
qed simp

section \<open>Retry with backoff\<close>

datatype ('e, 'a) retry_result =
    Returned 'a
  | Exhausted nat "'e option"
  | CircuitOpen string real
  | Raised 'e

record ('w, 'e, 'a) retry_env =
  rt_fn :: "'w \<Rightarrow> ('e + 'a) \<times> 'w"
  rt_clock :: "'w \<Rightarrow> real"
  rt_sleep :: "real \<Rightarrow> 'w \<Rightarrow> 'w"
  rt_on_retry :: "nat \<Rightarrow> 'e \<Rightarrow> 'w \<Rightarrow> 'w"
  rt_retryable :: "'e \<Rightarrow> bool"
  rt_max_attempts :: nat
  rt_base_delay :: real
  rt_max_delay :: real
  rt_backoff_factor :: real

definition backoff_delay :: "('w, 'e, 'a) retry_env \<Rightarrow> nat \<Rightarrow> real" where
  "backoff_delay env attempt =
     min (rt_base_delay env * rt_backoff_factor env ^ (attempt - 1)) (rt_max_delay env)"

definition gate :: "real \<Rightarrow> circuit_breaker option \<Rightarrow> bool \<times> circuit_breaker option" where
  "gate now cbo = (case cbo of None \<Rightarrow> (True, None)
     | Some cb \<Rightarrow> (let (ok, cb') = allow_request now cb in (ok, Some cb')))"

definition open_error :: "real \<Rightarrow> circuit_breaker option \<Rightarrow> ('e, 'a) retry_result" where
  "open_error now cbo = (case cbo of None \<Rightarrow> CircuitOpen [] 0
     | Some cb \<Rightarrow> CircuitOpen (cb_name cb)
         (max 0 (cb_last_failure_time cb + cb_recovery_timeout cb - now)))"

text \<open>
  \<open>retry_from n attempt\<close> runs the loop body for \<open>attempt, attempt + 1, ...\<close>, \<open>n\<close> iterations
  being left; the loop variable of the source is \<open>attempt\<close>, its last value \<open>max_attempts\<close>.
\<close>

fun retry_from :: "('w, 'e, 'a) retry_env \<Rightarrow> nat \<Rightarrow> nat \<Rightarrow> 'e option \<Rightarrow> circuit_breaker option \<Rightarrow> 'w
    \<Rightarrow> ('e, 'a) retry_result \<times> circuit_breaker option \<times> 'w" where
  "retry_from env 0 attempt last_error cbo w = (Exhausted (rt_max_attempts env) last_error, cbo, w)"
| "retry_from env (Suc n) attempt last_error cbo w =
     (let (ok, cb1) = gate (rt_clock env w) cbo
      in if \<not> ok then (open_error (rt_clock env w) cb1, cb1, w)
         else (case rt_fn env w of
             (Inr a, w1) \<Rightarrow> (Returned a, map_option record_success cb1, w1)
           | (Inl e, w1) \<Rightarrow>
               if \<not> rt_retryable env e then (Raised e, cb1, w1)
               else
                 (let cb2 = map_option (record_failure (rt_clock env w1)) cb1
                  in if attempt = rt_max_attempts env
                     then (Exhausted (rt_max_attempts env) (Some e), cb2, w1)
                     else retry_from env n (Suc attempt) (Some e) cb2
                            (rt_sleep env (backoff_delay env attempt)
                              (rt_on_retry env attempt e w1)))))"

definition retry_with_backoff :: "('w, 'e, 'a) retry_env \<Rightarrow> circuit_breaker option \<Rightarrow> 'w
    \<Rightarrow> ('e, 'a) retry_result \<times> circuit_breaker option \<times> 'w" where
  "retry_with_backoff env cbo w = retry_from env (rt_max_attempts env) 1 None cbo w"

lemma gate_None [simp]: "gate now None = (True, None)"
  by (simp add: gate_def)

section \<open>Facts about the retry loop\<close>

lemma retry_from_rejected:
  "gate (rt_clock env w) cbo = (False, cb1) \<Longrightarrow>
   retry_from env (Suc n) k err cbo w = (open_error (rt_clock env w) cb1, cb1, w)"
  by simp

lemma retry_from_returned:
  "gate (rt_clock env w) cbo = (True, cb1) \<Longrightarrow> rt_fn env w = (Inr a, w1) \<Longrightarrow>
   retry_from env (Suc n) k err cbo w = (Returned a, map_option record_success cb1, w1)"
  by simp

lemma retry_from_raised:
  "gate (rt_clock env w) cbo = (True, cb1) \<Longrightarrow> rt_fn env w = (Inl e, w1) \<Longrightarrow>
   \<not> rt_retryable env e \<Longrightarrow> retry_from env (Suc n) k err cbo w = (Raised e, cb1, w1)"
  by simp

text \<open>
  A quantity that only calls of \<open>fn\<close> raise, by one each (the number of calls), grows by at most
  the number of iterations left.
\<close>

lemma retry_from_calls:
  fixes calls :: "'w \<Rightarrow> nat"
  assumes fn: "\<And>w. calls (snd (rt_fn env w)) = Suc (calls w)"
    and sleep: "\<And>d w. calls (rt_sleep env d w) = calls w"
    and hook: "\<And>k e w. calls (rt_on_retry env k e w) = calls w"
  shows "calls (snd (snd (retry_from env n k err cbo w))) \<le> calls w + n"
proof (induction n arbitrary: k err cbo w)
  case (Suc n)
  obtain ok cb1 where g: "gate (rt_clock env w) cbo = (ok, cb1)" by fastforce
  obtain r w1 where r: "rt_fn env w = (r, w1)" by fastforce
  have w1: "calls w1 = Suc (calls w)" using fn [of w] r by simp
  show ?case
  proof (cases "ok \<and> (\<exists>e. r = Inl e \<and> rt_retryable env e) \<and> k \<noteq> rt_max_attempts env")
    case True
    then obtain e where e: "r = Inl e" "rt_retryable env e" "ok" "k \<noteq> rt_max_attempts env"
      by blast
    let ?w = "rt_sleep env (backoff_delay env k) (rt_on_retry env k e w1)"
    have "calls ?w = Suc (calls w)" by (simp add: sleep hook w1)
    with Suc.IH [of "Suc k" "Some e" "map_option (record_failure (rt_clock env w1)) cb1" ?w] e g r
    show ?thesis by simp
  next
    case False
    then show ?thesis using g r w1 by (cases r) (auto simp: Let_def)
  qed
qed simp

text \<open>Every sleep is a backoff delay, between zero and the cap.\<close>

lemma backoff_delay_bounds:
  "0 \<le> rt_base_delay env \<Longrightarrow> 0 \<le> rt_backoff_factor env \<Longrightarrow> 0 \<le> rt_max_delay env \<Longrightarrow>
   0 \<le> backoff_delay env k \<and> backoff_delay env k \<le> rt_max_delay env"
  by (simp add: backoff_delay_def)

lemma backoff_delay_mono:
  assumes "0 \<le> rt_base_delay env" "1 \<le> rt_backoff_factor env" "j \<le> k"
  shows "backoff_delay env j \<le> backoff_delay env k"
proof -
  have "rt_backoff_factor env ^ (j - 1) \<le> rt_backoff_factor env ^ (k - 1)"
    using assms by (intro power_increasing) auto
  then have "rt_base_delay env * rt_backoff_factor env ^ (j - 1)
      \<le> rt_base_delay env * rt_backoff_factor env ^ (k - 1)"
    using assms(1) by (rule mult_left_mono)
  then show ?thesis by (simp add: backoff_delay_def)
qed

lemma backoff_delay_sleep_update [simp]:
  "backoff_delay (env\<lparr>rt_sleep := f\<rparr>) k = backoff_delay env k"
  by (simp add: backoff_delay_def)

lemma retry_from_sleeps:
  assumes agree: "\<And>d w. 0 \<le> d \<Longrightarrow> d \<le> rt_max_delay env \<Longrightarrow> f d w = rt_sleep env d w"
    and "0 \<le> rt_base_delay env" "0 \<le> rt_backoff_factor env" "0 \<le> rt_max_delay env"
  shows "retry_from (env\<lparr>rt_sleep := f\<rparr>) n k err cbo w = retry_from env n k err cbo w"
proof (induction n arbitrary: k err cbo w)
  case (Suc n)
  have "f (backoff_delay env k) v = rt_sleep env (backoff_delay env k) v" for v
    using agree backoff_delay_bounds [OF assms(2-4), of k] by blast
  then show ?case by (simp add: Suc.IH Let_def split: prod.splits sum.splits)
qed simp

text \<open>
  Without a breaker and with every error retryable: the outcomes of the attempts the loop makes,
  in order. The loop stops at the first success, and the last outcome decides the result.
\<close>

fun attempts :: "('w, 'e, 'a) retry_env \<Rightarrow> nat \<Rightarrow> nat \<Rightarrow> 'w \<Rightarrow> ('e + 'a) list" where
  "attempts env 0 k w = []"
| "attempts env (Suc n) k w =
     (case rt_fn env w of
        (Inr a, w1) \<Rightarrow> [Inr a]
      | (Inl e, w1) \<Rightarrow> Inl e # attempts env n (Suc k)
                          (rt_sleep env (backoff_delay env k) (rt_on_retry env k e w1)))"

lemma attempts_length: "length (attempts env n k w) \<le> n"
  by (induction n arbitrary: k w) (auto split: prod.splits sum.splits)

lemma attempts_nonempty: "0 < n \<Longrightarrow> attempts env n k w \<noteq> []"
  by (cases n) (auto split: prod.splits sum.splits)

lemma attempts_butlast: "x \<in> set (butlast (attempts env n k w)) \<Longrightarrow> \<exists>e. x = Inl e"
  by (induction n arbitrary: k w) (auto split: prod.splits sum.splits if_splits)

lemma retry_from_attempts:
  assumes retryable: "\<And>e. rt_retryable env e"
    and "k + n = rt_max_attempts env"
  shows "fst (retry_from env (Suc n) k err None w) =
    (case last (attempts env (Suc n) k w) of
       Inr a \<Rightarrow> Returned a | Inl e \<Rightarrow> Exhausted (rt_max_attempts env) (Some e))"
  using assms(2)
proof (induction n arbitrary: k err w)
  case 0
  then show ?case by (auto simp: retryable split: prod.splits sum.splits)
next
  case (Suc n)
  obtain r w1 where r: "rt_fn env w = (r, w1)" by fastforce
  show ?case
  proof (cases r)
    case (Inr a)
    with r show ?thesis by simp
  next
    case (Inl e)
    let ?w = "rt_sleep env (backoff_delay env k) (rt_on_retry env k e w1)"
    have "attempts env (Suc n) (Suc k) ?w \<noteq> []" by (rule attempts_nonempty) simp
    moreover have "fst (retry_from env (Suc (Suc n)) k err None w) =
        fst (retry_from env (Suc n) (Suc k) (Some e) None ?w)"
      using Inl r Suc.prems by (simp add: retryable del: retry_from.simps(2) add: retry_from.simps(2) [of env "Suc n"])
    moreover have "attempts env (Suc (Suc n)) k w = Inl e # attempts env (Suc n) (Suc k) ?w"
      using Inl r by (simp del: attempts.simps(2) add: attempts.simps(2) [of env "Suc n"])
    ultimately show ?thesis
      using Suc.IH [of "Suc k" "Some e" ?w] Suc.prems by simp
  qed
qed

section \<open>The breaker over whole histories\<close>

lemma breaker_run_append: "breaker_run (xs @ ys) cb = breaker_run ys (breaker_run xs cb)"
  by (induction xs arbitrary: cb) auto

lemma breaker_step_config [simp]:
  "cb_failure_threshold (breaker_step x cb) = cb_failure_threshold cb"
  "cb_success_threshold (breaker_step x cb) = cb_success_threshold cb"
  "cb_recovery_timeout (breaker_step x cb) = cb_recovery_timeout cb"
  by (cases x; auto simp: allow_request_def read_state_def record_success_def record_failure_def
      reset_breaker_def Let_def)+

lemma breaker_run_config [simp]:
  "cb_failure_threshold (breaker_run xs cb) = cb_failure_threshold cb"
  "cb_success_threshold (breaker_run xs cb) = cb_success_threshold cb"
  "cb_recovery_timeout (breaker_run xs cb) = cb_recovery_timeout cb"
  by (induction xs arbitrary: cb) auto

text \<open>Successes of a half-open circuit count up and close it at the threshold.\<close>

lemma successes_run:
  "cb_state cb = HalfOpen \<Longrightarrow> cb_success_count cb + int n < cb_success_threshold cb \<Longrightarrow>
   cb_state (breaker_run (replicate n Success) cb) = HalfOpen \<and>
   cb_success_count (breaker_run (replicate n Success) cb) = cb_success_count cb + int n"
  by (induction n arbitrary: cb) (auto simp: record_success_def Let_def)

lemma success_keeps_closed: "cb_state cb = Closed \<Longrightarrow> cb_state (breaker_run (replicate n Success) cb) = Closed"
  by (induction n arbitrary: cb) (auto simp: record_success_def)

lemma successes_close_iff:
  assumes "cb_state cb = HalfOpen" and "cb_success_count cb < cb_success_threshold cb"
  shows "cb_state (breaker_run (replicate n Success) cb) = Closed \<longleftrightarrow>
    cb_success_threshold cb \<le> cb_success_count cb + int n"
  using assms
proof (induction n arbitrary: cb)
  case (Suc n)
  let ?cb = "record_success cb"
  show ?case
  proof (cases "cb_success_threshold cb \<le> cb_success_count cb + 1")
    case True
    with Suc.prems have "cb_state ?cb = Closed" by (simp add: record_success_def Let_def)
    with True show ?thesis by (simp add: success_keeps_closed)
  next
    case False
    with Suc.prems have "cb_state ?cb = HalfOpen" "cb_success_count ?cb = cb_success_count cb + 1"
      "cb_success_threshold ?cb = cb_success_threshold cb"
      by (simp_all add: record_success_def Let_def)
    with False Suc.IH [of ?cb] show ?thesis by (simp add: algebra_simps)
  qed
qed simp

text \<open>
  C12: The breaker opens and closes at its thresholds, whatever happened before: a closed circuit
  that has just seen a success opens after a run of failures exactly when the run reaches the
  failure threshold; an open one that is asked after its timeout closes after a run of successes
  exactly when the run reaches the success threshold, and one failure before that reopens it.
\<close>
theorem breaker_thresholds:
  fixes ft sts :: int and rt :: real and nm :: string and xs :: "breaker_op list"
  assumes "1 \<le> ft" "1 \<le> sts"
  defines "cb \<equiv> breaker_run xs (init_breaker nm ft rt sts)"
  shows "(cb_state cb = Closed \<longrightarrow>
      (cb_state (breaker_run (Success # map Failure ts) cb) = Open \<longleftrightarrow> ft \<le> int (length ts))) \<and>
    (cb_state cb = Open \<and> rt \<le> now - cb_last_failure_time cb \<longrightarrow>
      (cb_state (breaker_run (Ask now # replicate n Success) cb) = Closed \<longleftrightarrow> sts \<le> int n) \<and>
      (int n < sts \<longrightarrow> cb_state (breaker_run (Ask now # replicate n Success @ [Failure t]) cb) = Open))"
proof (intro conjI impI; (elim conjE)?)
  have cfg: "cb_failure_threshold cb = ft" "cb_success_threshold cb = sts" "cb_recovery_timeout cb = rt"
    by (simp_all add: cb_def init_breaker_def)
  {
    assume c: "cb_state cb = Closed"
    show "cb_state (breaker_run (Success # map Failure ts) cb) = Open \<longleftrightarrow> ft \<le> int (length ts)"
      using failures_open_iff [of "record_success cb" ts] assms(1) c cfg
      by (simp add: record_success_def)
  next
    assume "cb_state cb = Open" "rt \<le> now - cb_last_failure_time cb"
    then have ask: "breaker_step (Ask now) cb = cb\<lparr>cb_state := HalfOpen, cb_success_count := 0\<rparr>"
      using cfg by (simp add: open_probes)
    let ?h = "cb\<lparr>cb_state := HalfOpen, cb_success_count := 0\<rparr>"
    show "cb_state (breaker_run (Ask now # replicate n Success) cb) = Closed \<longleftrightarrow> sts \<le> int n"
      using successes_close_iff [of ?h n] assms(2) cfg ask by (simp del: breaker_step.simps(1))
    assume "int n < sts"
    then have "cb_state (breaker_run (replicate n Success) ?h) = HalfOpen"
      using successes_run [of ?h n] cfg by simp
    then show "cb_state (breaker_run (Ask now # replicate n Success @ [Failure t]) cb) = Open"
      using ask by (simp add: breaker_run_append record_failure_def Let_def del: breaker_step.simps(1))
  }
qed

theorem breaker_thresholds_witness:
  "cb_state (breaker_run (Success # map Failure [1, 2]) (init_breaker ''b'' 2 60 1)) = Open \<and>
   cb_state (breaker_run (Ask 100 # replicate 1 Success)
     (breaker_run [Failure 1, Failure 2] (init_breaker ''b'' 2 60 1))) = Closed"
proof -
  let ?o = "breaker_run [Failure 1, Failure 2] (init_breaker ''b'' 2 60 1)"
  have "cb_state (breaker_run [] (init_breaker ''b'' 2 60 1)) = Closed"
    by (simp add: init_breaker_def)
  moreover have "cb_state ?o = Open" "(60::real) \<le> 100 - cb_last_failure_time ?o"
    by (simp_all add: init_breaker_def record_failure_def Let_def)
  ultimately show ?thesis
    using breaker_thresholds [where ft = 2 and sts = 1 and xs = "[]" and nm = "''b''" and rt = 60
        and ts = "[1, 2]"]
      breaker_thresholds [where ft = 2 and sts = 1 and xs = "[Failure 1, Failure 2]" and nm = "''b''"
        and rt = 60 and now = 100 and n = 1] by simp
qed

text \<open>
  An open circuit fails fast: whatever happens short of a reset or a further failure, every
  request asked before the recovery timeout has passed since the last failure is rejected, and
  a retry over that breaker raises without calling the function.
\<close>
theorem breaker_fails_fast:
  assumes "cb_state cb = Open" and "ops_before (cb_last_failure_time cb + cb_recovery_timeout cb) xs"
    and "rt_clock env w < cb_last_failure_time cb + cb_recovery_timeout cb"
    and "0 < rt_max_attempts env"
  shows "fst (allow_request (rt_clock env w) (breaker_run xs cb)) = False \<and>
    (\<exists>d > 0. retry_with_backoff env (Some (breaker_run xs cb)) w =
       (CircuitOpen (cb_name (breaker_run xs cb)) d, Some (breaker_run xs cb), w))"
proof -
  let ?cb = "breaker_run xs cb"
  note o = open_stays_open [OF assms(1,2)]
  have rej: "allow_request (rt_clock env w) ?cb = (False, ?cb)"
    using o assms(3) by (intro open_rejects) auto
  then have "gate (rt_clock env w) (Some ?cb) = (False, Some ?cb)" by (simp add: gate_def)
  then have "retry_with_backoff env (Some ?cb) w = (open_error (rt_clock env w) (Some ?cb), Some ?cb, w)"
    using assms(4) retry_from_rejected unfolding retry_with_backoff_def
    by (cases "rt_max_attempts env") auto
  moreover have "0 < cb_last_failure_time ?cb + cb_recovery_timeout ?cb - rt_clock env w"
    using o assms(3) by simp
  ultimately show ?thesis using rej by (auto simp: open_error_def)
qed

definition demo_retry :: "(nat, string, nat) retry_env" where
  "demo_retry = \<lparr>rt_fn = (\<lambda>w. (if w < 2 then Inl ''fail'' else Inr w, w + 1)), rt_clock = real,
     rt_sleep = (\<lambda>d w. w), rt_on_retry = (\<lambda>k e w. w), rt_retryable = (\<lambda>e. True),
     rt_max_attempts = 3, rt_base_delay = 1, rt_max_delay = 10, rt_backoff_factor = 2\<rparr>"

theorem breaker_fails_fast_witness:
  "let cb = breaker_run [Failure 0] (init_breaker ''b'' 1 60 1)
   in \<exists>d > 0. retry_with_backoff demo_retry (Some (breaker_run [Ask 5, Success] cb)) 7 =
     (CircuitOpen (cb_name (breaker_run [Ask 5, Success] cb)) d,
      Some (breaker_run [Ask 5, Success] cb), 7)"
proof -
  let ?cb = "breaker_run [Failure 0] (init_breaker ''b'' 1 60 1)"
  have "cb_state ?cb = Open" "ops_before (cb_last_failure_time ?cb + cb_recovery_timeout ?cb) [Ask 5, Success]"
    "rt_clock demo_retry 7 < cb_last_failure_time ?cb + cb_recovery_timeout ?cb"
    "0 < rt_max_attempts demo_retry"
    by (simp_all add: init_breaker_def record_failure_def Let_def demo_retry_def)
  from breaker_fails_fast [OF this] show ?thesis unfolding Let_def by blast
qed

text \<open>
  With errors that are all retryable and no breaker, \<open>retry_with_backoff\<close> makes at least one
  and at most \<open>max_attempts\<close> calls; all but the last of them failed; it returns the value of the
  last one when that succeeded and otherwise reports the last error as exhausted.
\<close>
theorem retry_result_of_last_attempt:
  fixes env :: "('w, 'e, 'a) retry_env" and w :: 'w
  assumes "0 < rt_max_attempts env" and "\<And>e. rt_retryable env e"
  defines "outcomes \<equiv> attempts env (rt_max_attempts env) 1 w"
  shows "outcomes \<noteq> [] \<and> length outcomes \<le> rt_max_attempts env \<and>
    (\<forall>x \<in> set (butlast outcomes). \<exists>e. x = Inl e) \<and>
    fst (retry_with_backoff env None w) = (case last outcomes of
       Inr a \<Rightarrow> Returned a | Inl e \<Rightarrow> Exhausted (rt_max_attempts env) (Some e))"
proof -
  obtain n where n: "rt_max_attempts env = Suc n" using assms(1) gr0_conv_Suc by blast
  show ?thesis
    using retry_from_attempts [of env 1 n None w] attempts_length [of env "rt_max_attempts env" 1 w]
      attempts_butlast [of _ env "rt_max_attempts env" 1 w] attempts_nonempty [OF assms(1), of env 1 w]
      n assms(2) unfolding outcomes_def retry_with_backoff_def by auto
qed

theorem retry_result_of_last_attempt_witness:
  "fst (retry_with_backoff demo_retry None 0) = Returned 2 \<and>
   fst (retry_with_backoff (demo_retry\<lparr>rt_max_attempts := 2\<rparr>) None 0) = Exhausted 2 (Some ''fail'')"
  using retry_result_of_last_attempt [where env = demo_retry and w = 0]
    retry_result_of_last_attempt [where env = "demo_retry\<lparr>rt_max_attempts := 2\<rparr>" and w = 0]
  by (simp add: demo_retry_def numeral_3_eq_3 numeral_2_eq_2)

text \<open>
  C13: The cost of a retried call is bounded, with or without a breaker and whatever the errors:
  at most \<open>max_attempts\<close> calls of the function, and no sleep outside \<open>[0, max_delay]\<close> (replacing
  the sleep for all other durations changes nothing), each sleep at least as long as the last.
\<close>
theorem retry_cost_bounded:
  fixes calls :: "'w \<Rightarrow> nat"
  assumes "\<And>w. calls (snd (rt_fn env w)) = Suc (calls w)"
    and "\<And>d w. calls (rt_sleep env d w) = calls w"
    and "\<And>k e w. calls (rt_on_retry env k e w) = calls w"
    and "0 \<le> rt_base_delay env" "1 \<le> rt_backoff_factor env" "0 \<le> rt_max_delay env"
    and "\<And>d w. 0 \<le> d \<Longrightarrow> d \<le> rt_max_delay env \<Longrightarrow> f d w = rt_sleep env d w"
  shows "calls (snd (snd (retry_with_backoff env cbo w))) \<le> calls w + rt_max_attempts env \<and>
    retry_with_backoff (env\<lparr>rt_sleep := f\<rparr>) cbo w = retry_with_backoff env cbo w \<and>
    backoff_delay env k \<le> backoff_delay env (Suc k)"
  using retry_from_calls [of calls env, OF assms(1-3)] retry_from_sleeps [of env f] assms(4-7)
    backoff_delay_mono [OF assms(4,5), of k "Suc k"]
  by (simp add: retry_with_backoff_def)

theorem retry_cost_bounded_witness:
  "id (snd (snd (retry_with_backoff demo_retry None 0))) \<le> id 0 + rt_max_attempts demo_retry"
  using retry_cost_bounded [of id demo_retry "\<lambda>d w. w" None 0 1]
  by (simp add: demo_retry_def)

end
