(* ===== verification/Regex.thy ===== *)
theory Regex
  imports Prelude
begin

text \<open>
  The part of Python's \<open>re\<close> that the content filters use: character classes, sequences,
  alternatives, greedy and lazy repetition, the word boundary \<open>\b\<close>, one-character negative
  lookaround and \<open>$\<close> (the end, or before a newline at the end), with \<open>match\<close>, \<open>search\<close> and
  \<open>subn\<close>. A position in the text is the character before it and the
  text after it. \<open>ends r\<close> lists the positions where a match of \<open>r\<close> can end, in the order in which
  the backtracking matcher tries them, so the match is the first one. Texts are ASCII.
\<close>

section \<open>Patterns\<close>

type_synonym position = "char option \<times> string"

datatype rx =
    Eps
  | Class "char \<Rightarrow> bool"
  | Bound
  | NotBefore "char \<Rightarrow> bool"
  | NotAfter "char \<Rightarrow> bool"
  | AtEnd
  | Cat rx rx
  | Alt rx rx
  | Rep nat "nat option" bool rx

definition between :: "char \<Rightarrow> char \<Rightarrow> char \<Rightarrow> bool" where
  "between a b c \<longleftrightarrow> (of_char a :: nat) \<le> of_char c \<and> (of_char c :: nat) \<le> of_char b"

definition is_upper :: "char \<Rightarrow> bool" where
  "is_upper c \<longleftrightarrow> between CHR ''A'' CHR ''Z'' c"

definition is_alpha :: "char \<Rightarrow> bool" where
  "is_alpha c \<longleftrightarrow> is_upper c \<or> between CHR ''a'' CHR ''z'' c"

definition is_alnum :: "char \<Rightarrow> bool" where
  "is_alnum c \<longleftrightarrow> is_alpha c \<or> is_digit c"

definition is_word :: "char \<Rightarrow> bool" where
  "is_word c \<longleftrightarrow> is_alnum c \<or> c = CHR ''_''"

text \<open>Literal texts, with and without regard to case.\<close>

fun lit :: "string \<Rightarrow> rx" where
  "lit [] = Eps"
| "lit (c # s) = Cat (Class (\<lambda>d. d = c)) (lit s)"

fun lit_ci :: "string \<Rightarrow> rx" where
  "lit_ci [] = Eps"
| "lit_ci (c # s) = Cat (Class (\<lambda>d. lower_char d = c)) (lit_ci s)"

fun alts :: "rx list \<Rightarrow> rx" where
  "alts [] = Class (\<lambda>c. False)"
| "alts [r] = r"
| "alts (r # rs) = Alt r (alts rs)"

fun seqs :: "rx list \<Rightarrow> rx" where
  "seqs [] = Eps"
| "seqs (r # rs) = Cat r (seqs rs)"

section \<open>Matching\<close>

text \<open>\<open>k\<close> more iterations at most: a greedy loop tries another iteration first, a lazy one last.\<close>

fun more :: "bool \<Rightarrow> (position \<Rightarrow> position list) \<Rightarrow> nat \<Rightarrow> position \<Rightarrow> position list" where
  "more greedy f 0 st = [st]"
| "more greedy f (Suc k) st =
     (let longer = concat (map (more greedy f k) (f st))
      in if greedy then longer @ [st] else st # longer)"

fun exactly :: "(position \<Rightarrow> position list) \<Rightarrow> nat \<Rightarrow> position \<Rightarrow> position list" where
  "exactly f 0 st = [st]"
| "exactly f (Suc k) st = concat (map (exactly f k) (f st))"

text \<open>
  An unbounded loop makes at most as many iterations as characters are left, since the bodies of
  the patterns consume a character.
\<close>

primrec ends :: "rx \<Rightarrow> position \<Rightarrow> position list" where
  "ends Eps = (\<lambda>st. [st])"
| "ends (Class P) = (\<lambda>(p, s). case s of [] \<Rightarrow> [] | c # t \<Rightarrow> if P c then [(Some c, t)] else [])"
| "ends Bound = (\<lambda>(p, s).
     if (case p of None \<Rightarrow> False | Some c \<Rightarrow> is_word c) \<noteq> (case s of [] \<Rightarrow> False | c # t \<Rightarrow> is_word c)
     then [(p, s)] else [])"
| "ends (NotBefore P) = (\<lambda>(p, s).
     if (case p of None \<Rightarrow> False | Some c \<Rightarrow> P c) then [] else [(p, s)])"
| "ends (NotAfter P) = (\<lambda>(p, s).
     if (case s of [] \<Rightarrow> False | c # t \<Rightarrow> P c) then [] else [(p, s)])"
| "ends AtEnd = (\<lambda>(p, s). if s = [] \<or> s = newline then [(p, s)] else [])"
| "ends (Cat a b) = (\<lambda>st. concat (map (ends b) (ends a st)))"
| "ends (Alt a b) = (\<lambda>st. ends a st @ ends b st)"
| "ends (Rep m n greedy a) = (\<lambda>st.
     concat (map (\<lambda>u. more greedy (ends a) (case n of None \<Rightarrow> length (snd u) | Some k \<Rightarrow> k - m) u)
       (exactly (ends a) m st)))"

text \<open>\<open>re.match\<close>: a match at the start of the text.\<close>

definition match_start :: "rx \<Rightarrow> string \<Rightarrow> bool" where
  "match_start r s \<longleftrightarrow> ends r (None, s) \<noteq> []"

fun search_from :: "rx \<Rightarrow> char option \<Rightarrow> string \<Rightarrow> bool" where
  "search_from r p [] = (ends r (p, []) \<noteq> [])"
| "search_from r p (c # s) = (ends r (p, c # s) \<noteq> [] \<or> search_from r (Some c) s)"

definition search :: "rx \<Rightarrow> string \<Rightarrow> bool" where
  "search r s = search_from r None s"

text \<open>
  \<open>pattern.subn(repl, text)\<close>: leftmost matches, one after the other. A match of the patterns is
  never empty; an empty one would be passed over.
\<close>

function subn_from :: "rx \<Rightarrow> (string \<Rightarrow> string) \<Rightarrow> char option \<Rightarrow> string \<Rightarrow> string \<times> nat" where
  "subn_from r repl p [] = ([], 0)"
| "subn_from r repl p (c # s) =
     (case ends r (p, c # s) of
        (p', t) # _ \<Rightarrow>
          if length t < length (c # s)
          then (let (out, n) = subn_from r repl p' t
                in (repl (take (length (c # s) - length t) (c # s)) @ out, Suc n))
          else (let (out, n) = subn_from r repl (Some c) s in (c # out, n))
      | [] \<Rightarrow> (let (out, n) = subn_from r repl (Some c) s in (c # out, n)))"
  by pat_completeness auto
termination by (relation "measure (\<lambda>(r, repl, p, s). length s)") auto

definition subn :: "rx \<Rightarrow> (string \<Rightarrow> string) \<Rightarrow> string \<Rightarrow> string \<times> nat" where
  "subn r repl s = subn_from r repl None s"

section \<open>Facts about matching\<close>

text \<open>A match consumes a prefix of the text.\<close>

definition after :: "char option \<Rightarrow> string \<Rightarrow> char option" where
  "after p w = (if w = [] then p else Some (last w))"

definition consumes :: "position \<Rightarrow> position \<Rightarrow> bool" where
  "consumes st u \<longleftrightarrow> (\<exists>w. snd st = w @ snd u \<and> fst u = after (fst st) w)"

lemma after_append [simp]: "after (after p v) w = after p (v @ w)"
  by (simp add: after_def)

lemma after_simps [simp]: "after p [] = p" "after p [c] = Some c"
  by (simp_all add: after_def)

lemma after_Cons: "after p (c # w) = after (Some c) w"
  by (simp add: after_def)

lemma consumes_refl [simp]: "consumes st st"
  by (simp add: consumes_def)

lemma consumes_trans: "consumes s t \<Longrightarrow> consumes t u \<Longrightarrow> consumes s u"
  unfolding consumes_def using after_append append_assoc by metis

lemma consumes_more:
  assumes "\<And>st u. u \<in> set (f st) \<Longrightarrow> consumes st u"
  shows "u \<in> set (more g f k st) \<Longrightarrow> consumes st u"
  by (induction k arbitrary: st) (auto simp: Let_def split: if_splits intro: consumes_trans assms)

lemma consumes_exactly:
  assumes "\<And>st u. u \<in> set (f st) \<Longrightarrow> consumes st u"
  shows "u \<in> set (exactly f k st) \<Longrightarrow> consumes st u"
  by (induction k arbitrary: st) (auto intro: consumes_trans assms)

lemma ends_consumes: "u \<in> set (ends r st) \<Longrightarrow> consumes st u"
proof (induction r arbitrary: st u)
  case (Class P)
  then show ?case by (cases st) (auto simp: consumes_def split: list.splits if_splits)
next
  case (Cat a b)
  from Cat.prems obtain t where "t \<in> set (ends a st)" "u \<in> set (ends b t)" by auto
  then show ?case using Cat.IH consumes_trans by blast
next
  case (Rep m n g a)
  from Rep.prems obtain t k where "t \<in> set (exactly (ends a) m st)" "u \<in> set (more g (ends a) k t)"
    by auto
  then show ?case
    using consumes_exactly [of "ends a"] consumes_more [of "ends a"] Rep.IH consumes_trans by blast
qed (auto split: if_splits)

lemma search_at:
  "u \<in> set (ends r (after p a, s)) \<Longrightarrow> search_from r p (a @ s)"
proof (induction a arbitrary: p)
  case Nil
  then show ?case by (cases s) auto
next
  case (Cons c a)
  then show ?case by (simp add: after_Cons)
qed

lemma ends_lit: "(after p w, s) \<in> set (ends (lit w) (p, w @ s))"
  by (induction w arbitrary: p) (auto simp: after_Cons)

lemma exactly_class:
  "list_all P w \<Longrightarrow> (after p w, s) \<in> set (exactly (ends (Class P)) (length w) (p, w @ s))"
  by (induction w arbitrary: p) (auto simp: after_Cons)

lemma more_stays: "st \<in> set (more g f k st)"
  by (cases k) (auto simp: Let_def)

lemma ends_rep_exact:
  "list_all P w \<Longrightarrow> (after p w, s) \<in> set (ends (Rep (length w) n g (Class P)) (p, w @ s))"
  using exactly_class [of P w p s] more_stays by force

text \<open>A loop over a class can take any text of the class that is long enough.\<close>

lemma exactly_in_more: "u \<in> set (exactly f j st) \<Longrightarrow> j \<le> k \<Longrightarrow> u \<in> set (more g f k st)"
proof (induction j arbitrary: st k)
  case 0
  then show ?case by (simp add: more_stays)
next
  case (Suc j)
  then obtain v i where "v \<in> set (f st)" "u \<in> set (exactly f j v)" "k = Suc i" "j \<le> i"
    by (cases k) auto
  then show ?case using Suc.IH [of v i] by (auto simp: Let_def)
qed

lemma ends_rep:
  assumes "list_all P w" "m \<le> length w"
  shows "(after p w, s) \<in> set (ends (Rep m None g (Class P)) (p, w @ s))"
proof -
  have w: "list_all P (take m w)" "list_all P (drop m w)"
    using assms(1) append_take_drop_id [of m w] list_all_append by metis+
  let ?u = "(after p (take m w), drop m w @ s)"
  have "?u \<in> set (exactly (ends (Class P)) m (p, w @ s))"
    using exactly_class [OF w(1), of p "drop m w @ s"] assms(2) by (simp flip: append_assoc)
  moreover have "(after p w, s) \<in> set (exactly (ends (Class P)) (length (drop m w)) ?u)"
    using exactly_class [OF w(2), of "after p (take m w)" s] by simp
  then have "(after p w, s) \<in> set (more g (ends (Class P)) (length (snd ?u)) ?u)"
    by (rule exactly_in_more) simp
  ultimately show ?thesis by force
qed

lemma ends_seqs:
  "t \<in> set (ends r st) \<Longrightarrow> u \<in> set (ends (seqs rs) t) \<Longrightarrow> u \<in> set (ends (seqs (r # rs)) st)"
  by auto

lemma ends_alts: "r \<in> set rs \<Longrightarrow> u \<in> set (ends r st) \<Longrightarrow> u \<in> set (ends (alts rs) st)"
  by (induction rs rule: alts.induct) auto

definition word_before :: "char option \<Rightarrow> bool" where
  "word_before p \<longleftrightarrow> (case p of None \<Rightarrow> False | Some c \<Rightarrow> is_word c)"

definition word_after :: "string \<Rightarrow> bool" where
  "word_after s \<longleftrightarrow> (case s of [] \<Rightarrow> False | c # t \<Rightarrow> is_word c)"

lemma ends_bound: "(p, s) \<in> set (ends Bound (p, s)) \<longleftrightarrow> word_before p \<noteq> word_after s"
  by (simp add: word_before_def word_after_def)

end
