(* ===== verification/Validation.thy ===== *)
theory Validation
  imports Regex
begin

text \<open>
  Input validation at the public boundary, \<open>core/validation.py\<close>. A validator takes the Python value
  it is given and answers \<open>Inl\<close> the text of the \<open>ValidationError\<close> or \<open>Inr\<close> the cleaned value. \<open>repr\<close>
  renders floats and containers. URL parsing and the classification of IP addresses, which the
  standard library does, are arguments of \<open>validate_webhook_url\<close>.
\<close>

section \<open>Texts\<close>

definition MAX_STRING_LENGTH :: nat where
  "MAX_STRING_LENGTH = 2048"

definition MAX_TAGS :: nat where
  "MAX_TAGS = 50"

definition MAX_TAG_KEY_LENGTH :: nat where
  "MAX_TAG_KEY_LENGTH = 128"

definition MAX_TAG_VALUE_LENGTH :: nat where
  "MAX_TAG_VALUE_LENGTH = 256"

definition MAX_QUERY_LIMIT :: int where
  "MAX_QUERY_LIMIT = 10000"

definition MAX_DICT_DEPTH :: nat where
  "MAX_DICT_DEPTH = 5"

text \<open>\<open>type(v).__name__\<close>\<close>

fun type_name :: "pyval \<Rightarrow> string" where
  "type_name PNone = ''NoneType''"
| "type_name (PBool b) = ''bool''"
| "type_name (PInt i) = ''int''"
| "type_name (PFloat x) = ''float''"
| "type_name (PStr s) = ''str''"
| "type_name (PList xs) = ''list''"
| "type_name (PDict d) = ''dict''"

definition tab :: char where
  "tab = CHR 0x09"

definition printable :: "char \<Rightarrow> bool" where
  "printable c \<longleftrightarrow> [c] = newline \<or> c = tab \<or> (32 :: nat) \<le> of_char c"

definition sanitise_text :: "string \<Rightarrow> string \<Rightarrow> nat \<Rightarrow> string + string" where
  "sanitise_text s field max_length =
     (let v = strip s
      in if max_length < length v
         then Inl (field @ '': exceeds maximum length of '' @ show_nat max_length @ '' characters'')
         else Inr (filter printable v))"

definition sanitise_string :: "pyval \<Rightarrow> string \<Rightarrow> nat \<Rightarrow> string + string" where
  "sanitise_string v field max_length =
     (case v of PStr s \<Rightarrow> sanitise_text s field max_length
      | _ \<Rightarrow> Inl (field @ '': expected string, got '' @ type_name v))"

text \<open>Run a check on a cleaned value; an error passes through.\<close>

definition and_then :: "'e + 'a \<Rightarrow> ('a \<Rightarrow> 'e + 'b) \<Rightarrow> 'e + 'b" where
  "and_then r f = (case r of Inl e \<Rightarrow> Inl e | Inr x \<Rightarrow> f x)"

definition one_of :: "string \<Rightarrow> string list \<Rightarrow> string \<Rightarrow> string + string" where
  "one_of field valid s =
     (if lower s \<in> set valid then Inr (lower s)
      else Inl (field @ '': must be one of ['' @ join '', '' (map quoted (sort valid)) @ ''], got '' @
             quoted (lower s)))"

definition valid_providers :: "string list" where
  "valid_providers = [''aws'', ''gcp'', ''azure'']"

definition valid_severities :: "string list" where
  "valid_severities = [''info'', ''warning'', ''critical'', ''emergency'']"

definition valid_statuses :: "string list" where
  "valid_statuses = [''pending'', ''acknowledged'', ''in_progress'', ''resolved'', ''escalated'']"

definition validate_provider :: "pyval \<Rightarrow> string + string" where
  "validate_provider v = and_then (sanitise_string v ''provider'' 32) (one_of ''provider'' valid_providers)"

definition validate_severity :: "pyval \<Rightarrow> string + string" where
  "validate_severity v = and_then (sanitise_string v ''severity'' 32) (one_of ''severity'' valid_severities)"

definition validate_status :: "pyval \<Rightarrow> string + string" where
  "validate_status v = and_then (sanitise_string v ''status'' 32) (one_of ''status'' valid_statuses)"

section \<open>Identifiers\<close>

definition aws_account_rx :: rx where
  "aws_account_rx = seqs [Rep 12 (Some 12) True (Class is_digit), AtEnd]"

definition gcp_project_rx :: rx where
  "gcp_project_rx = seqs [Class (between CHR ''a'' CHR ''z''),
     Rep 4 (Some 28) True (Class (\<lambda>c. between CHR ''a'' CHR ''z'' c \<or> is_digit c \<or> c = CHR ''-'')),
     Class (\<lambda>c. between CHR ''a'' CHR ''z'' c \<or> is_digit c), AtEnd]"

definition ident_char :: "char \<Rightarrow> bool" where
  "ident_char c \<longleftrightarrow> is_word c \<or> c \<in> set ''-.:''"

definition generic_id_rx :: "nat \<Rightarrow> rx" where
  "generic_id_rx n = seqs [Rep 1 (Some n) True (Class ident_char), AtEnd]"

definition resource_id_rx :: rx where
  "resource_id_rx = seqs [Rep 1 (Some 512) True (Class (\<lambda>c. ident_char c \<or> c = CHR ''/'' \<or> c = CHR ''@'')), AtEnd]"

definition email_format_rx :: rx where
  "email_format_rx = seqs [Rep 1 (Some 64) True (Class (\<lambda>c. c \<noteq> CHR ''@'' \<and> \<not> is_space c)), lit ''@'',
     Rep 1 (Some 255) True (Class (\<lambda>c. c \<noteq> CHR ''@'' \<and> \<not> is_space c)), AtEnd]"

definition validate_account_id :: "pyval \<Rightarrow> string + string" where
  "validate_account_id v = and_then (sanitise_string v ''account_id'' 64) (\<lambda>s.
     if s = [] then Inl ''account_id: cannot be empty''
     else if match_start aws_account_rx s \<or> match_start gcp_project_rx s \<or> match_start (generic_id_rx 64) s
     then Inr s else Inl ''account_id: contains invalid characters'')"

definition validate_resource_id :: "pyval \<Rightarrow> string + string" where
  "validate_resource_id v = and_then (sanitise_string v ''resource_id'' 512) (\<lambda>s.
     if s = [] then Inl ''resource_id: cannot be empty''
     else if match_start resource_id_rx s then Inr s else Inl ''resource_id: contains invalid characters'')"

definition validate_resource_type :: "pyval \<Rightarrow> string + string" where
  "validate_resource_type v = and_then (sanitise_string v ''resource_type'' 128) (\<lambda>s.
     if s = [] then Inl ''resource_type: cannot be empty''
     else if match_start (generic_id_rx 128) s then Inr s else Inl ''resource_type: contains invalid characters'')"

definition validate_email :: "pyval \<Rightarrow> string + string" where
  "validate_email v =
     (if \<not> truthy v then Inr []
      else and_then (sanitise_string v ''email'' 320) (\<lambda>s.
        if match_start email_format_rx s then Inr s else Inl ''email: invalid format''))"

section \<open>Tags, numbers and nesting\<close>

fun clean_tags :: "(pyval \<Rightarrow> string) \<Rightarrow> (string \<times> pyval) list \<Rightarrow> (string, string) dict \<Rightarrow>
    string + (string, string) dict" where
  "clean_tags repr [] cleaned = Inr cleaned"
| "clean_tags repr ((k, v) # kvs) cleaned =
     and_then (sanitise_text k ''tag key'' MAX_TAG_KEY_LENGTH) (\<lambda>k'.
       and_then (sanitise_text (py_str repr v) ''tag value'' MAX_TAG_VALUE_LENGTH) (\<lambda>v'.
         clean_tags repr kvs (dset cleaned k' v')))"

definition validate_tags :: "(pyval \<Rightarrow> string) \<Rightarrow> pyval \<Rightarrow> string + (string, string) dict" where
  "validate_tags repr v =
     (case v of PNone \<Rightarrow> Inr []
      | PDict d \<Rightarrow> if MAX_TAGS < length d
          then Inl (''tags: exceeds maximum of '' @ show_nat MAX_TAGS @ '' tags'') else clean_tags repr d []
      | _ \<Rightarrow> Inl ''tags: expected dictionary'')"

text \<open>A bool is an int; \<open>min(True, n)\<close> is \<open>True\<close>, that is 1.\<close>

definition validate_query_limit :: "pyval \<Rightarrow> string + int" where
  "validate_query_limit v =
     (let bad = Inl ''limit: must be a positive integer''
      in case v of PInt i \<Rightarrow> if i < 1 then bad else Inr (min i MAX_QUERY_LIMIT)
         | PBool b \<Rightarrow> if b then Inr 1 else bad
         | _ \<Rightarrow> bad)"

definition check_cost :: "real \<Rightarrow> string \<Rightarrow> string + real" where
  "check_cost x field =
     (if x < 0 then Inl (field @ '': cannot be negative'')
      else if 1000000000 < x then Inl (field @ '': exceeds maximum of $1B'') else Inr x)"

definition validate_cost :: "pyval \<Rightarrow> string \<Rightarrow> string + real" where
  "validate_cost v field =
     (case v of PInt i \<Rightarrow> check_cost (real_of_int i) field
      | PFloat x \<Rightarrow> check_cost x field
      | PBool b \<Rightarrow> check_cost (if b then 1 else 0) field
      | _ \<Rightarrow> Inl (field @ '': expected number''))"

text \<open>\<open>_check\<close>: True when some value lies deeper than the maximum.\<close>

fun too_deep :: "nat \<Rightarrow> nat \<Rightarrow> pyval \<Rightarrow> bool" where
  "too_deep max_depth depth (PDict d) =
     (max_depth < depth \<or> list_ex (\<lambda>kv. too_deep max_depth (Suc depth) (snd kv)) d)"
| "too_deep max_depth depth (PList xs) =
     (max_depth < depth \<or> list_ex (too_deep max_depth (Suc depth)) xs)"
| "too_deep max_depth depth v = (max_depth < depth)"

definition validate_dict_depth :: "pyval \<Rightarrow> string \<Rightarrow> nat \<Rightarrow> string + unit" where
  "validate_dict_depth v field max_depth =
     (if too_deep max_depth 0 v
      then Inl (field @ '': exceeds maximum nesting depth of '' @ show_nat max_depth) else Inr ())"

section \<open>Webhook targets\<close>

text \<open>
  What \<open>urlparse\<close> finds; it may raise \<open>ValueError\<close>, as reading the port does when that is not a
  number below 65536. Neither is a \<open>ValidationError\<close>.
\<close>

record parsed_url =
  pu_scheme :: string
  pu_hostname :: "string option"
  pu_port :: "string + int option"

datatype url_error = Rejected string | Unparsable string

definition blocked_hosts :: "string list" where
  "blocked_hosts = [''localhost'', ''127.0.0.1'', ''0.0.0.0'', ''::1'', ''metadata.google.internal'',
     ''169.254.169.254'']"

definition check_port :: "string \<Rightarrow> int option \<Rightarrow> url_error + string" where
  "check_port url port =
     (case port of
        None \<Rightarrow> Inr url
      | Some n \<Rightarrow> if n \<notin> {80, 443, 8080, 8443}
          then Inl (Rejected (''webhook_url: non-standard port '' @ show_int n @ '' is not allowed''))
          else Inr url)"

definition check_url :: "(string \<Rightarrow> bool) \<Rightarrow> string list \<Rightarrow> string \<Rightarrow> parsed_url \<Rightarrow> url_error + string" where
  "check_url is_private_ip schemes url parsed =
     (if pu_scheme parsed \<notin> set schemes
      then Inl (Rejected (''webhook_url: scheme must be one of ['' @ join '', '' (map quoted (sort (remdups schemes))) @
             ''], got '' @ quoted (pu_scheme parsed)))
      else (let hostname = (case pu_hostname parsed of None \<Rightarrow> [] | Some h \<Rightarrow> h)
            in if hostname = [] then Inl (Rejected ''webhook_url: missing hostname'')
               else if lower hostname \<in> set blocked_hosts
               then Inl (Rejected ''webhook_url: blocked internal host'')
               else if is_private_ip hostname
               then Inl (Rejected ''webhook_url: private/internal IP addresses are not allowed'')
               else (case pu_port parsed of Inl e \<Rightarrow> Inl (Unparsable e) | Inr port \<Rightarrow> check_port url port)))"

definition validate_webhook_url :: "(string \<Rightarrow> string + parsed_url) \<Rightarrow> (string \<Rightarrow> bool) \<Rightarrow> string list \<Rightarrow> bool \<Rightarrow>
    pyval \<Rightarrow> url_error + string" where
  "validate_webhook_url urlparse is_private_ip allowed_schemes allow_http v =
     (case sanitise_string v ''webhook_url'' 2048 of
        Inl e \<Rightarrow> Inl (Rejected e)
      | Inr url \<Rightarrow>
          if url = [] then Inl (Rejected ''webhook_url: cannot be empty'')
          else (case urlparse url of
              Inl e \<Rightarrow> Inl (Unparsable e)
            | Inr parsed \<Rightarrow>
                check_url is_private_ip (allowed_schemes @ (if allow_http then [''http''] else [])) url parsed))"

section \<open>Paths\<close>

text \<open>\<open>Path.resolve\<close> and \<open>Path.relative_to\<close> depend on the file system and are arguments.\<close>

definition validate_safe_path :: "(string \<Rightarrow> string) \<Rightarrow> (string \<Rightarrow> string \<Rightarrow> bool) \<Rightarrow> string \<Rightarrow> string option \<Rightarrow>
    string \<Rightarrow> string + string" where
  "validate_safe_path resolve is_within path base_dir field =
     (let p = resolve path
      in if substr ''..'' path then Inl (field @ '': path traversal ('' @ CHR 0x27 # ''..'' @ CHR 0x27 # '') is not allowed'')
         else (case base_dir of
             None \<Rightarrow> Inr p
           | Some dir \<Rightarrow>
               (let base = resolve dir
                in if is_within p base then Inr p else Inl (field @ '': path must be within '' @ base))))"

section \<open>Error messages for clients\<close>

definition path_rx :: rx where
  "path_rx = seqs [lit ''/'', Rep 1 None True (Class (\<lambda>c. is_word c \<or> c \<in> set ''-./'')), lit ''.py'']"

definition line_rx :: rx where
  "line_rx = seqs [lit ''line '', Rep 1 None True (Class is_digit)]"

definition error_class_rx :: rx where
  "error_class_rx = seqs [Rep 1 None True (Class (\<lambda>c. is_word c \<or> c = CHR ''.'')), lit ''Error: '']"

definition safe_error_message :: "string \<Rightarrow> string" where
  "safe_error_message s =
     (let msg = fst (subn path_rx (\<lambda>m. ''<redacted-path>'') s);
          msg = fst (subn line_rx (\<lambda>m. []) msg);
          msg = fst (subn error_class_rx (\<lambda>m. []) msg)
      in strip (if 500 < length msg then take 497 msg @ ''...'' else msg))"

section \<open>What passes\<close>

lemma sanitise_string_exact:
  "sanitise_string v field n = Inr t \<longleftrightarrow> (\<exists>s. v = PStr s \<and> length (strip s) \<le> n \<and> t = filter printable (strip s))"
  by (cases v) (auto simp: sanitise_string_def sanitise_text_def Let_def)

lemma sanitise_string_bounds:
  assumes "sanitise_string v field n = Inr t"
  shows "length t \<le> n" and "list_all printable t"
proof -
  obtain s where s: "length (strip s) \<le> n" "t = filter printable (strip s)"
    using assms unfolding sanitise_string_exact by blast
  show "length t \<le> n" unfolding s(2) by (rule le_trans [OF length_filter_le s(1)])
  show "list_all printable t" by (simp add: s(2) list_all_iff)
qed

lemma and_then_Inr: "and_then r f = Inr y \<longleftrightarrow> (\<exists>x. r = Inr x \<and> f x = Inr y)"
  by (cases r) (simp_all add: and_then_def)

text \<open>The nesting depth of a value.\<close>

fun nesting :: "pyval \<Rightarrow> nat" where
  "nesting (PDict d) = (if d = [] then 0 else Suc (Max (set (map (\<lambda>kv. nesting (snd kv)) d))))"
| "nesting (PList xs) = (if xs = [] then 0 else Suc (Max (set (map nesting xs))))"
| "nesting v = 0"

lemma below_Max:
  fixes f :: "'a \<Rightarrow> nat"
  assumes "xs \<noteq> []"
  shows "m < d + Suc (Max (set (map f xs))) \<longleftrightarrow> m < d \<or> (\<exists>x \<in> set xs. m < Suc d + f x)"
proof -
  let ?M = "Max (set (map f xs))"
  have "?M \<in> set (map f xs)" using assms by (intro Max_in) auto
  then obtain y where y: "y \<in> set xs" "?M = f y" by auto
  have "f x \<le> ?M" if "x \<in> set xs" for x using that by (intro Max_ge) auto
  then have "m < Suc d + ?M" if "x \<in> set xs" "m < Suc d + f x" for x
    using that by (meson add_left_mono order_less_le_trans)
  then show ?thesis using y by auto
qed

lemma too_deep_iff: "too_deep m d v \<longleftrightarrow> m < d + nesting v"
proof (induction m d v rule: too_deep.induct)
  case (1 m d kvs)
  then show ?case using below_Max [of kvs m d "\<lambda>kv. nesting (snd kv)"] by (cases "kvs = []") (auto simp: list_ex_iff)
next
  case (2 m d xs)
  then show ?case using below_Max [of xs m d nesting] by (cases "xs = []") (auto simp: list_ex_iff)
qed simp_all

text \<open>The depth check accepts exactly the values that nest no deeper than the maximum.\<close>

lemma validate_dict_depth_exact: "validate_dict_depth v field m = Inr () \<longleftrightarrow> nesting v \<le> m"
  by (auto simp: validate_dict_depth_def too_deep_iff)

text \<open>
  An account id may end in a newline: control characters are removed after the text is stripped,
  and \<open>$\<close> also matches before a newline at the end.
\<close>

lemma account_id_with_newline:
  "validate_account_id (PStr (''prod'' @ newline @ [CHR 0x00])) = Inr (''prod'' @ newline)"
  by code_simp

text \<open>Messages for clients are short.\<close>

lemma length_strip: "length (strip s) \<le> length s"
  unfolding strip_def length_rev
  using length_dropWhile_le [of is_space "rev (dropWhile is_space s)"] length_dropWhile_le [of is_space s]
  by simp

lemma safe_error_message_length: "length (safe_error_message s) \<le> 500"
  unfolding safe_error_message_def Let_def by (rule le_trans [OF length_strip]) simp

lemma check_port_Inr: "check_port url port = Inr u \<Longrightarrow> u = url \<and> port \<in> {None, Some 80, Some 443, Some 8080, Some 8443}"
  by (auto simp: check_port_def split: option.splits if_splits)

lemma check_url_Inr:
  "check_url is_private_ip schemes url parsed = Inr u \<Longrightarrow>
     u = url \<and> pu_scheme parsed \<in> set schemes \<and>
     (\<exists>host. pu_hostname parsed = Some host \<and> host \<noteq> [] \<and> lower host \<notin> set blocked_hosts \<and> \<not> is_private_ip host) \<and>
     (\<exists>port. pu_port parsed = Inr port \<and> port \<in> {None, Some 80, Some 443, Some 8080, Some 8443})"
  by (auto simp: check_url_def Let_def dest: check_port_Inr split: if_splits option.splits sum.splits)

lemma webhook_url_target:
  assumes "validate_webhook_url urlparse is_private_ip schemes allow_http v = Inr url"
  shows "sanitise_string v ''webhook_url'' 2048 = Inr url \<and> url \<noteq> [] \<and> (\<exists>parsed. urlparse url = Inr parsed \<and>
     (\<exists>host. pu_hostname parsed = Some host \<and> host \<noteq> [] \<and> lower host \<notin> set blocked_hosts \<and> \<not> is_private_ip host) \<and>
     (pu_scheme parsed \<in> set schemes \<or> allow_http \<and> pu_scheme parsed = ''http'') \<and>
     (\<exists>port. pu_port parsed = Inr port \<and> port \<in> {None, Some 80, Some 443, Some 8080, Some 8443}))"
proof -
  obtain u where u: "sanitise_string v ''webhook_url'' 2048 = Inr u" "u \<noteq> []"
    using assms by (auto simp: validate_webhook_url_def split: sum.splits if_splits)
  then obtain parsed where p: "urlparse u = Inr parsed"
    "check_url is_private_ip (schemes @ (if allow_http then [''http''] else [])) u parsed = Inr url"
    using assms by (auto simp: validate_webhook_url_def split: sum.splits if_splits)
  from check_url_Inr [OF p(2)] u p(1) show ?thesis by (auto split: if_splits)
qed

lemma safe_path_within:
  "validate_safe_path resolve is_within path (Some dir) field = Inr p \<Longrightarrow>
     p = resolve path \<and> is_within p (resolve dir) \<and> \<not> substr ''..'' path"
  by (simp add: validate_safe_path_def Let_def split: if_splits)

end
