(* ===== verification/Notifications.thy ===== *)
theory Notifications
  imports Alert_Store Validation
begin

text \<open>
  Alert delivery, \<open>core/notifications.py\<close>: the webhook, Slack, PagerDuty and log dispatchers, and
  the composite that queues what a channel did not take. A dispatcher is one of four constructors;
  the composite's dispatchers are those, not composites. What lies outside (the HTTP client, the
  logger, \<open>urlparse\<close>, \<open>ipaddress\<close>) is an argument, over a world \<open>'w\<close>. A request carries the value
  whose JSON is sent. Exceptions are the text of \<open>str(e)\<close>.
\<close>

section \<open>Dispatchers\<close>

record webhook =
  wh_url :: string
  wh_headers :: "(string, string) dict"
  wh_allow_http :: bool

record slack =
  sl_webhook_url :: string
  sl_channel :: string

datatype dispatcher = Webhook webhook | Slack slack | PagerDuty string | Log

datatype body = AlertBody cost_alert | JsonBody "(string, pyval) dict"

text \<open>A post answers with the status of the response, or with nothing when it raises.\<close>

record 'w notify_env =
  nv_urlparse :: "string \<Rightarrow> string + parsed_url"
  nv_is_private :: "string \<Rightarrow> bool"
  nv_post :: "string \<Rightarrow> (string, string) dict \<Rightarrow> body \<Rightarrow> 'w \<Rightarrow> int option \<times> 'w"
  nv_log :: "string \<Rightarrow> 'w \<Rightarrow> 'w"

definition channel_name :: "dispatcher \<Rightarrow> string" where
  "channel_name d = (case d of
     Webhook w \<Rightarrow> ''webhook:'' @ wh_url w
   | Slack s \<Rightarrow> ''slack:'' @ str_or (sl_channel s) ''default''
   | PagerDuty key \<Rightarrow> ''pagerduty''
   | Log \<Rightarrow> ''log'')"

definition json_header :: "(string, string) dict" where
  "json_header = [(''Content-Type'', ''application/json'')]"

definition post_ok :: "int option \<Rightarrow> bool" where
  "post_ok r = (case r of None \<Rightarrow> False | Some status \<Rightarrow> status < 400)"

definition check_webhook :: "'w notify_env \<Rightarrow> webhook \<Rightarrow> url_error + string" where
  "check_webhook nv w =
     validate_webhook_url (nv_urlparse nv) (nv_is_private nv) [''https''] (wh_allow_http w) (PStr (wh_url w))"

definition send_webhook :: "'w notify_env \<Rightarrow> webhook \<Rightarrow> cost_alert \<Rightarrow> 'w \<Rightarrow> (string + bool) \<times> 'w" where
  "send_webhook nv w a world =
     (if wh_url w = [] then (Inr False, world)
      else (case check_webhook nv w of
          Inl (Rejected e) \<Rightarrow> (Inr False, world)
        | Inl (Unparsable e) \<Rightarrow> (Inl e, world)
        | Inr url \<Rightarrow>
            (let (r, world1) = nv_post nv (wh_url w) (fold (\<lambda>(k, v) d. dset d k v) (wh_headers w) json_header)
                   (AlertBody a) world
             in (Inr (post_ok r), world1))))"

definition slack_prefix :: string where
  "slack_prefix = ''https://hooks.slack.com/''"

fun severity_colour :: "severity \<Rightarrow> string" where
  "severity_colour EMERGENCY = CHR 0x23 # ''FF0000''"
| "severity_colour CRITICAL = CHR 0x23 # ''FF6600''"
| "severity_colour WARNING = CHR 0x23 # ''FFCC00''"
| "severity_colour INFO = CHR 0x23 # ''36A64F''"

definition slack_field :: "string \<Rightarrow> string \<Rightarrow> bool \<Rightarrow> pyval" where
  "slack_field title v short = PDict [(''title'', PStr title), (''value'', PStr v), (''short'', PBool short)]"

definition creator_name :: "cost_alert \<Rightarrow> string" where
  "creator_name a = str_or (al_creator_email a) (al_resource_creator a)"

definition resource_label :: "cost_alert \<Rightarrow> string" where
  "resource_label a = al_resource_type a @ '' ['' @ al_resource_id a @ '']''"

definition slack_payload :: "slack \<Rightarrow> cost_alert \<Rightarrow> (string, pyval) dict" where
  "slack_payload s a =
     [(''attachments'', PList [PDict
        [(''color'', PStr (severity_colour (al_severity a))), (''title'', PStr (al_title a)),
         (''text'', PStr (al_summary a)),
         (''fields'', PList
           [slack_field ''Severity'' (upper (severity_value (al_severity a))) True,
            slack_field ''Cost'' (CHR 0x24 # fmt_money (al_cost a) @ ''/mo'') True,
            slack_field ''Creator'' (creator_name a) True, slack_field ''Team'' (al_team a) True,
            slack_field ''Resource'' (resource_label a) False]),
         (''footer'', PStr (''FinOps Hub | Alert '' @ al_alert_id a))]])] @
     (if sl_channel s = [] then [] else [(''channel'', PStr (sl_channel s))])"

definition send_slack :: "'w notify_env \<Rightarrow> slack \<Rightarrow> cost_alert \<Rightarrow> 'w \<Rightarrow> (string + bool) \<times> 'w" where
  "send_slack nv s a world =
     (if sl_webhook_url s = [] then (Inr False, world)
      else if \<not> is_prefix slack_prefix (sl_webhook_url s) then (Inr False, world)
      else (let (r, world1) = nv_post nv (sl_webhook_url s) json_header (JsonBody (slack_payload s a)) world
            in (Inr (post_ok r), world1)))"

fun pd_severity :: "severity \<Rightarrow> string" where
  "pd_severity EMERGENCY = ''critical''"
| "pd_severity CRITICAL = ''error''"
| "pd_severity WARNING = ''warning''"
| "pd_severity INFO = ''info''"

definition pd_url :: string where
  "pd_url = ''https://events.pagerduty.com/v2/enqueue''"

definition pd_payload :: "string \<Rightarrow> cost_alert \<Rightarrow> (string, pyval) dict" where
  "pd_payload key a =
     [(''routing_key'', PStr key), (''event_action'', PStr ''trigger''), (''dedup_key'', PStr (al_alert_id a)),
      (''payload'', PDict
        [(''summary'', PStr (al_title a)), (''source'', PStr ''finops-automation-hub''),
         (''severity'', PStr (pd_severity (al_severity a))),
         (''custom_details'', PDict
           [(''cost'', PStr (CHR 0x24 # fmt_money (al_cost a) @ ''/month'')),
            (''creator'', PStr (creator_name a)), (''team'', PStr (al_team a)),
            (''resource'', PStr (resource_label a)), (''region'', PStr (al_region a)),
            (''account'', PStr (al_account_id a)),
            (''recommendations'', PList (map PStr (al_recommended_actions a)))])])]"

definition send_pagerduty :: "'w notify_env \<Rightarrow> string \<Rightarrow> cost_alert \<Rightarrow> 'w \<Rightarrow> (string + bool) \<times> 'w" where
  "send_pagerduty nv key a world =
     (if key = [] then (Inr False, world)
      else (let (r, world1) = nv_post nv pd_url json_header (JsonBody (pd_payload key a)) world
            in (Inr (post_ok r), world1)))"

definition send_log :: "'w notify_env \<Rightarrow> string \<Rightarrow> 'w \<Rightarrow> (string + bool) \<times> 'w" where
  "send_log nv t world = (Inr True, nv_log nv (''COST ALERT:'' @ newline @ t) world)"

definition send :: "'w notify_env \<Rightarrow> dispatcher \<Rightarrow> cost_alert \<Rightarrow> string \<Rightarrow> 'w \<Rightarrow> (string + bool) \<times> 'w" where
  "send nv d a t world = (case d of
     Webhook w \<Rightarrow> send_webhook nv w a world
   | Slack s \<Rightarrow> send_slack nv s a world
   | PagerDuty key \<Rightarrow> send_pagerduty nv key a world
   | Log \<Rightarrow> send_log nv t world)"

definition validate_config :: "'w notify_env \<Rightarrow> dispatcher \<Rightarrow> string + bool" where
  "validate_config nv d = (case d of
     Webhook w \<Rightarrow> if wh_url w = [] then Inr False
       else (case check_webhook nv w of
           Inl (Rejected e) \<Rightarrow> Inr False | Inl (Unparsable e) \<Rightarrow> Inl e | Inr url \<Rightarrow> Inr True)
   | Slack s \<Rightarrow> Inr (sl_webhook_url s \<noteq> [])
   | PagerDuty key \<Rightarrow> Inr (key \<noteq> [])
   | Log \<Rightarrow> Inr True)"

section \<open>The composite and its dead letters\<close>

record dead_letter =
  dl_alert_id :: string
  dl_channel :: string
  dl_alert :: cost_alert
  dl_text :: string
  dl_reason :: string
  dl_retry_count :: nat

record composite =
  cd_dispatchers :: "dispatcher list"
  cd_dead_letters :: "dead_letter list"

definition MAX_DEAD_LETTERS :: nat where
  "MAX_DEAD_LETTERS = 1000"

definition MAX_RETRY_ATTEMPTS :: nat where
  "MAX_RETRY_ATTEMPTS = 3"

definition enqueue_dead_letter :: "cost_alert \<Rightarrow> string \<Rightarrow> string \<Rightarrow> string \<Rightarrow> dead_letter list \<Rightarrow> dead_letter list" where
  "enqueue_dead_letter a t channel reason q =
     (if MAX_DEAD_LETTERS \<le> length q then tl q else q) @
     [\<lparr>dl_alert_id = al_alert_id a, dl_channel = channel, dl_alert = a, dl_text = t, dl_reason = reason,
       dl_retry_count = 0\<rparr>]"

text \<open>The loop of \<open>CompositeDispatcher.send\<close> over the dispatchers.\<close>

fun send_each :: "'w notify_env \<Rightarrow> cost_alert \<Rightarrow> string \<Rightarrow> dispatcher list \<Rightarrow> bool \<Rightarrow> dead_letter list \<Rightarrow> 'w \<Rightarrow>
    bool \<times> dead_letter list \<times> 'w" where
  "send_each nv a t [] success q world = (success, q, world)"
| "send_each nv a t (d # ds) success q world =
     (case send nv d a t world of
        (Inr True, world1) \<Rightarrow> send_each nv a t ds True q world1
      | (Inr False, world1) \<Rightarrow>
          send_each nv a t ds success (enqueue_dead_letter a t (channel_name d) ''send returned False'' q) world1
      | (Inl e, world1) \<Rightarrow> send_each nv a t ds success (enqueue_dead_letter a t (channel_name d) e q) world1)"

definition composite_send :: "'w notify_env \<Rightarrow> cost_alert \<Rightarrow> string \<Rightarrow> composite \<Rightarrow> 'w \<Rightarrow>
    bool \<times> composite \<times> 'w" where
  "composite_send nv a t c world =
     (if cd_dispatchers c = [] then (True, c, snd (send_log nv t world))
      else (let (success, q, world1) = send_each nv a t (cd_dispatchers c) False (cd_dead_letters c) world
            in (success, c\<lparr>cd_dead_letters := q\<rparr>, world1)))"

text \<open>\<open>{d.channel_name: d for d in self._dispatchers}\<close>\<close>

definition dispatcher_map :: "dispatcher list \<Rightarrow> (string, dispatcher) dict" where
  "dispatcher_map ds = fold (\<lambda>d m. dset m (channel_name d) d) ds []"

record retry_counts =
  rt_retried :: nat
  rt_succeeded :: nat
  rt_failed :: nat
  rt_expired :: nat

definition bump :: "dead_letter \<Rightarrow> dead_letter" where
  "bump l = l\<lparr>dl_retry_count := dl_retry_count l + 1\<rparr>"

text \<open>The loop of \<open>retry_dead_letters\<close>: successes, expiries, what still failed.\<close>

fun retry_each :: "'w notify_env \<Rightarrow> (string, dispatcher) dict \<Rightarrow> dead_letter list \<Rightarrow> 'w \<Rightarrow>
    nat \<times> nat \<times> dead_letter list \<times> 'w" where
  "retry_each nv m [] world = (0, 0, [], world)"
| "retry_each nv m (l # ls) world =
     (if MAX_RETRY_ATTEMPTS \<le> dl_retry_count l
      then (let (ok, expired, failed, world1) = retry_each nv m ls world in (ok, expired + 1, failed, world1))
      else (case dget m (dl_channel l) of
          None \<Rightarrow> (let (ok, expired, failed, world1) = retry_each nv m ls world
                  in (ok, expired, bump l # failed, world1))
        | Some d \<Rightarrow>
            (case send nv d (dl_alert l) (dl_text l) world of
               (Inr True, world1) \<Rightarrow> (let (ok, expired, failed, world2) = retry_each nv m ls world1
                  in (ok + 1, expired, failed, world2))
             | (_, world1) \<Rightarrow> (let (ok, expired, failed, world2) = retry_each nv m ls world1
                  in (ok, expired, bump l # failed, world2)))))"

definition retry_dead_letters :: "'w notify_env \<Rightarrow> composite \<Rightarrow> 'w \<Rightarrow> retry_counts \<times> composite \<times> 'w" where
  "retry_dead_letters nv c world =
     (if cd_dead_letters c = []
      then (\<lparr>rt_retried = 0, rt_succeeded = 0, rt_failed = 0, rt_expired = 0\<rparr>, c, world)
      else (let (ok, expired, failed, world1) =
              retry_each nv (dispatcher_map (cd_dispatchers c)) (cd_dead_letters c) world
            in (\<lparr>rt_retried = length (cd_dead_letters c), rt_succeeded = ok, rt_failed = length failed,
                 rt_expired = expired\<rparr>, c\<lparr>cd_dead_letters := failed\<rparr>, world1)))"

definition dead_letter_count :: "composite \<Rightarrow> nat" where
  "dead_letter_count c = length (cd_dead_letters c)"

text \<open>\<open>all(...)\<close> stops at the first dispatcher that is not valid, or that raises.\<close>

fun all_valid :: "'w notify_env \<Rightarrow> dispatcher list \<Rightarrow> string + bool" where
  "all_valid nv [] = Inr True"
| "all_valid nv (d # ds) =
     (case validate_config nv d of Inl e \<Rightarrow> Inl e | Inr False \<Rightarrow> Inr False | Inr True \<Rightarrow> all_valid nv ds)"

definition validate_composite :: "'w notify_env \<Rightarrow> composite \<Rightarrow> string + bool" where
  "validate_composite nv c = all_valid nv (cd_dispatchers c)"

section \<open>The queue\<close>

definition queue_ok :: "dead_letter list \<Rightarrow> bool" where
  "queue_ok q \<longleftrightarrow> length q \<le> MAX_DEAD_LETTERS \<and> (\<forall>l \<in> set q. dl_retry_count l \<le> MAX_RETRY_ATTEMPTS)"

lemma queue_ok_enqueue: "queue_ok q \<Longrightarrow> queue_ok (enqueue_dead_letter a t ch reason q)"
  by (cases q) (auto simp: queue_ok_def enqueue_dead_letter_def MAX_DEAD_LETTERS_def)

lemma queue_ok_send_each: "queue_ok q \<Longrightarrow> queue_ok (fst (snd (send_each nv a t ds s q world)))"
  by (induction nv a t ds s q world rule: send_each.induct)
    (auto simp: queue_ok_enqueue split: prod.splits sum.splits bool.splits)

lemma retry_each_counts:
  "retry_each nv m ls world = (ok, expired, failed, world') \<Longrightarrow> length ls = ok + length failed + expired"
  by (induction nv m ls world arbitrary: ok expired failed world' rule: retry_each.induct)
    (auto split: if_splits option.splits prod.splits sum.splits bool.splits)

lemma retry_each_failed:
  "retry_each nv m ls world = (ok, expired, failed, world') \<Longrightarrow>
   set failed \<subseteq> bump ` {l \<in> set ls. dl_retry_count l < MAX_RETRY_ATTEMPTS}"
  by (induction nv m ls world arbitrary: ok expired failed world' rule: retry_each.induct)
    (fastforce split: if_splits option.splits prod.splits sum.splits bool.splits)+

lemma queue_ok_retry:
  "queue_ok (cd_dead_letters c) \<Longrightarrow> queue_ok (cd_dead_letters (fst (snd (retry_dead_letters nv c world))))"
  using retry_each_counts [of nv "dispatcher_map (cd_dispatchers c)" "cd_dead_letters c" world]
    retry_each_failed [of nv "dispatcher_map (cd_dispatchers c)" "cd_dead_letters c" world]
  by (fastforce simp: retry_dead_letters_def queue_ok_def bump_def MAX_RETRY_ATTEMPTS_def Let_def split: prod.splits)

lemma queue_ok_send:
  "queue_ok (cd_dead_letters c) \<Longrightarrow> queue_ok (cd_dead_letters (fst (snd (composite_send nv a t c world))))"
  using queue_ok_send_each [of "cd_dead_letters c" nv a t "cd_dispatchers c" False world]
  by (simp add: composite_send_def case_prod_beta)

section \<open>What one send does\<close>

text \<open>The answers of the dispatchers, one after the other, and what is queued for one of them.\<close>

fun deliveries :: "'w notify_env \<Rightarrow> cost_alert \<Rightarrow> string \<Rightarrow> dispatcher list \<Rightarrow> 'w \<Rightarrow>
    (dispatcher \<times> (string + bool)) list \<times> 'w" where
  "deliveries nv a t [] world = ([], world)"
| "deliveries nv a t (d # ds) world =
     (let (r, world1) = send nv d a t world; (rs, world2) = deliveries nv a t ds world1
      in ((d, r) # rs, world2))"

definition letter :: "cost_alert \<Rightarrow> string \<Rightarrow> dispatcher \<Rightarrow> string \<Rightarrow> dead_letter" where
  "letter a t d reason = \<lparr>dl_alert_id = al_alert_id a, dl_channel = channel_name d, dl_alert = a, dl_text = t,
     dl_reason = reason, dl_retry_count = 0\<rparr>"

definition letters :: "cost_alert \<Rightarrow> string \<Rightarrow> (dispatcher \<times> (string + bool)) list \<Rightarrow> dead_letter list" where
  "letters a t rs = concat (map (\<lambda>(d, r). case r of
     Inr True \<Rightarrow> [] | Inr False \<Rightarrow> [letter a t d ''send returned False''] | Inl e \<Rightarrow> [letter a t d e]) rs)"

definition push :: "dead_letter \<Rightarrow> dead_letter list \<Rightarrow> dead_letter list" where
  "push l q = (if MAX_DEAD_LETTERS \<le> length q then tl q else q) @ [l]"

lemma enqueue_push: "enqueue_dead_letter a t (channel_name d) reason q = push (letter a t d reason) q"
  by (simp add: enqueue_dead_letter_def push_def letter_def)

lemma send_each_deliveries:
  "send_each nv a t ds s q world =
     (let (rs, world') = deliveries nv a t ds world
      in (s \<or> (\<exists>d. (d, Inr True) \<in> set rs), fold push (letters a t rs) q, world'))"
proof (induction ds arbitrary: s q world)
  case (Cons d ds)
  obtain r w1 where r: "send nv d a t world = (r, w1)" by fastforce
  show ?case
  proof (cases r)
    case (Inl e)
    with r Cons show ?thesis by (auto simp: Let_def letters_def enqueue_push case_prod_beta)
  next
    case (Inr b)
    with r Cons show ?thesis by (cases b) (auto simp: Let_def letters_def enqueue_push case_prod_beta)
  qed
qed (simp add: letters_def)

lemma fold_push:
  "length q \<le> MAX_DEAD_LETTERS \<Longrightarrow> fold push ls q = drop (length q + length ls - MAX_DEAD_LETTERS) (q @ ls)"
proof (induction ls arbitrary: q)
  case (Cons l ls)
  have p: "length (push l q) \<le> MAX_DEAD_LETTERS"
    using Cons.prems by (auto simp: push_def MAX_DEAD_LETTERS_def)
  show ?case
  proof (cases "length q = MAX_DEAD_LETTERS")
    case True
    then obtain x q' where q: "q = x # q'" by (cases q) (auto simp: MAX_DEAD_LETTERS_def)
    with True have pq: "push l q = q' @ [l]" and len: "length (push l q) = MAX_DEAD_LETTERS"
      by (simp_all add: push_def)
    have "fold push (l # ls) q = fold push ls (push l q)" by simp
    also have "\<dots> = drop (length ls) (push l q @ ls)"
      unfolding Cons.IH [OF p] len by simp
    also have "\<dots> = drop (Suc (length ls)) (q @ l # ls)"
      by (simp only: pq) (simp only: q append_Cons drop_Suc_Cons append_assoc append_Nil)
    also have "Suc (length ls) = length q + length (l # ls) - MAX_DEAD_LETTERS" using True by simp
    finally show ?thesis .
  next
    case False
    with Cons.prems have pq: "push l q = q @ [l]" by (simp add: push_def)
    show ?thesis
      using Cons.IH [OF p] unfolding pq by (simp only: fold_Cons o_apply pq append_assoc append_Cons append_Nil
          length_append list.size add_Suc_right add_Suc add_0_right)
  qed
qed simp

lemma letters_channels:
  "(d, r) \<in> set rs \<Longrightarrow> r = Inr True \<or> (\<exists>l \<in> set (letters a t rs). dl_channel l = channel_name d \<and> dl_alert l = a \<and>
     dl_text l = t \<and> dl_retry_count l = 0)"
proof -
  assume mem: "(d, r) \<in> set rs"
  have "letter a t d reason \<in> set (letters a t rs)" if "r = Inl reason \<or> r = Inr False \<and> reason = ''send returned False''" for reason
    unfolding letters_def set_concat set_map by (intro UN_I [OF imageI [OF mem]]) (use that in auto)
  moreover have "r = Inr True \<or> (\<exists>reason. r = Inl reason \<or> r = Inr False \<and> reason = ''send returned False'')"
    by (cases r) auto
  moreover have "dl_channel (letter a t d reason) = channel_name d \<and> dl_alert (letter a t d reason) = a \<and>
    dl_text (letter a t d reason) = t \<and> dl_retry_count (letter a t d reason) = 0" for reason
    by (simp add: letter_def)
  ultimately show ?thesis by blast
qed

lemma deliveries_fst: "map fst (fst (deliveries nv a t ds world)) = ds"
  by (induction ds arbitrary: world) (simp_all add: Let_def case_prod_beta)

text \<open>
  No alert is lost silently: the composite asks every dispatcher once, in order, and answers
  success exactly when one of them took the alert; every dispatcher that did not take it, by its
  answer or by an exception, has a fresh dead letter with the alert at the end of the queue, of
  which only the oldest letters beyond a thousand are dropped. Without a dispatcher the alert is
  logged.
\<close>
theorem composite_send_exact:
  assumes "queue_ok (cd_dead_letters c)" and "composite_send nv a t c world = (success, c', world')"
  defines "rs \<equiv> fst (deliveries nv a t (cd_dispatchers c) world)"
  shows "if cd_dispatchers c = [] then success \<and> c' = c \<and> world' = nv_log nv (''COST ALERT:'' @ newline @ t) world
    else map fst rs = cd_dispatchers c \<and> (success \<longleftrightarrow> (\<exists>d. (d, Inr True) \<in> set rs)) \<and>
      world' = snd (deliveries nv a t (cd_dispatchers c) world) \<and>
      (\<exists>new. cd_dead_letters c' = drop (length (cd_dead_letters c) + length new - 1000) (cd_dead_letters c @ new) \<and>
        length new = length (filter (\<lambda>(d, r). r \<noteq> Inr True) rs) \<and>
        (\<forall>(d, r) \<in> set rs. r \<noteq> Inr True \<longrightarrow> (\<exists>l \<in> set new. dl_channel l = channel_name d \<and> dl_alert l = a \<and>
           dl_text l = t \<and> dl_retry_count l = 0)))"
proof (cases "cd_dispatchers c = []")
  case True
  then show ?thesis using assms(2) by (simp add: composite_send_def send_log_def)
next
  case False
  have len: "length (letters a t rs) = length (filter (\<lambda>(d, r). r \<noteq> Inr True) rs)" for rs
    by (induction rs) (auto simp: letters_def split: sum.splits bool.splits)
  have out: "success = (\<exists>d. (d, Inr True) \<in> set rs)"
    "cd_dead_letters c' = fold push (letters a t rs) (cd_dead_letters c)"
    "world' = snd (deliveries nv a t (cd_dispatchers c) world)"
    using assms(2) False
    by (auto simp: composite_send_def send_each_deliveries rs_def Let_def case_prod_beta)
  have q: "cd_dead_letters c' = drop (length (cd_dead_letters c) + length (letters a t rs) - 1000)
      (cd_dead_letters c @ letters a t rs)"
    using fold_push [of "cd_dead_letters c" "letters a t rs"] assms(1) out(2)
    by (simp add: queue_ok_def MAX_DEAD_LETTERS_def)
  have "\<forall>(d, r) \<in> set rs. r \<noteq> Inr True \<longrightarrow> (\<exists>l \<in> set (letters a t rs). dl_channel l = channel_name d \<and>
      dl_alert l = a \<and> dl_text l = t \<and> dl_retry_count l = 0)"
    using letters_channels by blast
  with q len [of rs] have "\<exists>new. cd_dead_letters c' = drop (length (cd_dead_letters c) + length new - 1000)
        (cd_dead_letters c @ new) \<and> length new = length (filter (\<lambda>(d, r). r \<noteq> Inr True) rs) \<and>
      (\<forall>(d, r) \<in> set rs. r \<noteq> Inr True \<longrightarrow> (\<exists>l \<in> set new. dl_channel l = channel_name d \<and> dl_alert l = a \<and>
         dl_text l = t \<and> dl_retry_count l = 0))" by (intro exI [of _ "letters a t rs"] conjI)
  moreover have "map fst rs = cd_dispatchers c" by (simp add: rs_def deliveries_fst)
  ultimately show ?thesis using out(1,3) unfolding if_not_P [OF False] by (intro conjI)
qed

section \<open>The queue drains\<close>

datatype notify_op = Send cost_alert string | Retry

definition notify_step :: "'w notify_env \<Rightarrow> notify_op \<Rightarrow> composite \<times> 'w \<Rightarrow> composite \<times> 'w" where
  "notify_step nv x s = (case x of
     Send a t \<Rightarrow> snd (composite_send nv a t (fst s) (snd s))
   | Retry \<Rightarrow> snd (retry_dead_letters nv (fst s) (snd s)))"

lemma notify_step_ok: "queue_ok (cd_dead_letters (fst s)) \<Longrightarrow> queue_ok (cd_dead_letters (fst (notify_step nv x s)))"
  by (cases x) (simp_all add: notify_step_def queue_ok_send queue_ok_retry)

lemma notify_run_ok:
  "queue_ok (cd_dead_letters (fst s)) \<Longrightarrow> queue_ok (cd_dead_letters (fst (fold (notify_step nv) xs s)))"
  by (induction xs arbitrary: s) (simp_all add: notify_step_ok)

lemma retry_step_letters:
  "set (cd_dead_letters (fst (notify_step nv Retry s))) \<subseteq>
     bump ` {l \<in> set (cd_dead_letters (fst s)). dl_retry_count l < MAX_RETRY_ATTEMPTS}"
  using retry_each_failed [of nv "dispatcher_map (cd_dispatchers (fst s))" "cd_dead_letters (fst s)" "snd s"]
  by (auto simp: notify_step_def retry_dead_letters_def Let_def split: prod.splits)

lemma retries_age:
  "l \<in> set (cd_dead_letters (fst ((notify_step nv Retry ^^ k) s))) \<Longrightarrow> k \<le> dl_retry_count l"
proof (induction k arbitrary: l)
  case (Suc k)
  then obtain l' where "l' \<in> set (cd_dead_letters (fst ((notify_step nv Retry ^^ k) s)))" "l = bump l'"
    using retry_step_letters [of nv "(notify_step nv Retry ^^ k) s"] by auto
  with Suc.IH [of l'] show ?case by (simp add: bump_def)
qed simp

text \<open>
  The queue is bounded and drains: whatever was sent and retried before, and whatever the
  channels answer, it holds at most a thousand letters, none retried more than three times; a retry
  pass accounts for every letter it found as delivered, kept or expired; and four passes in a row
  leave the queue empty.
\<close>
theorem dead_letters_drain:
  assumes "cd_dead_letters c = []" and "fold (notify_step nv) xs (c, world) = (c', world')"
  shows "dead_letter_count c' \<le> 1000 \<and> (\<forall>l \<in> set (cd_dead_letters c'). dl_retry_count l \<le> 3) \<and>
    (let r = fst (retry_dead_letters nv c' world')
     in rt_retried r = dead_letter_count c' \<and> rt_retried r = rt_succeeded r + rt_failed r + rt_expired r \<and>
        rt_failed r = dead_letter_count (fst (snd (retry_dead_letters nv c' world')))) \<and>
    dead_letter_count (fst ((notify_step nv Retry ^^ 4) (c', world'))) = 0"
proof -
  have "queue_ok (cd_dead_letters c')"
    using notify_run_ok [of "(c, world)" nv xs] assms by (simp add: queue_ok_def)
  then have bound: "dead_letter_count c' \<le> 1000" "\<forall>l \<in> set (cd_dead_letters c'). dl_retry_count l \<le> 3"
    by (simp_all add: queue_ok_def dead_letter_count_def MAX_DEAD_LETTERS_def MAX_RETRY_ATTEMPTS_def)
  have counts: "let r = fst (retry_dead_letters nv c' world')
     in rt_retried r = dead_letter_count c' \<and> rt_retried r = rt_succeeded r + rt_failed r + rt_expired r \<and>
        rt_failed r = dead_letter_count (fst (snd (retry_dead_letters nv c' world')))"
    using retry_each_counts [of nv "dispatcher_map (cd_dispatchers c')" "cd_dead_letters c'" world']
    by (auto simp: retry_dead_letters_def dead_letter_count_def Let_def split: prod.splits)
  have aged: "3 \<le> dl_retry_count l" if "l \<in> set (cd_dead_letters (fst ((notify_step nv Retry ^^ 3) (c', world'))))" for l
    using that by (rule retries_age)
  have none: "{l \<in> set (cd_dead_letters (fst ((notify_step nv Retry ^^ 3) (c', world')))).
      dl_retry_count l < MAX_RETRY_ATTEMPTS} = {}"
    unfolding MAX_RETRY_ATTEMPTS_def using aged leD by blast
  have "set (cd_dead_letters (fst (notify_step nv Retry ((notify_step nv Retry ^^ 3) (c', world'))))) = {}"
    using retry_step_letters [of nv "(notify_step nv Retry ^^ 3) (c', world')"]
    unfolding none image_empty subset_empty .
  moreover have "notify_step nv Retry ((notify_step nv Retry ^^ 3) (c', world')) = (notify_step nv Retry ^^ 4) (c', world')"
    by (simp add: numeral_eq_Suc)
  ultimately have "dead_letter_count (fst ((notify_step nv Retry ^^ 4) (c', world'))) = 0"
    by (simp add: dead_letter_count_def)
  with bound counts show ?thesis by blast
qed

section \<open>Where requests go\<close>

definition safe_target :: "'w notify_env \<Rightarrow> string \<Rightarrow> bool" where
  "safe_target nv url \<longleftrightarrow> url = pd_url \<or> is_prefix slack_prefix url \<or>
     (\<exists>clean parsed host. sanitise_string (PStr url) ''webhook_url'' 2048 = Inr clean \<and> nv_urlparse nv clean = Inr parsed \<and>
        pu_hostname parsed = Some host \<and> host \<noteq> [] \<and> lower host \<notin> set blocked_hosts \<and> \<not> nv_is_private nv host)"

text \<open>A property of the world that logging and posts to safe targets keep.\<close>

definition safe_inv :: "'w notify_env \<Rightarrow> ('w \<Rightarrow> bool) \<Rightarrow> bool" where
  "safe_inv nv P \<longleftrightarrow> (\<forall>t w. P w \<longrightarrow> P (nv_log nv t w)) \<and>
     (\<forall>url h b w. safe_target nv url \<longrightarrow> P w \<longrightarrow> P (snd (nv_post nv url h b w)))"

lemma check_webhook_safe: "check_webhook nv w = Inr url \<Longrightarrow> safe_target nv (wh_url w)"
  unfolding check_webhook_def safe_target_def by (drule webhook_url_target) blast

lemma send_keeps:
  assumes "safe_inv nv P" "P w"
  shows "P (snd (send nv d a t w))"
proof (cases d)
  case (Webhook wh)
  then show ?thesis
    using assms check_webhook_safe [of nv wh]
    by (auto simp: send_def send_webhook_def safe_inv_def Let_def case_prod_beta split: sum.splits url_error.splits)
next
  case (Slack sl)
  then show ?thesis
    using assms by (auto simp: send_def send_slack_def safe_inv_def safe_target_def Let_def case_prod_beta)
next
  case (PagerDuty key)
  then show ?thesis
    using assms by (auto simp: send_def send_pagerduty_def safe_inv_def safe_target_def Let_def case_prod_beta)
next
  case Log
  then show ?thesis using assms by (simp add: send_def send_log_def safe_inv_def)
qed

lemma deliveries_keep: "safe_inv nv P \<Longrightarrow> P w \<Longrightarrow> P (snd (deliveries nv a t ds w))"
  by (induction ds arbitrary: w) (simp_all add: Let_def case_prod_beta send_keeps)

lemma retry_each_keeps: "safe_inv nv P \<Longrightarrow> P w \<Longrightarrow> P (snd (snd (snd (retry_each nv m ls w))))"
proof (induction ls arbitrary: w)
  case (Cons l ls)
  show ?case
  proof (cases "dget m (dl_channel l)")
    case None
    with Cons show ?thesis by (auto simp: Let_def case_prod_beta)
  next
    case (Some d)
    have "P (snd (send nv d (dl_alert l) (dl_text l) w))" by (rule send_keeps [OF Cons.prems])
    with Cons Some show ?thesis
      by (cases "send nv d (dl_alert l) (dl_text l) w")
        (auto simp: Let_def case_prod_beta split: sum.splits bool.splits)
  qed
qed simp

lemma notify_step_keeps: "safe_inv nv P \<Longrightarrow> P (snd s) \<Longrightarrow> P (snd (notify_step nv x s))"
  by (cases x)
    (auto simp: notify_step_def composite_send_def retry_dead_letters_def send_each_deliveries send_log_def Let_def
      case_prod_beta deliveries_keep retry_each_keeps safe_inv_def)

text \<open>
  C31: Delivery never reaches inside: over any history of sends and retries, whatever the configured
  URLs, every request goes to the PagerDuty endpoint, to a Slack hook, or to a URL whose host, as
  \<open>urlparse\<close> reads it from the cleaned text, is neither a blocked host nor a private address; so
  everything that logging and such requests keep true of the world stays true.
\<close>
theorem posts_only_to_safe_targets:
  assumes "\<forall>t w. P w \<longrightarrow> P (nv_log nv t w)"
    and "\<forall>url h b w. safe_target nv url \<longrightarrow> P w \<longrightarrow> P (snd (nv_post nv url h b w))"
    and "P w" and "fold (notify_step nv) xs (c, w) = (c', w')"
  shows "P w'"
proof -
  have inv: "safe_inv nv P" using assms(1,2) by (simp add: safe_inv_def)
  have "P (snd s) \<Longrightarrow> P (snd (fold (notify_step nv) xs s))" for s
    by (induction xs arbitrary: s) (simp_all add: notify_step_keeps [OF inv])
  from this [of "(c, w)"] assms(3,4) show ?thesis by simp
qed

section \<open>A channel that fails\<close>

definition demo_notify :: "string list notify_env" where
  "demo_notify = \<lparr>nv_urlparse = (\<lambda>u. Inr \<lparr>pu_scheme = ''https'', pu_hostname = Some (drop 8 u), pu_port = Inr None\<rparr>),
     nv_is_private = (\<lambda>h. False), nv_post = (\<lambda>url h b w. (Some 500, w @ [url])), nv_log = (\<lambda>t w. w)\<rparr>"

definition demo_composite :: composite where
  "demo_composite = \<lparr>cd_dispatchers = [Log, PagerDuty ''key'',
     Webhook \<lparr>wh_url = ''https://localhost'', wh_headers = [], wh_allow_http = False\<rparr>], cd_dead_letters = []\<rparr>"

lemma demo_sends:
  "send demo_notify Log a t w = (Inr True, w)"
  "send demo_notify (PagerDuty ''key'') a t w = (Inr False, w @ [pd_url])"
  "send demo_notify (Webhook \<lparr>wh_url = ''https://localhost'', wh_headers = [], wh_allow_http = False\<rparr>) a t w = (Inr False, w)"
proof -
  have "sanitise_string (PStr ''https://localhost'') ''webhook_url'' 2048 = Inr ''https://localhost''" by code_simp
  moreover have "lower ''localhost'' \<in> set blocked_hosts" by code_simp
  ultimately have "check_webhook demo_notify \<lparr>wh_url = ''https://localhost'', wh_headers = [], wh_allow_http = False\<rparr> =
      Inl (Rejected ''webhook_url: blocked internal host'')"
    by (simp add: check_webhook_def validate_webhook_url_def check_url_def demo_notify_def Let_def)
  then show "send demo_notify (Webhook \<lparr>wh_url = ''https://localhost'', wh_headers = [], wh_allow_http = False\<rparr>) a t w =
      (Inr False, w)" by (simp add: send_def send_webhook_def)
qed (simp_all add: send_def send_log_def send_pagerduty_def demo_notify_def post_ok_def)

theorem composite_send_exact_witness:
  "\<exists>new. cd_dead_letters (fst (snd (composite_send demo_notify demo_alert ''text'' demo_composite []))) = new \<and>
     length new = 2"
proof -
  have ok: "queue_ok (cd_dead_letters demo_composite)" by (simp add: demo_composite_def queue_ok_def)
  have rs: "map snd (fst (deliveries demo_notify demo_alert ''text'' (cd_dispatchers demo_composite) [])) =
      [Inr True, Inr False, Inr False]"
    by (simp add: demo_composite_def demo_sends Let_def)
  then have "length (filter (\<lambda>(d, r). r \<noteq> Inr True) (fst (deliveries demo_notify demo_alert ''text''
      (cd_dispatchers demo_composite) []))) = 2"
    by (simp add: demo_composite_def demo_sends Let_def)
  moreover have "cd_dispatchers demo_composite \<noteq> []" "cd_dead_letters demo_composite = []"
    by (simp_all add: demo_composite_def)
  ultimately show ?thesis
    using composite_send_exact [OF ok, of demo_notify demo_alert "''text''" "[]"
        "fst (composite_send demo_notify demo_alert ''text'' demo_composite [])"
        "fst (snd (composite_send demo_notify demo_alert ''text'' demo_composite []))"
        "snd (snd (composite_send demo_notify demo_alert ''text'' demo_composite []))"]
    by (auto simp: demo_composite_def)
qed

theorem dead_letters_drain_witness:
  "dead_letter_count (fst ((notify_step demo_notify Retry ^^ 4)
     (fold (notify_step demo_notify) [Send demo_alert ''text''] (demo_composite, [])))) = 0"
proof -
  have "cd_dead_letters demo_composite = []" by (simp add: demo_composite_def)
  from dead_letters_drain [OF this prod.collapse [symmetric], of demo_notify "[Send demo_alert ''text'']" "[]"]
  show ?thesis unfolding prod.collapse by blast
qed

theorem posts_only_to_safe_targets_witness:
  "''https://localhost'' \<notin> set (snd (fold (notify_step demo_notify) [Send demo_alert ''text'', Retry] (demo_composite, [])))"
proof -
  have "\<not> safe_target demo_notify ''https://localhost''"
  proof -
    have "sanitise_string (PStr ''https://localhost'') ''webhook_url'' 2048 = Inr ''https://localhost''"
      "''https://localhost'' \<noteq> pd_url" "\<not> is_prefix slack_prefix ''https://localhost''"
      "lower ''localhost'' \<in> set blocked_hosts" by code_simp+
    then show ?thesis by (auto simp: safe_target_def demo_notify_def)
  qed
  moreover have "list_all (safe_target demo_notify) (snd (fold (notify_step demo_notify)
      [Send demo_alert ''text'', Retry] (demo_composite, [])))"
    by (rule posts_only_to_safe_targets [where P = "list_all (safe_target demo_notify)", OF _ _ _ prod.collapse [symmetric]])
      (simp_all add: demo_notify_def)
  ultimately show ?thesis by (auto simp: list_all_iff)
qed

end
