(* ===== verification/Health.thy ===== *)
theory Health
  imports Circuit Notifications
begin

text \<open>
  The health agent, \<open>agents/health_agent.py\<close>: its probes, the combined report and the bounded history
  of reports. What a probe finds outside (the store's count, the directories, the files' texts, the
  file system's blocks, the clock) is the environment of one call of \<open>check_all\<close>; the circuit breakers
  are the agent's state, since reading a breaker's status may move it to half-open.
\<close>

section \<open>State\<close>

type_synonym health_status = string

definition HEALTHY :: health_status where "HEALTHY = ''healthy''"
definition DEGRADED :: health_status where "DEGRADED = ''degraded''"
definition UNHEALTHY :: health_status where "UNHEALTHY = ''unhealthy''"

lemmas status_defs = HEALTHY_def DEGRADED_def UNHEALTHY_def

record component_health =
  ch_name :: string
  ch_status :: health_status
  ch_message :: string
  ch_latency_ms :: real
  ch_details :: "(string, pyval) dict"

definition health_dict :: "component_health \<Rightarrow> (string, pyval) dict" where
  "health_dict c =
     [(''name'', PStr (ch_name c)), (''status'', PStr (ch_status c)), (''message'', PStr (ch_message c)),
      (''latency_ms'', PFloat (round2 (ch_latency_ms c))), (''details'', PDict (ch_details c))]"

record health_report =
  hr_status :: health_status
  hr_timestamp :: string
  hr_checks :: "(string, pyval) dict list"
  hr_total :: nat
  hr_healthy :: nat
  hr_degraded :: nat
  hr_unhealthy :: nat

datatype probed = Single dispatcher | Composite composite

record 's health_agent =
  ha_event_store :: "'s option"
  ha_audit_dir :: "string option"
  ha_policy_dir :: "string option"
  ha_dispatchers :: "probed list"
  ha_circuit_breakers :: "(string, circuit_breaker) dict"
  ha_check_history :: "health_report list"

text \<open>A policy file's text, or why there is none: only an \<open>OSError\<close> and malformed JSON are caught.\<close>

datatype file_read = Text string | Read_Error | Undecodable string

text \<open>
  The probe file is written and removed, or that fails with an \<open>OSError\<close>; \<open>statvfs\<close> answers with
  \<open>f_bavail\<close>, \<open>f_blocks\<close> and \<open>f_frsize\<close>; the two monotonic readings are around the store's count.
\<close>

record ('s, 'w) health_env =
  hv_count :: "'s \<Rightarrow> string + nat"
  hv_count_from :: real
  hv_count_to :: real
  hv_exists :: "string \<Rightarrow> bool"
  hv_write_probe :: "string \<Rightarrow> string + unit"
  hv_log_files :: "string \<Rightarrow> nat"
  hv_policy_files :: "string \<Rightarrow> file_read list"
  hv_json_ok :: "string \<Rightarrow> bool"
  hv_statvfs :: "(nat \<times> nat \<times> nat) option"
  hv_notify :: "'w notify_env"
  hv_breaker_now :: real
  hv_now :: timestamp

section \<open>Probes\<close>

definition healthy :: "string \<Rightarrow> (string, pyval) dict \<Rightarrow> component_health" where
  "healthy nm details =
     \<lparr>ch_name = nm, ch_status = HEALTHY, ch_message = [], ch_latency_ms = 0, ch_details = details\<rparr>"

definition ailing :: "string \<Rightarrow> health_status \<Rightarrow> string \<Rightarrow> component_health" where
  "ailing nm st msg =
     \<lparr>ch_name = nm, ch_status = st, ch_message = msg, ch_latency_ms = 0, ch_details = []\<rparr>"

definition check_event_store :: "('s, 'w) health_env \<Rightarrow> 's health_agent \<Rightarrow> component_health" where
  "check_event_store hv ag =
     (case ha_event_store ag of
        None \<Rightarrow> ailing ''event_store'' DEGRADED ''Not configured''
      | Some s \<Rightarrow>
          (let latency = (hv_count_to hv - hv_count_from hv) * 1000
           in (case hv_count hv s of
                 Inr n \<Rightarrow> (healthy ''event_store'' [(''events_stored'', PInt (int n))])\<lparr>ch_latency_ms := latency\<rparr>
               | Inl e \<Rightarrow> (ailing ''event_store'' UNHEALTHY e)\<lparr>ch_latency_ms := latency\<rparr>)))"

definition check_audit_trail :: "('s, 'w) health_env \<Rightarrow> 's health_agent \<Rightarrow> component_health" where
  "check_audit_trail hv ag =
     (case ha_audit_dir ag of
        None \<Rightarrow> ailing ''audit_trail'' DEGRADED ''Not configured''
      | Some d \<Rightarrow>
          if \<not> hv_exists hv d then ailing ''audit_trail'' UNHEALTHY (''Directory does not exist: '' @ d)
          else (case hv_write_probe hv d of
              Inr _ \<Rightarrow> healthy ''audit_trail'' [(''log_files'', PInt (int (hv_log_files hv d))), (''writable'', PBool True)]
            | Inl e \<Rightarrow> ailing ''audit_trail'' UNHEALTHY (''Not writable: '' @ e)))"

fun count_corrupt :: "(string \<Rightarrow> bool) \<Rightarrow> file_read list \<Rightarrow> string + nat" where
  "count_corrupt ok [] = Inr 0"
| "count_corrupt ok (Undecodable e # fs) = Inl e"
| "count_corrupt ok (Read_Error # fs) = map_sum id Suc (count_corrupt ok fs)"
| "count_corrupt ok (Text t # fs) = map_sum id (\<lambda>n. if ok t then n else Suc n) (count_corrupt ok fs)"

definition check_policy_dir :: "('s, 'w) health_env \<Rightarrow> 's health_agent \<Rightarrow> string + component_health" where
  "check_policy_dir hv ag =
     (case ha_policy_dir ag of
        None \<Rightarrow> Inr (ailing ''policy_dir'' DEGRADED ''Not configured'')
      | Some d \<Rightarrow>
          if \<not> hv_exists hv d then Inr (ailing ''policy_dir'' UNHEALTHY (''Directory does not exist: '' @ d))
          else
            (let files = hv_policy_files hv d
             in map_sum id (\<lambda>corrupt.
                  if 0 < corrupt
                  then (ailing ''policy_dir'' DEGRADED (show_nat corrupt @ '' corrupt policy file(s)''))
                    \<lparr>ch_details := [(''total'', PInt (int (length files))), (''corrupt'', PInt (int corrupt))]\<rparr>
                  else healthy ''policy_dir'' [(''policy_files'', PInt (int (length files)))])
                (count_corrupt (hv_json_ok hv) files)))"

definition round1 :: "real \<Rightarrow> real" where
  "round1 x = real_of_int (round_half_even (10 * x)) / 10"

definition check_disk_space :: "('s, 'w) health_env \<Rightarrow> component_health" where
  "check_disk_space hv =
     (case hv_statvfs hv of
        None \<Rightarrow> ailing ''disk_space'' DEGRADED ''Unable to check''
      | Some (bavail, blocks, frsize) \<Rightarrow>
          (let available = real (bavail * frsize) / 1024 ^ 3;
               size = real (blocks * frsize) / 1024 ^ 3;
               used = (if 0 < size then (size - available) / size * 100 else 0);
               (st, msg) =
                 (if available < 1 / 2 then (UNHEALTHY, ''Critical: only '' @ fmt_2f available @ ''GB free'')
                  else if available < 2 then (DEGRADED, ''Low disk: '' @ fmt_2f available @ ''GB free'')
                  else (HEALTHY, []))
           in (ailing ''disk_space'' st msg)
                \<lparr>ch_details := [(''available_gb'', PFloat (round2 available)), (''total_gb'', PFloat (round2 size)),
                   (''used_pct'', PFloat (round1 used))]\<rparr>))"

definition probed_name :: "probed \<Rightarrow> string" where
  "probed_name p = (case p of Single d \<Rightarrow> channel_name d | Composite c \<Rightarrow> ''composite'')"

definition probed_config :: "'w notify_env \<Rightarrow> probed \<Rightarrow> string + bool" where
  "probed_config nv p = (case p of Single d \<Rightarrow> validate_config nv d | Composite c \<Rightarrow> validate_composite nv c)"

definition check_dispatcher :: "('s, 'w) health_env \<Rightarrow> probed \<Rightarrow> component_health" where
  "check_dispatcher hv p =
     (let nm = ''dispatcher:'' @ probed_name p
      in (case probed_config (hv_notify hv) p of
            Inr valid \<Rightarrow> ailing nm (if valid then HEALTHY else DEGRADED) (if valid then [] else ''Configuration invalid'')
          | Inl e \<Rightarrow> ailing nm UNHEALTHY e))"

text \<open>The status the agent reports for a breaker's state.\<close>

fun circuit_health :: "circuit_state \<Rightarrow> health_status" where
  "circuit_health Closed = HEALTHY"
| "circuit_health HalfOpen = DEGRADED"
| "circuit_health Open = UNHEALTHY"

definition check_circuit_breaker :: "real \<Rightarrow> string \<Rightarrow> circuit_breaker \<Rightarrow> component_health \<times> circuit_breaker" where
  "check_circuit_breaker now nm cb =
     (let st = fst (read_state now cb); (status, cb1) = get_status now cb
      in ((ailing (''circuit:'' @ nm) (circuit_health st) (''State: '' @ state_value st))
            \<lparr>ch_details := status\<rparr>, cb1))"

fun check_breakers :: "real \<Rightarrow> (string, circuit_breaker) dict \<Rightarrow> component_health list \<times> (string, circuit_breaker) dict" where
  "check_breakers now [] = ([], [])"
| "check_breakers now ((nm, cb) # d) =
     (let (c, cb1) = check_circuit_breaker now nm cb; (cs, d1) = check_breakers now d
      in (c # cs, (nm, cb1) # d1))"

section \<open>The report\<close>

definition overall_status :: "health_status list \<Rightarrow> health_status" where
  "overall_status sts =
     (if UNHEALTHY \<in> set sts then UNHEALTHY else if DEGRADED \<in> set sts then DEGRADED else HEALTHY)"

definition build_health_report :: "timestamp \<Rightarrow> component_health list \<Rightarrow> health_report" where
  "build_health_report now checks =
     (let sts = map ch_status checks; n = (\<lambda>st. length (filter (\<lambda>s. s = st) sts))
      in \<lparr>hr_status = overall_status sts, hr_timestamp = isoformat now, hr_checks = map health_dict checks,
          hr_total = length checks, hr_healthy = n HEALTHY, hr_degraded = n DEGRADED, hr_unhealthy = n UNHEALTHY\<rparr>)"

definition check_all :: "('s, 'w) health_env \<Rightarrow> 's health_agent \<Rightarrow> (string + health_report) \<times> 's health_agent" where
  "check_all hv ag =
     (case check_policy_dir hv ag of
        Inl e \<Rightarrow> (Inl e, ag)
      | Inr policy \<Rightarrow>
          (let (cbs, breakers) = check_breakers (hv_breaker_now hv) (ha_circuit_breakers ag);
               checks = [check_event_store hv ag, check_audit_trail hv ag, policy, check_disk_space hv] @
                 map (check_dispatcher hv) (ha_dispatchers ag) @ cbs;
               report = build_health_report (hv_now hv) checks;
               h = ha_check_history ag @ [report]
           in (Inr report,
               ag\<lparr>ha_circuit_breakers := breakers,
                  ha_check_history := (if 100 < length h then slice_last 100 h else h)\<rparr>)))"

definition get_check_history :: "int \<Rightarrow> 's health_agent \<Rightarrow> health_report list" where
  "get_check_history limit ag = slice_last limit (ha_check_history ag)"

section \<open>What a report says\<close>

lemma count_corrupt_zero:
  "count_corrupt ok fs = Inr 0 \<longleftrightarrow> (\<forall>f \<in> set fs. \<exists>t. f = Text t \<and> ok t)"
proof (induction ok fs rule: count_corrupt.induct)
  case (4 ok t fs)
  then show ?case by (cases "count_corrupt ok fs") auto
next
  case (3 ok fs)
  then show ?case by (cases "count_corrupt ok fs") auto
qed auto

lemma count_corrupt_error:
  "(\<exists>e. count_corrupt ok fs = Inl e) \<longleftrightarrow> (\<exists>e. Undecodable e \<in> set fs)"
proof (induction ok fs rule: count_corrupt.induct)
  case (4 ok t fs)
  then show ?case by (cases "count_corrupt ok fs") auto
next
  case (3 ok fs)
  then show ?case by (cases "count_corrupt ok fs") auto
qed auto

lemma status_distinct [simp]: "HEALTHY \<noteq> DEGRADED" "DEGRADED \<noteq> UNHEALTHY" "HEALTHY \<noteq> UNHEALTHY"
    "DEGRADED \<noteq> HEALTHY" "UNHEALTHY \<noteq> DEGRADED" "UNHEALTHY \<noteq> HEALTHY"
  by (simp_all add: status_defs)

lemma probe_simps [simp]: "ch_status (healthy nm d) = HEALTHY" "ch_status (ailing nm st msg) = st"
  by (simp_all add: healthy_def ailing_def)

definition statuses :: "health_status set" where
  "statuses = {HEALTHY, DEGRADED, UNHEALTHY}"

lemma circuit_health_simps [simp]:
  "circuit_health st = HEALTHY \<longleftrightarrow> st = Closed" "circuit_health st \<in> statuses"
  by (cases st; simp add: statuses_def)+

lemma check_breakers_exact:
  "check_breakers now d =
     (map (\<lambda>(nm, cb). fst (check_circuit_breaker now nm cb)) d, map (\<lambda>(nm, cb). (nm, snd (read_state now cb))) d)"
  by (induction d) (auto simp: check_circuit_breaker_def get_status_def Let_def case_prod_beta)

lemma breaker_check_status: "ch_status (fst (check_circuit_breaker now nm cb)) = circuit_health (fst (read_state now cb))"
  by (simp add: check_circuit_breaker_def Let_def case_prod_beta)

text \<open>When a probe finds nothing to report.\<close>

definition store_fine :: "('s, 'w) health_env \<Rightarrow> 's health_agent \<Rightarrow> bool" where
  "store_fine hv ag \<longleftrightarrow> (case ha_event_store ag of None \<Rightarrow> False | Some s \<Rightarrow> \<not> isl (hv_count hv s))"

definition audit_fine :: "('s, 'w) health_env \<Rightarrow> 's health_agent \<Rightarrow> bool" where
  "audit_fine hv ag \<longleftrightarrow> (case ha_audit_dir ag of None \<Rightarrow> False | Some d \<Rightarrow> hv_exists hv d \<and> \<not> isl (hv_write_probe hv d))"

definition policies_fine :: "('s, 'w) health_env \<Rightarrow> 's health_agent \<Rightarrow> bool" where
  "policies_fine hv ag \<longleftrightarrow> (case ha_policy_dir ag of None \<Rightarrow> False
     | Some d \<Rightarrow> hv_exists hv d \<and> (\<forall>f \<in> set (hv_policy_files hv d). \<exists>t. f = Text t \<and> hv_json_ok hv t))"

definition disk_fine :: "('s, 'w) health_env \<Rightarrow> bool" where
  "disk_fine hv \<longleftrightarrow> (case hv_statvfs hv of None \<Rightarrow> False | Some (bavail, blocks, frsize) \<Rightarrow> 2 * 1024 ^ 3 \<le> bavail * frsize)"

lemma probe_statuses:
  "ch_status (check_event_store hv ag) \<in> statuses" "ch_status (check_audit_trail hv ag) \<in> statuses"
  "check_policy_dir hv ag = Inr c \<Longrightarrow> ch_status c \<in> statuses" "ch_status (check_disk_space hv) \<in> statuses"
  "ch_status (check_dispatcher hv p) \<in> statuses"
  by (auto simp: statuses_def check_event_store_def check_audit_trail_def check_policy_dir_def check_disk_space_def
      check_dispatcher_def Let_def map_sum_def split: option.splits sum.splits if_splits)

lemma probe_healthy:
  "ch_status (check_event_store hv ag) = HEALTHY \<longleftrightarrow> store_fine hv ag"
  "ch_status (check_audit_trail hv ag) = HEALTHY \<longleftrightarrow> audit_fine hv ag"
  "ch_status (check_dispatcher hv p) = HEALTHY \<longleftrightarrow> probed_config (hv_notify hv) p = Inr True"
  by (auto simp: check_event_store_def check_audit_trail_def check_dispatcher_def store_fine_def audit_fine_def
      Let_def split: option.splits sum.splits)

lemma policy_probe_healthy:
  "check_policy_dir hv ag = Inr c \<Longrightarrow> ch_status c = HEALTHY \<longleftrightarrow> policies_fine hv ag"
  by (auto simp: check_policy_dir_def policies_fine_def Let_def map_sum_def simp flip: count_corrupt_zero
      split: option.splits sum.splits if_splits)

lemma disk_probe_healthy: "ch_status (check_disk_space hv) = HEALTHY \<longleftrightarrow> disk_fine hv"
proof -
  have "2 \<le> real n / 1024 ^ 3 \<longleftrightarrow> 2 * 1024 ^ 3 \<le> n" for n :: nat
    by (simp add: le_divide_eq)
  then show ?thesis
    by (auto simp: check_disk_space_def disk_fine_def Let_def not_less split: option.splits simp del: of_nat_mult)
qed

lemma overall_status_iff:
  "set sts \<subseteq> statuses \<Longrightarrow>
   (overall_status sts = HEALTHY \<longleftrightarrow> (\<forall>s \<in> set sts. s = HEALTHY)) \<and>
   (overall_status sts = UNHEALTHY \<longleftrightarrow> UNHEALTHY \<in> set sts) \<and> overall_status sts \<in> statuses"
  by (auto simp: overall_status_def statuses_def) (use status_distinct in blast)+

lemma status_counts:
  "set sts \<subseteq> statuses \<Longrightarrow>
   length (filter (\<lambda>s. s = HEALTHY) sts) + length (filter (\<lambda>s. s = DEGRADED) sts) + length (filter (\<lambda>s. s = UNHEALTHY) sts) =
   length sts"
  by (induction sts) (auto simp: statuses_def)

lemma filter_mem_pos: "0 < length (filter (\<lambda>s. s = x) xs) \<longleftrightarrow> x \<in> set xs"
  by (auto simp: filter_empty_conv)

text \<open>Reading a breaker's status does not change what it will answer.\<close>

lemma probe_transparent: "now \<le> t \<Longrightarrow> allow_request t (snd (read_state now cb)) = allow_request t cb"
  by (auto simp: allow_request_def read_state_def Let_def)

text \<open>
  C35: A health report is healthy exactly when the store answered, the audit directory took a write, every
  policy file parses, two gigabytes are free, every channel's configuration is valid and every circuit is
  closed; it is unhealthy exactly when some probe is. Its counts add up to the probes run, the history
  keeps the last hundred reports, and the probe changes no answer a circuit breaker gives afterwards.
\<close>

theorem health_report_exact:
  assumes "check_all hv ag = (Inr r, ag')"
  shows "(hr_status r = HEALTHY \<longleftrightarrow>
       store_fine hv ag \<and> audit_fine hv ag \<and> policies_fine hv ag \<and> disk_fine hv \<and>
       (\<forall>p \<in> set (ha_dispatchers ag). probed_config (hv_notify hv) p = Inr True) \<and>
       (\<forall>cb \<in> set (dvalues (ha_circuit_breakers ag)). fst (read_state (hv_breaker_now hv) cb) = Closed)) \<and>
     (hr_status r = UNHEALTHY \<longleftrightarrow> 0 < hr_unhealthy r) \<and>
     hr_healthy r + hr_degraded r + hr_unhealthy r = hr_total r \<and>
     hr_total r = 4 + length (ha_dispatchers ag) + length (ha_circuit_breakers ag) \<and>
     length (hr_checks r) = hr_total r \<and>
     (\<exists>n. ha_check_history ag' = drop n (ha_check_history ag @ [r])) \<and>
     (length (ha_check_history ag) \<le> 100 \<longrightarrow> length (ha_check_history ag') \<le> 100) \<and>
     (\<forall>t \<ge> hv_breaker_now hv. map (map_prod id (allow_request t)) (ha_circuit_breakers ag') =
        map (map_prod id (allow_request t)) (ha_circuit_breakers ag))"
proof -
  let ?now = "hv_breaker_now hv"
  obtain c where c: "check_policy_dir hv ag = Inr c"
    using assms by (auto simp: check_all_def split: sum.splits)
  define checks where "checks = [check_event_store hv ag, check_audit_trail hv ag, c, check_disk_space hv] @
    map (check_dispatcher hv) (ha_dispatchers ag) @
    map (\<lambda>(nm, cb). fst (check_circuit_breaker ?now nm cb)) (ha_circuit_breakers ag)"
  define h where "h = ha_check_history ag @ [r]"
  have r: "r = build_health_report (hv_now hv) checks"
    and breakers: "ha_circuit_breakers ag' = map (\<lambda>(nm, cb). (nm, snd (read_state ?now cb))) (ha_circuit_breakers ag)"
    and hist: "ha_check_history ag' = (if 100 < length h then slice_last 100 h else h)"
    using assms by (auto simp: check_all_def c check_breakers_exact checks_def h_def Let_def)
  have sts: "set (map ch_status checks) \<subseteq> statuses"
    using probe_statuses(3) [OF c] by (auto simp: checks_def probe_statuses breaker_check_status)
  have r_simps: "hr_status r = overall_status (map ch_status checks)" "hr_total r = length checks"
    "length (hr_checks r) = length checks"
    "hr_healthy r + hr_degraded r + hr_unhealthy r = length (map ch_status checks)"
    "hr_unhealthy r = length (filter (\<lambda>s. s = UNHEALTHY) (map ch_status checks))"
    using status_counts [OF sts] by (simp_all add: r build_health_report_def Let_def)
  have "hr_status r = HEALTHY \<longleftrightarrow> (\<forall>s \<in> set (map ch_status checks). s = HEALTHY)"
    unfolding r_simps(1) using overall_status_iff [OF sts] by (rule conjunct1)
  also have "\<dots> \<longleftrightarrow> store_fine hv ag \<and> audit_fine hv ag \<and> policies_fine hv ag \<and> disk_fine hv \<and>
       (\<forall>p \<in> set (ha_dispatchers ag). probed_config (hv_notify hv) p = Inr True) \<and>
       (\<forall>cb \<in> set (dvalues (ha_circuit_breakers ag)). fst (read_state ?now cb) = Closed)"
    by (auto simp: checks_def probe_healthy policy_probe_healthy [OF c] disk_probe_healthy breaker_check_status
        ball_Un case_prod_beta)
  finally have fine: "hr_status r = HEALTHY \<longleftrightarrow> \<dots>" .
  have bad: "hr_status r = UNHEALTHY \<longleftrightarrow> 0 < hr_unhealthy r"
    unfolding r_simps(1,5) using overall_status_iff [OF sts] by (metis filter_mem_pos)
  have "length checks = 4 + length (ha_dispatchers ag) + length (ha_circuit_breakers ag)"
    by (simp add: checks_def)
  moreover have "\<exists>n. ha_check_history ag' = drop n h"
    by (cases "100 < length h") (auto simp: hist slice_last_def intro: exI [of _ 0])
  moreover have "length h \<le> 101 \<longrightarrow> length (ha_check_history ag') \<le> 100"
    by (simp add: hist slice_last_def)
  moreover have "\<forall>t \<ge> ?now. map (map_prod id (allow_request t)) (ha_circuit_breakers ag') =
        map (map_prod id (allow_request t)) (ha_circuit_breakers ag)"
    by (auto simp: breakers probe_transparent)
  ultimately show ?thesis using fine bad r_simps by (simp add: h_def)
qed

definition demo_health_env :: "(nat, unit) health_env" where
  "demo_health_env = \<lparr>hv_count = Inr, hv_count_from = 0, hv_count_to = 1, hv_exists = (\<lambda>d. True),
     hv_write_probe = (\<lambda>d. Inr ()), hv_log_files = (\<lambda>d. 1), hv_policy_files = (\<lambda>d. [Text ''{}'', Text ''{'']),
     hv_json_ok = (\<lambda>t. t = ''{}''), hv_statvfs = Some (10, 20, 1024 ^ 3),
     hv_notify = \<lparr>nv_urlparse = (\<lambda>u. Inl ''bad''), nv_is_private = (\<lambda>h. False), nv_post = (\<lambda>u h b w. (None, w)),
       nv_log = (\<lambda>t w. w)\<rparr>,
     hv_breaker_now = 100, hv_now = 0\<rparr>"

definition demo_health_agent :: "nat health_agent" where
  "demo_health_agent = \<lparr>ha_event_store = Some 3, ha_audit_dir = Some ''audit'', ha_policy_dir = Some ''policies'',
     ha_dispatchers = [Single Log],
     ha_circuit_breakers = [(''aws'', record_failure 10 (init_breaker ''aws'' 1 60 2))], ha_check_history = []\<rparr>"

theorem health_report_exact_witness:
  "\<exists>r ag'. check_all demo_health_env demo_health_agent = (Inr r, ag') \<and> hr_status r \<noteq> HEALTHY \<and> hr_total r = 6 \<and>
     length (ha_check_history ag') \<le> 100"
proof -
  obtain r ag' where run: "check_all demo_health_env demo_health_agent = (Inr r, ag')"
    by (simp add: check_all_def check_policy_dir_def demo_health_env_def demo_health_agent_def Let_def case_prod_beta)
  from health_report_exact [OF run] have "hr_status r \<noteq> HEALTHY \<and> hr_total r = 6 \<and> length (ha_check_history ag') \<le> 100"
    by (simp add: policies_fine_def demo_health_env_def demo_health_agent_def)
  with run show ?thesis by blast
qed

text \<open>One policy file that is not text in the expected encoding makes the whole check raise.\<close>

lemma undecodable_policy_raises:
  assumes "ha_policy_dir ag = Some d" and "hv_exists hv d" and "Undecodable e \<in> set (hv_policy_files hv d)"
  shows "\<exists>e. check_all hv ag = (Inl e, ag)"
proof -
  obtain e' where "count_corrupt (hv_json_ok hv) (hv_policy_files hv d) = Inl e'"
    using assms(3) count_corrupt_error by metis
  then show ?thesis using assms(1,2) by (simp add: check_all_def check_policy_dir_def Let_def)
qed

end
