(* ===== verification/Policies.thy ===== *)
theory Policies
  imports Audit_Trail
begin

text \<open>
  The cost policy engine, \<open>core/policies.py\<close>: the registry of policies mirrored to one JSON file
  per policy, its audited create, update, delete and load operations, and the evaluation of a
  resource event against the policies. A policy file holds a policy (what \<open>model_dump\<close> writes
  reads back as the same policy) or a text that does not parse, with the message of the error.
\<close>

section \<open>State\<close>

datatype policy_file = PolicyJson cost_policy | BadFile string

record policy_engine =
  pe_dir :: string
  pe_policies :: "(string, cost_policy) dict"
  pe_files :: "(string, policy_file) dict"
  pe_audit :: audit_logger

definition init_policies :: "string \<Rightarrow> (string, policy_file) dict \<Rightarrow> audit_logger \<Rightarrow> policy_engine" where
  "init_policies dir files au =
     \<lparr>pe_dir = dir, pe_policies = [], pe_files = files, pe_audit = au\<rparr>"

text \<open>An operation draws on the clock, on whether the file can be written, and on the audit
  environment of its log call.\<close>

record policy_env =
  pv_now :: timestamp
  pv_write_ok :: bool
  pv_log :: log_env

definition policy_log :: "(string \<Rightarrow> string) \<Rightarrow> log_args \<Rightarrow> log_env \<Rightarrow> policy_engine \<Rightarrow> policy_engine" where
  "policy_log sha a v pe = pe\<lparr>pe_audit := snd (log_entry sha a v (pe_audit pe))\<rparr>"

definition file_name :: "string \<Rightarrow> string" where
  "file_name pid = pid @ ''.json''"

text \<open>\<open>_persist_policy\<close>; a file that cannot be opened raises.\<close>

definition persist_policy :: "policy_env \<Rightarrow> cost_policy \<Rightarrow> policy_engine \<Rightarrow> bool \<times> policy_engine" where
  "persist_policy v p pe =
     (if pv_write_ok v
      then (True, pe\<lparr>pe_files := dset (pe_files pe) (file_name (po_policy_id p)) (PolicyJson p)\<rparr>)
      else (False, pe))"

section \<open>Operations\<close>

text \<open>
  \<open>load_policies\<close>: the files in the order of their names; the audit environment of the \<open>n\<close>-th
  log call is \<open>envs n\<close>.
\<close>

fun load_each :: "(string \<Rightarrow> string) \<Rightarrow> (nat \<Rightarrow> log_env) \<Rightarrow> (string \<times> policy_file) list \<Rightarrow>
    nat \<Rightarrow> nat \<Rightarrow> policy_engine \<Rightarrow> nat \<times> nat \<times> policy_engine" where
  "load_each sha envs [] count errors pe = (count, errors, pe)"
| "load_each sha envs ((nm, PolicyJson p) # fs) count errors pe =
     load_each sha envs fs (count + 1) errors
       (pe\<lparr>pe_policies := dset (pe_policies pe) (po_policy_id p) p\<rparr>)"
| "load_each sha envs ((nm, BadFile msg) # fs) count errors pe =
     load_each sha envs fs count (errors + 1)
       (policy_log sha ((default_args ''policy.load_error'' ''system'' (pe_dir pe @ ''/'' @ nm))
          \<lparr>la_outcome := ''failure'',
           la_details := [(''error'', PStr msg), (''file'', PStr nm)]\<rparr>) (envs errors) pe)"

definition load_policies :: "(string \<Rightarrow> string) \<Rightarrow> (nat \<Rightarrow> log_env) \<Rightarrow> policy_engine \<Rightarrow>
    nat \<times> policy_engine" where
  "load_policies sha envs pe =
     (let (count, errors, pe1) = load_each sha envs (sort_key fst (pe_files pe)) 0 0 pe
      in (count, policy_log sha ((default_args ''policies.loaded'' ''system'' (pe_dir pe))
           \<lparr>la_details := [(''count'', PInt (int count)), (''errors'', PInt (int errors))]\<rparr>)
           (envs errors) pe1))"

text \<open>\<open>create_policy\<close>; None when the write raises, which is before the audit call.\<close>

definition create_policy :: "(string \<Rightarrow> string) \<Rightarrow> policy_env \<Rightarrow> cost_policy \<Rightarrow> string \<Rightarrow> policy_engine \<Rightarrow>
    cost_policy option \<times> policy_engine" where
  "create_policy sha v p actor pe =
     (let pe1 = pe\<lparr>pe_policies := dset (pe_policies pe) (po_policy_id p) p\<rparr>;
          (ok, pe2) = persist_policy v p pe1
      in if \<not> ok then (None, pe2)
         else (Some p, policy_log sha ((default_args ''policy.created'' actor (po_policy_id p))
                \<lparr>la_details := [(''name'', PStr (po_name p)), (''description'', PStr (po_description p))],
                 la_related_policy_id := po_policy_id p\<rparr>) (pv_log v) pe2))"

definition py_opt :: "('a \<Rightarrow> pyval) \<Rightarrow> 'a option \<Rightarrow> pyval" where
  "py_opt f x = (case x of None \<Rightarrow> PNone | Some y \<Rightarrow> f y)"

text \<open>
  One key and value of the \<open>updates\<close> dictionary: a field of the policy with a value of its type,
  or a key the policy has no attribute for. \<open>update_value\<close> is the value as it appears in the
  audit details.
\<close>

datatype policy_update =
    SetPolicyId string
  | SetName string
  | SetDescription string
  | SetProvider "cloud_provider option"
  | SetResourceTypes "string list"
  | SetMaxMonthlyCostUsd "real option"
  | SetRequireTags "string list"
  | SetRequireApprovalAboveUsd "real option"
  | SetAutoActions "string list"
  | SetEnabled bool
  | SetCreatedAt timestamp
  | SetUpdatedAt timestamp
  | SetBlockedRegions "string list"
  | SetPreferredRegions "string list"
  | SetRequiredPurchaseType "string option"
  | SetSchedule "(string, string) dict"
  | SetMinCommitmentCoveragePct "real option"
  | SetAcknowledgementSlaHours "int option"
  | SetResolutionSlaHours "int option"
  | SetMaxAccountMonthlyBudgetUsd "real option"
  | SetUnitCostMetric "string option"
  | SetUnitCostThresholdUsd "real option"
  | Foreign string pyval

fun update_key :: "policy_update \<Rightarrow> string" where
  "update_key (SetPolicyId x) = ''policy_id''"
| "update_key (SetName x) = ''name''"
| "update_key (SetDescription x) = ''description''"
| "update_key (SetProvider x) = ''provider''"
| "update_key (SetResourceTypes x) = ''resource_types''"
| "update_key (SetMaxMonthlyCostUsd x) = ''max_monthly_cost_usd''"
| "update_key (SetRequireTags x) = ''require_tags''"
| "update_key (SetRequireApprovalAboveUsd x) = ''require_approval_above_usd''"
| "update_key (SetAutoActions x) = ''auto_actions''"
| "update_key (SetEnabled x) = ''enabled''"
| "update_key (SetCreatedAt x) = ''created_at''"
| "update_key (SetUpdatedAt x) = ''updated_at''"
| "update_key (SetBlockedRegions x) = ''blocked_regions''"
| "update_key (SetPreferredRegions x) = ''preferred_regions''"
| "update_key (SetRequiredPurchaseType x) = ''required_purchase_type''"
| "update_key (SetSchedule x) = ''schedule''"
| "update_key (SetMinCommitmentCoveragePct x) = ''min_commitment_coverage_pct''"
| "update_key (SetAcknowledgementSlaHours x) = ''acknowledgement_sla_hours''"
| "update_key (SetResolutionSlaHours x) = ''resolution_sla_hours''"
| "update_key (SetMaxAccountMonthlyBudgetUsd x) = ''max_account_monthly_budget_usd''"
| "update_key (SetUnitCostMetric x) = ''unit_cost_metric''"
| "update_key (SetUnitCostThresholdUsd x) = ''unit_cost_threshold_usd''"
| "update_key (Foreign k x) = k"

fun update_value :: "policy_update \<Rightarrow> pyval" where
  "update_value (SetPolicyId x) = PStr x"
| "update_value (SetName x) = PStr x"
| "update_value (SetDescription x) = PStr x"
| "update_value (SetProvider x) = py_opt (PStr \<circ> provider_value) x"
| "update_value (SetResourceTypes x) = PList (map PStr x)"
| "update_value (SetMaxMonthlyCostUsd x) = py_opt PFloat x"
| "update_value (SetRequireTags x) = PList (map PStr x)"
| "update_value (SetRequireApprovalAboveUsd x) = py_opt PFloat x"
| "update_value (SetAutoActions x) = PList (map PStr x)"
| "update_value (SetEnabled x) = PBool x"
| "update_value (SetCreatedAt x) = PStr (isoformat x)"
| "update_value (SetUpdatedAt x) = PStr (isoformat x)"
| "update_value (SetBlockedRegions x) = PList (map PStr x)"
| "update_value (SetPreferredRegions x) = PList (map PStr x)"
| "update_value (SetRequiredPurchaseType x) = py_opt PStr x"
| "update_value (SetSchedule x) = PDict (map (map_prod id PStr) x)"
| "update_value (SetMinCommitmentCoveragePct x) = py_opt PFloat x"
| "update_value (SetAcknowledgementSlaHours x) = py_opt PInt x"
| "update_value (SetResolutionSlaHours x) = py_opt PInt x"
| "update_value (SetMaxAccountMonthlyBudgetUsd x) = py_opt PFloat x"
| "update_value (SetUnitCostMetric x) = py_opt PStr x"
| "update_value (SetUnitCostThresholdUsd x) = py_opt PFloat x"
| "update_value (Foreign k x) = x"

text \<open>\<open>hasattr\<close>, \<open>getattr\<close> and \<open>setattr\<close> of the loop of \<open>update_policy\<close>.\<close>

fun setattr :: "policy_update \<Rightarrow> cost_policy \<Rightarrow> cost_policy" where
  "setattr (SetPolicyId x) p = p\<lparr>po_policy_id := x\<rparr>"
| "setattr (SetName x) p = p\<lparr>po_name := x\<rparr>"
| "setattr (SetDescription x) p = p\<lparr>po_description := x\<rparr>"
| "setattr (SetProvider x) p = p\<lparr>po_provider := x\<rparr>"
| "setattr (SetResourceTypes x) p = p\<lparr>po_resource_types := x\<rparr>"
| "setattr (SetMaxMonthlyCostUsd x) p = p\<lparr>po_max_monthly_cost_usd := x\<rparr>"
| "setattr (SetRequireTags x) p = p\<lparr>po_require_tags := x\<rparr>"
| "setattr (SetRequireApprovalAboveUsd x) p = p\<lparr>po_require_approval_above_usd := x\<rparr>"
| "setattr (SetAutoActions x) p = p\<lparr>po_auto_actions := x\<rparr>"
| "setattr (SetEnabled x) p = p\<lparr>po_enabled := x\<rparr>"
| "setattr (SetCreatedAt x) p = p\<lparr>po_created_at := x\<rparr>"
| "setattr (SetUpdatedAt x) p = p\<lparr>po_updated_at := x\<rparr>"
| "setattr (SetBlockedRegions x) p = p\<lparr>po_blocked_regions := x\<rparr>"
| "setattr (SetPreferredRegions x) p = p\<lparr>po_preferred_regions := x\<rparr>"
| "setattr (SetRequiredPurchaseType x) p = p\<lparr>po_required_purchase_type := x\<rparr>"
| "setattr (SetSchedule x) p = p\<lparr>po_schedule := x\<rparr>"
| "setattr (SetMinCommitmentCoveragePct x) p = p\<lparr>po_min_commitment_coverage_pct := x\<rparr>"
| "setattr (SetAcknowledgementSlaHours x) p = p\<lparr>po_acknowledgement_sla_hours := x\<rparr>"
| "setattr (SetResolutionSlaHours x) p = p\<lparr>po_resolution_sla_hours := x\<rparr>"
| "setattr (SetMaxAccountMonthlyBudgetUsd x) p =
     p\<lparr>po_max_account_monthly_budget_usd := x\<rparr>"
| "setattr (SetUnitCostMetric x) p = p\<lparr>po_unit_cost_metric := x\<rparr>"
| "setattr (SetUnitCostThresholdUsd x) p = p\<lparr>po_unit_cost_threshold_usd := x\<rparr>"
| "setattr (Foreign k x) p = p"

fun current :: "policy_update \<Rightarrow> cost_policy \<Rightarrow> policy_update" where
  "current (SetPolicyId x) p = SetPolicyId (po_policy_id p)"
| "current (SetName x) p = SetName (po_name p)"
| "current (SetDescription x) p = SetDescription (po_description p)"
| "current (SetProvider x) p = SetProvider (po_provider p)"
| "current (SetResourceTypes x) p = SetResourceTypes (po_resource_types p)"
| "current (SetMaxMonthlyCostUsd x) p = SetMaxMonthlyCostUsd (po_max_monthly_cost_usd p)"
| "current (SetRequireTags x) p = SetRequireTags (po_require_tags p)"
| "current (SetRequireApprovalAboveUsd x) p = SetRequireApprovalAboveUsd (po_require_approval_above_usd p)"
| "current (SetAutoActions x) p = SetAutoActions (po_auto_actions p)"
| "current (SetEnabled x) p = SetEnabled (po_enabled p)"
| "current (SetCreatedAt x) p = SetCreatedAt (po_created_at p)"
| "current (SetUpdatedAt x) p = SetUpdatedAt (po_updated_at p)"
| "current (SetBlockedRegions x) p = SetBlockedRegions (po_blocked_regions p)"
| "current (SetPreferredRegions x) p = SetPreferredRegions (po_preferred_regions p)"
| "current (SetRequiredPurchaseType x) p = SetRequiredPurchaseType (po_required_purchase_type p)"
| "current (SetSchedule x) p = SetSchedule (po_schedule p)"
| "current (SetMinCommitmentCoveragePct x) p = SetMinCommitmentCoveragePct (po_min_commitment_coverage_pct p)"
| "current (SetAcknowledgementSlaHours x) p = SetAcknowledgementSlaHours (po_acknowledgement_sla_hours p)"
| "current (SetResolutionSlaHours x) p = SetResolutionSlaHours (po_resolution_sla_hours p)"
| "current (SetMaxAccountMonthlyBudgetUsd x) p = SetMaxAccountMonthlyBudgetUsd (po_max_account_monthly_budget_usd p)"
| "current (SetUnitCostMetric x) p = SetUnitCostMetric (po_unit_cost_metric p)"
| "current (SetUnitCostThresholdUsd x) p = SetUnitCostThresholdUsd (po_unit_cost_threshold_usd p)"
| "current (Foreign k x) p = Foreign k x"

definition is_field :: "policy_update \<Rightarrow> bool" where
  "is_field u = (case u of Foreign k x \<Rightarrow> False | _ \<Rightarrow> True)"

fun apply_updates :: "policy_update list \<Rightarrow> cost_policy \<Rightarrow> (string, pyval) dict \<Rightarrow>
    cost_policy \<times> (string, pyval) dict" where
  "apply_updates [] p old = (p, old)"
| "apply_updates (u # us) p old =
     (if is_field u
      then apply_updates us (setattr u p) (dset old (update_key u) (update_value (current u p)))
      else apply_updates us p old)"

text \<open>
  \<open>update_policy\<close>: \<open>Inl\<close> when the write raises, \<open>Inr None\<close> when there is no such policy. The
  entry of the registry is the mutated object, also when the update changed its \<open>policy_id\<close>.
\<close>

definition update_policy :: "(string \<Rightarrow> string) \<Rightarrow> policy_env \<Rightarrow> string \<Rightarrow> policy_update list \<Rightarrow> string \<Rightarrow>
    policy_engine \<Rightarrow> (unit + cost_policy option) \<times> policy_engine" where
  "update_policy sha v pid us actor pe =
     (case dget (pe_policies pe) pid of
        None \<Rightarrow> (Inr None, pe)
      | Some p \<Rightarrow>
          (let (p1, old) = apply_updates us p []; p2 = p1\<lparr>po_updated_at := pv_now v\<rparr>;
               pe1 = pe\<lparr>pe_policies := dset (pe_policies pe) pid p2\<rparr>;
               (ok, pe2) = persist_policy v p2 pe1
           in if \<not> ok then (Inl (), pe2)
              else (Inr (Some p2), policy_log sha ((default_args ''policy.updated'' actor pid)
                     \<lparr>la_details :=
                        [(''changes'', PDict (map (\<lambda>u. (update_key u, update_value u)) us)),
                         (''previous_values'', PDict old)],
                      la_related_policy_id := pid\<rparr>) (pv_log v) pe2)))"

definition delete_policy :: "(string \<Rightarrow> string) \<Rightarrow> policy_env \<Rightarrow> string \<Rightarrow> string \<Rightarrow> policy_engine \<Rightarrow>
    bool \<times> policy_engine" where
  "delete_policy sha v pid actor pe =
     (case dget (pe_policies pe) pid of
        None \<Rightarrow> (False, pe)
      | Some p \<Rightarrow>
          (True, policy_log sha ((default_args ''policy.deleted'' actor pid)
             \<lparr>la_details := [(''name'', PStr (po_name p))], la_related_policy_id := pid\<rparr>) (pv_log v)
             (pe\<lparr>pe_policies := ddel (pe_policies pe) pid,
               pe_files := ddel (pe_files pe) (file_name pid)\<rparr>)))"

definition get_policies :: "cloud_provider option \<Rightarrow> bool \<Rightarrow> policy_engine \<Rightarrow> cost_policy list" where
  "get_policies provider enabled_only pe =
     (let ps = dvalues (pe_policies pe);
          ps = (case provider of None \<Rightarrow> ps
                | Some q \<Rightarrow> filter (\<lambda>p. po_provider p = None \<or> po_provider p = Some q) ps)
      in if enabled_only then filter po_enabled ps else ps)"

definition get_policy :: "string \<Rightarrow> policy_engine \<Rightarrow> cost_policy option" where
  "get_policy pid pe = dget (pe_policies pe) pid"

section \<open>Violations\<close>

definition parse_hm :: "string \<Rightarrow> int option" where
  "parse_hm s =
     (case map py_int (split_on CHR '':'' (strip s)) of
        [Some h, Some m] \<Rightarrow> Some (h * 60 + m)
      | _ \<Rightarrow> None)"

definition parse_window :: "string \<Rightarrow> (int \<times> int) option" where
  "parse_window hours =
     (let (a, b) = split_once CHR ''-'' hours
      in case parse_hm a of None \<Rightarrow> None
         | Some start \<Rightarrow> (case parse_hm b of None \<Rightarrow> None | Some end_time \<Rightarrow> Some (start, end_time)))"

definition outside_hours :: "int \<Rightarrow> int \<Rightarrow> int \<Rightarrow> bool" where
  "outside_hours start end_time t =
     (if start < end_time then t < start \<or> end_time \<le> t else t < start \<and> end_time \<le> t)"

definition check_schedule_violation :: "resource_event \<Rightarrow> cost_policy \<Rightarrow> string option" where
  "check_schedule_violation e p =
     (let hours = dget_or (po_schedule p) ''active_hours'' []
      in if hours = [] \<or> CHR ''-'' \<notin> set hours then None
         else case parse_window hours of
           None \<Rightarrow> None
         | Some (start, end_time) \<Rightarrow>
             if outside_hours start end_time (minute_of_day (ev_timestamp e))
             then (let days = dget_or (po_schedule p) ''active_days'' []
                   in Some (''Resource created outside active hours ('' @ hours @
                       (if days = [] then [] else '', '' @ days) @ '')''))
             else None)"

definition check_violations :: "resource_event \<Rightarrow> cost_policy \<Rightarrow> string list" where
  "check_violations e p =
     (case po_max_monthly_cost_usd p of None \<Rightarrow> []
      | Some m \<Rightarrow> if m < ev_cost e
          then [''Estimated cost $'' @ fmt_money (ev_cost e) @ ''/month exceeds policy limit of $'' @
                fmt_money m @ ''/month''] else []) @
     (if po_require_tags p = [] then []
      else (let missing = missing_tags (po_require_tags p) e
            in if missing = [] then [] else [''Missing required tags: '' @ join '', '' missing])) @
     (case po_require_approval_above_usd p of None \<Rightarrow> []
      | Some a \<Rightarrow> if a < ev_cost e
          then [''Cost $'' @ fmt_money (ev_cost e) @ ''/month requires manual approval (threshold: $'' @
                fmt_money a @ '')''] else []) @
     (if po_blocked_regions p \<noteq> [] \<and> ev_region e \<in> set (po_blocked_regions p)
      then [''Resource created in blocked region '' @ quoted (ev_region e)] else []) @
     (if po_preferred_regions p \<noteq> [] \<and> ev_region e \<notin> set (po_preferred_regions p)
      then [''Resource created in non-preferred region '' @ quoted (ev_region e) @ ''; preferred: '' @
            join '', '' (po_preferred_regions p)] else []) @
     (case po_required_purchase_type p of None \<Rightarrow> []
      | Some t \<Rightarrow> if t \<noteq> [] \<and> ev_purchase_type e \<noteq> t
          then [''Resource uses '' @ quoted (ev_purchase_type e) @ '' purchase type, policy requires '' @
                quoted t] else []) @
     (if po_schedule p = [] then []
      else (case check_schedule_violation e p of None \<Rightarrow> [] | Some v \<Rightarrow> [v]))"

section \<open>Evaluating an event\<close>

definition violation_args :: "resource_event \<Rightarrow> cost_policy \<Rightarrow> string list \<Rightarrow> log_args" where
  "violation_args e p vs =
     (default_args ''policy.violation_detected'' ''system'' (ev_resource_id e))
       \<lparr>la_provider := Some (ev_provider e),
        la_details := [(''policy_name'', PStr (po_name p)), (''violations'', PList (map PStr vs)),
          (''resource_type'', PStr (ev_resource_type e)), (''creator'', PStr (ev_creator_identity e)),
          (''estimated_cost'', PFloat (ev_cost e))],
        la_related_policy_id := po_policy_id p\<rparr>"

text \<open>The loop of \<open>evaluate_event\<close>; the \<open>n\<close>-th violation found is logged under \<open>envs n\<close>.\<close>

fun evaluate_each :: "(string \<Rightarrow> string) \<Rightarrow> (nat \<Rightarrow> log_env) \<Rightarrow> resource_event \<Rightarrow> cost_policy list \<Rightarrow>
    (cost_policy \<times> string list) list \<Rightarrow> policy_engine \<Rightarrow>
    (cost_policy \<times> string list) list \<times> policy_engine" where
  "evaluate_each sha envs e [] results pe = (results, pe)"
| "evaluate_each sha envs e (p # ps) results pe =
     (if \<not> policy_applies p e then evaluate_each sha envs e ps results pe
      else (let vs = check_violations e p
            in if vs = [] then evaluate_each sha envs e ps results pe
               else evaluate_each sha envs e ps (results @ [(p, vs)])
                      (policy_log sha (violation_args e p vs) (envs (length results)) pe)))"

definition evaluate_event :: "(string \<Rightarrow> string) \<Rightarrow> (nat \<Rightarrow> log_env) \<Rightarrow> resource_event \<Rightarrow> policy_engine \<Rightarrow>
    (cost_policy \<times> string list) list \<times> policy_engine" where
  "evaluate_event sha envs e pe = evaluate_each sha envs e (dvalues (pe_policies pe)) [] pe"

section \<open>What a policy demands\<close>

text \<open>\<open>in_window start end t\<close>: the window from \<open>start\<close> to \<open>end\<close>, over midnight when it wraps.\<close>

definition in_window :: "int \<Rightarrow> int \<Rightarrow> int \<Rightarrow> bool" where
  "in_window start end_time t \<longleftrightarrow>
     (start \<le> t \<and> t < end_time) \<or> (end_time \<le> start \<and> (start \<le> t \<or> t < end_time))"

definition schedule_ok :: "resource_event \<Rightarrow> cost_policy \<Rightarrow> bool" where
  "schedule_ok e p \<longleftrightarrow>
     (let hours = dget_or (po_schedule p) ''active_hours'' []
      in CHR ''-'' \<in> set hours \<longrightarrow>
         (case parse_window hours of None \<Rightarrow> True
          | Some (start, end_time) \<Rightarrow> start = end_time \<or>
              in_window start end_time (minute_of_day (ev_timestamp e))))"

definition compliant :: "resource_event \<Rightarrow> cost_policy \<Rightarrow> bool" where
  "compliant e p \<longleftrightarrow>
     (\<forall>m. po_max_monthly_cost_usd p = Some m \<longrightarrow> ev_cost e \<le> m) \<and>
     (\<forall>t \<in> set (po_require_tags p). dhas (ev_tags e) t) \<and>
     (\<forall>a. po_require_approval_above_usd p = Some a \<longrightarrow> ev_cost e \<le> a) \<and>
     ev_region e \<notin> set (po_blocked_regions p) \<and>
     (po_preferred_regions p = [] \<or> ev_region e \<in> set (po_preferred_regions p)) \<and>
     (\<forall>t. po_required_purchase_type p = Some t \<longrightarrow> t = [] \<or> ev_purchase_type e = t) \<and>
     schedule_ok e p"

lemma outside_hours_window: "outside_hours s e t \<longleftrightarrow> s \<noteq> e \<and> \<not> in_window s e t"
  by (auto simp: outside_hours_def in_window_def)

lemma check_schedule_ok: "check_schedule_violation e p = None \<longleftrightarrow> schedule_ok e p"
  by (auto simp: check_schedule_violation_def schedule_ok_def Let_def outside_hours_window
      split: option.splits)

lemma no_schedule_ok: "po_schedule p = [] \<Longrightarrow> schedule_ok e p"
  by (simp add: schedule_ok_def dget_or_def)

lemma window_cyclic:
  fixes s e t :: int
  assumes "0 \<le> s" "s < 1440" "0 \<le> e" "e < 1440" "0 \<le> t" "t < 1440" "s \<noteq> e"
  shows "in_window s e t \<longleftrightarrow> (t - s) mod 1440 < (e - s) mod 1440"
proof -
  have red: "(x - s) mod 1440 = (if s \<le> x then x - s else x - s + 1440)"
    if "0 \<le> x" "x < 1440" for x
  proof (cases "s \<le> x")
    case True
    then show ?thesis using that assms(1) by (simp add: mod_pos_pos_trivial)
  next
    case False
    have "(x - s) mod 1440 = (x - s + 1440) mod 1440" by simp
    also have "\<dots> = x - s + 1440" using False that assms(1,2) by (intro mod_pos_pos_trivial) auto
    finally show ?thesis using False by simp
  qed
  show ?thesis using assms by (auto simp: red in_window_def)
qed

lemma check_violations_Nil: "check_violations e p = [] \<longleftrightarrow> compliant e p"
proof -
  have "(if po_schedule p = [] then []
      else case check_schedule_violation e p of None \<Rightarrow> [] | Some v \<Rightarrow> [v]) = [] \<longleftrightarrow> schedule_ok e p"
    using no_schedule_ok check_schedule_ok [of e p] by (auto split: option.splits)
  moreover have "(if po_require_tags p = [] then []
      else (let missing = missing_tags (po_require_tags p) e
            in if missing = [] then [] else [''Missing required tags: '' @ join '', '' missing])) = []
      \<longleftrightarrow> (\<forall>t \<in> set (po_require_tags p). dhas (ev_tags e) t)"
    using missing_tags_empty [of "po_require_tags p" e] by (auto simp: Let_def)
  ultimately show ?thesis
    unfolding check_violations_def compliant_def append_is_Nil_conv
    by (auto simp: not_less split: option.splits if_splits)
qed

section \<open>Evaluation\<close>

definition violating :: "resource_event \<Rightarrow> cost_policy list \<Rightarrow> (cost_policy \<times> string list) list" where
  "violating e ps =
     map (\<lambda>p. (p, check_violations e p)) (filter (\<lambda>p. policy_applies p e \<and> \<not> compliant e p) ps)"

definition violation_calls :: "(nat \<Rightarrow> log_env) \<Rightarrow> resource_event \<Rightarrow> nat \<Rightarrow>
    (cost_policy \<times> string list) list \<Rightarrow> (log_args \<times> log_env) list" where
  "violation_calls envs e n hits =
     map (\<lambda>(i, p, vs). (violation_args e p vs, envs i)) (enumerate n hits)"

lemma evaluate_each_violating:
  "evaluate_each sha envs e ps results pe = (results @ violating e ps,
     pe\<lparr>pe_audit := log_all sha (violation_calls envs e (length results) (violating e ps)) (pe_audit pe)\<rparr>)"
proof (induction ps arbitrary: results pe)
  case Nil
  show ?case by (simp add: violating_def violation_calls_def)
next
  case (Cons p ps)
  show ?case
  proof (cases "policy_applies p e \<and> \<not> compliant e p")
    case True
    then have v: "violating e (p # ps) = (p, check_violations e p) # violating e ps"
      by (simp add: violating_def)
    show ?thesis
      unfolding v using True Cons.IH check_violations_Nil [of e p]
      by (simp add: Let_def policy_log_def violation_calls_def)
  next
    case False
    then have "violating e (p # ps) = violating e ps" by (auto simp: violating_def)
    with False Cons.IH show ?thesis by (simp add: check_violations_Nil Let_def)
  qed
qed

text \<open>
  C14: Evaluating an event reports exactly the enabled policies in scope that it does not comply
  with, in registry order with their violations, logs one violation entry for each of them and
  nothing else, keeps the audit trail verifiable and changes no policy.
\<close>
theorem policy_evaluation_exact:
  assumes "audit_ok sha (pe_audit pe)" and "evaluate_event sha envs e pe = (results, pe')"
  shows "results = map (\<lambda>p. (p, check_violations e p))
      (filter (\<lambda>p. policy_applies p e \<and> \<not> compliant e p) (dvalues (pe_policies pe))) \<and>
    (\<exists>es. au_entries (pe_audit pe') = au_entries (pe_audit pe) @ es \<and>
       map entry_args es = map (\<lambda>(p, vs). violation_args e p vs) results) \<and>
    verify_integrity sha (pe_audit pe') = [] \<and> pe_policies pe' = pe_policies pe"
proof -
  have r: "results = violating e (dvalues (pe_policies pe))"
    and pe': "pe' = pe\<lparr>pe_audit := log_all sha (violation_calls envs e 0 results) (pe_audit pe)\<rparr>"
    using assms(2) by (auto simp: evaluate_event_def evaluate_each_violating)
  have "map fst (violation_calls envs e n hits) = map (\<lambda>(p, vs). violation_args e p vs) hits" for n hits
    by (induction hits arbitrary: n) (auto simp: violation_calls_def)
  with r pe' log_all_extends [of sha "violation_calls envs e 0 results" "pe_audit pe"]
    audit_ok_verify [OF log_all_ok [OF assms(1)]]
  show ?thesis by (simp add: violating_def)
qed

definition demo_event :: resource_event where
  "demo_event = \<lparr>ev_event_id = ''e1'', ev_correlation_id = [], ev_provider = AWS,
     ev_timestamp = 79200000000, ev_account_id = ''acct'', ev_region = ''eu-west-2'',
     ev_resource_type = ''ec2'', ev_resource_id = ''i-1'', ev_resource_name = [],
     ev_creator_identity = ''dev'', ev_creator_email = [], ev_cost = 900,
     ev_purchase_type = ''on_demand'', ev_tags = [(''team'', ''x'')], ev_raw_event = []\<rparr>"

definition demo_cost_policy :: cost_policy where
  "demo_cost_policy = \<lparr>po_policy_id = ''p1'', po_name = ''cap'', po_description = [],
     po_provider = None, po_resource_types = [], po_max_monthly_cost_usd = Some 500,
     po_require_tags = [''team''], po_require_approval_above_usd = None, po_auto_actions = [],
     po_enabled = True, po_created_at = 0, po_updated_at = 0, po_blocked_regions = [],
     po_preferred_regions = [], po_required_purchase_type = None,
     po_schedule = [(''active_hours'', ''21:00-06:30'')], po_min_commitment_coverage_pct = None,
     po_acknowledgement_sla_hours = None, po_resolution_sla_hours = None,
     po_max_account_monthly_budget_usd = None, po_unit_cost_metric = None,
     po_unit_cost_threshold_usd = None\<rparr>"

definition demo_engine :: policy_engine where
  "demo_engine = \<lparr>pe_dir = ''policies'', pe_policies = [(''p1'', demo_cost_policy)], pe_files = [],
     pe_audit = init_audit []\<rparr>"

theorem policy_evaluation_exact_witness:
  "map (po_policy_id \<circ> fst) (fst (evaluate_event demo_sha (\<lambda>n. demo_env n) demo_event demo_engine)) = [''p1'']"
proof -
  have "audit_ok demo_sha (pe_audit demo_engine)" by (simp add: demo_engine_def)
  from policy_evaluation_exact [OF this prod.collapse [symmetric]]
  have "fst (evaluate_event demo_sha (\<lambda>n. demo_env n) demo_event demo_engine) =
      map (\<lambda>p. (p, check_violations demo_event p)) (filter (\<lambda>p. policy_applies p demo_event \<and>
        \<not> compliant demo_event p) (dvalues (pe_policies demo_engine)))" by blast
  then show ?thesis
    by (simp add: demo_engine_def policy_applies_def compliant_def demo_event_def demo_cost_policy_def)
qed

text \<open>
  A schedule with clock times between 00:00 and 23:59 is checked as a window of the 24-hour
  circle: an event passes exactly when start and end coincide or it happens less than the length
  of the window after its start, windows over midnight included.
\<close>
theorem schedule_window_cyclic:
  assumes "parse_window (dget_or (po_schedule p) ''active_hours'' []) = Some (s, t)"
    and "CHR ''-'' \<in> set (dget_or (po_schedule p) ''active_hours'' [])"
    and "0 \<le> s" "s < 1440" "0 \<le> t" "t < 1440"
  shows "check_schedule_violation e p = None \<longleftrightarrow>
    s = t \<or> (minute_of_day (ev_timestamp e) - s) mod 1440 < (t - s) mod 1440"
  using assms window_cyclic [of s t "minute_of_day (ev_timestamp e)"] minute_of_day_range
  by (cases "s = t") (simp_all add: check_schedule_ok schedule_ok_def)

theorem schedule_window_cyclic_witness:
  "check_schedule_violation demo_event demo_cost_policy = None"
proof -
  have w: "parse_window (dget_or (po_schedule demo_cost_policy) ''active_hours'' []) = Some (1260, 390)"
    by (simp add: demo_cost_policy_def dget_or_def dget_def parse_window_def split_once_def
        parse_hm_def strip_def is_space_def py_int_def is_digit_def Let_def)
  have d: "CHR ''-'' \<in> set (dget_or (po_schedule demo_cost_policy) ''active_hours'' [])"
    by (simp add: demo_cost_policy_def dget_or_def dget_def)
  have "minute_of_day (ev_timestamp demo_event) = 1320"
    by (simp add: demo_event_def minute_of_day_def us_per_day_def)
  then show ?thesis using schedule_window_cyclic [OF w d, of demo_event] by simp
qed

text \<open>The active days of a schedule appear in the message only.\<close>

lemma active_days_not_enforced:
  assumes "\<And>k. k \<noteq> ''active_days'' \<Longrightarrow> dget (po_schedule q) k = dget (po_schedule p) k"
  shows "check_schedule_violation e q = None \<longleftrightarrow> check_schedule_violation e p = None"
proof -
  have "dget_or (po_schedule q) ''active_hours'' [] = dget_or (po_schedule p) ''active_hours'' []"
    using assms by (simp add: dget_or_def)
  then show ?thesis by (simp add: check_schedule_ok schedule_ok_def)
qed

section \<open>Registry and files\<close>

datatype policy_op =
    Create policy_env cost_policy string
  | Update policy_env string "policy_update list" string
  | Delete policy_env string string

fun policy_step :: "(string \<Rightarrow> string) \<Rightarrow> policy_op \<Rightarrow> policy_engine \<Rightarrow> policy_engine" where
  "policy_step sha (Create v p actor) pe = snd (create_policy sha v p actor pe)"
| "policy_step sha (Update v pid us actor) pe = snd (update_policy sha v pid us actor pe)"
| "policy_step sha (Delete v pid actor) pe = snd (delete_policy sha v pid actor pe)"

text \<open>Every write succeeds and no update renames a policy.\<close>

fun op_writes :: "policy_op \<Rightarrow> bool" where
  "op_writes (Create v p actor) = pv_write_ok v"
| "op_writes (Update v pid us actor) = (pv_write_ok v \<and> list_all (\<lambda>u. update_key u \<noteq> ''policy_id'') us)"
| "op_writes (Delete v pid actor) = True"

text \<open>The files are the registry written out, and every policy is filed under its own id.\<close>

definition mirrored :: "policy_engine \<Rightarrow> bool" where
  "mirrored pe \<longleftrightarrow> dict_ok (pe_policies pe) \<and>
     pe_files pe = dmirror file_name PolicyJson (pe_policies pe) \<and>
     (\<forall>(k, p) \<in> set (pe_policies pe). po_policy_id p = k)"

lemma inj_file_name: "inj file_name"
  by (simp add: inj_def file_name_def)

lemma policy_log_simps [simp]:
  "pe_policies (policy_log sha a v pe) = pe_policies pe"
  "pe_files (policy_log sha a v pe) = pe_files pe"
  "pe_audit (policy_log sha a v pe) = snd (log_entry sha a v (pe_audit pe))"
  by (simp_all add: policy_log_def)

lemma mirrored_log [simp]: "mirrored (policy_log sha a v pe) = mirrored pe"
  by (simp add: mirrored_def)

lemma mirrored_set:
  assumes "mirrored pe" "po_policy_id p = k"
  shows "mirrored (pe\<lparr>pe_policies := dset (pe_policies pe) k p,
      pe_files := dset (pe_files pe) (file_name k) (PolicyJson p)\<rparr>)"
  using assms by (auto simp: mirrored_def dmirror_dset [OF inj_file_name] set_dset)

lemma mirrored_del:
  "mirrored pe \<Longrightarrow> mirrored (pe\<lparr>pe_policies := ddel (pe_policies pe) k,
      pe_files := ddel (pe_files pe) (file_name k)\<rparr>)"
  by (auto simp: mirrored_def dmirror_ddel [OF inj_file_name] set_ddel)

lemma setattr_policy_id: "update_key u \<noteq> ''policy_id'' \<Longrightarrow> po_policy_id (setattr u p) = po_policy_id p"
  by (cases u) auto

lemma apply_updates_policy_id:
  "list_all (\<lambda>u. update_key u \<noteq> ''policy_id'') us \<Longrightarrow>
   po_policy_id (fst (apply_updates us p old)) = po_policy_id p"
  by (induction us p old rule: apply_updates.induct) (auto simp: setattr_policy_id)

lemma mirrored_step:
  assumes "mirrored pe" "op_writes x"
  shows "mirrored (policy_step sha x pe)"
proof (cases x)
  case (Create v p actor)
  then show ?thesis using mirrored_set [OF assms(1) refl, of p] assms(2)
    by (simp add: create_policy_def persist_policy_def Let_def)
next
  case (Update v pid us actor)
  show ?thesis
  proof (cases "dget (pe_policies pe) pid")
    case None
    with Update assms(1) show ?thesis by (simp add: update_policy_def)
  next
    case (Some p)
    then have "po_policy_id p = pid"
      using assms(1) by (force simp: mirrored_def dget_mem)
    then have "po_policy_id ((fst (apply_updates us p []))\<lparr>po_updated_at := pv_now v\<rparr>) = pid"
      using apply_updates_policy_id [of us p "[]"] Update assms(2) by simp
    from mirrored_set [OF assms(1) this] this Some Update assms(2) show ?thesis
      by (simp add: update_policy_def persist_policy_def Let_def case_prod_beta)
  qed
next
  case (Delete v pid actor)
  then show ?thesis using mirrored_del [OF assms(1), of pid] assms(1)
    by (simp add: delete_policy_def split: option.splits)
qed

lemma policy_step_audit: "audit_ok sha (pe_audit pe) \<Longrightarrow> audit_ok sha (pe_audit (policy_step sha x pe))"
  by (cases x) (auto simp: create_policy_def update_policy_def delete_policy_def persist_policy_def
      Let_def split: option.splits prod.splits)

lemma policy_run:
  "mirrored pe \<Longrightarrow> audit_ok sha (pe_audit pe) \<Longrightarrow> list_all op_writes xs \<Longrightarrow>
   mirrored (fold (policy_step sha) xs pe) \<and> audit_ok sha (pe_audit (fold (policy_step sha) xs pe))"
  by (induction xs arbitrary: pe) (auto simp: mirrored_step policy_step_audit)

lemma load_each_mirror:
  "load_each sha envs (map (\<lambda>(k, p). (file_name k, PolicyJson p)) qs) c n pe =
     (c + length qs, n, pe\<lparr>pe_policies := fold (\<lambda>(k, p) d. dset d (po_policy_id p) p) qs (pe_policies pe)\<rparr>)"
  by (induction qs arbitrary: c pe) auto

lemma load_mirrored:
  assumes "mirrored pe"
  shows "fst (load_policies sha envs (init_policies dir (pe_files pe) au)) = length (pe_policies pe)"
    and "dget (pe_policies (snd (load_policies sha envs (init_policies dir (pe_files pe) au)))) k =
      dget (pe_policies pe) k"
proof -
  define qs where "qs = sort_key (fst \<circ> (\<lambda>(k, p). (file_name k, PolicyJson p))) (pe_policies pe)"
  have sorted: "sort_key fst (pe_files pe) = map (\<lambda>(k, p). (file_name k, PolicyJson p)) qs"
    using assms by (simp add: mirrored_def dmirror_def sort_key_map qs_def)
  have ok: "dict_ok (pe_policies pe)" using assms by (simp add: mirrored_def)
  have perm: "set qs = set (pe_policies pe)" "length qs = length (pe_policies pe)" and oks: "dict_ok qs"
    using ok by (simp_all add: qs_def)
  have ids: "\<forall>(k, p) \<in> set qs. po_policy_id p = k"
    using assms perm(1) by (simp add: mirrored_def)
  have "fold (\<lambda>(k, p) d. dset d (po_policy_id p) p) qs d = fold (\<lambda>(k, p) d. dset d k p) qs d" for d
    using ids by (intro fold_cong) auto
  then have "dget (fold (\<lambda>(k, p) d. dset d (po_policy_id p) p) qs []) k = dget (pe_policies pe) k"
    using dget_fold_dset [of qs "[]" k] dget_permute [OF ok oks perm(1)] oks
    by (simp add: dict_ok_def split: option.splits)
  then show "dget (pe_policies (snd (load_policies sha envs (init_policies dir (pe_files pe) au)))) k =
      dget (pe_policies pe) k"
    and "fst (load_policies sha envs (init_policies dir (pe_files pe) au)) = length (pe_policies pe)"
    using perm(2)
    by (simp_all add: load_policies_def init_policies_def sorted load_each_mirror Let_def)
qed

text \<open>
  C15: The policy files survive a restart: after any creates, updates and deletes whose writes
  succeed and that rename no policy, a new engine that loads the directory holds exactly the
  policies of the old one under the same ids and reports their number; and the audit trail of
  the operations verifies.
\<close>
theorem policies_survive_restart:
  assumes "list_all op_writes xs"
    and "pe = fold (policy_step sha) xs (init_policies dir [] (init_audit disk))"
  shows "get_policy k (snd (load_policies sha envs (init_policies dir (pe_files pe) au))) = get_policy k pe \<and>
    fst (load_policies sha envs (init_policies dir (pe_files pe) au)) = length (pe_policies pe) \<and>
    verify_integrity sha (pe_audit pe) = []"
proof -
  have "mirrored (init_policies dir [] (init_audit disk))"
    by (simp add: mirrored_def init_policies_def dmirror_def)
  moreover have "audit_ok sha (pe_audit (init_policies dir [] (init_audit disk)))"
    by (simp add: init_policies_def)
  ultimately have "mirrored pe" "audit_ok sha (pe_audit pe)"
    using policy_run assms by blast+
  then show ?thesis using load_mirrored audit_ok_verify by (simp add: get_policy_def)
qed

definition demo_policy_env :: policy_env where
  "demo_policy_env = \<lparr>pv_now = 7, pv_write_ok = True, pv_log = demo_env 0\<rparr>"

theorem policies_survive_restart_witness:
  "\<exists>p. get_policy ''p1'' (snd (load_policies demo_sha demo_env (init_policies ''d''
     (pe_files (fold (policy_step demo_sha) [Create demo_policy_env demo_cost_policy ''a'',
        Update demo_policy_env ''p1'' [SetEnabled False] ''a''] (init_policies ''d'' [] (init_audit []))))
     (init_audit [])))) = Some p \<and> \<not> po_enabled p"
proof -
  let ?xs = "[Create demo_policy_env demo_cost_policy ''a'', Update demo_policy_env ''p1'' [SetEnabled False] ''a'']"
  let ?pe = "fold (policy_step demo_sha) ?xs (init_policies ''d'' [] (init_audit []))"
  have "list_all op_writes ?xs" by (simp add: demo_policy_env_def)
  from policies_survive_restart [OF this refl]
  have "get_policy ''p1'' (snd (load_policies demo_sha demo_env (init_policies ''d'' (pe_files ?pe)
      (init_audit [])))) = get_policy ''p1'' ?pe" by blast
  also have "\<dots> = Some (demo_cost_policy\<lparr>po_enabled := False, po_updated_at := 7\<rparr>)"
    by (simp add: create_policy_def update_policy_def persist_policy_def demo_policy_env_def
        demo_cost_policy_def get_policy_def init_policies_def is_field_def Let_def)
  finally show ?thesis by simp
qed

text \<open>A create whose file cannot be written has registered the policy but logged nothing.\<close>

lemma failed_create_unaudited:
  assumes "\<not> pv_write_ok v"
  shows "get_policy (po_policy_id p) (snd (create_policy sha v p actor pe)) = Some p"
    and "pe_audit (snd (create_policy sha v p actor pe)) = pe_audit pe"
  using assms by (simp_all add: create_policy_def persist_policy_def get_policy_def Let_def)

end
