(* ===== verification/Alert_Agent.thy ===== *)
theory Alert_Agent
  imports Policies Alerts Event_Store
begin

text \<open>
  The alert agent, \<open>agents/alert_agent.py\<close>: the pipeline of a resource event through the event
  store, the policy engine, the alert engine, the dispatcher and the audit trail, and the life of
  the alerts it dispatched. The agent, the policy engine and the rest of the hub share one audit
  logger, the one inside \<open>aa_policies\<close>; the agent and the alert engine share the threshold engine
  and the alert objects, so \<open>aa_dispatched\<close> holds positions in the alert engine's list.
\<close>

section \<open>State\<close>

record ('s, 'd) alert_agent =
  aa_engine :: alert_engine
  aa_policies :: policy_engine
  aa_events :: 's
  aa_dispatcher :: 'd
  aa_dispatched :: "nat list"

text \<open>
  The event store's \<open>store\<close> and the dispatcher's \<open>send\<close> are arguments; what a failing \<open>send\<close>
  leaves behind is the state it returns, since the agent swallows the exception.
\<close>

record ('s, 'd) agent_setup =
  as_sha :: "string \<Rightarrow> string"
  as_store :: "resource_event \<Rightarrow> 's \<Rightarrow> 's"
  as_send :: "cost_alert \<Rightarrow> string \<Rightarrow> 'd \<Rightarrow> 'd"

record process_env =
  pn_alert :: alert_env
  pn_violations :: "nat \<Rightarrow> log_env"
  pn_log :: log_env

definition init_alert_agent :: "threshold_engine \<Rightarrow> config option \<Rightarrow> policy_engine \<Rightarrow> 's \<Rightarrow> 'd \<Rightarrow>
    ('s, 'd) alert_agent" where
  "init_alert_agent te cfg pe s d =
     \<lparr>aa_engine = \<lparr>an_thresholds = te, an_config = cfg, an_alerts = []\<rparr>, aa_policies = pe,
      aa_events = s, aa_dispatcher = d, aa_dispatched = []\<rparr>"

definition alert_at :: "('s, 'd) alert_agent \<Rightarrow> nat \<Rightarrow> cost_alert" where
  "alert_at ag i = an_alerts (aa_engine ag) ! i"

definition dispatched :: "('s, 'd) alert_agent \<Rightarrow> cost_alert list" where
  "dispatched ag = map (alert_at ag) (aa_dispatched ag)"

definition agent_trail :: "('s, 'd) alert_agent \<Rightarrow> audit_entry list" where
  "agent_trail ag = au_entries (pe_audit (aa_policies ag))"

definition agent_log :: "('s, 'd) agent_setup \<Rightarrow> log_args \<Rightarrow> log_env \<Rightarrow> ('s, 'd) alert_agent \<Rightarrow>
    ('s, 'd) alert_agent" where
  "agent_log su a v ag = ag\<lparr>aa_policies := policy_log (as_sha su) a v (aa_policies ag)\<rparr>"

section \<open>The message for people\<close>

definition separator :: string where
  "separator = replicate 72 CHR ''=''"

definition format_alert :: "cost_alert \<Rightarrow> string" where
  "format_alert a = join newline
     [[], separator, al_title a, separator, [],
      ''WHAT HAPPENED:'', ''  '' @ al_summary a, [],
      ''WHO IS ACCOUNTABLE:'',
      ''  Creator:      '' @ al_resource_creator a,
      ''  Email:        '' @ str_or (al_creator_email a) ''Not available'',
      ''  Team:         '' @ al_team a,
      ''  Cost Centre:  '' @ al_cost_centre a, [],
      ''COST IMPACT:'',
      ''  Resource:             '' @ al_resource_type a @ '' ['' @ al_resource_id a @ '']'',
      ''  Name:                 '' @ str_or (al_resource_name a) ''Not named'',
      ''  Estimated Monthly:    $'' @ fmt_money (al_cost a),
      ''  Threshold Exceeded:   $'' @ fmt_money (al_threshold_exceeded_usd a),
      ''  Baseline (avg):       $'' @ fmt_money (al_baseline_monthly_usd a),
      ''  Increase:             '' @ fmt_1f (al_cost_increase_percentage a) @ ''% above baseline'', [],
      ''  Provider:  '' @ upper (provider_value (al_provider a)),
      ''  Account:   '' @ al_account_id a,
      ''  Region:    '' @ al_region a, [],
      ''RECOMMENDED ACTIONS:'',
      join newline (numbered (\<lambda>i t. ''  '' @ show_nat (i + 1) @ ''. '' @ t) (al_recommended_actions a)), [],
      ''ACCOUNTABILITY:'', ''  '' @ al_accountability_note a, [],
      ''ESCALATION PATH:'', ''  '' @ al_escalation_path a, [],
      ''STATUS: '' @ upper (status_value (al_status a)),
      ''Alert ID: '' @ al_alert_id a,
      ''Generated: '' @ isoformat (al_created_at a),
      separator, []]"

section \<open>Processing an event\<close>

definition below_args :: "resource_event \<Rightarrow> log_args" where
  "below_args e = (default_args ''alert.below_threshold'' ''system'' (ev_resource_id e))
     \<lparr>la_provider := Some (ev_provider e), la_correlation_id := ev_correlation_id e,
      la_causation_id := ev_event_id e,
      la_details := [(''resource_type'', PStr (ev_resource_type e)),
        (''estimated_cost'', PFloat (ev_cost e)), (''creator'', PStr (ev_creator_identity e))]\<rparr>"

definition generated_args :: "resource_event \<Rightarrow> cost_alert \<Rightarrow> log_args" where
  "generated_args e a = (default_args ''alert.generated'' ''system'' (ev_resource_id e))
     \<lparr>la_provider := Some (ev_provider e), la_correlation_id := al_correlation_id a,
      la_causation_id := ev_event_id e,
      la_details := [(''alert_id'', PStr (al_alert_id a)),
        (''severity'', PStr (severity_value (al_severity a))), (''estimated_cost'', PFloat (al_cost a)),
        (''threshold_exceeded'', PFloat (al_threshold_exceeded_usd a)),
        (''creator'', PStr (al_resource_creator a)), (''creator_email'', PStr (al_creator_email a)),
        (''recommended_actions_count'', PInt (int (length (al_recommended_actions a))))],
      la_related_alert_id := al_alert_id a, la_related_policy_id := al_policy_id a\<rparr>"

definition violation_notice :: "nat \<Rightarrow> string" where
  "violation_notice n =
     ''POLICY VIOLATION: '' @ show_nat n @ '' policy violation(s) detected. Review and remediate immediately.''"

definition enrich :: "(cost_policy \<times> string list) list \<Rightarrow> cost_alert \<Rightarrow> cost_alert" where
  "enrich hits a =
     (if hits = [] then a
      else a\<lparr>al_recommended_actions := violation_notice (length hits) # al_recommended_actions a\<rparr>)"

text \<open>\<open>_dispatch_alert\<close>\<close>

definition dispatch_alert :: "('s, 'd) agent_setup \<Rightarrow> cost_alert \<Rightarrow> 'd \<Rightarrow> 'd" where
  "dispatch_alert su a d = as_send su a (format_alert a) d"

text \<open>
  \<open>process_event\<close>. The policies handed to the alert engine are the violated ones. An exception of
  the threshold engine leaves the stored event and the violation entries behind.
\<close>

definition process_event :: "('s, 'd) agent_setup \<Rightarrow> process_env \<Rightarrow> resource_event \<Rightarrow> ('s, 'd) alert_agent \<Rightarrow>
    (threshold_error + cost_alert option) \<times> ('s, 'd) alert_agent" where
  "process_event su v e ag =
     (let (hits, pe) = evaluate_event (as_sha su) (pn_violations v) e (aa_policies ag);
          (r, an) = evaluate_alert (pn_alert v) e (map fst hits) (aa_engine ag);
          ag1 = ag\<lparr>aa_events := as_store su e (aa_events ag), aa_policies := pe, aa_engine := an\<rparr>
      in case r of
           Inl err \<Rightarrow> (Inl err, ag1)
         | Inr None \<Rightarrow> (Inr None, agent_log su (below_args e) (pn_log v) ag1)
         | Inr (Some a0) \<Rightarrow>
             (let a = enrich hits a0; i = length (an_alerts an) - 1;
                  ag2 = ag1\<lparr>aa_engine := an\<lparr>an_alerts := (an_alerts an)[i := a],
                    an_thresholds := record_cost (ev_resource_type e) (ev_cost e) (an_thresholds an)\<rparr>,
                    aa_dispatcher := dispatch_alert su a (aa_dispatcher ag)\<rparr>;
                  ag3 = agent_log su (generated_args e a) (pn_log v) ag2
              in (Inr (Some a), ag3\<lparr>aa_dispatched := aa_dispatched ag @ [i]\<rparr>)))"

text \<open>\<open>process_events\<close>: an exception ends the batch.\<close>

fun process_events :: "('s, 'd) agent_setup \<Rightarrow> (process_env \<times> resource_event) list \<Rightarrow> ('s, 'd) alert_agent \<Rightarrow>
    (threshold_error + cost_alert list) \<times> ('s, 'd) alert_agent" where
  "process_events su [] ag = (Inr [], ag)"
| "process_events su ((v, e) # xs) ag =
     (case process_event su v e ag of
        (Inl err, ag1) \<Rightarrow> (Inl err, ag1)
      | (Inr a, ag1) \<Rightarrow>
          (case process_events su xs ag1 of
             (Inl err, ag2) \<Rightarrow> (Inl err, ag2)
           | (Inr alerts, ag2) \<Rightarrow> (Inr ((case a of None \<Rightarrow> [] | Some x \<Rightarrow> [x]) @ alerts), ag2)))"

section \<open>The life of an alert\<close>

definition find_alert :: "string \<Rightarrow> ('s, 'd) alert_agent \<Rightarrow> nat option" where
  "find_alert aid ag = find (\<lambda>i. al_alert_id (alert_at ag i) = aid) (aa_dispatched ag)"

definition set_alert :: "nat \<Rightarrow> cost_alert \<Rightarrow> ('s, 'd) alert_agent \<Rightarrow> ('s, 'd) alert_agent" where
  "set_alert i a ag = ag\<lparr>aa_engine := (aa_engine ag)\<lparr>an_alerts := (an_alerts (aa_engine ag))[i := a]\<rparr>\<rparr>"

definition acknowledge_alert :: "('s, 'd) agent_setup \<Rightarrow> log_env \<Rightarrow> string \<Rightarrow> string \<Rightarrow> ('s, 'd) alert_agent \<Rightarrow>
    cost_alert option \<times> ('s, 'd) alert_agent" where
  "acknowledge_alert su v aid who ag =
     (case find_alert aid ag of
        None \<Rightarrow> (None, ag)
      | Some i \<Rightarrow>
          (let a = (alert_at ag i)\<lparr>al_status := ACKNOWLEDGED, al_acknowledged_by := who\<rparr>
           in (Some a, agent_log su ((default_args ''alert.acknowledged'' who aid)
                \<lparr>la_provider := Some (al_provider a),
                 la_details := [(''severity'', PStr (severity_value (al_severity a))),
                   (''resource_id'', PStr (al_resource_id a))],
                 la_related_alert_id := aid\<rparr>) v (set_alert i a ag))))"

definition resolve_alert :: "('s, 'd) agent_setup \<Rightarrow> log_env \<Rightarrow> string \<Rightarrow> string \<Rightarrow> string \<Rightarrow> ('s, 'd) alert_agent \<Rightarrow>
    cost_alert option \<times> ('s, 'd) alert_agent" where
  "resolve_alert su v aid who resolution ag =
     (case find_alert aid ag of
        None \<Rightarrow> (None, ag)
      | Some i \<Rightarrow>
          (let a = (alert_at ag i)\<lparr>al_status := RESOLVED, al_resolved_by := who\<rparr>
           in (Some a, agent_log su ((default_args ''alert.resolved'' who aid)
                \<lparr>la_provider := Some (al_provider a),
                 la_details := [(''severity'', PStr (severity_value (al_severity a))),
                   (''resource_id'', PStr (al_resource_id a)), (''resolution_notes'', PStr resolution)],
                 la_related_alert_id := aid\<rparr>) v (set_alert i a ag))))"

definition get_alerts :: "severity option \<Rightarrow> action_status option \<Rightarrow> cloud_provider option \<Rightarrow> int \<Rightarrow>
    ('s, 'd) alert_agent \<Rightarrow> cost_alert list" where
  "get_alerts sev status provider limit ag =
     (let as = dispatched ag;
          as = (case sev of None \<Rightarrow> as | Some s \<Rightarrow> filter (\<lambda>a. al_severity a = s) as);
          as = (case status of None \<Rightarrow> as | Some s \<Rightarrow> filter (\<lambda>a. al_status a = s) as);
          as = (case provider of None \<Rightarrow> as | Some p \<Rightarrow> filter (\<lambda>a. al_provider a = p) as)
      in slice_last limit as)"

definition all_severities :: "severity list" where
  "all_severities = [INFO, WARNING, CRITICAL, EMERGENCY]"

definition all_statuses :: "action_status list" where
  "all_statuses = [PENDING, ACKNOWLEDGED, IN_PROGRESS, RESOLVED, ESCALATED]"

definition count_of :: "('a \<Rightarrow> bool) \<Rightarrow> 'a list \<Rightarrow> pyval" where
  "count_of P xs = PInt (int (length (filter P xs)))"

definition get_alert_stats :: "('s, 'd) alert_agent \<Rightarrow> (string, pyval) dict" where
  "get_alert_stats ag =
     (let as = dispatched ag
      in if as = [] then [(''total'', PInt 0)]
         else [(''total'', PInt (int (length as))),
           (''by_severity'', PDict (map (\<lambda>s. (severity_value s, count_of (\<lambda>a. al_severity a = s) as)) all_severities)),
           (''by_status'', PDict (map (\<lambda>s. (status_value s, count_of (\<lambda>a. al_status a = s) as)) all_statuses)),
           (''total_cost_impact'', PFloat (sum_list (map al_cost as))),
           (''unacknowledged'', count_of (\<lambda>a. al_status a = PENDING) as)])"

section \<open>The pipeline\<close>

definition agent_ok :: "(string \<Rightarrow> string) \<Rightarrow> ('s, 'd) alert_agent \<Rightarrow> bool" where
  "agent_ok sha ag \<longleftrightarrow>
     audit_ok sha (pe_audit (aa_policies ag)) \<and> defaults_ordered (an_thresholds (aa_engine ag)) \<and>
     2 \<le> te_min_datapoints (an_thresholds (aa_engine ag)) \<and>
     (\<forall>i \<in> set (aa_dispatched ag). i < length (an_alerts (aa_engine ag)))"

lemma agent_ok_init:
  assumes "init_thresholds k cfg = Some te" and "cfg = None \<or> cfg = Some config_defaults"
    and "audit_ok sha (pe_audit pe)"
  shows "agent_ok sha (init_alert_agent te cfg pe s d)"
  using assms(3) defaults_ordered_init [OF assms(1,2)] init_min [OF assms(1,2)]
  by (simp add: agent_ok_def init_alert_agent_def)

definition event_threshold :: "process_env \<Rightarrow> resource_event \<Rightarrow> ('s, 'd) alert_agent \<Rightarrow> cost_threshold" where
  "event_threshold v e ag =
     projr (calculate_threshold (aw_now (pn_alert v)) (ev_provider e) (ev_resource_type e)
       (an_thresholds (aa_engine ag)))"

lemma event_threshold:
  assumes "agent_ok sha ag"
  shows "calculate_threshold (aw_now (pn_alert v)) (ev_provider e) (ev_resource_type e)
    (an_thresholds (aa_engine ag)) = Inr (event_threshold v e ag)"
proof -
  obtain th where "calculate_threshold (aw_now (pn_alert v)) (ev_provider e) (ev_resource_type e)
      (an_thresholds (aa_engine ag)) = Inr th"
    using calculate_threshold_total assms unfolding agent_ok_def by blast
  then show ?thesis by (simp add: event_threshold_def)
qed

lemma record_cost_min [simp]: "te_min_datapoints (record_cost rt x te) = te_min_datapoints te"
  by (simp add: record_cost_def)

text \<open>The policies an event violates, and what the trail was told.\<close>

definition violations_of :: "policy_engine \<Rightarrow> resource_event \<Rightarrow> (cost_policy \<times> string list) list" where
  "violations_of pe e = violating e (dvalues (pe_policies pe))"

definition policy_trail :: "policy_engine \<Rightarrow> log_args list" where
  "policy_trail pe = map entry_args (au_entries (pe_audit pe))"

lemma map_violation_calls: "map fst (violation_calls envs e n hits) = map (\<lambda>(p, vs). violation_args e p vs) hits"
  by (induction hits arbitrary: n) (auto simp: violation_calls_def)

text \<open>What is left of the agent after the policies have been evaluated.\<close>

lemma evaluate_event_violations:
  "evaluate_event sha envs e pe = (violations_of pe e, pe\<lparr>pe_audit :=
     log_all sha (violation_calls envs e 0 (violations_of pe e)) (pe_audit pe)\<rparr>)"
  by (simp add: evaluate_event_def evaluate_each_violating violations_of_def)

lemma process_below:
  assumes "agent_ok (as_sha su) ag" and "ev_cost e < th_warning_usd (event_threshold v e ag)"
  shows "process_event su v e ag = (Inr None, agent_log su (below_args e) (pn_log v)
    (ag\<lparr>aa_events := as_store su e (aa_events ag),
        aa_policies := snd (evaluate_event (as_sha su) (pn_violations v) e (aa_policies ag))\<rparr>))"
proof -
  have th: "calculate_threshold (aw_now (pn_alert v)) (ev_provider e) (ev_resource_type e)
      (an_thresholds (aa_engine ag)) = Inr (event_threshold v e ag)" by (rule event_threshold [OF assms(1)])
  have "ordered_threshold (event_threshold v e ag)"
    using threshold_ordered th assms(1) unfolding agent_ok_def by blast
  then have "determine_severity (ev_cost e) (event_threshold v e ag) = None"
    using assms(2) by (auto simp: determine_severity_def ordered_threshold_def)
  then show ?thesis by (simp add: process_event_def evaluate_alert_def th case_prod_beta Let_def)
qed

text \<open>The agent after an event that raised the alert \<open>a\<close>.\<close>

definition after_alert :: "('s, 'd) agent_setup \<Rightarrow> process_env \<Rightarrow> resource_event \<Rightarrow> cost_alert \<Rightarrow>
    ('s, 'd) alert_agent \<Rightarrow> ('s, 'd) alert_agent" where
  "after_alert su v e a ag = (agent_log su (generated_args e a) (pn_log v)
         (ag\<lparr>aa_events := as_store su e (aa_events ag),
            aa_policies := snd (evaluate_event (as_sha su) (pn_violations v) e (aa_policies ag)),
            aa_engine := (aa_engine ag)\<lparr>an_alerts := an_alerts (aa_engine ag) @ [a],
              an_thresholds := record_cost (ev_resource_type e) (ev_cost e) (an_thresholds (aa_engine ag))\<rparr>,
            aa_dispatcher := dispatch_alert su a (aa_dispatcher ag)\<rparr>))
           \<lparr>aa_dispatched := aa_dispatched ag @ [length (an_alerts (aa_engine ag))]\<rparr>"

lemma process_above:
  assumes "agent_ok (as_sha su) ag" and "\<not> ev_cost e < th_warning_usd (event_threshold v e ag)"
  obtains sev where "determine_severity (ev_cost e) (event_threshold v e ag) = Some sev"
    "process_event su v e ag =
      (let a = enrich (violations_of (aa_policies ag) e) (make_alert (pn_alert v) (aa_engine ag) e (map fst (violations_of (aa_policies ag) e))
             (event_threshold v e ag) sev)
       in (Inr (Some a), after_alert su v e a ag))"
proof -
  have th: "calculate_threshold (aw_now (pn_alert v)) (ev_provider e) (ev_resource_type e)
      (an_thresholds (aa_engine ag)) = Inr (event_threshold v e ag)" by (rule event_threshold [OF assms(1)])
  have "determine_severity (ev_cost e) (event_threshold v e ag) \<noteq> None"
    using assms(2) by (simp add: determine_severity_def)
  then obtain sev where sev: "determine_severity (ev_cost e) (event_threshold v e ag) = Some sev" by blast
  show ?thesis
    by (rule that [OF sev]) (simp add: process_event_def evaluate_alert_def th sev evaluate_event_violations after_alert_def Let_def)
qed

lemma policy_trail_log [simp]: "policy_trail (policy_log sha a v pe) = policy_trail pe @ [a]"
  by (simp add: policy_trail_def policy_log_def)

lemma policy_trail_evaluate [simp]:
  "policy_trail (snd (evaluate_event sha envs e pe)) =
     policy_trail pe @ map (\<lambda>(p, vs). violation_args e p vs) (violations_of pe e)"
  by (simp add: policy_trail_def evaluate_event_violations log_all_args map_violation_calls)

lemma audit_ok_policies [simp]:
  "audit_ok sha (pe_audit pe) \<Longrightarrow> audit_ok sha (pe_audit (snd (evaluate_event sha envs e pe)))"
  "audit_ok sha (pe_audit pe) \<Longrightarrow> audit_ok sha (pe_audit (policy_log sha a v pe))"
  by (simp_all add: evaluate_event_violations log_all_ok policy_log_def)

lemma dispatched_grow:
  assumes "\<forall>i \<in> set (aa_dispatched ag). i < length (an_alerts (aa_engine ag))"
    and "an_alerts (aa_engine ag') = an_alerts (aa_engine ag) @ [a]"
    and "aa_dispatched ag' = aa_dispatched ag @ [length (an_alerts (aa_engine ag))]"
  shows "dispatched ag' = dispatched ag @ [a]"
  using assms by (auto simp: dispatched_def alert_at_def nth_append)

text \<open>One event through the pipeline: what happens whatever the event, and what depends on its cost.\<close>

lemma process_event_step:
  assumes "agent_ok (as_sha su) ag"
  obtains r ag' where "process_event su v e ag = (Inr r, ag')" "agent_ok (as_sha su) ag'"
    "aa_events ag' = as_store su e (aa_events ag)"
    "policy_trail (aa_policies ag') = policy_trail (aa_policies ag) @
       map (\<lambda>(p, vs). violation_args e p vs) (violations_of (aa_policies ag) e) @
       [case r of None \<Rightarrow> below_args e | Some a \<Rightarrow> generated_args e a]"
    "r = None \<longleftrightarrow> ev_cost e < th_warning_usd (event_threshold v e ag)"
    "case r of None \<Rightarrow> dispatched ag' = dispatched ag \<and> aa_dispatcher ag' = aa_dispatcher ag \<and> aa_engine ag' = aa_engine ag
     | Some a \<Rightarrow> dispatched ag' = dispatched ag @ [a] \<and> aa_dispatcher ag' = as_send su a (format_alert a) (aa_dispatcher ag) \<and>
         an_thresholds (aa_engine ag') = record_cost (ev_resource_type e) (ev_cost e) (an_thresholds (aa_engine ag)) \<and>
         (\<exists>sev. a = enrich (violations_of (aa_policies ag) e) (make_alert (pn_alert v) (aa_engine ag) e
           (map fst (violations_of (aa_policies ag) e)) (event_threshold v e ag) sev))"
proof (cases "ev_cost e < th_warning_usd (event_threshold v e ag)")
  case True
  let ?ag' = "agent_log su (below_args e) (pn_log v) (ag\<lparr>aa_events := as_store su e (aa_events ag),
    aa_policies := snd (evaluate_event (as_sha su) (pn_violations v) e (aa_policies ag))\<rparr>)"
  have "agent_ok (as_sha su) ?ag'" using assms by (auto simp: agent_ok_def agent_log_def)
  then show ?thesis
    by (rule that [OF process_below [OF assms True]]) (simp_all add: agent_log_def True dispatched_def alert_at_def)
next
  case False
  let ?hits = "violations_of (aa_policies ag) e"
  from process_above [OF assms False] obtain sev where
    "process_event su v e ag = (let a = enrich ?hits (make_alert (pn_alert v) (aa_engine ag) e (map fst ?hits)
       (event_threshold v e ag) sev) in (Inr (Some a), after_alert su v e a ag))" .
  then obtain a where run: "process_event su v e ag = (Inr (Some a), after_alert su v e a ag)"
    and a: "a = enrich ?hits (make_alert (pn_alert v) (aa_engine ag) e (map fst ?hits) (event_threshold v e ag) sev)"
    by (simp only: Let_def)
  let ?ag' = "after_alert su v e a ag"
  have "dispatched ?ag' = dispatched ag @ [a]"
    by (rule dispatched_grow) (use assms in \<open>auto simp: after_alert_def agent_ok_def agent_log_def\<close>)
  moreover have "agent_ok (as_sha su) ?ag'"
    using assms by (auto simp: after_alert_def agent_ok_def agent_log_def less_SucI)
  ultimately show ?thesis
    by (intro that [OF run]) (use False a in \<open>auto simp: after_alert_def agent_log_def dispatch_alert_def\<close>)
qed

text \<open>
  C26: Whatever the event, processing it stores it, reports the violated policies and then its outcome
  to the audit trail and nothing else, and keeps the trail verifiable. It raises an alert exactly
  when the cost reaches the warning level: the alert is dispatched once, with its message, joins
  the agent's list as pending, names the event, opens with the policy violations when there are
  any, and its cost enters the history; otherwise alerts, dispatcher and thresholds stay as they
  were.
\<close>
theorem alert_pipeline_exact:
  assumes "agent_ok (as_sha su) ag" and "process_event su v e ag = (r, ag')"
    and "calculate_threshold (aw_now (pn_alert v)) (ev_provider e) (ev_resource_type e)
      (an_thresholds (aa_engine ag)) = Inr th"
  defines "hits \<equiv> violating e (dvalues (pe_policies (aa_policies ag)))"
  shows "aa_events ag' = as_store su e (aa_events ag) \<and> agent_ok (as_sha su) ag' \<and>
    verify_integrity (as_sha su) (pe_audit (aa_policies ag')) = [] \<and>
    (\<exists>final. map entry_args (agent_trail ag') =
       map entry_args (agent_trail ag) @ map (\<lambda>(p, vs). violation_args e p vs) hits @ [final] \<and>
     (if ev_cost e < th_warning_usd th
      then r = Inr None \<and> final = below_args e \<and> dispatched ag' = dispatched ag \<and>
        aa_dispatcher ag' = aa_dispatcher ag \<and> aa_engine ag' = aa_engine ag
      else (\<exists>a. r = Inr (Some a) \<and> final = generated_args e a \<and> dispatched ag' = dispatched ag @ [a] \<and>
        aa_dispatcher ag' = as_send su a (format_alert a) (aa_dispatcher ag) \<and>
        al_status a = PENDING \<and> al_source_event_id a = ev_event_id e \<and> al_cost a = ev_cost e \<and>
        (hits \<noteq> [] \<longrightarrow> hd (al_recommended_actions a) = violation_notice (length hits)) \<and>
        history_of (an_thresholds (aa_engine ag')) (ev_resource_type e) =
          history_of (an_thresholds (aa_engine ag)) (ev_resource_type e) @ [ev_cost e])))"
proof -
  have th: "event_threshold v e ag = th" using event_threshold [OF assms(1), of v e] assms(3) by simp
  have hits: "violations_of (aa_policies ag) e = hits" by (simp add: hits_def violations_of_def)
  from process_event_step [OF assms(1), of v e] obtain r0 ag0 where
    run: "process_event su v e ag = (Inr r0, ag0)" and ok: "agent_ok (as_sha su) ag0"
    and st: "aa_events ag0 = as_store su e (aa_events ag)"
    and trail: "policy_trail (aa_policies ag0) = policy_trail (aa_policies ag) @
       map (\<lambda>(p, vs). violation_args e p vs) (violations_of (aa_policies ag) e) @
       [case r0 of None \<Rightarrow> below_args e | Some a \<Rightarrow> generated_args e a]"
    and none: "r0 = None \<longleftrightarrow> ev_cost e < th_warning_usd (event_threshold v e ag)"
    and rest: "case r0 of None \<Rightarrow> dispatched ag0 = dispatched ag \<and> aa_dispatcher ag0 = aa_dispatcher ag \<and> aa_engine ag0 = aa_engine ag
     | Some a \<Rightarrow> dispatched ag0 = dispatched ag @ [a] \<and> aa_dispatcher ag0 = as_send su a (format_alert a) (aa_dispatcher ag) \<and>
         an_thresholds (aa_engine ag0) = record_cost (ev_resource_type e) (ev_cost e) (an_thresholds (aa_engine ag)) \<and>
         (\<exists>sev. a = enrich (violations_of (aa_policies ag) e) (make_alert (pn_alert v) (aa_engine ag) e
           (map fst (violations_of (aa_policies ag) e)) (event_threshold v e ag) sev))" .
  have r: "r = Inr r0" and ag': "ag' = ag0" using assms(2) run by simp_all
  have "verify_integrity (as_sha su) (pe_audit (aa_policies ag')) = []"
    using ok ag' by (auto simp: agent_ok_def intro: audit_ok_verify)
  moreover have "history_of (record_cost rt x te) rt = history_of te rt @ [x]" for rt x te
    by (simp add: history_of_def record_cost_def dget_or_def)
  ultimately show ?thesis
    using ok st trail none rest unfolding r ag' hits th
    by (cases r0) (auto simp: agent_trail_def policy_trail_def enrich_def make_alert_def Let_def)
qed

definition demo_agent_setup :: "(mem_store, string list) agent_setup" where
  "demo_agent_setup = \<lparr>as_sha = demo_sha, as_store = mem_store_event, as_send = (\<lambda>a m d. d @ [al_alert_id a])\<rparr>"

definition demo_process :: process_env where
  "demo_process = \<lparr>pn_alert = demo_alert_env, pn_violations = demo_env, pn_log = demo_env 0\<rparr>"

definition demo_agent :: "(mem_store, string list) alert_agent" where
  "demo_agent = init_alert_agent (an_thresholds demo_alerts) None demo_engine init_mem []"

lemma demo_agent_ok: "agent_ok (as_sha demo_agent_setup) demo_agent"
  using demo_defaults
  by (simp add: agent_ok_def demo_agent_def init_alert_agent_def demo_engine_def demo_alerts_def demo_agent_setup_def)

theorem alert_pipeline_exact_witness:
  "\<exists>a. dispatched (snd (process_event demo_agent_setup demo_process demo_alert_event demo_agent)) = [a] \<and>
     al_cost a = 2500 \<and>
     aa_events (snd (process_event demo_agent_setup demo_process demo_alert_event demo_agent)) =
       mem_store_event demo_alert_event init_mem"
proof -
  let ?run = "process_event demo_agent_setup demo_process demo_alert_event demo_agent"
  obtain th where th: "calculate_threshold (aw_now (pn_alert demo_process)) (ev_provider demo_alert_event)
      (ev_resource_type demo_alert_event) (an_thresholds (aa_engine demo_agent)) = Inr th"
    "th_warning_usd th = 500"
    using demo_threshold by (auto simp: demo_agent_def init_alert_agent_def demo_process_def)
  have run: "?run = (fst ?run, snd ?run)" by simp
  have "ev_cost demo_alert_event = 2500" "dispatched demo_agent = []" "aa_events demo_agent = init_mem"
    "as_store demo_agent_setup = mem_store_event"
    by (simp_all add: demo_alert_event_def demo_agent_def init_alert_agent_def dispatched_def demo_agent_setup_def)
  with alert_pipeline_exact [OF demo_agent_ok run th(1)] th(2) show ?thesis by auto
qed

section \<open>Batches\<close>

definition is_outcome :: "log_args \<Rightarrow> bool" where
  "is_outcome a \<longleftrightarrow> la_action a = ''alert.below_threshold'' \<or> la_action a = ''alert.generated''"

lemma is_outcome_args [simp]:
  "is_outcome (below_args e)" "is_outcome (generated_args e a)" "\<not> is_outcome (violation_args e p vs)"
  by (simp_all add: is_outcome_def below_args_def generated_args_def violation_args_def default_args_def)

definition event_key :: "log_args \<Rightarrow> string \<times> string" where
  "event_key a = (la_causation_id a, la_target a)"

lemma event_key_args [simp]:
  "event_key (below_args e) = (ev_event_id e, ev_resource_id e)"
  "event_key (generated_args e a) = (ev_event_id e, ev_resource_id e)"
  by (simp_all add: event_key_def below_args_def generated_args_def default_args_def)

definition outcome_keys :: "('s, 'd) alert_agent \<Rightarrow> (string \<times> string) list" where
  "outcome_keys ag = map event_key (filter is_outcome (policy_trail (aa_policies ag)))"

text \<open>A batch never fails, and every event of it leaves one outcome in the trail, in order.\<close>

lemma process_events_run:
  assumes "agent_ok (as_sha su) ag"
  shows "\<exists>alerts ag'. process_events su xs ag = (Inr alerts, ag') \<and> agent_ok (as_sha su) ag' \<and>
    aa_events ag' = fold (as_store su) (map snd xs) (aa_events ag) \<and>
    outcome_keys ag' = outcome_keys ag @ map (\<lambda>(v, e). (ev_event_id e, ev_resource_id e)) xs \<and>
    dispatched ag' = dispatched ag @ alerts"
  using assms
proof (induction xs arbitrary: ag)
  case (Cons x xs)
  obtain v e where x: "x = (v, e)" by (cases x)
  from process_event_step [OF Cons.prems, of v e] obtain r ag1 where
    run: "process_event su v e ag = (Inr r, ag1)" and ok: "agent_ok (as_sha su) ag1"
    and st: "aa_events ag1 = as_store su e (aa_events ag)"
    and trail: "policy_trail (aa_policies ag1) = policy_trail (aa_policies ag) @
       map (\<lambda>(p, vs). violation_args e p vs) (violations_of (aa_policies ag) e) @
       [case r of None \<Rightarrow> below_args e | Some a \<Rightarrow> generated_args e a]"
    and "r = None \<longleftrightarrow> ev_cost e < th_warning_usd (event_threshold v e ag)"
    and rest: "case r of None \<Rightarrow> dispatched ag1 = dispatched ag \<and> aa_dispatcher ag1 = aa_dispatcher ag \<and> aa_engine ag1 = aa_engine ag
     | Some a \<Rightarrow> dispatched ag1 = dispatched ag @ [a] \<and> aa_dispatcher ag1 = as_send su a (format_alert a) (aa_dispatcher ag) \<and>
         an_thresholds (aa_engine ag1) = record_cost (ev_resource_type e) (ev_cost e) (an_thresholds (aa_engine ag)) \<and>
         (\<exists>sev. a = enrich (violations_of (aa_policies ag) e) (make_alert (pn_alert v) (aa_engine ag) e
           (map fst (violations_of (aa_policies ag) e)) (event_threshold v e ag) sev))" .
  have key: "outcome_keys ag1 = outcome_keys ag @ [(ev_event_id e, ev_resource_id e)]"
    by (cases r) (simp_all add: outcome_keys_def trail case_prod_beta o_def filter_empty_conv)
  from Cons.IH [OF ok] obtain alerts ag' where
    "process_events su xs ag1 = (Inr alerts, ag')" "agent_ok (as_sha su) ag'"
    "aa_events ag' = fold (as_store su) (map snd xs) (aa_events ag1)"
    "outcome_keys ag' = outcome_keys ag1 @ map (\<lambda>(v, e). (ev_event_id e, ev_resource_id e)) xs"
    "dispatched ag' = dispatched ag1 @ alerts" by blast
  then show ?case using run st key rest by (cases r) (simp_all add: x)
qed simp

section \<open>Acknowledging and resolving\<close>

lemma find_alert_in:
  "find_alert aid ag = Some i \<Longrightarrow> i \<in> set (aa_dispatched ag) \<and> al_alert_id (alert_at ag i) = aid"
  by (auto simp: find_alert_def find_Some_iff)

lemma alert_at_set:
  "i < length (an_alerts (aa_engine ag)) \<Longrightarrow> alert_at (set_alert i a ag) j = (if j = i then a else alert_at ag j)"
  by (simp add: alert_at_def set_alert_def nth_list_update)

lemma alert_at_log [simp]: "alert_at (agent_log su a v ag) = alert_at ag"
  by (rule ext) (simp add: alert_at_def agent_log_def)

text \<open>
  Acknowledging marks the alert with that id in the one place both the agent and the alert engine
  read it from, and no other.
\<close>

lemma acknowledge_marks:
  assumes "agent_ok (as_sha su) ag" and "acknowledge_alert su v aid who ag = (Some a, ag')"
  shows "al_status a = ACKNOWLEDGED \<and> al_acknowledged_by a = who \<and> al_alert_id a = aid \<and>
    agent_ok (as_sha su) ag' \<and> (\<exists>i \<in> set (aa_dispatched ag). alert_at ag' i = a \<and> (\<forall>j. j \<noteq> i \<longrightarrow> alert_at ag' j = alert_at ag j))"
proof -
  obtain i where i: "find_alert aid ag = Some i"
    using assms(2) by (auto simp: acknowledge_alert_def split: option.splits)
  have "i < length (an_alerts (aa_engine ag))"
    using find_alert_in [OF i] assms(1) by (simp add: agent_ok_def)
  have a: "a = (alert_at ag i)\<lparr>al_status := ACKNOWLEDGED, al_acknowledged_by := who\<rparr>"
    using assms(2) by (auto simp: acknowledge_alert_def i Let_def)
  have "\<exists>w. ag' = agent_log su w v (set_alert i a ag)"
    using assms(2) unfolding a acknowledge_alert_def i Let_def option.case prod.inject by blast
  then obtain w where ag': "ag' = agent_log su w v (set_alert i a ag)" ..
  have "alert_at ag' j = (if j = i then a else alert_at ag j)" for j
    using alert_at_set [OF \<open>i < _\<close>] by (simp add: ag')
  moreover have "agent_ok (as_sha su) ag'"
    using assms(1) by (simp add: ag' agent_ok_def agent_log_def set_alert_def)
  moreover have "al_alert_id a = aid" "al_status a = ACKNOWLEDGED" "al_acknowledged_by a = who"
    using find_alert_in [OF i] by (simp_all add: a)
  ultimately show ?thesis using find_alert_in [OF i] by auto
qed

end
