(* ===== verification/Approvals.thy ===== *)
theory Approvals
  imports Models
begin

text \<open>
  The out-of-band approval store, \<open>core/approvals.py\<close>: requests, decisions with signed tokens,
  and \<open>ApprovalStore\<close>. HMAC is the parameter \<open>hmac\<close>; the signing key comes from the environment
  variable the audit trail uses. The store mutates the request object it holds, which is the value
  under the request's key; the lock makes each operation one step.
\<close>

section \<open>Data\<close>

datatype approval_verdict = Pending | Approved | Denied | Expired | Revoked

fun verdict_value :: "approval_verdict \<Rightarrow> string" where
  "verdict_value Pending = ''pending''"
| "verdict_value Approved = ''approved''"
| "verdict_value Denied = ''denied''"
| "verdict_value Expired = ''expired''"
| "verdict_value Revoked = ''revoked''"

record approval_decision =
  ad_decision_id :: string
  ad_request_id :: string
  ad_approver :: string
  ad_verdict :: approval_verdict
  ad_notes :: string
  ad_decided_at :: timestamp
  ad_token :: string

record approval_request =
  ar_request_id :: string
  ar_session_id :: string
  ar_correlation_id :: string
  ar_tool_name :: string
  ar_action_summary :: string
  ar_arguments_preview :: "(string, pyval) dict"
  ar_requested_by :: string
  ar_approver_pool :: "string list"
  ar_quorum :: int
  ar_blast_radius :: string
  ar_rollback_procedure :: string
  ar_rationale :: string
  ar_created_at :: timestamp
  ar_expires_at :: timestamp
  ar_verdict :: approval_verdict
  ar_decisions :: "approval_decision list"

datatype approval_error =
    InvalidVerdict approval_verdict
  | ApprovalNotFound string
  | ApprovalExpired string
  | SelfApproval
  | DuplicateApprover string

definition is_expired :: "timestamp \<Rightarrow> approval_request \<Rightarrow> bool" where
  "is_expired now r \<longleftrightarrow> ar_expires_at r < now"

definition approvals :: "approval_request \<Rightarrow> approval_decision list" where
  "approvals r = filter (\<lambda>d. ad_verdict d = Approved) (ar_decisions r)"

definition is_satisfied :: "approval_request \<Rightarrow> bool" where
  "is_satisfied r \<longleftrightarrow> ar_quorum r \<le> int (length (approvals r))"

section \<open>Decision tokens\<close>

definition signing_key :: "string \<Rightarrow> string" where
  "signing_key material =
     (if 32 \<le> length material then material else replicate 32 (char_of (0::nat)))"

definition token_payload :: "string \<Rightarrow> string \<Rightarrow> approval_verdict \<Rightarrow> string" where
  "token_payload rid who v = rid @ ''|'' @ who @ ''|'' @ verdict_value v"

definition issue_decision_token :: "(string \<Rightarrow> string \<Rightarrow> string) \<Rightarrow> string \<Rightarrow> string \<Rightarrow> string \<Rightarrow>
    approval_verdict \<Rightarrow> string" where
  "issue_decision_token hmac material rid who v =
     hmac (signing_key material) (token_payload rid who v)"

definition verify_decision_token :: "(string \<Rightarrow> string \<Rightarrow> string) \<Rightarrow> string \<Rightarrow> string \<Rightarrow> string \<Rightarrow>
    approval_verdict \<Rightarrow> string \<Rightarrow> bool" where
  "verify_decision_token hmac material rid who v token \<longleftrightarrow>
     issue_decision_token hmac material rid who v = token"

section \<open>The store\<close>

type_synonym approval_store = "(string, approval_request) dict"

text \<open>What an operation draws from its surroundings: clock, fresh decision id, signing key.\<close>

record approval_env =
  ap_now :: timestamp
  ap_decision_id :: string
  ap_key :: string

definition put :: "approval_request \<Rightarrow> approval_store \<Rightarrow> approval_store" where
  "put r st = dset st (ar_request_id r) r"

definition get :: "string \<Rightarrow> approval_store \<Rightarrow> approval_error + approval_request" where
  "get rid st = (case dget st rid of None \<Rightarrow> Inl (ApprovalNotFound rid) | Some r \<Rightarrow> Inr r)"

definition list_pending :: "string option \<Rightarrow> string option \<Rightarrow> timestamp \<Rightarrow> approval_store \<Rightarrow>
    approval_request list" where
  "list_pending session approver now st =
     filter (\<lambda>r. ar_verdict r = Pending \<and> \<not> is_expired now r \<and>
         (case session of None \<Rightarrow> True | Some s \<Rightarrow> s = [] \<or> ar_session_id r = s) \<and>
         (case approver of None \<Rightarrow> True
          | Some a \<Rightarrow> a = [] \<or> ar_approver_pool r = [] \<or> a \<in> set (ar_approver_pool r)))
       (dvalues st)"

definition list_expired :: "timestamp \<Rightarrow> approval_store \<Rightarrow> approval_request list" where
  "list_expired now st = filter (\<lambda>r. ar_verdict r = Pending \<and> is_expired now r) (dvalues st)"

definition revoke :: "approval_env \<Rightarrow> string \<Rightarrow> string \<Rightarrow> string \<Rightarrow> approval_store \<Rightarrow>
    (approval_error + approval_request) \<times> approval_store" where
  "revoke v rid actor reason st =
     (case dget st rid of
        None \<Rightarrow> (Inl (ApprovalNotFound rid), st)
      | Some r \<Rightarrow>
          if ar_verdict r \<noteq> Pending then (Inr r, st)
          else (let d = \<lparr>ad_decision_id = ap_decision_id v, ad_request_id = rid,
                      ad_approver = actor, ad_verdict = Revoked, ad_notes = reason,
                      ad_decided_at = ap_now v, ad_token = []\<rparr>;
                    r' = r\<lparr>ar_verdict := Revoked, ar_decisions := ar_decisions r @ [d]\<rparr>
                in (Inr r', dset st rid r')))"

text \<open>
  \<open>record_decision\<close>, check by check in the source's order. An expired request is marked so
  before the error is raised, whatever its verdict was.
\<close>

definition record_decision :: "(string \<Rightarrow> string \<Rightarrow> string) \<Rightarrow> approval_env \<Rightarrow> string \<Rightarrow> string \<Rightarrow>
    approval_verdict \<Rightarrow> string \<Rightarrow> approval_store \<Rightarrow>
    (approval_error + approval_request) \<times> approval_store" where
  "record_decision hmac v rid who verdict notes st =
     (if verdict \<noteq> Approved \<and> verdict \<noteq> Denied then (Inl (InvalidVerdict verdict), st)
      else case dget st rid of
        None \<Rightarrow> (Inl (ApprovalNotFound rid), st)
      | Some r \<Rightarrow>
          if is_expired (ap_now v) r
          then (Inl (ApprovalExpired rid), dset st rid (r\<lparr>ar_verdict := Expired\<rparr>))
          else if ar_verdict r \<noteq> Pending then (Inr r, st)
          else if who = ar_requested_by r then (Inl SelfApproval, st)
          else if list_ex (\<lambda>d. ad_approver d = who) (ar_decisions r)
          then (Inl (DuplicateApprover who), st)
          else
            (let d = \<lparr>ad_decision_id = ap_decision_id v, ad_request_id = rid, ad_approver = who,
                   ad_verdict = verdict, ad_notes = notes, ad_decided_at = ap_now v,
                   ad_token = issue_decision_token hmac (ap_key v) rid who verdict\<rparr>;
                 r1 = r\<lparr>ar_decisions := ar_decisions r @ [d]\<rparr>;
                 r2 = (if verdict = Denied then r1\<lparr>ar_verdict := Denied\<rparr>
                       else if is_satisfied r1 then r1\<lparr>ar_verdict := Approved\<rparr>
                       else r1)
             in (Inr r2, dset st rid r2)))"

definition sweep_expired :: "timestamp \<Rightarrow> approval_store \<Rightarrow> int \<times> approval_store" where
  "sweep_expired now st =
     (int (length (list_expired now st)),
      dmap_value (\<lambda>r. if ar_verdict r = Pending \<and> is_expired now r
                       then r\<lparr>ar_verdict := Expired\<rparr> else r) st)"

definition all_records :: "approval_store \<Rightarrow> approval_request list" where
  "all_records st = dvalues st"

section \<open>Defaults and helpers\<close>

definition quorum_for :: "bool \<Rightarrow> int" where
  "quorum_for irreversible = (if irreversible then 2 else 1)"

definition default_ttl :: "bool \<Rightarrow> int" where
  "default_ttl batch = (if batch then 24 * 3600 else 15 * 60)"

text \<open>\<open>all_pool_members\<close>: the loops over pools and members with the \<open>seen\<close> set.\<close>

fun merge_members :: "string list \<Rightarrow> string list \<Rightarrow> string list" where
  "merge_members out [] = out"
| "merge_members out (m # ms) = merge_members (if m \<in> set out then out else out @ [m]) ms"

definition all_pool_members :: "string list list \<Rightarrow> string list" where
  "all_pool_members pools = merge_members [] (concat pools)"

text \<open>\<open>to_trace_step_kwargs\<close>: the tri-state \<open>approved\<close> field of the trace step.\<close>

definition trace_approved :: "approval_request \<Rightarrow> bool option" where
  "trace_approved r =
     (if ar_verdict r = Approved then Some True
      else if ar_verdict r = Denied then Some False else None)"

section \<open>The invariant of a request and of the store\<close>

definition votes :: "approval_request \<Rightarrow> approval_decision list" where
  "votes r = filter (\<lambda>d. ad_verdict d = Approved \<or> ad_verdict d = Denied) (ar_decisions r)"

text \<open>
  Nobody votes twice and the requester never votes; a pending request has only approvals, fewer
  than its quorum once there is one; an approved one has its quorum and no denial.
\<close>

definition request_ok :: "string \<Rightarrow> approval_request \<Rightarrow> bool" where
  "request_ok rid r \<longleftrightarrow>
     ar_request_id r = rid \<and> distinct (map ad_approver (votes r)) \<and>
     ar_requested_by r \<notin> ad_approver ` set (votes r) \<and>
     (ar_verdict r = Pending \<longrightarrow>
        list_all (\<lambda>d. ad_verdict d = Approved) (ar_decisions r) \<and>
        (ar_decisions r = [] \<or> int (length (ar_decisions r)) < ar_quorum r)) \<and>
     (ar_verdict r = Approved \<longrightarrow>
        list_all (\<lambda>d. ad_verdict d = Approved) (ar_decisions r) \<and> is_satisfied r)"

definition store_ok :: "approval_store \<Rightarrow> bool" where
  "store_ok st \<longleftrightarrow> dict_ok st \<and> (\<forall>rid r. dget st rid = Some r \<longrightarrow> request_ok rid r)"

definition fresh_request :: "approval_request \<Rightarrow> bool" where
  "fresh_request r \<longleftrightarrow> ar_verdict r = Pending \<and> ar_decisions r = []"

lemma store_ok_Nil [simp, inv_intros]: "store_ok []"
  by (simp add: store_ok_def)

lemma store_ok_dset [inv_intros]: "store_ok st \<Longrightarrow> request_ok rid r \<Longrightarrow> store_ok (dset st rid r)"
  by (simp add: store_ok_def)

lemma store_ok_get: "store_ok st \<Longrightarrow> dget st rid = Some r \<Longrightarrow> request_ok rid r"
  by (simp add: store_ok_def)

lemma request_ok_fresh: "fresh_request r \<Longrightarrow> request_ok (ar_request_id r) r"
  by (simp add: request_ok_def fresh_request_def votes_def)

lemma request_ok_expire: "request_ok rid r \<Longrightarrow> request_ok rid (r\<lparr>ar_verdict := Expired\<rparr>)"
  by (simp add: request_ok_def votes_def)

lemma request_ok_revoke:
  "request_ok rid r \<Longrightarrow> ad_verdict d = Revoked \<Longrightarrow>
   request_ok rid (r\<lparr>ar_verdict := Revoked, ar_decisions := ar_decisions r @ [d]\<rparr>)"
  by (simp add: request_ok_def votes_def)

lemma request_ok_vote:
  assumes ok: "request_ok rid r" and pending: "ar_verdict r = Pending"
    and vote: "ad_verdict d = Approved \<or> ad_verdict d = Denied"
    and new: "ad_approver d \<noteq> ar_requested_by r" "\<not> list_ex (\<lambda>x. ad_approver x = ad_approver d) (ar_decisions r)"
  shows "ad_verdict d = Denied \<Longrightarrow>
      request_ok rid (r\<lparr>ar_decisions := ar_decisions r @ [d], ar_verdict := Denied\<rparr>)"
    and "ad_verdict d = Approved \<Longrightarrow> is_satisfied (r\<lparr>ar_decisions := ar_decisions r @ [d]\<rparr>) \<Longrightarrow>
      request_ok rid (r\<lparr>ar_decisions := ar_decisions r @ [d], ar_verdict := Approved\<rparr>)"
    and "ad_verdict d = Approved \<Longrightarrow> \<not> is_satisfied (r\<lparr>ar_decisions := ar_decisions r @ [d]\<rparr>) \<Longrightarrow>
      request_ok rid (r\<lparr>ar_decisions := ar_decisions r @ [d]\<rparr>)"
proof -
  have all: "list_all (\<lambda>d. ad_verdict d = Approved) (ar_decisions r)"
    using ok pending by (simp add: request_ok_def)
  then have same: "filter (\<lambda>d. ad_verdict d = Approved) (ar_decisions r) = ar_decisions r"
    by (induction "ar_decisions r" rule: list.induct) (auto simp: list_all_iff filter_id_conv)
  have fresh: "ad_approver d \<notin> ad_approver ` set (votes r)"
    using new(2) by (auto simp: votes_def list_ex_iff)
  note facts = ok pending vote new(1) fresh all same
  show "ad_verdict d = Denied \<Longrightarrow>
      request_ok rid (r\<lparr>ar_decisions := ar_decisions r @ [d], ar_verdict := Denied\<rparr>)"
    using facts by (auto simp: request_ok_def votes_def)
  show "ad_verdict d = Approved \<Longrightarrow> is_satisfied (r\<lparr>ar_decisions := ar_decisions r @ [d]\<rparr>) \<Longrightarrow>
      request_ok rid (r\<lparr>ar_decisions := ar_decisions r @ [d], ar_verdict := Approved\<rparr>)"
    using facts by (auto simp: request_ok_def votes_def is_satisfied_def approvals_def)
  show "ad_verdict d = Approved \<Longrightarrow> \<not> is_satisfied (r\<lparr>ar_decisions := ar_decisions r @ [d]\<rparr>) \<Longrightarrow>
      request_ok rid (r\<lparr>ar_decisions := ar_decisions r @ [d]\<rparr>)"
    using facts by (auto simp: request_ok_def votes_def is_satisfied_def approvals_def)
qed

lemma store_ok_put [inv_intros]: "store_ok st \<Longrightarrow> fresh_request r \<Longrightarrow> store_ok (put r st)"
  by (simp add: put_def store_ok_dset request_ok_fresh)

lemma store_ok_revoke [inv_intros]:
  assumes "store_ok st"
  shows "store_ok (snd (revoke v rid actor reason st))"
proof (cases "dget st rid")
  case None
  with assms show ?thesis by (simp add: revoke_def)
next
  case (Some r)
  from store_ok_get [OF assms this] Some assms show ?thesis
    by (simp add: revoke_def Let_def store_ok_dset request_ok_revoke)
qed

lemma store_ok_record [inv_intros]:
  assumes "store_ok st"
  shows "store_ok (snd (record_decision hmac v rid who verdict notes st))"
proof (cases "dget st rid")
  case None
  with assms show ?thesis by (simp add: record_decision_def)
next
  case (Some r)
  note ok = store_ok_get [OF assms Some]
  show ?thesis
    using assms Some ok
    by (auto simp: record_decision_def Let_def split: if_splits
        intro!: store_ok_dset request_ok_expire request_ok_vote)
qed

lemma store_ok_sweep [inv_intros]: "store_ok st \<Longrightarrow> store_ok (snd (sweep_expired now st))"
  by (auto simp: store_ok_def sweep_expired_def request_ok_expire)

section \<open>Histories of the store\<close>

datatype approval_op =
    Put approval_request
  | Revoke approval_env string string string
  | Decide approval_env string string approval_verdict string
  | Sweep timestamp

fun approval_step :: "(string \<Rightarrow> string \<Rightarrow> string) \<Rightarrow> approval_op \<Rightarrow> approval_store \<Rightarrow> approval_store" where
  "approval_step hmac (Put r) st = put r st"
| "approval_step hmac (Revoke v rid actor reason) st = snd (revoke v rid actor reason st)"
| "approval_step hmac (Decide v rid who verdict notes) st =
     snd (record_decision hmac v rid who verdict notes st)"
| "approval_step hmac (Sweep now) st = snd (sweep_expired now st)"

fun op_fresh :: "approval_op \<Rightarrow> bool" where
  "op_fresh (Put r) = fresh_request r"
| "op_fresh _ = True"

fun puts :: "string \<Rightarrow> approval_op \<Rightarrow> bool" where
  "puts rid (Put r) = (ar_request_id r = rid)"
| "puts rid _ = False"

lemma approval_step_ok: "store_ok st \<Longrightarrow> op_fresh x \<Longrightarrow> store_ok (approval_step hmac x st)"
  by (cases x) (auto intro: inv_intros)

lemma approval_run_ok:
  "store_ok st \<Longrightarrow> list_all op_fresh xs \<Longrightarrow> store_ok (fold (approval_step hmac) xs st)"
  by (induction xs arbitrary: st) (auto intro: approval_step_ok)

text \<open>How one step can change the verdict and the vote of a request that is not put anew.\<close>

lemma approval_step_verdict:
  assumes "dget st rid = Some r" "\<not> puts rid x"
  shows "\<exists>r'. dget (approval_step hmac x st) rid = Some r' \<and>
    (ar_verdict r \<noteq> Pending \<longrightarrow> ar_decisions r' = ar_decisions r \<and>
       (ar_verdict r' = ar_verdict r \<or> ar_verdict r' = Expired))"
proof (cases x)
  case (Put q)
  with assms show ?thesis by (auto simp: put_def)
next
  case (Revoke v k actor reason)
  with assms show ?thesis
    by (cases "dget st k") (auto simp: revoke_def Let_def)
next
  case (Decide v k who verdict msg)
  with assms show ?thesis
    by (cases "dget st k") (auto simp: record_decision_def Let_def)
next
  case (Sweep now)
  with assms show ?thesis by (auto simp: sweep_expired_def)
qed

lemma approval_run_verdict:
  "dget st rid = Some r \<Longrightarrow> \<not> list_ex (puts rid) xs \<Longrightarrow> ar_verdict r \<noteq> Pending \<Longrightarrow>
   \<exists>r'. dget (fold (approval_step hmac) xs st) rid = Some r' \<and> ar_decisions r' = ar_decisions r \<and>
     (ar_verdict r' = ar_verdict r \<or> ar_verdict r' = Expired)"
proof (induction xs arbitrary: st r)
  case (Cons x xs)
  from Cons.prems obtain r1 where r1: "dget (approval_step hmac x st) rid = Some r1"
    "ar_decisions r1 = ar_decisions r" "ar_verdict r1 = ar_verdict r \<or> ar_verdict r1 = Expired"
    using approval_step_verdict [of st rid r x hmac] by auto
  then have "ar_verdict r1 \<noteq> Pending" using Cons.prems(3) by auto
  with Cons.IH [OF r1(1)] Cons.prems(2) r1 show ?case by auto
qed simp


section \<open>What an approval means\<close>

lemma request_ok_approved:
  assumes "request_ok rid r" "ar_verdict r = Approved"
  shows "ar_quorum r \<le> int (card (ad_approver ` set (ar_decisions r)))"
    and "ar_requested_by r \<notin> ad_approver ` set (ar_decisions r)"
    and "\<forall>d \<in> set (ar_decisions r). ad_verdict d = Approved"
proof -
  have all: "list_all (\<lambda>d. ad_verdict d = Approved) (ar_decisions r)" and sat: "is_satisfied r"
    using assms by (auto simp: request_ok_def)
  have same: "filter (\<lambda>d. ad_verdict d = Approved) (ar_decisions r) = ar_decisions r"
    "votes r = ar_decisions r"
    using all by (auto simp: votes_def filter_id_conv list_all_iff)
  have "distinct (map ad_approver (ar_decisions r))" "ar_requested_by r \<notin> ad_approver ` set (ar_decisions r)"
    using assms(1) same by (auto simp: request_ok_def)
  moreover from this(1) have "card (ad_approver ` set (ar_decisions r)) = length (ar_decisions r)"
    using distinct_card by fastforce
  ultimately show "ar_quorum r \<le> int (card (ad_approver ` set (ar_decisions r)))"
    and "ar_requested_by r \<notin> ad_approver ` set (ar_decisions r)"
    and "\<forall>d \<in> set (ar_decisions r). ad_verdict d = Approved"
    using sat same all by (auto simp: is_satisfied_def approvals_def list_all_iff)
qed

definition appr_request :: approval_request where
  "appr_request = \<lparr>ar_request_id = ''r1'', ar_session_id = ''s'', ar_correlation_id = [],
     ar_tool_name = ''delete_bucket'', ar_action_summary = ''delete'', ar_arguments_preview = [],
     ar_requested_by = ''agent'', ar_approver_pool = [''alice'', ''bob''], ar_quorum = 2,
     ar_blast_radius = [], ar_rollback_procedure = [], ar_rationale = [], ar_created_at = 0,
     ar_expires_at = 100, ar_verdict = Pending, ar_decisions = []\<rparr>"

definition appr_env :: "timestamp \<Rightarrow> approval_env" where
  "appr_env now = \<lparr>ap_now = now, ap_decision_id = ''d'', ap_key = ''k''\<rparr>"

definition appr_hmac :: "string \<Rightarrow> string \<Rightarrow> string" where
  "appr_hmac key payload = payload"

definition appr_history :: "approval_op list" where
  "appr_history = [Put appr_request, Decide (appr_env 10) ''r1'' ''agent'' Approved [],
     Decide (appr_env 11) ''r1'' ''alice'' Approved [], Decide (appr_env 12) ''r1'' ''alice'' Approved [],
     Decide (appr_env 13) ''r1'' ''bob'' Approved []]"

lemmas appr_simps = appr_history_def appr_env_def appr_request_def appr_hmac_def put_def
  record_decision_def is_expired_def is_satisfied_def approvals_def fresh_request_def dset_def
  dget_def issue_decision_token_def signing_key_def token_payload_def Let_def

text \<open>
  C5: An approval that any history of requests, decisions, revocations and sweeps can produce
  carries the votes of at least quorum many different people, none of them the requester and
  none of them a denial.
\<close>
theorem approval_needs_quorum:
  assumes "list_all op_fresh xs"
    and "dget (fold (approval_step hmac) xs []) rid = Some r"
    and "ar_verdict r = Approved"
  shows "ar_quorum r \<le> int (card (ad_approver ` set (ar_decisions r))) \<and>
    ar_requested_by r \<notin> ad_approver ` set (ar_decisions r) \<and>
    (\<forall>d \<in> set (ar_decisions r). ad_verdict d = Approved)"
proof -
  have "store_ok (fold (approval_step hmac) xs [])"
    using assms(1) by (rule approval_run_ok [OF store_ok_Nil])
  from store_ok_get [OF this assms(2)] show ?thesis
    using request_ok_approved assms(3) by blast
qed

theorem approval_needs_quorum_witness:
  "let r = the (dget (fold (approval_step appr_hmac) appr_history []) ''r1'')
   in ar_quorum r = 2 \<and> ar_quorum r \<le> int (card (ad_approver ` set (ar_decisions r)))"
proof -
  obtain r where r: "dget (fold (approval_step appr_hmac) appr_history []) ''r1'' = Some r"
    and v: "ar_verdict r = Approved" "ar_quorum r = 2"
    by (simp add: appr_simps)
  have "list_all op_fresh appr_history" by (simp add: appr_simps)
  from approval_needs_quorum [OF this r v(1)] v r show ?thesis by simp
qed

text \<open>
  A resolved request stays resolved: unless it is put anew, no later decision, revocation or
  sweep turns a denied, revoked or expired request into an approved one; its recorded decisions
  are kept, and the only verdict it can still take is \<open>EXPIRED\<close>.
\<close>
theorem resolved_is_final:
  assumes "dget st rid = Some r" and "ar_verdict r \<noteq> Pending"
    and "\<not> list_ex (puts rid) xs"
  shows "\<exists>r'. dget (fold (approval_step hmac) xs st) rid = Some r' \<and>
    ar_decisions r' = ar_decisions r \<and> (ar_verdict r' = ar_verdict r \<or> ar_verdict r' = Expired)"
  using approval_run_verdict [OF assms(1,3,2)] .

theorem resolved_is_final_witness:
  "\<exists>r'. dget (fold (approval_step appr_hmac)
       [Decide (appr_env 20) ''r1'' ''alice'' Approved [], Decide (appr_env 21) ''r1'' ''bob'' Approved []]
       [(''r1'', appr_request\<lparr>ar_verdict := Denied\<rparr>)]) ''r1'' = Some r' \<and>
     (ar_verdict r' = Denied \<or> ar_verdict r' = Expired)"
  using resolved_is_final [of "[(''r1'', appr_request\<lparr>ar_verdict := Denied\<rparr>)]" "''r1''"
      "appr_request\<lparr>ar_verdict := Denied\<rparr>"
      "[Decide (appr_env 20) ''r1'' ''alice'' Approved [], Decide (appr_env 21) ''r1'' ''bob'' Approved []]"
      appr_hmac]
  by (auto simp: dget_def)

text \<open>
  An approval is not final: the expiry check comes before the check that the request is still
  pending, so a decision that arrives late turns an approved request into an expired one.
\<close>

lemma late_decision_unapproves:
  assumes "dget st rid = Some r" "ar_verdict r = Approved" "is_expired (ap_now v) r"
    and "verdict = Approved \<or> verdict = Denied"
  shows "fst (record_decision hmac v rid who verdict notes st) = Inl (ApprovalExpired rid)"
    and "map_option trace_approved (dget (snd (record_decision hmac v rid who verdict notes st)) rid)
      = Some None"
  using assms by (auto simp: record_decision_def trace_approved_def)

section \<open>The approver pool\<close>

lemma dmap_value_dset: "dmap_value f (dset d k v) = dset (dmap_value f d) k (f v)"
  by (induction d) (auto simp: dmap_value_def dset_def)

abbreviation with_pool :: "string list \<Rightarrow> approval_request \<Rightarrow> approval_request" where
  "with_pool pool r \<equiv> r\<lparr>ar_approver_pool := pool\<rparr>"

lemma is_satisfied_pool [simp]: "is_satisfied (with_pool pool r) = is_satisfied r"
  by (simp add: is_satisfied_def approvals_def)

lemma is_expired_pool [simp]: "is_expired now (with_pool pool r) = is_expired now r"
  by (simp add: is_expired_def)

text \<open>
  The approver pool of a request has no say in who decides it: \<open>record_decision\<close> on a store
  whose requests all have their pool replaced does exactly what it does on the original store.
\<close>
theorem record_decision_ignores_pool:
  "record_decision hmac v rid who verdict notes (dmap_value (with_pool pool) st) =
     map_prod (map_sum id (with_pool pool)) (dmap_value (with_pool pool))
       (record_decision hmac v rid who verdict notes st)"
proof (cases "dget st rid")
  case None
  then show ?thesis by (simp add: record_decision_def)
next
  case (Some r)
  have comm: "with_pool pool (q\<lparr>ar_verdict := x\<rparr>) = (with_pool pool q)\<lparr>ar_verdict := x\<rparr>"
    "with_pool pool (q\<lparr>ar_decisions := ds\<rparr>) = (with_pool pool q)\<lparr>ar_decisions := ds\<rparr>" for q x ds
    by (cases q; simp)+
  have sat: "is_satisfied ((with_pool pool r)\<lparr>ar_decisions := ds\<rparr>) =
      is_satisfied (r\<lparr>ar_decisions := ds\<rparr>)" for ds
    by (simp add: is_satisfied_def approvals_def)
  show ?thesis using Some
    by (simp add: record_decision_def Let_def dmap_value_dset sat comm)
qed

section \<open>Sweeping\<close>

text \<open>
  One sweep resolves every pending request past its expiry and no other: afterwards none is
  listed as expired, what \<open>list_pending\<close> shows is unchanged, the count it returns is the number
  of requests it changed, and a second sweep at the same time does nothing.
\<close>
theorem sweep_expired_complete:
  assumes "sweep_expired now st = (n, st')"
  shows "list_expired now st' = [] \<and> list_pending s a now st' = list_pending s a now st \<and>
    n = int (length (filter (\<lambda>(r, r'). r \<noteq> r') (zip (all_records st) (all_records st')))) \<and>
    sweep_expired now st' = (0, st')"
proof -
  have st': "st' = dmap_value (\<lambda>r. if ar_verdict r = Pending \<and> is_expired now r
      then r\<lparr>ar_verdict := Expired\<rparr> else r) st" and n: "n = int (length (list_expired now st))"
    using assms by (auto simp: sweep_expired_def)
  have ne: "ar_verdict r = Pending \<Longrightarrow> r \<noteq> r\<lparr>ar_verdict := Expired\<rparr>" for r
    by (metis approval_verdict.distinct(6) approval_request.select_convs(15) approval_request.surjective
        approval_request.update_convs(15))
  have 1: "list_expired now st' = []"
    unfolding st' by (induction st) (auto simp: list_expired_def dmap_value_def is_expired_def split: if_splits)
  have 2: "list_pending s a now st' = list_pending s a now st"
    unfolding st' by (induction st) (auto simp: list_pending_def dmap_value_def is_expired_def split: if_splits)
  have 3: "length (list_expired now st) =
      length (filter (\<lambda>(r, r'). r \<noteq> r') (zip (all_records st) (all_records st')))"
    unfolding st' by (induction st) (auto simp: list_expired_def dmap_value_def all_records_def ne)
  have 4: "snd (sweep_expired now st') = st'"
    unfolding st' by (induction st) (auto simp: sweep_expired_def dmap_value_def is_expired_def)
  from 1 have 5: "fst (sweep_expired now st') = 0"
    by (simp add: sweep_expired_def)
  show ?thesis using 1 2 3 4 5 n by (simp add: prod_eq_iff)
qed

theorem sweep_expired_complete_witness:
  "list_expired 200 (snd (sweep_expired 200 [(''r1'', appr_request)])) = [] \<and>
   fst (sweep_expired 200 [(''r1'', appr_request)]) = 1"
  using sweep_expired_complete [OF prod.collapse [symmetric], of 200 "[(''r1'', appr_request)]"]
  by (simp add: sweep_expired_def list_expired_def appr_simps)

section \<open>Decision tokens\<close>

definition tokens_of :: "(string \<Rightarrow> string \<Rightarrow> string) \<Rightarrow> string \<Rightarrow> string \<Rightarrow> approval_request \<Rightarrow> bool" where
  "tokens_of hmac key rid r \<longleftrightarrow> (\<forall>d \<in> set (votes r). ad_request_id d = rid \<and>
     verify_decision_token hmac key rid (ad_approver d) (ad_verdict d) (ad_token d))"

definition tokens_ok :: "(string \<Rightarrow> string \<Rightarrow> string) \<Rightarrow> string \<Rightarrow> approval_store \<Rightarrow> bool" where
  "tokens_ok hmac key st \<longleftrightarrow> (\<forall>rid r. dget st rid = Some r \<longrightarrow> tokens_of hmac key rid r)"

lemma tokens_ok_dset:
  "tokens_ok hmac key st \<Longrightarrow> tokens_of hmac key rid r \<Longrightarrow> tokens_ok hmac key (dset st rid r)"
  by (simp add: tokens_ok_def)

lemma tokens_of_update [simp]:
  "tokens_of hmac key rid (r\<lparr>ar_verdict := v\<rparr>) = tokens_of hmac key rid r"
  "tokens_of hmac key rid (r\<lparr>ar_decisions := ds, ar_verdict := v\<rparr>) =
     tokens_of hmac key rid (r\<lparr>ar_decisions := ds\<rparr>)"
  "tokens_of hmac key rid (r\<lparr>ar_decisions := ar_decisions r @ [d]\<rparr>) \<longleftrightarrow> tokens_of hmac key rid r \<and>
     (ad_verdict d = Approved \<or> ad_verdict d = Denied \<longrightarrow> ad_request_id d = rid \<and>
        verify_decision_token hmac key rid (ad_approver d) (ad_verdict d) (ad_token d))"
  by (auto simp: tokens_of_def votes_def)

lemma tokens_ok_decide:
  assumes ok: "tokens_ok hmac key st" and key: "ap_key v = key"
  shows "tokens_ok hmac key (snd (record_decision hmac v rid who verdict msg st))"
proof (cases "dget st rid")
  case None
  with ok show ?thesis by (simp add: record_decision_def)
next
  case (Some r)
  then have "tokens_of hmac key rid r" using ok by (simp add: tokens_ok_def)
  with Some ok key show ?thesis
    by (simp add: record_decision_def Let_def tokens_ok_dset verify_decision_token_def)
qed

fun op_key :: "string \<Rightarrow> approval_op \<Rightarrow> bool" where
  "op_key key (Decide v _ _ _ _) = (ap_key v = key)"
| "op_key key _ = True"

lemma tokens_ok_step:
  "tokens_ok hmac key st \<Longrightarrow> op_fresh x \<Longrightarrow> op_key key x \<Longrightarrow> tokens_ok hmac key (approval_step hmac x st)"
proof (cases x)
  case (Put r)
  assume "tokens_ok hmac key st" "op_fresh x"
  with Put show ?thesis
    by (simp add: put_def tokens_ok_dset tokens_of_def fresh_request_def votes_def)
next
  case (Revoke v k actor reason)
  assume "tokens_ok hmac key st"
  moreover from this have "dget st k = Some r \<Longrightarrow> tokens_of hmac key k r" for r
    by (simp add: tokens_ok_def)
  ultimately show ?thesis using Revoke
    by (cases "dget st k") (simp_all add: revoke_def Let_def tokens_ok_dset tokens_of_def votes_def)
next
  case (Decide v k who verdict msg)
  assume "tokens_ok hmac key st" "op_key key x"
  with Decide show ?thesis by (simp add: tokens_ok_decide)
next
  case (Sweep now)
  assume "tokens_ok hmac key st"
  with Sweep show ?thesis by (auto simp: tokens_ok_def sweep_expired_def)
qed

lemma tokens_ok_run:
  "tokens_ok hmac key st \<Longrightarrow> list_all op_fresh xs \<Longrightarrow> list_all (op_key key) xs \<Longrightarrow>
   tokens_ok hmac key (fold (approval_step hmac) xs st)"
  by (induction xs arbitrary: st) (auto intro: tokens_ok_step)

lemma verdict_value_inject: "verdict_value v = verdict_value w \<Longrightarrow> v = w"
  by (cases v; cases w) auto

lemma token_payload_inject:
  assumes "CHR ''|'' \<notin> set rid" "CHR ''|'' \<notin> set rid'" "CHR ''|'' \<notin> set who" "CHR ''|'' \<notin> set who'"
    and "token_payload rid who v = token_payload rid' who' v'"
  shows "rid = rid' \<and> who = who' \<and> v = v'"
  using assms verdict_value_inject by (auto simp: token_payload_def append_sep_inject)



end
