(* ===== verification/Reconciliation.thy ===== *)
theory Reconciliation
  imports Alert_Agent Approvals
begin

text \<open>
  The reconciliation agent, \<open>agents/reconciliation_agent.py\<close>: five checks over the audit trail,
  the alerts, the event store and the approval queue that fill one report; only the last one
  changes state, by sweeping the queue. The event store's \<open>count\<close> and \<open>query(limit=10000)\<close> are
  arguments.
\<close>

section \<open>State\<close>

record recon_issue =
  ri_category :: string
  ri_description :: string
  ri_severity :: string
  ri_auto_fixable :: bool
  ri_details :: "(string, pyval) dict"

record recon_fix =
  rf_category :: string
  rf_action :: string
  rf_details :: "(string, pyval) dict"

record recon_report =
  rr_timestamp :: timestamp
  rr_issues :: "recon_issue list"
  rr_auto_fixed :: "recon_fix list"
  rr_requires_attention :: "recon_issue list"

record 's recon_agent =
  rc_events :: "'s option"
  rc_audit :: "audit_logger option"
  rc_alerts :: "cost_alert list"
  rc_stale_hours :: int
  rc_approvals :: "approval_store option"

record 's recon_setup =
  rs_sha :: "string \<Rightarrow> string"
  rs_count :: "'s \<Rightarrow> nat"
  rs_query :: "'s \<Rightarrow> resource_event list"

text \<open>The four readings of the clock in one run.\<close>

record recon_env =
  rv_report :: timestamp
  rv_stale :: timestamp
  rv_list :: timestamp
  rv_sweep :: timestamp

section \<open>The report\<close>

definition new_report :: "timestamp \<Rightarrow> recon_report" where
  "new_report now = \<lparr>rr_timestamp = now, rr_issues = [], rr_auto_fixed = [], rr_requires_attention = []\<rparr>"

definition is_clean :: "recon_report \<Rightarrow> bool" where
  "is_clean r \<longleftrightarrow> rr_issues r = []"

definition add_issue :: "string \<Rightarrow> string \<Rightarrow> string \<Rightarrow> bool \<Rightarrow> (string, pyval) dict \<Rightarrow> recon_report \<Rightarrow>
    recon_report" where
  "add_issue category description sev auto_fixable details r =
     (let i = \<lparr>ri_category = category, ri_description = description, ri_severity = sev,
            ri_auto_fixable = auto_fixable, ri_details = details\<rparr>;
          r1 = r\<lparr>rr_issues := rr_issues r @ [i]\<rparr>
      in if auto_fixable then r1 else r1\<lparr>rr_requires_attention := rr_requires_attention r1 @ [i]\<rparr>)"

definition add_fix :: "string \<Rightarrow> string \<Rightarrow> (string, pyval) dict \<Rightarrow> recon_report \<Rightarrow> recon_report" where
  "add_fix category action details r =
     r\<lparr>rr_auto_fixed := rr_auto_fixed r @
       [\<lparr>rf_category = category, rf_action = action, rf_details = details\<rparr>]\<rparr>"

definition issue_dict :: "recon_issue \<Rightarrow> pyval" where
  "issue_dict i = PDict [(''category'', PStr (ri_category i)), (''description'', PStr (ri_description i)),
     (''severity'', PStr (ri_severity i)), (''auto_fixable'', PBool (ri_auto_fixable i)),
     (''details'', PDict (ri_details i))]"

definition fix_dict :: "recon_fix \<Rightarrow> pyval" where
  "fix_dict f = PDict [(''category'', PStr (rf_category f)), (''action'', PStr (rf_action f)),
     (''details'', PDict (rf_details f))]"

definition report_dict :: "recon_report \<Rightarrow> (string, pyval) dict" where
  "report_dict r =
     [(''timestamp'', PStr (isoformat (rr_timestamp r))),
      (''status'', PStr (if is_clean r then ''clean'' else ''issues_found'')),
      (''total_issues'', PInt (int (length (rr_issues r)))),
      (''auto_fixed'', PInt (int (length (rr_auto_fixed r)))),
      (''requires_attention'', PInt (int (length (rr_requires_attention r)))),
      (''issues'', PList (map issue_dict (rr_issues r))),
      (''fixes_applied'', PList (map fix_dict (rr_auto_fixed r))),
      (''attention_required'', PList (map issue_dict (rr_requires_attention r)))]"

section \<open>The checks\<close>

definition evaluated_action :: "audit_entry \<Rightarrow> bool" where
  "evaluated_action e \<longleftrightarrow> ae_action e = ''alert.below_threshold'' \<or> ae_action e = ''alert.generated''"

definition recent_entries :: "audit_logger \<Rightarrow> audit_entry list" where
  "recent_entries au = get_entries None None None None 10000 au"

definition get_unevaluated_events :: "'s recon_setup \<Rightarrow> 's recon_agent \<Rightarrow> string list" where
  "get_unevaluated_events su rc =
     (case (rc_events rc, rc_audit rc) of
        (Some s, Some au) \<Rightarrow>
          (let targets = set (map ae_target (filter evaluated_action (recent_entries au)))
           in map ev_event_id (filter (\<lambda>e. ev_resource_id e \<notin> targets) (rs_query su s)))
      | _ \<Rightarrow> [])"

definition violation_dict :: "violation \<Rightarrow> pyval" where
  "violation_dict v = PDict [(''audit_id'', PStr (vi_audit_id v)), (''timestamp'', PStr (vi_timestamp v)),
     (''action'', PStr (vi_action v)), (''expected_checksum'', PStr (vi_expected v)),
     (''actual_checksum'', PStr (vi_actual v))]"

definition check_audit_integrity :: "'s recon_setup \<Rightarrow> 's recon_agent \<Rightarrow> recon_report \<Rightarrow> recon_report" where
  "check_audit_integrity su rc r =
     (case rc_audit rc of
        None \<Rightarrow> add_issue ''audit_integrity''
          (''Audit logger not configured '' @ em_dash @ '' cannot verify integrity'') ''warning'' False [] r
      | Some au \<Rightarrow>
          (let vs = verify_integrity (rs_sha su) au
           in if vs = [] then r
              else add_issue ''audit_integrity''
                (show_nat (length vs) @ '' audit chain violation(s) detected '' @ em_dash @ '' possible tampering'')
                ''critical'' False [(''violations'', PList (map violation_dict (take 5 vs)))] r))"

definition hour_us :: int where
  "hour_us = 3600000000"

definition stale_alerts :: "timestamp \<Rightarrow> 's recon_agent \<Rightarrow> cost_alert list" where
  "stale_alerts now rc =
     filter (\<lambda>a. al_status a = PENDING \<and> al_created_at a < now - rc_stale_hours rc * hour_us) (rc_alerts rc)"

definition check_stale_alerts :: "timestamp \<Rightarrow> 's recon_agent \<Rightarrow> recon_report \<Rightarrow> recon_report" where
  "check_stale_alerts now rc r =
     (case stale_alerts now rc of
        [] \<Rightarrow> r
      | a # as \<Rightarrow>
          (let stale = a # as;
               by_severity = fold (\<lambda>a. dcount (severity_value (al_severity a))) stale [];
               sev = (if list_ex (\<lambda>a. al_severity a = EMERGENCY \<or> al_severity a = CRITICAL) stale
                      then ''critical'' else ''warning'')
           in add_issue ''stale_alerts''
                (show_nat (length stale) @ '' alert(s) have been pending for over '' @
                 show_int (rc_stale_hours rc) @ ''h'') sev False
                [(''by_severity'', PDict (map (map_prod id (PInt \<circ> int)) by_severity)),
                 (''oldest'', PStr (isoformat (al_created_at a))),
                 (''alert_ids'', PList (map (PStr \<circ> al_alert_id) (take 10 stale)))] r))"

definition event_gap :: "'s recon_setup \<Rightarrow> 's \<Rightarrow> audit_logger \<Rightarrow> int" where
  "event_gap su s au = int (rs_count su s) - int (length (filter evaluated_action (recent_entries au)))"

definition check_orphaned_events :: "'s recon_setup \<Rightarrow> 's recon_agent \<Rightarrow> recon_report \<Rightarrow> recon_report" where
  "check_orphaned_events su rc r =
     (case (rc_events rc, rc_audit rc) of
        (Some s, Some au) \<Rightarrow>
          (let gap = event_gap su s au
           in if 0 < gap
              then add_fix ''orphaned_events'' ''Re-process orphaned events through the alert pipeline''
                     [(''count'', PInt gap)]
                     (add_issue ''orphaned_events''
                       (show_int gap @ '' event(s) stored but not evaluated '' @ em_dash @ '' possible pipeline gap'')
                       ''warning'' True
                       [(''events_stored'', PInt (int (rs_count su s))),
                        (''events_evaluated'', PInt (int (length (filter evaluated_action (recent_entries au))))),
                        (''gap'', PInt gap)] r)
              else r)
      | _ \<Rightarrow> r)"

definition inconsistency :: "cost_alert \<Rightarrow> string \<Rightarrow> recon_report \<Rightarrow> recon_report" where
  "inconsistency a what r =
     add_issue ''alert_consistency'' (''Alert '' @ al_alert_id a @ '' is '' @ what) ''info'' False
       [(''alert_id'', PStr (al_alert_id a))] r"

definition check_alert :: "cost_alert \<Rightarrow> recon_report \<Rightarrow> recon_report" where
  "check_alert a r =
     (let r1 = (if al_status a = RESOLVED \<and> al_resolved_by a = []
            then inconsistency a ''resolved but has no resolver recorded'' r else r)
      in if al_status a = ACKNOWLEDGED \<and> al_acknowledged_by a = []
         then inconsistency a ''acknowledged but has no acknowledger'' r1 else r1)"

definition check_alert_consistency :: "'s recon_agent \<Rightarrow> recon_report \<Rightarrow> recon_report" where
  "check_alert_consistency rc r = fold check_alert (rc_alerts rc) r"

definition check_expired_approvals :: "recon_env \<Rightarrow> 's recon_agent \<Rightarrow> recon_report \<Rightarrow>
    recon_report \<times> 's recon_agent" where
  "check_expired_approvals v rc r =
     (case rc_approvals rc of
        None \<Rightarrow> (r, rc)
      | Some st \<Rightarrow>
          (let expired = list_expired (rv_list v) st
           in if expired = [] then (r, rc)
              else (let (swept, st') = sweep_expired (rv_sweep v) st
                    in (add_fix ''expired_approvals''
                          (''Swept '' @ show_int swept @ '' expired approval request(s) to EXPIRED'')
                          [(''count'', PInt swept)]
                          (add_issue ''expired_approvals''
                            (show_nat (length expired) @ '' approval request(s) past expiry detected'')
                            ''warning'' True
                            [(''expired_count'', PInt (int (length expired))), (''swept_count'', PInt swept),
                             (''request_ids'', PList (map (PStr \<circ> ar_request_id) (take 10 expired)))] r),
                        rc\<lparr>rc_approvals := Some st'\<rparr>))))"

definition reconcile :: "'s recon_setup \<Rightarrow> recon_env \<Rightarrow> 's recon_agent \<Rightarrow> recon_report \<times> 's recon_agent" where
  "reconcile su v rc =
     check_expired_approvals v rc
       (check_alert_consistency rc
         (check_orphaned_events su rc
           (check_stale_alerts (rv_stale v) rc
             (check_audit_integrity su rc (new_report (rv_report v))))))"

section \<open>What each check reports\<close>

named_theorems recon_simps

definition categories :: "recon_report \<Rightarrow> string list" where
  "categories r = map ri_category (rr_issues r)"

definition attention_ok :: "recon_report \<Rightarrow> bool" where
  "attention_ok r \<longleftrightarrow> rr_requires_attention r = filter (\<lambda>i. \<not> ri_auto_fixable i) (rr_issues r)"

lemma report_steps [recon_simps]:
  "categories (new_report now) = []"
  "categories (add_issue c d sev auto ds r) = categories r @ [c]"
  "categories (add_fix c a ds r) = categories r"
  "attention_ok (new_report now)"
  "attention_ok (add_issue c d sev auto ds r) = attention_ok r"
  "attention_ok (add_fix c a ds r) = attention_ok r"
  by (auto simp: categories_def attention_ok_def new_report_def add_issue_def add_fix_def Let_def)

definition audit_broken :: "'s recon_setup \<Rightarrow> 's recon_agent \<Rightarrow> bool" where
  "audit_broken su rc = (case rc_audit rc of None \<Rightarrow> True | Some au \<Rightarrow> verify_integrity (rs_sha su) au \<noteq> [])"

definition events_orphaned :: "'s recon_setup \<Rightarrow> 's recon_agent \<Rightarrow> bool" where
  "events_orphaned su rc =
     (case (rc_events rc, rc_audit rc) of (Some s, Some au) \<Rightarrow> 0 < event_gap su s au | _ \<Rightarrow> False)"

definition expired_of :: "recon_env \<Rightarrow> 's recon_agent \<Rightarrow> approval_request list" where
  "expired_of v rc = (case rc_approvals rc of None \<Rightarrow> [] | Some st \<Rightarrow> list_expired (rv_list v) st)"

definition inconsistent :: "cost_alert \<Rightarrow> bool" where
  "inconsistent a \<longleftrightarrow> al_status a = RESOLVED \<and> al_resolved_by a = [] \<or>
     al_status a = ACKNOWLEDGED \<and> al_acknowledged_by a = []"

definition tag_if :: "bool \<Rightarrow> string \<Rightarrow> string list" where
  "tag_if b c = (if b then [c] else [])"

lemma check_audit [recon_simps]:
  "categories (check_audit_integrity su rc r) = categories r @ tag_if (audit_broken su rc) ''audit_integrity''"
  "attention_ok (check_audit_integrity su rc r) = attention_ok r"
  by (auto simp: check_audit_integrity_def audit_broken_def tag_if_def Let_def recon_simps split: option.splits)

lemma check_stale [recon_simps]:
  "categories (check_stale_alerts now rc r) = categories r @ tag_if (stale_alerts now rc \<noteq> []) ''stale_alerts''"
  "attention_ok (check_stale_alerts now rc r) = attention_ok r"
  by (auto simp: check_stale_alerts_def tag_if_def Let_def recon_simps split: list.splits)

lemma check_orphaned [recon_simps]:
  "categories (check_orphaned_events su rc r) = categories r @ tag_if (events_orphaned su rc) ''orphaned_events''"
  "attention_ok (check_orphaned_events su rc r) = attention_ok r"
  by (auto simp: check_orphaned_events_def events_orphaned_def tag_if_def Let_def recon_simps split: option.splits)

lemma check_alert_reports [recon_simps]:
  "categories (check_alert a r) = categories r @ tag_if (inconsistent a) ''alert_consistency''"
  "attention_ok (check_alert a r) = attention_ok r"
  by (auto simp: check_alert_def inconsistency_def inconsistent_def tag_if_def Let_def recon_simps)

lemma check_consistency [recon_simps]:
  "categories (check_alert_consistency rc r) =
     categories r @ concat (map (\<lambda>a. tag_if (inconsistent a) ''alert_consistency'') (rc_alerts rc))"
  "attention_ok (check_alert_consistency rc r) = attention_ok r"
proof -
  have "categories (fold check_alert as r) =
      categories r @ concat (map (\<lambda>a. tag_if (inconsistent a) ''alert_consistency'') as) \<and>
    attention_ok (fold check_alert as r) = attention_ok r" for as
    by (induction as arbitrary: r) (simp_all add: recon_simps)
  then show "categories (check_alert_consistency rc r) =
      categories r @ concat (map (\<lambda>a. tag_if (inconsistent a) ''alert_consistency'') (rc_alerts rc))"
    "attention_ok (check_alert_consistency rc r) = attention_ok r"
    by (simp_all add: check_alert_consistency_def)
qed

lemma check_expired [recon_simps]:
  "categories (fst (check_expired_approvals v rc r)) = categories r @ tag_if (expired_of v rc \<noteq> []) ''expired_approvals''"
  "attention_ok (fst (check_expired_approvals v rc r)) = attention_ok r"
  "snd (check_expired_approvals v rc r) =
     (if expired_of v rc = [] then rc
      else rc\<lparr>rc_approvals := map_option (snd \<circ> sweep_expired (rv_sweep v)) (rc_approvals rc)\<rparr>)"
  by (auto simp: check_expired_approvals_def expired_of_def tag_if_def Let_def case_prod_beta recon_simps
      split: option.splits)

lemma set_tag_if [simp]: "set (tag_if b c) = (if b then {c} else {})"
  by (simp add: tag_if_def)

text \<open>A sweep at a time no earlier than the listing leaves nothing that the listing would show.\<close>

lemma sweep_later:
  assumes "t \<le> t'"
  shows "list_expired t (snd (sweep_expired t' st)) = []"
  using assms by (induction st) (auto simp: list_expired_def sweep_expired_def dmap_value_def is_expired_def
      split: if_splits)

text \<open>
  C29: A report lists each category of trouble exactly when it is there: a broken or missing audit
  chain, a pending alert older than the limit, more stored events than evaluated ones, an alert
  resolved or acknowledged by nobody, an expired request in the queue. What needs attention are
  the issues that cannot be fixed. The run touches nothing but the approval queue, from which it
  clears every expired request.
\<close>
theorem reconcile_reports_exactly:
  assumes "reconcile su v rc = (r, rc')" and "rv_list v \<le> rv_sweep v"
  shows "(''audit_integrity'' \<in> set (categories r) \<longleftrightarrow>
      (\<forall>au. rc_audit rc = Some au \<longrightarrow> verify_integrity (rs_sha su) au \<noteq> [])) \<and>
    (''stale_alerts'' \<in> set (categories r) \<longleftrightarrow> (\<exists>a \<in> set (rc_alerts rc). al_status a = PENDING \<and>
      al_created_at a < rv_stale v - rc_stale_hours rc * 3600000000)) \<and>
    (''orphaned_events'' \<in> set (categories r) \<longleftrightarrow> (\<exists>s au. rc_events rc = Some s \<and> rc_audit rc = Some au \<and>
      length (filter evaluated_action (recent_entries au)) < rs_count su s)) \<and>
    (''alert_consistency'' \<in> set (categories r) \<longleftrightarrow> (\<exists>a \<in> set (rc_alerts rc). inconsistent a)) \<and>
    (''expired_approvals'' \<in> set (categories r) \<longleftrightarrow>
      (\<exists>st. rc_approvals rc = Some st \<and> list_expired (rv_list v) st \<noteq> [])) \<and>
    rr_requires_attention r = filter (\<lambda>i. \<not> ri_auto_fixable i) (rr_issues r) \<and>
    rc' = rc\<lparr>rc_approvals := rc_approvals rc'\<rparr> \<and>
    (\<forall>st. rc_approvals rc' = Some st \<longrightarrow> list_expired (rv_list v) st = [])"
proof -
  let ?cs = "tag_if (audit_broken su rc) ''audit_integrity'' @ tag_if (stale_alerts (rv_stale v) rc \<noteq> []) ''stale_alerts'' @
    tag_if (events_orphaned su rc) ''orphaned_events'' @
    concat (map (\<lambda>a. tag_if (inconsistent a) ''alert_consistency'') (rc_alerts rc)) @
    tag_if (expired_of v rc \<noteq> []) ''expired_approvals''"
  have r: "r = fst (reconcile su v rc)" and rc': "rc' = snd (reconcile su v rc)" using assms(1) by simp_all
  have cats: "set (categories r) = set ?cs"
    by (simp add: r reconcile_def recon_simps Un_assoc)
  have mem: "''audit_integrity'' \<in> set (categories r) \<longleftrightarrow> audit_broken su rc"
    "''stale_alerts'' \<in> set (categories r) \<longleftrightarrow> stale_alerts (rv_stale v) rc \<noteq> []"
    "''orphaned_events'' \<in> set (categories r) \<longleftrightarrow> events_orphaned su rc"
    "''alert_consistency'' \<in> set (categories r) \<longleftrightarrow> (\<exists>a \<in> set (rc_alerts rc). inconsistent a)"
    "''expired_approvals'' \<in> set (categories r) \<longleftrightarrow> expired_of v rc \<noteq> []"
    by (simp_all add: cats) auto
  have att: "attention_ok r" by (simp add: r reconcile_def recon_simps)
  have next_agent: "rc' = (if expired_of v rc = [] then rc
      else rc\<lparr>rc_approvals := map_option (snd \<circ> sweep_expired (rv_sweep v)) (rc_approvals rc)\<rparr>)"
    by (simp add: rc' reconcile_def recon_simps)
  have iff: "audit_broken su rc \<longleftrightarrow> (\<forall>au. rc_audit rc = Some au \<longrightarrow> verify_integrity (rs_sha su) au \<noteq> [])"
    "events_orphaned su rc \<longleftrightarrow> (\<exists>s au. rc_events rc = Some s \<and> rc_audit rc = Some au \<and>
      length (filter evaluated_action (recent_entries au)) < rs_count su s)"
    "expired_of v rc \<noteq> [] \<longleftrightarrow> (\<exists>st. rc_approvals rc = Some st \<and> list_expired (rv_list v) st \<noteq> [])"
    "stale_alerts (rv_stale v) rc \<noteq> [] \<longleftrightarrow> (\<exists>a \<in> set (rc_alerts rc). al_status a = PENDING \<and>
      al_created_at a < rv_stale v - rc_stale_hours rc * 3600000000)"
    by (auto simp: audit_broken_def events_orphaned_def event_gap_def expired_of_def stale_alerts_def hour_us_def
        filter_empty_conv split: option.splits)
  have "\<forall>st. rc_approvals rc' = Some st \<longrightarrow> list_expired (rv_list v) st = []"
    using sweep_later [OF assms(2)] by (auto simp: next_agent expired_of_def)
  moreover have "rc' = rc\<lparr>rc_approvals := rc_approvals rc'\<rparr>" by (simp add: next_agent)
  moreover have "rr_requires_attention r = filter (\<lambda>i. \<not> ri_auto_fixable i) (rr_issues r)"
    using att by (simp add: attention_ok_def)
  ultimately show ?thesis using mem unfolding iff by (intro conjI)
qed

definition demo_recon_setup :: "mem_store recon_setup" where
  "demo_recon_setup = \<lparr>rs_sha = demo_sha, rs_count = mem_count,
     rs_query = mem_query no_filter 10000\<rparr>"

definition demo_recon :: "mem_store recon_agent" where
  "demo_recon = \<lparr>rc_events = Some (mem_store_event demo_alert_event init_mem), rc_audit = Some (init_audit []),
     rc_alerts = [], rc_stale_hours = 168, rc_approvals = Some []\<rparr>"

definition demo_recon_env :: recon_env where
  "demo_recon_env = \<lparr>rv_report = 0, rv_stale = 0, rv_list = 0, rv_sweep = 1\<rparr>"

theorem reconcile_reports_exactly_witness:
  "''orphaned_events'' \<in> set (categories (fst (reconcile demo_recon_setup demo_recon_env demo_recon))) \<and>
   ''audit_integrity'' \<notin> set (categories (fst (reconcile demo_recon_setup demo_recon_env demo_recon)))"
proof -
  have "rv_list demo_recon_env \<le> rv_sweep demo_recon_env" by (simp add: demo_recon_env_def)
  from reconcile_reports_exactly [OF prod.collapse [symmetric] this, of demo_recon_setup demo_recon]
  have "''audit_integrity'' \<in> set (categories (fst (reconcile demo_recon_setup demo_recon_env demo_recon))) \<longleftrightarrow>
      (\<forall>au. rc_audit demo_recon = Some au \<longrightarrow> verify_integrity (rs_sha demo_recon_setup) au \<noteq> [])"
    "''orphaned_events'' \<in> set (categories (fst (reconcile demo_recon_setup demo_recon_env demo_recon))) \<longleftrightarrow>
      (\<exists>s au. rc_events demo_recon = Some s \<and> rc_audit demo_recon = Some au \<and>
      length (filter evaluated_action (recent_entries au)) < rs_count demo_recon_setup s)" by blast+
  moreover have "rc_audit demo_recon = Some (init_audit [])" "verify_integrity sha (init_audit []) = []" for sha
    by (simp_all add: demo_recon_def init_audit_def verify_integrity_def)
  moreover have "rc_events demo_recon = Some (mem_store_event demo_alert_event init_mem)"
    "rs_count demo_recon_setup (mem_store_event demo_alert_event init_mem) = 1"
    "recent_entries (init_audit []) = []"
    by (simp_all add: demo_recon_def demo_recon_setup_def init_audit_def recent_entries_def get_entries_def
        slice_last_def mem_count_def mem_store_event_def mem_insert_def init_mem_def Let_def)
  ultimately show ?thesis by simp
qed

section \<open>The pipeline leaves nothing to reconcile\<close>

lemma evaluated_outcome: "evaluated_action e \<longleftrightarrow> is_outcome (entry_args e)"
  by (simp add: evaluated_action_def is_outcome_def entry_args_def)

lemma outcome_keys_entries:
  "outcome_keys ag = map (\<lambda>e. (ae_causation_id e, ae_target e))
     (filter evaluated_action (au_entries (pe_audit (aa_policies ag))))"
proof -
  have ev: "is_outcome (entry_args e) = evaluated_action e" for e by (simp add: evaluated_outcome)
  have key: "event_key (entry_args e) = (ae_causation_id e, ae_target e)" for e
    by (simp add: event_key_def entry_args_def)
  show ?thesis by (simp add: outcome_keys_def policy_trail_def filter_map o_def ev key)
qed

lemma recent_entries_all: "length (au_entries au) \<le> 10000 \<Longrightarrow> recent_entries au = au_entries au"
  by (simp add: recent_entries_def get_entries_def slice_last_def MAX_AUDIT_QUERY_def)

lemma recent_entries_bound: "length (recent_entries au) \<le> 10000"
  using length_slice_last [of 10000 "au_entries au"]
  by (simp add: recent_entries_def get_entries_def MAX_AUDIT_QUERY_def)

lemma length_first_by_id: "length (first_by_id seen es) \<le> length es"
  by (induction es arbitrary: seen) (auto simp: le_SucI)

text \<open>The reconciliation agent looking at an alert agent's store and trail.\<close>

definition watching :: "cost_alert list \<Rightarrow> int \<Rightarrow> approval_store option \<Rightarrow> (mem_store, 'd) alert_agent \<Rightarrow> mem_store recon_agent" where
  "watching as hours st ag = \<lparr>rc_events = Some (aa_events ag), rc_audit = Some (pe_audit (aa_policies ag)),
     rc_alerts = as, rc_stale_hours = hours, rc_approvals = st\<rparr>"


definition demo_fresh_agent :: "(mem_store, string list) alert_agent" where
  "demo_fresh_agent = init_alert_agent (an_thresholds demo_alerts) None (init_policies ''d'' [] (init_audit [])) init_mem []"


text \<open>
  The count of evaluated events only looks at the last 10000 entries of the trail, so with more
  events than that in the store a gap is reported whatever happened to them.
\<close>

lemma orphans_beyond_query_limit:
  assumes "rc_events rc = Some s" and "rc_audit rc = Some au" and "10000 < rs_count rs s"
  shows "''orphaned_events'' \<in> set (categories (fst (reconcile rs v rc)))"
proof -
  have "length (filter evaluated_action (recent_entries au)) \<le> 10000"
    using length_filter_le recent_entries_bound order_trans by blast
  then have "events_orphaned rs rc" using assms by (simp add: events_orphaned_def event_gap_def)
  then show ?thesis by (simp add: reconcile_def recon_simps)
qed

end
