(* ===== verification/Replay.thy ===== *)
theory Replay
  imports Reconciliation
begin

text \<open>
  The replay of unevaluated events, \<open>finops_replay_events\<close> and \<open>_do_replay\<close> of
  \<open>mcp_server/server.py\<close>: the server asks the reconciliation agent which stored events have no
  outcome in the audit trail and runs them through the alert agent again. The flag and the ids of
  \<open>_replay_state\<close> are the record \<open>replay_state\<close>; \<open>rp_pop\<close> is the element Python's \<open>set.pop\<close> takes.
\<close>

section \<open>State\<close>

record replay_state =
  rp_in_progress :: bool
  rp_replayed_ids :: "string set"

record ('s, 'd) replay_setup =
  rp_agent :: "('s, 'd) agent_setup"
  rp_recon :: "'s recon_setup"
  rp_pop :: "string set \<Rightarrow> string"

definition MAX_REPLAYED_HISTORY :: nat where
  "MAX_REPLAYED_HISTORY = 50000"

text \<open>The server's reconciliation agent works on the hub's store and trail and on the current alerts.\<close>

definition server_recon :: "int \<Rightarrow> approval_store option \<Rightarrow> ('s, 'd) alert_agent \<Rightarrow> 's recon_agent" where
  "server_recon hours st ag =
     \<lparr>rc_events = Some (aa_events ag), rc_audit = Some (pe_audit (aa_policies ag)),
      rc_alerts = get_alerts None None None 10000 ag, rc_stale_hours = hours, rc_approvals = st\<rparr>"

section \<open>Operations\<close>

record replay_counts =
  rn_replayed :: nat
  rn_alerts :: nat
  rn_errors :: nat

definition events_by_id :: "resource_event list \<Rightarrow> (string, resource_event) dict" where
  "events_by_id es = fold (\<lambda>e d. dset d (ev_event_id e) e) es []"

text \<open>The loop over the unevaluated ids; the \<open>n\<close>-th id's event is processed in \<open>envs n\<close>.\<close>

fun replay_each :: "('s, 'd) agent_setup \<Rightarrow> (nat \<Rightarrow> process_env) \<Rightarrow> nat \<Rightarrow> (string, resource_event) dict \<Rightarrow> string list \<Rightarrow>
    string set \<Rightarrow> replay_counts \<Rightarrow> ('s, 'd) alert_agent \<Rightarrow> replay_counts \<times> string set \<times> ('s, 'd) alert_agent" where
  "replay_each su envs n by_id [] ids c ag = (c, ids, ag)"
| "replay_each su envs n by_id (eid # eids) ids c ag =
     (case dget by_id eid of
        None \<Rightarrow> replay_each su envs (n + 1) by_id eids ids c ag
      | Some e \<Rightarrow>
          (case process_event su (envs n) e ag of
             (Inl err, ag1) \<Rightarrow> replay_each su envs (n + 1) by_id eids ids (c\<lparr>rn_errors := rn_errors c + 1\<rparr>) ag1
           | (Inr a, ag1) \<Rightarrow> replay_each su envs (n + 1) by_id eids (insert eid ids)
               (c\<lparr>rn_replayed := rn_replayed c + 1, rn_alerts := rn_alerts c + (if a = None then 0 else 1)\<rparr>) ag1))"

fun shed :: "(string set \<Rightarrow> string) \<Rightarrow> nat \<Rightarrow> string set \<Rightarrow> string set" where
  "shed pop 0 ids = ids"
| "shed pop (Suc n) ids = shed pop n (ids - {pop ids})"

definition replay_args :: "replay_counts \<Rightarrow> log_args" where
  "replay_args c = (default_args ''events.replayed'' ''system'' ''event_replay'')
     \<lparr>la_details := [(''replayed'', PInt (int (rn_replayed c))), (''alerts_generated'', PInt (int (rn_alerts c))),
        (''errors'', PInt (int (rn_errors c)))]\<rparr>"

text \<open>Only the store and the trail matter to this question to the reconciliation agent.\<close>

definition pending_replay :: "('s, 'd) replay_setup \<Rightarrow> string set \<Rightarrow> ('s, 'd) alert_agent \<Rightarrow> string list" where
  "pending_replay rs ids ag =
     filter (\<lambda>eid. eid \<notin> ids) (get_unevaluated_events (rp_recon rs) (server_recon 168 None ag))"

definition clean_answer :: "(string, pyval) dict" where
  "clean_answer = [(''status'', PStr ''clean''), (''message'', PStr ''No unevaluated events found''), (''replayed'', PInt 0)]"

definition do_replay :: "('s, 'd) replay_setup \<Rightarrow> (nat \<Rightarrow> process_env) \<Rightarrow> log_env \<Rightarrow> string set \<Rightarrow> ('s, 'd) alert_agent \<Rightarrow>
    (string, pyval) dict \<times> string set \<times> ('s, 'd) alert_agent" where
  "do_replay rs envs v ids ag =
     (let eids = pending_replay rs ids ag
      in if eids = [] then
           (clean_answer, ids, ag)
         else
           (let by_id = events_by_id (rs_query (rp_recon rs) (aa_events ag));
                (c, ids1, ag1) = replay_each (rp_agent rs) envs 0 by_id eids ids
                  \<lparr>rn_replayed = 0, rn_alerts = 0, rn_errors = 0\<rparr> ag;
                ids2 = (if MAX_REPLAYED_HISTORY < card ids1
                        then shed (rp_pop rs) (card ids1 - MAX_REPLAYED_HISTORY) ids1 else ids1)
            in ([(''status'', PStr ''completed''), (''unevaluated_found'', PInt (int (length eids))),
                 (''replayed'', PInt (int (rn_replayed c))), (''alerts_generated'', PInt (int (rn_alerts c))),
                 (''errors'', PInt (int (rn_errors c)))],
                ids2, agent_log (rp_agent rs) (replay_args c) v ag1)))"

definition finops_replay_events :: "('s, 'd) replay_setup \<Rightarrow> (nat \<Rightarrow> process_env) \<Rightarrow> log_env \<Rightarrow>
    replay_state \<times> ('s, 'd) alert_agent \<Rightarrow> (string, pyval) dict \<times> replay_state \<times> ('s, 'd) alert_agent" where
  "finops_replay_events rs envs v s =
     (let (st, ag) = s
      in if rp_in_progress st then
           ([(''status'', PStr ''skipped''),
             (''message'', PStr (''Replay already in progress '' @ em_dash @ '' reentrancy blocked'')),
             (''replayed'', PInt 0)], st, ag)
         else (let (answer, ids, ag1) = do_replay rs envs v (rp_replayed_ids st) ag
               in (answer, st\<lparr>rp_in_progress := False, rp_replayed_ids := ids\<rparr>, ag1)))"

text \<open>\<open>finops_reconcile\<close>\<close>

definition finops_reconcile :: "'s recon_setup \<Rightarrow> recon_env \<Rightarrow> int \<Rightarrow> approval_store \<Rightarrow> ('s, 'd) alert_agent \<Rightarrow>
    (string, pyval) dict \<times> approval_store" where
  "finops_reconcile rs v hours st ag =
     (let (r, rc) = reconcile rs v (server_recon hours (Some st) ag)
      in (report_dict r, case rc_approvals rc of None \<Rightarrow> st | Some st' \<Rightarrow> st'))"

section \<open>The loop\<close>

lemma dget_fold_ids:
  "k \<notin> ev_event_id ` set es \<Longrightarrow> dget (fold (\<lambda>e d. dset d (ev_event_id e) e) es d) k = dget d k"
  by (induction es arbitrary: d) auto

lemma dget_events_by_id:
  assumes "distinct (map ev_event_id es)" and "e \<in> set es"
  shows "dget (events_by_id es) (ev_event_id e) = Some e"
proof -
  have "dget (fold (\<lambda>e d. dset d (ev_event_id e) e) es d) (ev_event_id e) = Some e" for d
    using assms by (induction es arbitrary: d) (auto simp: dget_fold_ids)
  then show ?thesis by (simp add: events_by_id_def)
qed

text \<open>Processing an event again that is in the store already changes neither the store nor the other events.\<close>

lemma mem_store_known: "mem_ok s \<Longrightarrow> e \<in> set (me_events s) \<Longrightarrow> mem_store_event e s = s"
  by (auto simp: mem_store_event_def mem_insert_def mem_ok_def)

lemma replay_each_run:
  assumes "agent_ok (as_sha su) ag" and "as_store su = mem_store_event" and "mem_ok (aa_events ag)"
    and "\<forall>eid \<in> set eids. \<exists>e \<in> set (me_events (aa_events ag)). dget by_id eid = Some e \<and> ev_event_id e = eid"
  shows "\<exists>c' ag'. replay_each su envs n by_id eids ids c ag = (c', ids \<union> set eids, ag') \<and>
     agent_ok (as_sha su) ag' \<and> aa_events ag' = aa_events ag \<and>
     rn_replayed c' = rn_replayed c + length eids \<and> rn_errors c' = rn_errors c \<and>
     rn_alerts c' = rn_alerts c + (length (dispatched ag') - length (dispatched ag)) \<and>
     length (dispatched ag) \<le> length (dispatched ag') \<and>
     outcome_keys ag' = outcome_keys ag @ map (\<lambda>eid. (eid, ev_resource_id (the (dget by_id eid)))) eids"
  using assms(1,3,4)
proof (induction eids arbitrary: n ids c ag)
  case (Cons eid eids)
  obtain e where e: "e \<in> set (me_events (aa_events ag))" "dget by_id eid = Some e" "ev_event_id e = eid"
    using Cons.prems(3) by auto
  from process_events_run [OF Cons.prems(1), of "[(envs n, e)]"] obtain a ag1 where
    run: "process_event su (envs n) e ag = (Inr a, ag1)" and ok: "agent_ok (as_sha su) ag1"
    and st: "aa_events ag1 = as_store su e (aa_events ag)"
    and key: "outcome_keys ag1 = outcome_keys ag @ [(eid, ev_resource_id e)]"
    and disp: "dispatched ag1 = dispatched ag @ (case a of None \<Rightarrow> [] | Some x \<Rightarrow> [x])"
    by (auto simp: e(3) split: sum.splits prod.splits)
  have same: "aa_events ag1 = aa_events ag"
    using mem_store_known [OF Cons.prems(2) e(1)] st assms(2) by simp
  let ?c = "c\<lparr>rn_replayed := rn_replayed c + 1, rn_alerts := rn_alerts c + (if a = None then 0 else 1)\<rparr>"
  from Cons.IH [OF ok, of "n + 1" "insert eid ids" ?c] obtain c' ag' where
    "replay_each su envs (n + 1) by_id eids (insert eid ids) ?c ag1 = (c', insert eid ids \<union> set eids, ag')"
    "agent_ok (as_sha su) ag'" "aa_events ag' = aa_events ag"
    "rn_replayed c' = rn_replayed ?c + length eids" "rn_errors c' = rn_errors ?c"
    "rn_alerts c' = rn_alerts ?c + (length (dispatched ag') - length (dispatched ag1))"
    "length (dispatched ag1) \<le> length (dispatched ag')"
    "outcome_keys ag' = outcome_keys ag1 @ map (\<lambda>eid. (eid, ev_resource_id (the (dget by_id eid)))) eids"
    using Cons.prems(2,3) unfolding same by auto
  then show ?case using run e(2) key disp by (cases a) auto
qed simp

lemma shed_card:
  assumes "\<And>S. finite S \<Longrightarrow> S \<noteq> {} \<Longrightarrow> pop S \<in> S"
  shows "finite ids \<Longrightarrow> finite (shed pop n ids) \<and> shed pop n ids \<subseteq> ids \<and> card (shed pop n ids) = card ids - n"
proof (induction n arbitrary: ids)
  case (Suc n)
  show ?case
  proof (cases "ids = {}")
    case False
    from assms [OF _ this] Suc.prems have "card (ids - {pop ids}) = card ids - 1" by simp
    with Suc.IH [of "ids - {pop ids}"] Suc.prems show ?thesis by auto
  qed (use Suc.IH [of "{}"] in simp)
qed simp

definition evaluated_targets :: "('s, 'd) alert_agent \<Rightarrow> string set" where
  "evaluated_targets ag = ae_target ` set (filter evaluated_action (recent_entries (pe_audit (aa_policies ag))))"

definition to_replay :: "('s, 'd) replay_setup \<Rightarrow> string set \<Rightarrow> ('s, 'd) alert_agent \<Rightarrow> resource_event list" where
  "to_replay rs ids ag = filter (\<lambda>e. ev_event_id e \<notin> ids \<and> ev_resource_id e \<notin> evaluated_targets ag)
     (rs_query (rp_recon rs) (aa_events ag))"

lemma pending_to_replay: "pending_replay rs ids ag = map ev_event_id (to_replay rs ids ag)"
  by (simp add: pending_replay_def to_replay_def get_unevaluated_events_def server_recon_def evaluated_targets_def
      filter_map filter_filter o_def conj_commute)

lemma evaluated_targets_all:
  "length (agent_trail ag) \<le> 10000 \<Longrightarrow> evaluated_targets ag = snd ` set (outcome_keys ag)"
  by (simp add: evaluated_targets_def recent_entries_all agent_trail_def outcome_keys_entries image_image)

lemma evaluated_targets_sub: "evaluated_targets ag \<subseteq> snd ` set (outcome_keys ag)"
  by (auto simp: evaluated_targets_def recent_entries_def get_entries_def outcome_keys_entries image_image
      dest!: set_slice_last split: option.splits)

lemma outcome_keys_agent_log [simp]:
  "\<not> is_outcome a \<Longrightarrow> outcome_keys (agent_log su a v ag) = outcome_keys ag"
  by (simp add: outcome_keys_def agent_log_def)

text \<open>What one call leaves behind; \<open>mem_hub\<close> is a hub over the in-memory event store.\<close>

definition mem_hub :: "(mem_store, 'd) replay_setup \<Rightarrow> (mem_store, 'd) alert_agent \<Rightarrow> bool" where
  "mem_hub rs ag \<longleftrightarrow> agent_ok (as_sha (rp_agent rs)) ag \<and> as_store (rp_agent rs) = mem_store_event \<and>
     mem_ok (aa_events ag) \<and> rs_query (rp_recon rs) = mem_query no_filter 10000"

lemma do_replay_run:
  assumes "mem_hub rs ag"
  obtains ids1 ag' where "snd (do_replay rs envs v ids ag) = (ids1, ag')" "mem_hub rs ag'"
    "ids1 = (let all = ids \<union> ev_event_id ` set (to_replay rs ids ag)
       in if to_replay rs ids ag \<noteq> [] \<and> MAX_REPLAYED_HISTORY < card all
          then shed (rp_pop rs) (card all - MAX_REPLAYED_HISTORY) all else all)"
    "aa_events ag' = aa_events ag"
    "outcome_keys ag' = outcome_keys ag @ map (\<lambda>e. (ev_event_id e, ev_resource_id e)) (to_replay rs ids ag)"
    "to_replay rs ids ag = [] \<longrightarrow> do_replay rs envs v ids ag = (clean_answer, ids, ag)"
    "to_replay rs ids ag \<noteq> [] \<longrightarrow> dget (fst (do_replay rs envs v ids ag)) ''replayed'' =
       Some (PInt (int (length (to_replay rs ids ag)))) \<and> dget (fst (do_replay rs envs v ids ag)) ''errors'' = Some (PInt 0)"
proof (cases "to_replay rs ids ag = []")
  case True
  then have "do_replay rs envs v ids ag = (clean_answer, ids, ag)"
    by (simp add: do_replay_def pending_to_replay)
  then show ?thesis using assms True by (intro that [of ids ag]) (simp_all add: Let_def)
next
  case False
  let ?su = "rp_agent rs" and ?todo = "to_replay rs ids ag" and ?q = "rs_query (rp_recon rs) (aa_events ag)"
  let ?all = "ids \<union> set (map ev_event_id ?todo)" and ?c0 = "\<lparr>rn_replayed = 0, rn_alerts = 0, rn_errors = 0\<rparr>"
  have hub: "agent_ok (as_sha ?su) ag" "as_store ?su = mem_store_event" "mem_ok (aa_events ag)"
    "rs_query (rp_recon rs) = mem_query no_filter 10000" using assms by (simp_all add: mem_hub_def)
  have q_sub: "set ?q \<subseteq> set (me_events (aa_events ag))"
    by (auto simp: hub(4) mem_query_def dest!: set_slice_last)
  have q: "distinct (map ev_event_id ?q)"
    using hub(3) by (auto simp: hub(4) mem_query_def mem_ok_def slice_last_def drop_map [symmetric] distinct_map_filter
        intro!: distinct_drop)
  have byid: "dget (events_by_id ?q) (ev_event_id e) = Some e" if "e \<in> set ?todo" for e
    using that by (intro dget_events_by_id [OF q]) (simp add: to_replay_def)
  have "\<forall>eid \<in> set (map ev_event_id ?todo). \<exists>e \<in> set (me_events (aa_events ag)).
      dget (events_by_id ?q) eid = Some e \<and> ev_event_id e = eid"
    using byid q_sub by (auto simp: to_replay_def)
  from replay_each_run [OF hub(1-3) this, of envs 0 ids ?c0] obtain c ag1 where
    run: "replay_each ?su envs 0 (events_by_id ?q) (map ev_event_id ?todo) ids ?c0 ag = (c, ?all, ag1)"
    and ok: "agent_ok (as_sha ?su) ag1" and st: "aa_events ag1 = aa_events ag"
    and n: "rn_replayed c = length ?todo" "rn_errors c = 0"
    and keys: "outcome_keys ag1 = outcome_keys ag @ map (\<lambda>eid. (eid, ev_resource_id (the (dget (events_by_id ?q) eid)))) (map ev_event_id ?todo)"
    by auto
  let ?ag' = "agent_log ?su (replay_args c) v ag1"
  have "mem_hub rs ?ag'" using hub ok st by (simp add: mem_hub_def agent_ok_def agent_log_def)
  moreover have "outcome_keys ?ag' = outcome_keys ag @ map (\<lambda>e. (ev_event_id e, ev_resource_id e)) ?todo"
    using byid by (simp add: keys is_outcome_def replay_args_def default_args_def cong: map_cong)
  ultimately show ?thesis
    by (intro that [of _ ?ag'])
      (use False run st n in \<open>simp_all add: do_replay_def pending_to_replay Let_def dget_Cons agent_log_def\<close>)
qed

lemma to_replay_limit: "mem_hub rs ag \<Longrightarrow> length (to_replay rs ids ag) \<le> 10000"
proof -
  assume "mem_hub rs ag"
  then have "length (rs_query (rp_recon rs) (aa_events ag)) \<le> 10000"
    using length_slice_last [of 10000] by (simp add: mem_hub_def mem_query_def)
  then show ?thesis unfolding to_replay_def using length_filter_le order_trans by blast
qed

text \<open>After a replay whose trail is within the query limit, only events it was told to leave out are left.\<close>

lemma to_replay_done:
  assumes "mem_hub rs ag" and "length (agent_trail ag') \<le> 10000" and "aa_events ag' = aa_events ag"
    and "outcome_keys ag' = outcome_keys ag @ map (\<lambda>e. (ev_event_id e, ev_resource_id e)) (to_replay rs ids ag)"
    and "e \<in> set (to_replay rs {} ag')"
  shows "ev_event_id e \<in> ids"
proof (rule ccontr)
  assume out: "ev_event_id e \<notin> ids"
  have q: "e \<in> set (rs_query (rp_recon rs) (aa_events ag))" and "ev_resource_id e \<notin> snd ` set (outcome_keys ag')"
    using assms(5) by (simp_all add: to_replay_def assms(3) evaluated_targets_all [OF assms(2)])
  moreover have "snd ` set (outcome_keys ag') = snd ` set (outcome_keys ag) \<union> ev_resource_id ` set (to_replay rs ids ag)"
    by (simp add: assms(4) image_Un image_image)
  ultimately have "e \<notin> set (to_replay rs ids ag)" and "ev_resource_id e \<notin> evaluated_targets ag"
    using evaluated_targets_sub [of ag] by auto
  with q out show False by (simp add: to_replay_def)
qed



definition demo_replay :: "(mem_store, string list) replay_setup" where
  "demo_replay = \<lparr>rp_agent = demo_agent_setup, rp_recon = demo_recon_setup, rp_pop = Min\<rparr>"

definition demo_crashed :: "(mem_store, string list) alert_agent" where
  "demo_crashed = demo_fresh_agent\<lparr>aa_events := mem_store_event demo_alert_event init_mem\<rparr>"


end
