(* ===== verification/Supervisor.thy ===== *)
theory Supervisor
  imports Models
begin

text \<open>
  The kill switch, \<open>core/agent_supervisor.py\<close>: halt entries keyed by session, with halt, resume
  and the queries. The governor consults it through the interface \<open>halt_registry\<close>.
\<close>

record halt_entry =
  he_halt_id :: string
  he_session_id :: string
  he_correlation_id :: string
  he_operator :: string
  he_reason :: string
  he_halted_at :: timestamp
  he_resumed_at :: "timestamp option"
  he_resumed_by :: string
  he_resume_reason :: string

definition is_active :: "halt_entry \<Rightarrow> bool" where
  "is_active e \<longleftrightarrow> he_resumed_at e = None"

record agent_supervisor =
  sv_records :: "(string, halt_entry) dict"

definition init_supervisor :: agent_supervisor where
  "init_supervisor = \<lparr>sv_records = []\<rparr>"

record halt_args =
  ha_halt_id :: string
  ha_now :: timestamp
  ha_operator :: string
  ha_reason :: string
  ha_correlation_id :: string

record resume_args =
  ra_now :: timestamp
  ra_operator :: string
  ra_reason :: string

definition halt :: "string \<Rightarrow> halt_args \<Rightarrow> agent_supervisor \<Rightarrow> halt_entry \<times> agent_supervisor" where
  "halt sid a sv =
     (let fresh = \<lparr>he_halt_id = ha_halt_id a, he_session_id = sid,
            he_correlation_id = ha_correlation_id a, he_operator = ha_operator a,
            he_reason = ha_reason a, he_halted_at = ha_now a, he_resumed_at = None,
            he_resumed_by = [], he_resume_reason = []\<rparr>
      in case dget (sv_records sv) sid of
           Some e \<Rightarrow> if is_active e then (e, sv)
                     else (fresh, sv\<lparr>sv_records := dset (sv_records sv) sid fresh\<rparr>)
         | None \<Rightarrow> (fresh, sv\<lparr>sv_records := dset (sv_records sv) sid fresh\<rparr>))"

definition resume :: "string \<Rightarrow> resume_args \<Rightarrow> agent_supervisor \<Rightarrow>
    halt_entry option \<times> agent_supervisor" where
  "resume sid a sv =
     (case dget (sv_records sv) sid of
        None \<Rightarrow> (None, sv)
      | Some e \<Rightarrow>
          if \<not> is_active e then (None, sv)
          else (let e' = e\<lparr>he_resumed_at := Some (ra_now a), he_resumed_by := ra_operator a,
                      he_resume_reason := ra_reason a\<rparr>
                in (Some e', sv\<lparr>sv_records := dset (sv_records sv) sid e'\<rparr>)))"

definition is_halted :: "string \<Rightarrow> agent_supervisor \<Rightarrow> halt_entry option" where
  "is_halted sid sv =
     (case dget (sv_records sv) sid of
        None \<Rightarrow> None | Some e \<Rightarrow> if is_active e then Some e else None)"

definition session_status :: "string \<Rightarrow> agent_supervisor \<Rightarrow> halt_entry option" where
  "session_status sid sv = dget (sv_records sv) sid"

definition all_active :: "agent_supervisor \<Rightarrow> halt_entry list" where
  "all_active sv = filter is_active (dvalues (sv_records sv))"

definition all_records :: "agent_supervisor \<Rightarrow> halt_entry list" where
  "all_records sv = dvalues (sv_records sv)"

fun clear_sessions :: "string list \<Rightarrow> agent_supervisor \<Rightarrow> nat \<times> agent_supervisor" where
  "clear_sessions [] sv = (0, sv)"
| "clear_sessions (sid # sids) sv =
     (if dhas (sv_records sv) sid
      then (let (n, sv') = clear_sessions sids (sv\<lparr>sv_records := ddel (sv_records sv) sid\<rparr>)
            in (Suc n, sv'))
      else clear_sessions sids sv)"

definition clear :: "string list option \<Rightarrow> agent_supervisor \<Rightarrow> nat \<times> agent_supervisor" where
  "clear sids sv = (case sids of
     None \<Rightarrow> (length (sv_records sv), sv\<lparr>sv_records := []\<rparr>)
   | Some ss \<Rightarrow> clear_sessions ss sv)"

section \<open>What a kill switch promises\<close>

text \<open>
  A halt halts its session and no other, the first halt's entry stands, and only a resume of the
  same session lifts it.
\<close>

locale halt_registry =
  fixes halt_op :: "'sid \<Rightarrow> 'h \<Rightarrow> 's \<Rightarrow> 's"
    and resume_op :: "'sid \<Rightarrow> 'r \<Rightarrow> 's \<Rightarrow> 's"
    and halted :: "'sid \<Rightarrow> 's \<Rightarrow> 'e option"
  assumes halted_after_halt: "halted sid (halt_op sid h s) \<noteq> None"
    and halt_keeps: "halted sid s = Some e \<Longrightarrow> halted sid (halt_op sid' h s) = Some e"
    and halt_other: "sid' \<noteq> sid \<Longrightarrow> halted sid (halt_op sid' h s) = halted sid s"
    and resumed: "halted sid (resume_op sid r s) = None"
    and resume_other: "sid' \<noteq> sid \<Longrightarrow> halted sid (resume_op sid' r s) = halted sid s"
begin

fun run_ops :: "('sid \<times> 'h + 'sid \<times> 'r) list \<Rightarrow> 's \<Rightarrow> 's" where
  "run_ops [] s = s"
| "run_ops (Inl (sid, h) # xs) s = run_ops xs (halt_op sid h s)"
| "run_ops (Inr (sid, r) # xs) s = run_ops xs (resume_op sid r s)"

lemma halted_persists:
  "halted sid s = Some e \<Longrightarrow> (\<And>r. Inr (sid, r) \<notin> set xs) \<Longrightarrow> halted sid (run_ops xs s) = Some e"
proof (induction xs s rule: run_ops.induct)
  case (2 t h xs s)
  then show ?case by (simp add: halt_keeps)
next
  case (3 t r xs s)
  then have "t \<noteq> sid" by auto
  with 3 show ?case by (simp add: resume_other)
qed simp

lemma untouched:
  "(\<And>h. Inl (sid, h) \<notin> set xs) \<Longrightarrow> halted sid s = None \<Longrightarrow> halted sid (run_ops xs s) = None"
proof (induction xs s rule: run_ops.induct)
  case (2 t h xs s)
  then have "t \<noteq> sid" by auto
  with 2 show ?case by (simp add: halt_other)
next
  case (3 t r xs s)
  then show ?case by (cases "t = sid") (simp_all add: resumed resume_other)
qed simp

end

lemma is_halted_halt:
  "is_halted sid (snd (halt sid a sv)) = Some (fst (halt sid a sv))"
  by (cases "dget (sv_records sv) sid") (auto simp: is_halted_def halt_def is_active_def Let_def)

lemma is_halted_halt_keeps:
  "is_halted sid sv = Some e \<Longrightarrow> is_halted sid (snd (halt sid' a sv)) = Some e"
  by (auto simp: is_halted_def halt_def Let_def split: option.splits if_splits)

lemma is_halted_halt_other:
  "sid' \<noteq> sid \<Longrightarrow> is_halted sid (snd (halt sid' a sv)) = is_halted sid sv"
  by (cases "dget (sv_records sv) sid'") (auto simp: is_halted_def halt_def Let_def)

lemma is_halted_resume: "is_halted sid (snd (resume sid a sv)) = None"
  by (cases "dget (sv_records sv) sid") (auto simp: is_halted_def resume_def is_active_def Let_def)

lemma is_halted_resume_other:
  "sid' \<noteq> sid \<Longrightarrow> is_halted sid (snd (resume sid' a sv)) = is_halted sid sv"
  by (cases "dget (sv_records sv) sid'") (auto simp: is_halted_def resume_def Let_def)

interpretation kill_switch: halt_registry
  "\<lambda>sid a sv. snd (halt sid a sv)" "\<lambda>sid a sv. snd (resume sid a sv)" is_halted
  by unfold_locales
    (simp_all add: is_halted_halt is_halted_halt_keeps is_halted_halt_other is_halted_resume
      is_halted_resume_other)

text \<open>Supervisor operations at the top level, for runs.\<close>

datatype sup_op = Halt string halt_args | Resume string resume_args

fun sup_step :: "sup_op \<Rightarrow> agent_supervisor \<Rightarrow> agent_supervisor" where
  "sup_step (Halt sid a) sv = snd (halt sid a sv)"
| "sup_step (Resume sid a) sv = snd (resume sid a sv)"

definition resumes :: "string \<Rightarrow> sup_op \<Rightarrow> bool" where
  "resumes sid x = (case x of Halt _ _ \<Rightarrow> False | Resume s _ \<Rightarrow> s = sid)"

fun op_sum :: "sup_op \<Rightarrow> string \<times> halt_args + string \<times> resume_args" where
  "op_sum (Halt sid a) = Inl (sid, a)"
| "op_sum (Resume sid a) = Inr (sid, a)"

lemma fold_sup_step: "fold sup_step xs sv = kill_switch.run_ops (map op_sum xs) sv"
proof (induction xs arbitrary: sv)
  case (Cons x xs)
  then show ?case by (cases x) simp_all
qed simp

lemma fold_sup_halted:
  assumes "is_halted sid sv = Some e" "\<not> list_ex (resumes sid) xs"
  shows "is_halted sid (fold sup_step xs sv) = Some e"
proof -
  have "Inr (sid, r) \<notin> set (map op_sum xs)" for r
  proof
    assume "Inr (sid, r) \<in> set (map op_sum xs)"
    then obtain x where "x \<in> set xs" and eq: "op_sum x = Inr (sid, r)" by auto
    from eq have "resumes sid x" by (cases x) (simp_all add: resumes_def)
    with \<open>x \<in> set xs\<close> assms(2) show False by (auto simp: list_ex_iff)
  qed
  then show ?thesis
    using kill_switch.halted_persists [OF assms(1)] by (simp add: fold_sup_step)
qed

lemma halt_persists:
  "\<not> list_ex (resumes sid) xs \<Longrightarrow>
   is_halted sid (fold sup_step xs (snd (halt sid a sv))) = Some (fst (halt sid a sv))"
  by (rule fold_sup_halted [OF is_halted_halt])

text \<open>Concrete arguments for the witnesses of the theories that build on this one.\<close>

definition demo_halt :: halt_args where
  "demo_halt = \<lparr>ha_halt_id = ''h1'', ha_now = 5, ha_operator = ''oncall'', ha_reason = ''loop'',
     ha_correlation_id = []\<rparr>"

definition demo_resume :: resume_args where
  "demo_resume = \<lparr>ra_now = 9, ra_operator = ''oncall'', ra_reason = ''ok''\<rparr>"

end
