(* ===== verification/Governor.thy ===== *)
theory Governor
  imports Supervisor
begin

text \<open>
  The tool-call governor, \<open>core/tool_governor.py\<close>: registry, budget tracker, argument gates,
  policy, the enforcement point \<open>governed_call\<close> and the audit report over its artifacts. The
  executor and the approval handler are arguments, as in the source; they run over a world \<open>'w\<close>
  that also holds the clock, and may raise (an \<open>exn\<close>: the exception's type name and text). An
  artifact's own uuid and creation time, which nothing reads, are left out.
\<close>

section \<open>Data\<close>

datatype tool_category = DISCOVERY | CONNECTION | EXECUTION | OTHER

datatype decision = ALLOW | DENY | APPROVAL_REQUIRED

datatype artifact_type =
  POLICY_DECISION | TOOL_CALL_LOG | APPROVAL_REQUEST | APPROVAL_LOG | BUDGET_STATS | RESULT_SUMMARY

fun category_value :: "tool_category \<Rightarrow> string" where
  "category_value DISCOVERY = ''discovery''"
| "category_value CONNECTION = ''connection''"
| "category_value EXECUTION = ''execution''"
| "category_value OTHER = ''other''"

fun decision_value :: "decision \<Rightarrow> string" where
  "decision_value ALLOW = ''allow''"
| "decision_value DENY = ''deny''"
| "decision_value APPROVAL_REQUIRED = ''approval_required''"

lemma decision_value_inject [simp]: "decision_value a = decision_value b \<longleftrightarrow> a = b"
  by (cases a; cases b) simp_all

record tool_request =
  rq_request_id :: string
  rq_tool_name :: string
  rq_arguments :: "(string, pyval) dict"
  rq_requester :: string
  rq_reason :: string
  rq_session_id :: string
  rq_principal_id :: string
  rq_timestamp :: timestamp

record tool_result =
  rs_request_id :: string
  rs_tool_name :: string
  rs_decision :: decision
  rs_allowed :: bool
  rs_output :: pyval
  rs_error :: string
  rs_error_type :: string
  rs_denial_reason :: string
  rs_duration_ms :: real

record tool_call =
  tc_name :: string
  tc_category :: tool_category
  tc_description :: string

record budget_limits =
  bl_max_total_calls :: int
  bl_max_calls_per_tool :: int
  bl_max_runtime_seconds :: real
  bl_max_parallel :: int
  bl_separation :: bool

record governance_policy =
  gp_name :: string
  gp_description :: string
  gp_allowed_tools :: "string set"
  gp_denied_tools :: "string set"
  gp_allowed_categories :: "tool_category set"
  gp_require_approval_tools :: "string set"
  gp_budget :: budget_limits
  gp_default_allow :: bool

record artifact =
  at_type :: artifact_type
  at_request_id :: string
  at_tool_name :: string
  at_payload :: "(string, pyval) dict"

type_synonym exn = "string \<times> string"

section \<open>Tool registry\<close>

type_synonym tool_registry = "(string, tool_call) dict"

definition register :: "tool_call \<Rightarrow> tool_registry \<Rightarrow> tool_registry" where
  "register c reg = dset reg (tc_name c) c"

definition init_registry :: "tool_call list \<Rightarrow> tool_registry" where
  "init_registry cs = fold register cs []"

definition category_of :: "tool_registry \<Rightarrow> string \<Rightarrow> tool_category" where
  "category_of reg t = (case dget reg t of Some c \<Rightarrow> tc_category c | None \<Rightarrow> OTHER)"

definition known :: "tool_registry \<Rightarrow> string \<Rightarrow> bool" where
  "known reg t \<longleftrightarrow> dhas reg t"

definition names :: "tool_registry \<Rightarrow> string list" where
  "names reg = sort (map fst reg)"

section \<open>Budget tracker\<close>

record budget_tracker =
  bt_limits :: budget_limits
  bt_start :: real
  bt_total_calls :: int
  bt_per_tool :: "(string, int) dict"
  bt_in_flight :: int
  bt_connection_seen :: bool
  bt_execution_seen :: bool

definition init_budget :: "budget_limits \<Rightarrow> real \<Rightarrow> budget_tracker" where
  "init_budget lm start =
     \<lparr>bt_limits = lm, bt_start = start, bt_total_calls = 0, bt_per_tool = [], bt_in_flight = 0,
      bt_connection_seen = False, bt_execution_seen = False\<rparr>"

definition elapsed :: "real \<Rightarrow> budget_tracker \<Rightarrow> real" where
  "elapsed now b = now - bt_start b"

definition can_admit :: "real \<Rightarrow> string \<Rightarrow> tool_category \<Rightarrow> budget_tracker \<Rightarrow> bool \<times> string" where
  "can_admit now tool cat b =
     (let lm = bt_limits b in
      if bl_max_total_calls lm \<noteq> 0 \<and> bl_max_total_calls lm \<le> bt_total_calls b then
        (False, ''total-call budget exhausted ('' @ show_int (bl_max_total_calls lm) @ '')'')
      else if bl_max_calls_per_tool lm \<noteq> 0 \<and>
              bl_max_calls_per_tool lm \<le> dget_or (bt_per_tool b) tool 0 then
        (False, ''per-tool budget exhausted for '' @ tool)
      else if bl_max_runtime_seconds lm \<noteq> 0 \<and> bl_max_runtime_seconds lm \<le> elapsed now b then
        (False, ''runtime budget exhausted ('' @ fmt_1f (bl_max_runtime_seconds lm) @ ''s)'')
      else if bl_max_parallel lm \<noteq> 0 \<and> bl_max_parallel lm \<le> bt_in_flight b then
        (False, ''parallelism cap reached ('' @ show_int (bl_max_parallel lm) @ '')'')
      else if bl_separation lm \<and> cat = EXECUTION \<and> bt_connection_seen b then
        (False, ''separation violation: connection-then-execution'')
      else if bl_separation lm \<and> cat = CONNECTION \<and> bt_execution_seen b then
        (False, ''separation violation: execution-then-connection'')
      else (True, []))"

definition acquire :: "string \<Rightarrow> tool_category \<Rightarrow> budget_tracker \<Rightarrow> budget_tracker" where
  "acquire tool cat b =
     (let b = b\<lparr>bt_total_calls := bt_total_calls b + 1,
                bt_per_tool := dset (bt_per_tool b) tool (dget_or (bt_per_tool b) tool 0 + 1),
                bt_in_flight := bt_in_flight b + 1\<rparr>
      in if cat = CONNECTION then b\<lparr>bt_connection_seen := True\<rparr>
         else if cat = EXECUTION then b\<lparr>bt_execution_seen := True\<rparr>
         else b)"

definition release :: "budget_tracker \<Rightarrow> budget_tracker" where
  "release b = (if 0 < bt_in_flight b then b\<lparr>bt_in_flight := bt_in_flight b - 1\<rparr> else b)"

definition stats :: "real \<Rightarrow> budget_tracker \<Rightarrow> (string, pyval) dict" where
  "stats now b =
     (let lm = bt_limits b in
      [(''total_calls'', PInt (bt_total_calls b)),
       (''per_tool'', PDict (map (\<lambda>(t, n). (t, PInt n)) (bt_per_tool b))),
       (''elapsed_seconds'', PFloat (real_of_int (round_half_even (1000 * elapsed now b)) / 1000)),
       (''in_flight'', PInt (bt_in_flight b)),
       (''connection_seen'', PBool (bt_connection_seen b)),
       (''execution_seen'', PBool (bt_execution_seen b)),
       (''limits'', PDict
          [(''max_total_calls'', PInt (bl_max_total_calls lm)),
           (''max_calls_per_tool'', PInt (bl_max_calls_per_tool lm)),
           (''max_runtime_seconds'', PFloat (bl_max_runtime_seconds lm)),
           (''max_parallel'', PInt (bl_max_parallel lm)),
           (''enforce_connection_execution_separation'', PBool (bl_separation lm))])])"

section \<open>Argument gates\<close>

type_synonym argument_gate = "tool_request \<Rightarrow> bool \<times> string"

definition bounded_query :: argument_gate where
  "bounded_query rq =
     (let args = rq_arguments rq in
      case dget_or args ''query'' (PStr []) of
        PStr q \<Rightarrow>
          if 512 < length q then
            (False, ''query too long ('' @ show_nat (length q) @ '' > 512)'')
          else (case dget_or args ''num_results'' (dget_or args ''limit'' (PInt 0)) of
              PInt n \<Rightarrow> if 20 < n
                then (False, ''num_results too large ('' @ show_int n @ '' > 20)'')
                else (True, [])
            | _ \<Rightarrow> (True, []))
      | _ \<Rightarrow> (False, ''query must be string''))"

definition default_gates :: "(string, argument_gate) dict" where
  "default_gates = [(''exa_web_search'', bounded_query), (''exa_code_search'', bounded_query),
     (''serpapi_search'', bounded_query)]"

section \<open>Policy\<close>

definition policy_allows :: "governance_policy \<Rightarrow> string \<Rightarrow> tool_category \<Rightarrow> decision \<times> string" where
  "policy_allows p tool cat =
     (if tool \<in> gp_denied_tools p then (DENY, ''tool '' @ quoted tool @ '' is in deny list'')
      else if tool \<in> gp_require_approval_tools p then
        (APPROVAL_REQUIRED, ''tool '' @ quoted tool @ '' requires approval'')
      else if tool \<in> gp_allowed_tools p then (ALLOW, ''tool in allow list'')
      else if gp_allowed_categories p \<noteq> {} \<and> cat \<in> gp_allowed_categories p then
        (ALLOW, ''category '' @ quoted (category_value cat) @ '' allowed'')
      else if gp_allowed_categories p \<noteq> {} \<and> cat \<notin> gp_allowed_categories p then
        (DENY, ''category '' @ quoted (category_value cat) @ '' not in allow list'')
      else if gp_default_allow p then (ALLOW, ''default allow'')
      else (DENY, ''fail-closed: no matching allow rule''))"

section \<open>The enforcement point\<close>

text \<open>\<open>_summarise\<close>: the ellipsis is the UTF-8 encoding of U+2026.\<close>

definition ellipsis :: string where
  "ellipsis = [CHR 0xE2, CHR 0x80, CHR 0xA6]"

fun summarise :: "pyval \<Rightarrow> pyval" where
  "summarise PNone = PNone"
| "summarise (PStr t) = PStr (if length t \<le> 512 then t else take 512 t @ ellipsis)"
| "summarise (PInt i) = PInt i"
| "summarise (PFloat x) = PFloat x"
| "summarise (PBool b) = PBool b"
| "summarise (PList xs) = PDict [(''type'', PStr ''list''), (''length'', PInt (int (length xs)))]"
| "summarise (PDict d) = PDict [(''type'', PStr ''dict''),
     (''keys'', PList (map PStr (take 20 (sort (map fst d)))))]"

record 'w gov_env =
  ge_clock :: "'w \<Rightarrow> real"
  ge_executor :: "tool_request \<Rightarrow> 'w \<Rightarrow> (exn + pyval) \<times> 'w"
  ge_approval_handler :: "(tool_request \<Rightarrow> 'w \<Rightarrow> (exn + bool) \<times> 'w) option"
  ge_gates :: "(string, argument_gate) dict"
  ge_policy :: governance_policy
  ge_registry :: tool_registry
  ge_supervisor :: "agent_supervisor option"

record 'w gov_state =
  gs_budget :: budget_tracker
  gs_artifacts :: "artifact list"
  gs_world :: 'w

definition log_artifact :: "tool_request \<Rightarrow> artifact_type \<Rightarrow> (string, pyval) dict \<Rightarrow>
    'w gov_state \<Rightarrow> 'w gov_state" where
  "log_artifact rq ty payload st =
     st\<lparr>gs_artifacts := gs_artifacts st @ [\<lparr>at_type = ty, at_request_id = rq_request_id rq,
          at_tool_name = rq_tool_name rq, at_payload = payload\<rparr>]\<rparr>"

definition deny_result :: "tool_request \<Rightarrow> string \<Rightarrow> tool_result" where
  "deny_result rq reason =
     \<lparr>rs_request_id = rq_request_id rq, rs_tool_name = rq_tool_name rq, rs_decision = DENY,
      rs_allowed = False, rs_output = PNone, rs_error = [], rs_error_type = [],
      rs_denial_reason = reason, rs_duration_ms = 0\<rparr>"

text \<open>Step 0, the kill switch.\<close>

definition gov_halted :: "'w gov_env \<Rightarrow> tool_request \<Rightarrow> halt_entry option" where
  "gov_halted env rq =
     (case ge_supervisor env of
        None \<Rightarrow> None
      | Some sv \<Rightarrow> if rq_session_id rq = [] then None else is_halted (rq_session_id rq) sv)"

definition halt_reason :: "halt_entry \<Rightarrow> string" where
  "halt_reason h = ''session halted by '' @ he_operator h @
     (if he_reason h = [] then [] else '': '' @ he_reason h)"

text \<open>Steps 1 to 3: policy, argument gate, budget admission.\<close>

definition gov_decide :: "'w gov_env \<Rightarrow> tool_request \<Rightarrow> 'w gov_state \<Rightarrow> decision \<times> string" where
  "gov_decide env rq st =
     (let tool = rq_tool_name rq; cat = category_of (ge_registry env) tool;
          (d, r) = policy_allows (ge_policy env) tool cat;
          (d, r) = (if d \<noteq> DENY
                    then (case dget (ge_gates env) tool of
                            None \<Rightarrow> (d, r)
                          | Some gate \<Rightarrow> (let (ok, msg) = gate rq
                              in if ok then (d, r) else (DENY, ''argument gate: '' @ msg)))
                    else (d, r))
      in if d \<noteq> DENY
         then (let (ok, msg) = can_admit (ge_clock env (gs_world st)) tool cat (gs_budget st)
               in if ok then (d, r) else (DENY, msg))
         else (d, r))"

text \<open>Step 6, execution under the budget; the release and the budget artifact are the \<open>finally\<close>.\<close>

definition gov_execute :: "'w gov_env \<Rightarrow> tool_request \<Rightarrow> 'w gov_state \<Rightarrow>
    tool_result \<times> 'w gov_state" where
  "gov_execute env rq st =
     (let tool = rq_tool_name rq; cat = category_of (ge_registry env) tool;
          st = st\<lparr>gs_budget := acquire tool cat (gs_budget st)\<rparr>;
          start = ge_clock env (gs_world st);
          (out, w) = ge_executor env rq (gs_world st);
          st = st\<lparr>gs_world := w\<rparr>;
          dur = (ge_clock env w - start) * 1000;
          base = (deny_result rq [])\<lparr>rs_decision := ALLOW, rs_allowed := True,
                   rs_duration_ms := dur\<rparr>;
          (res, st) =
            (case out of
               Inr v \<Rightarrow>
                 (base\<lparr>rs_output := v\<rparr>,
                  log_artifact rq RESULT_SUMMARY
                    [(''status'', PStr ''ok''), (''duration_ms'', PFloat dur)]
                    (log_artifact rq TOOL_CALL_LOG
                      [(''arguments'', PDict (rq_arguments rq)), (''output'', summarise v),
                       (''duration_ms'', PFloat dur)] st))
             | Inl (ty, msg) \<Rightarrow>
                 (base\<lparr>rs_error := msg, rs_error_type := ty\<rparr>,
                  log_artifact rq RESULT_SUMMARY
                    [(''status'', PStr ''error''), (''error'', PStr msg)]
                    (log_artifact rq TOOL_CALL_LOG
                      [(''arguments'', PDict (rq_arguments rq)), (''error'', PStr msg),
                       (''duration_ms'', PFloat dur)] st)));
          st = st\<lparr>gs_budget := release (gs_budget st)\<rparr>
      in (res, log_artifact rq BUDGET_STATS (stats (ge_clock env w) (gs_budget st)) st))"

definition gov_deny :: "tool_request \<Rightarrow> string \<Rightarrow> string \<Rightarrow> 'w gov_state \<Rightarrow>
    tool_result \<times> 'w gov_state" where
  "gov_deny rq status reason st =
     (deny_result rq reason,
      log_artifact rq RESULT_SUMMARY [(''status'', PStr status), (''reason'', PStr reason)] st)"

text \<open>
  \<open>governed_call\<close>. An exception of the approval handler propagates (the source has no handler
  around it); one of the executor becomes part of the result.
\<close>

definition governed_call :: "'w gov_env \<Rightarrow> tool_request \<Rightarrow> 'w gov_state \<Rightarrow>
    (exn + tool_result) \<times> 'w gov_state" where
  "governed_call env rq st =
     (let cat = category_of (ge_registry env) (rq_tool_name rq);
          tag = [(''category'', PStr (category_value cat)),
                 (''policy'', PStr (gp_name (ge_policy env)))]
      in case gov_halted env rq of
        Some h \<Rightarrow>
          (let st = log_artifact rq POLICY_DECISION
                 ([(''decision'', PStr (decision_value DENY)), (''reason'', PStr (halt_reason h))] @
                  tag @ [(''halt_id'', PStr (he_halt_id h)),
                         (''session_id'', PStr (rq_session_id rq))]) st
           in map_prod Inr id (gov_deny rq ''halted'' (halt_reason h) st))
      | None \<Rightarrow>
          (let (d, reason) = gov_decide env rq st;
               st = log_artifact rq POLICY_DECISION
                 ([(''decision'', PStr (decision_value d)), (''reason'', PStr reason)] @ tag @
                  [(''budget'', PDict (stats (ge_clock env (gs_world st)) (gs_budget st)))]) st
           in case d of
             DENY \<Rightarrow> map_prod Inr id (gov_deny rq ''denied'' reason st)
           | ALLOW \<Rightarrow> map_prod Inr id (gov_execute env rq st)
           | APPROVAL_REQUIRED \<Rightarrow>
               (let st = log_artifact rq APPROVAL_REQUEST
                      [(''reason'', PStr reason), (''arguments'', PDict (rq_arguments rq))] st;
                    (ans, w) = (case ge_approval_handler env of
                        None \<Rightarrow> (Inr False, gs_world st) | Some h \<Rightarrow> h rq (gs_world st));
                    st = st\<lparr>gs_world := w\<rparr>
                in case ans of
                  Inl e \<Rightarrow> (Inl e, st)
                | Inr approved \<Rightarrow>
                    (let st = log_artifact rq APPROVAL_LOG
                           [(''approved'', PBool approved), (''reason'', PStr reason)] st
                     in if approved then map_prod Inr id (gov_execute env rq st)
                        else map_prod Inr id
                          (gov_deny rq ''denied'' (''approval denied: '' @ reason) st)))))"

text \<open>A session of calls, in order; a raising approval handler ends its call, not the session.\<close>

fun gov_run :: "'w gov_env \<Rightarrow> tool_request list \<Rightarrow> 'w gov_state \<Rightarrow>
    (exn + tool_result) list \<times> 'w gov_state" where
  "gov_run env [] st = ([], st)"
| "gov_run env (rq # rqs) st =
     (let (r, st1) = governed_call env rq st; (rs, st2) = gov_run env rqs st1
      in (r # rs, st2))"

section \<open>Audit report\<close>

definition by_type :: "artifact_type \<Rightarrow> artifact list \<Rightarrow> artifact list" where
  "by_type ty arts = filter (\<lambda>a. at_type a = ty) arts"

definition has_decision :: "decision \<Rightarrow> artifact \<Rightarrow> bool" where
  "has_decision d a \<longleftrightarrow> dget (at_payload a) ''decision'' = Some (PStr (decision_value d))"

record report_summary =
  su_total_requests :: nat
  su_allowed :: nat
  su_denied :: nat
  su_approval_requests :: nat
  su_approved :: nat
  su_tool_calls :: nat

definition summary :: "artifact list \<Rightarrow> report_summary" where
  "summary arts =
     (let decisions = by_type POLICY_DECISION arts; approvals = by_type APPROVAL_LOG arts
      in \<lparr>su_total_requests = length decisions,
          su_allowed = length (filter (has_decision ALLOW) decisions),
          su_denied = length (filter (has_decision DENY) decisions),
          su_approval_requests = length approvals,
          su_approved = length (filter
            (\<lambda>a. dget (at_payload a) ''approved'' = Some (PBool True)) approvals),
          su_tool_calls = length (by_type TOOL_CALL_LOG arts)\<rparr>)"

fun reason_of :: "artifact \<Rightarrow> string" where
  "reason_of a = (case dget (at_payload a) ''reason'' of Some (PStr r) \<Rightarrow> r | _ \<Rightarrow> ''unknown'')"

definition denial_breakdown :: "artifact list \<Rightarrow> (string, int) dict" where
  "denial_breakdown arts =
     fold (\<lambda>a c. dset c (reason_of a) (dget_or c (reason_of a) 0 + 1))
       (filter (has_decision DENY) (by_type POLICY_DECISION arts)) []"

definition budget_snapshot :: "artifact list \<Rightarrow> (string, pyval) dict" where
  "budget_snapshot arts =
     (case rev (by_type BUDGET_STATS arts) of [] \<Rightarrow> [] | a # _ \<Rightarrow> at_payload a)"

definition recommendations :: "artifact list \<Rightarrow> string list" where
  "recommendations arts =
     (let reasons = map fst (denial_breakdown arts);
          recs = (if list_ex (substr ''budget'') reasons
                  then [''Budget exhaustion detected '' @ em_dash @
                        '' consider tightening argument gates or raising limits if usage is legitimate.'']
                  else []) @
                 (if list_ex (substr ''separation'') reasons
                  then [''Connection/execution separation violated '' @ em_dash @
                        '' review agent planning to avoid mixing phases in one trajectory.'']
                  else []) @
                 (if list_ex (substr ''fail-closed'') reasons
                  then [''Unknown-tool denials observed '' @ em_dash @
                        '' extend the registry or widen the policy if these tools are expected.'']
                  else [])
      in if recs = [] then [''No anomalies detected.''] else recs)"

section \<open>Facts about one call\<close>

lemma log_artifact_simps [simp]:
  "gs_budget (log_artifact rq ty p st) = gs_budget st"
  "gs_world (log_artifact rq ty p st) = gs_world st"
  by (simp_all add: log_artifact_def)

lemma log_artifact_types [simp]:
  "map at_type (gs_artifacts (log_artifact rq ty p st)) = map at_type (gs_artifacts st) @ [ty]"
  by (simp add: log_artifact_def)

lemma deny_result_simps [simp]:
  "\<not> rs_allowed (deny_result rq reason)" "rs_decision (deny_result rq reason) = DENY"
  "rs_denial_reason (deny_result rq reason) = reason"
  by (simp_all add: deny_result_def)

lemma gov_deny_simps [simp]:
  "fst (gov_deny rq s r st) = deny_result rq r" "gs_budget (snd (gov_deny rq s r st)) = gs_budget st"
  "gs_world (snd (gov_deny rq s r st)) = gs_world st"
  "map at_type (gs_artifacts (snd (gov_deny rq s r st))) =
     map at_type (gs_artifacts st) @ [RESULT_SUMMARY]"
  by (simp_all add: gov_deny_def)

lemma env_executor_update [simp]:
  "gov_decide (env\<lparr>ge_executor := ex\<rparr>) rq st = gov_decide env rq st"
  "gov_halted (env\<lparr>ge_executor := ex\<rparr>) rq = gov_halted env rq"
  by (auto simp: gov_decide_def gov_halted_def Let_def split: prod.splits option.splits if_splits)

lemma map_prod_Inr_eq: "map_prod Inr id x = (r, s) \<longleftrightarrow> r = Inr (fst x) \<and> s = snd x"
  by (cases x) auto

lemma gov_execute_allowed [simp]: "rs_allowed (fst (gov_execute env rq st))"
  by (simp add: gov_execute_def Let_def split: prod.splits sum.splits)

lemma gov_execute_budget:
  "gs_budget (snd (gov_execute env rq st)) =
     release (acquire (rq_tool_name rq) (category_of (ge_registry env) (rq_tool_name rq)) (gs_budget st))"
  by (simp add: gov_execute_def Let_def split: prod.splits sum.splits)

lemma gov_execute_types:
  "map at_type (gs_artifacts (snd (gov_execute env rq st))) =
     map at_type (gs_artifacts st) @ [TOOL_CALL_LOG, RESULT_SUMMARY, BUDGET_STATS]"
  by (simp add: gov_execute_def Let_def split: prod.splits sum.splits)

lemma gov_decide_allows:
  assumes "fst (gov_decide env rq st) \<noteq> DENY"
  shows "fst (policy_allows (ge_policy env) (rq_tool_name rq)
           (category_of (ge_registry env) (rq_tool_name rq))) = fst (gov_decide env rq st)"
    and "dget (ge_gates env) (rq_tool_name rq) = Some gate \<Longrightarrow> fst (gate rq)"
    and "fst (can_admit (ge_clock env (gs_world st)) (rq_tool_name rq)
           (category_of (ge_registry env) (rq_tool_name rq)) (gs_budget st))"
  using assms
  by (auto simp: gov_decide_def Let_def split: prod.splits option.splits if_splits)

text \<open>The five ways a call can go; every fact about one call is a case split over them.\<close>

lemma governed_call_cases [consumes 1, case_names halted denied crashed refused executed]:
  assumes "governed_call env rq st = (r, st')"
  obtains
    (halted) h where "gov_halted env rq = Some h" "r = Inr (deny_result rq (halt_reason h))"
      "gs_budget st' = gs_budget st" "gs_world st' = gs_world st"
      "map at_type (gs_artifacts st') =
         map at_type (gs_artifacts st) @ [POLICY_DECISION, RESULT_SUMMARY]"
  | (denied) "gov_halted env rq = None" "fst (gov_decide env rq st) = DENY"
      "r = Inr (deny_result rq (snd (gov_decide env rq st)))"
      "gs_budget st' = gs_budget st" "gs_world st' = gs_world st"
      "map at_type (gs_artifacts st') =
         map at_type (gs_artifacts st) @ [POLICY_DECISION, RESULT_SUMMARY]"
  | (crashed) h e where "gov_halted env rq = None"
      "fst (gov_decide env rq st) = APPROVAL_REQUIRED" "ge_approval_handler env = Some h"
      "h rq (gs_world st) = (Inl e, gs_world st')" "r = Inl e" "gs_budget st' = gs_budget st"
      "map at_type (gs_artifacts st') =
         map at_type (gs_artifacts st) @ [POLICY_DECISION, APPROVAL_REQUEST]"
  | (refused) "gov_halted env rq = None" "fst (gov_decide env rq st) = APPROVAL_REQUIRED"
      "case ge_approval_handler env of None \<Rightarrow> gs_world st' = gs_world st
         | Some h \<Rightarrow> h rq (gs_world st) = (Inr False, gs_world st')"
      "r = Inr (deny_result rq (''approval denied: '' @ snd (gov_decide env rq st)))"
      "gs_budget st' = gs_budget st"
      "map at_type (gs_artifacts st') = map at_type (gs_artifacts st) @
         [POLICY_DECISION, APPROVAL_REQUEST, APPROVAL_LOG, RESULT_SUMMARY]"
  | (executed) st1 where "gov_halted env rq = None"
      "(fst (gov_decide env rq st) = ALLOW \<and> gs_world st1 = gs_world st) \<or>
       (fst (gov_decide env rq st) = APPROVAL_REQUIRED \<and> (\<exists>h. ge_approval_handler env = Some h \<and>
          h rq (gs_world st) = (Inr True, gs_world st1)))"
      "gs_budget st1 = gs_budget st"
      "map at_type (gs_artifacts st1) = map at_type (gs_artifacts st) @ POLICY_DECISION #
         (if fst (gov_decide env rq st) = ALLOW then [] else [APPROVAL_REQUEST, APPROVAL_LOG])"
      "r = Inr (fst (gov_execute env rq st1))" "st' = snd (gov_execute env rq st1)"
proof (cases "gov_halted env rq")
  case (Some h)
  with assms halted [of h] show ?thesis
    by (auto simp: governed_call_def Let_def map_prod_Inr_eq)
next
  case None
  obtain d reason where d: "gov_decide env rq st = (d, reason)" by fastforce
  show ?thesis
  proof (cases d)
    case DENY
    with None d assms denied show ?thesis by (auto simp: governed_call_def Let_def map_prod_Inr_eq)
  next
    case ALLOW
    with None d assms show ?thesis
      by (intro executed) (auto simp: governed_call_def Let_def map_prod_Inr_eq)
  next
    case APPROVAL_REQUIRED
    show ?thesis
    proof (cases "ge_approval_handler env")
      case No: None
      with None d APPROVAL_REQUIRED assms show ?thesis
        by (intro refused) (auto simp: governed_call_def Let_def map_prod_Inr_eq)
    next
      case (Some h)
      obtain ans w where h: "h rq (gs_world st) = (ans, w)" by fastforce
      note facts = None d APPROVAL_REQUIRED Some h assms
      show ?thesis
      proof (cases ans)
        case (Inl e)
        with facts show ?thesis by (intro crashed [of h e]) (auto simp: governed_call_def Let_def map_prod_Inr_eq)
      next
        case (Inr b)
        show ?thesis
        proof (cases b)
          case True
          with Inr facts show ?thesis
            by (intro executed) (auto simp: governed_call_def Let_def map_prod_Inr_eq)
        next
          case False
          with Inr facts show ?thesis by (intro refused) (auto simp: governed_call_def Let_def map_prod_Inr_eq)
        qed
      qed
    qed
  qed
qed

section \<open>The budget invariant\<close>

text \<open>
  Per-tool counts are non-negative and add up to the total; a positive limit bounds its counter;
  under separation not both flags are set.
\<close>

definition budget_ok :: "budget_tracker \<Rightarrow> bool" where
  "budget_ok b \<longleftrightarrow>
     (let lm = bt_limits b in
      bt_total_calls b = sum_list (dvalues (bt_per_tool b)) \<and>
      (\<forall>n \<in> set (dvalues (bt_per_tool b)). 0 \<le> n) \<and> 0 \<le> bt_in_flight b \<and>
      (0 < bl_max_total_calls lm \<longrightarrow> bt_total_calls b \<le> bl_max_total_calls lm) \<and>
      (0 < bl_max_calls_per_tool lm \<longrightarrow>
         (\<forall>n \<in> set (dvalues (bt_per_tool b)). n \<le> bl_max_calls_per_tool lm)) \<and>
      (0 < bl_max_parallel lm \<longrightarrow> bt_in_flight b \<le> bl_max_parallel lm) \<and>
      (bl_separation lm \<longrightarrow> \<not> (bt_connection_seen b \<and> bt_execution_seen b)))"

lemma budget_ok_init [inv_intros]: "budget_ok (init_budget lm start)"
  by (simp add: budget_ok_def init_budget_def Let_def)

lemma acquire_limits [simp]: "bt_limits (acquire t c b) = bt_limits b"
  by (simp add: acquire_def Let_def)

lemma release_limits [simp]: "bt_limits (release b) = bt_limits b"
  by (simp add: release_def)

lemma can_admit_below:
  assumes "fst (can_admit now t c b)"
  shows "0 < bl_max_total_calls (bt_limits b) \<Longrightarrow>
           bt_total_calls b < bl_max_total_calls (bt_limits b)"
    and "0 < bl_max_calls_per_tool (bt_limits b) \<Longrightarrow>
           dget_or (bt_per_tool b) t 0 < bl_max_calls_per_tool (bt_limits b)"
    and "0 < bl_max_parallel (bt_limits b) \<Longrightarrow> bt_in_flight b < bl_max_parallel (bt_limits b)"
    and "bl_separation (bt_limits b) \<Longrightarrow> c = EXECUTION \<Longrightarrow> \<not> bt_connection_seen b"
    and "bl_separation (bt_limits b) \<Longrightarrow> c = CONNECTION \<Longrightarrow> \<not> bt_execution_seen b"
  using assms by (auto simp: can_admit_def Let_def split: if_splits)

lemma acquire_simps [simp]:
  "bt_total_calls (acquire t c b) = bt_total_calls b + 1"
  "bt_per_tool (acquire t c b) = dset (bt_per_tool b) t (dget_or (bt_per_tool b) t 0 + 1)"
  "bt_in_flight (acquire t c b) = bt_in_flight b + 1"
  "bt_connection_seen (acquire t c b) = (c = CONNECTION \<or> bt_connection_seen b)"
  "bt_execution_seen (acquire t c b) = (c = EXECUTION \<or> bt_execution_seen b)"
  by (simp_all add: acquire_def Let_def)

lemma release_simps [simp]:
  "bt_total_calls (release b) = bt_total_calls b" "bt_per_tool (release b) = bt_per_tool b"
  "bt_connection_seen (release b) = bt_connection_seen b"
  "bt_execution_seen (release b) = bt_execution_seen b"
  "bt_in_flight (release b) = (if 0 < bt_in_flight b then bt_in_flight b - 1 else bt_in_flight b)"
  by (simp_all add: release_def)

lemma budget_ok_acquire [inv_intros]:
  assumes ok: "budget_ok b" and adm: "fst (can_admit now t c b)"
  shows "budget_ok (acquire t c b)"
proof -
  let ?lm = "bt_limits b" and ?n = "dget_or (bt_per_tool b) t 0"
  have nn: "0 \<le> ?n"
    using ok dget_or_values [of "bt_per_tool b" t 0] by (auto simp: budget_ok_def Let_def)
  have total: "bt_total_calls b + 1 = sum_list (dvalues (dset (bt_per_tool b) t (?n + 1)))"
    using ok by (simp add: budget_ok_def Let_def sum_dset)
  have vals: "0 \<le> n \<and> (0 < bl_max_calls_per_tool ?lm \<longrightarrow> n \<le> bl_max_calls_per_tool ?lm)"
    if "n \<in> set (dvalues (dset (bt_per_tool b) t (?n + 1)))" for n
    using set_values_dset [OF that] ok nn can_admit_below(2) [OF adm]
    by (auto simp: budget_ok_def Let_def)
  show ?thesis
    unfolding budget_ok_def Let_def
    using ok total vals can_admit_below [OF adm]
    by (auto simp: budget_ok_def Let_def)
qed

lemma budget_ok_release [inv_intros]: "budget_ok b \<Longrightarrow> budget_ok (release b)"
  by (auto simp: budget_ok_def Let_def)

lemma governed_call_budget_cases:
  assumes "governed_call env rq st = (r, st')"
  shows "(gs_budget st' = gs_budget st \<and> \<not> (\<exists>res. r = Inr res \<and> rs_allowed res)) \<or>
    (\<exists>now. fst (can_admit now (rq_tool_name rq)
        (category_of (ge_registry env) (rq_tool_name rq)) (gs_budget st)) \<and>
      gs_budget st' = release (acquire (rq_tool_name rq)
        (category_of (ge_registry env) (rq_tool_name rq)) (gs_budget st)) \<and>
      (\<exists>res. r = Inr res \<and> rs_allowed res))"
  using assms
proof (cases rule: governed_call_cases)
  case (executed st1)
  then have "fst (gov_decide env rq st) \<noteq> DENY" by auto
  from gov_decide_allows(3) [OF this] executed show ?thesis
    by (auto simp: gov_execute_budget)
qed auto

lemma budget_ok_call [inv_intros]:
  "budget_ok (gs_budget st) \<Longrightarrow> governed_call env rq st = (r, st') \<Longrightarrow> budget_ok (gs_budget st')"
  using governed_call_budget_cases [of env rq st r st']
  by (metis budget_ok_acquire budget_ok_release)

definition executed :: "exn + tool_result \<Rightarrow> bool" where
  "executed r = (case r of Inl _ \<Rightarrow> False | Inr res \<Rightarrow> rs_allowed res)"

lemma executed_iff: "executed r \<longleftrightarrow> (\<exists>res. r = Inr res \<and> rs_allowed res)"
  by (auto simp: executed_def split: sum.splits)

lemma call_limits: "governed_call env rq st = (r, st') \<Longrightarrow>
    bt_limits (gs_budget st') = bt_limits (gs_budget st)"
  using governed_call_budget_cases [of env rq st r st'] by auto

lemma call_total: "governed_call env rq st = (r, st') \<Longrightarrow>
    bt_total_calls (gs_budget st') = bt_total_calls (gs_budget st) + (if executed r then 1 else 0)"
  using governed_call_budget_cases [of env rq st r st'] by (auto simp: executed_iff)

lemma call_in_flight: "governed_call env rq st = (r, st') \<Longrightarrow> 0 \<le> bt_in_flight (gs_budget st) \<Longrightarrow>
    bt_in_flight (gs_budget st') = bt_in_flight (gs_budget st)"
  using governed_call_budget_cases [of env rq st r st'] by auto

lemma gov_run_budget_ok:
  "budget_ok (gs_budget st) \<Longrightarrow> gov_run env rqs st = (rs, st') \<Longrightarrow>
   budget_ok (gs_budget st') \<and> bt_limits (gs_budget st') = bt_limits (gs_budget st) \<and>
   bt_in_flight (gs_budget st') = bt_in_flight (gs_budget st) \<and>
   bt_total_calls (gs_budget st') =
     bt_total_calls (gs_budget st) + int (length (filter executed rs))"
proof (induction rqs arbitrary: st rs st')
  case (Cons rq rqs)
  obtain r st1 where c: "governed_call env rq st = (r, st1)" by fastforce
  obtain rs1 where rest: "gov_run env rqs st1 = (rs1, st')" "rs = r # rs1"
    using Cons.prems(2) c by (auto split: prod.splits)
  have ok: "budget_ok (gs_budget st1)" using Cons.prems(1) c by (auto intro: inv_intros)
  have "0 \<le> bt_in_flight (gs_budget st)"
    using Cons.prems(1) by (simp add: budget_ok_def Let_def)
  with Cons.IH [OF ok rest(1)] rest(2) show ?case
    using call_limits [OF c] call_total [OF c] call_in_flight [OF c] by simp
qed simp

text \<open>Calls the flags remember: a connection or execution tool that ran leaves its flag set.\<close>

lemma gov_run_flags:
  "gov_run env rqs st = (rs, st') \<Longrightarrow>
   (bt_connection_seen (gs_budget st) \<longrightarrow> bt_connection_seen (gs_budget st')) \<and>
   (bt_execution_seen (gs_budget st) \<longrightarrow> bt_execution_seen (gs_budget st')) \<and>
   length rs = length rqs \<and>
   (\<forall>(rq, r) \<in> set (zip rqs rs). executed r \<longrightarrow>
      (category_of (ge_registry env) (rq_tool_name rq) = CONNECTION \<longrightarrow>
         bt_connection_seen (gs_budget st')) \<and>
      (category_of (ge_registry env) (rq_tool_name rq) = EXECUTION \<longrightarrow>
         bt_execution_seen (gs_budget st')))"
proof (induction rqs arbitrary: st rs st')
  case (Cons rq rqs)
  obtain r st1 where c: "governed_call env rq st = (r, st1)" by fastforce
  obtain rs1 where rest: "gov_run env rqs st1 = (rs1, st')" "rs = r # rs1"
    using Cons.prems c by (auto split: prod.splits)
  show ?case
    using Cons.IH [OF rest(1)] governed_call_budget_cases [OF c] rest(2)
    by (auto simp: executed_iff)
qed simp

section \<open>The report counts the calls\<close>

text \<open>Decisions settled at once and approvals, per artifact: 1 for each entry that settles a call.\<close>

definition settles :: "artifact \<Rightarrow> bool" where
  "settles a \<longleftrightarrow> (at_type a = POLICY_DECISION \<and> (has_decision ALLOW a \<or> has_decision DENY a)) \<or>
     at_type a = APPROVAL_LOG"

lemma settles_split:
  "length (filter settles arts) =
     su_allowed (summary arts) + su_denied (summary arts) + su_approval_requests (summary arts)"
  by (induction arts) (auto simp: summary_def by_type_def settles_def has_decision_def Let_def)

lemma decision_artifact [simp]:
  "dget ((''decision'', PStr x) # ps) ''decision'' = Some (PStr x)"
  by (simp add: dget_def)

lemma gov_execute_settles:
  "length (filter settles (gs_artifacts (snd (gov_execute env rq st)))) =
     length (filter settles (gs_artifacts st))"
  by (simp add: gov_execute_def log_artifact_def settles_def Let_def split: prod.splits sum.splits)

lemma gov_deny_settles:
  "length (filter settles (gs_artifacts (snd (gov_deny rq s r st)))) =
     length (filter settles (gs_artifacts st))"
  by (simp add: gov_deny_def log_artifact_def settles_def)

lemma call_settles:
  assumes "governed_call env rq st = (Inr res, st')"
  shows "length (filter settles (gs_artifacts st')) = Suc (length (filter settles (gs_artifacts st)))"
proof -
  obtain d reason where d: "gov_decide env rq st = (d, reason)" by fastforce
  note unfolds = governed_call_def Let_def map_prod_Inr_eq gov_execute_settles gov_deny_settles
    settles_def has_decision_def log_artifact_def
  show ?thesis
  proof (cases "gov_halted env rq")
    case (Some h)
    with assms show ?thesis by (auto simp: unfolds)
  next
    case None
    show ?thesis
    proof (cases "fst (gov_decide env rq st)")
      case APPROVAL_REQUIRED
      with None d assms show ?thesis
        by (cases "ge_approval_handler env") (auto simp: unfolds split: prod.splits sum.splits if_splits)
    qed (use None d assms in \<open>auto simp: unfolds\<close>)
  qed
qed

lemma call_types:
  assumes "governed_call env rq st = (r, st')"
  shows "length (by_type POLICY_DECISION (gs_artifacts st')) =
      Suc (length (by_type POLICY_DECISION (gs_artifacts st)))"
    and "length (by_type TOOL_CALL_LOG (gs_artifacts st')) =
      length (by_type TOOL_CALL_LOG (gs_artifacts st)) + (if executed r then 1 else 0)"
proof -
  have count: "length (by_type ty arts) = length (filter (\<lambda>t. t = ty) (map at_type arts))" for ty arts
    by (induction arts) (auto simp: by_type_def)
  show "length (by_type POLICY_DECISION (gs_artifacts st')) =
      Suc (length (by_type POLICY_DECISION (gs_artifacts st)))"
    using assms by (cases rule: governed_call_cases) (simp_all add: count gov_execute_types)
  show "length (by_type TOOL_CALL_LOG (gs_artifacts st')) =
      length (by_type TOOL_CALL_LOG (gs_artifacts st)) + (if executed r then 1 else 0)"
    using assms
    by (cases rule: governed_call_cases) (simp_all add: count gov_execute_types executed_def)
qed

lemma gov_run_report:
  "gov_run env rqs st = (rs, st') \<Longrightarrow>
   length (by_type POLICY_DECISION (gs_artifacts st')) =
     length (by_type POLICY_DECISION (gs_artifacts st)) + length rqs \<and>
   length (by_type TOOL_CALL_LOG (gs_artifacts st')) =
     length (by_type TOOL_CALL_LOG (gs_artifacts st)) + length (filter executed rs) \<and>
   ((\<forall>e. Inl e \<notin> set rs) \<longrightarrow>
     length (filter settles (gs_artifacts st')) = length (filter settles (gs_artifacts st)) + length rqs)"
proof (induction rqs arbitrary: st rs st')
  case (Cons rq rqs)
  obtain r st1 where c: "governed_call env rq st = (r, st1)" by fastforce
  obtain rs1 where rest: "gov_run env rqs st1 = (rs1, st')" "rs = r # rs1"
    using Cons.prems c by (auto split: prod.splits)
  show ?case
    using Cons.IH [OF rest(1)] call_types [OF c] call_settles [of env rq st _ st1] c rest(2)
    by (cases r) auto
qed simp

section \<open>Properties\<close>

text \<open>
  C1: complete mediation, one way: a call that is not allowed never reaches the executor (its
  outcome and the state after it are the same whatever the executor does) and leaves the budget as
  it was.
\<close>

theorem governed_call_denied_inert:
  assumes "governed_call env rq st = (Inr res, st')" and "\<not> rs_allowed res"
  shows "governed_call (env\<lparr>ge_executor := ex\<rparr>) rq st = (Inr res, st') \<and>
    gs_budget st' = gs_budget st \<and> rs_decision res = DENY"
proof -
  obtain d reason where d: "gov_decide env rq st = (d, reason)" by fastforce
  have "gs_budget st' = gs_budget st \<and> rs_decision res = DENY"
    using assms by (cases rule: governed_call_cases) auto
  moreover have "governed_call (env\<lparr>ge_executor := ex\<rparr>) rq st = (Inr res, st')"
  proof (cases "gov_halted env rq")
    case (Some h)
    with assms show ?thesis by (simp add: governed_call_def Let_def)
  next
    case None
    with assms d show ?thesis
      by (cases d; cases "ge_approval_handler env")
        (auto simp: governed_call_def Let_def map_prod_Inr_eq split: prod.splits sum.splits if_splits)
  qed
  ultimately show ?thesis by simp
qed

text \<open>
  C2: complete mediation, the other way: a call the executor ran was not halted, its tool is not
  on the deny list, its argument gate passed, the budget admitted it, the policy allowed it or
  asked for an approval the handler gave, and it was charged to the budget once.
\<close>

theorem governed_call_allowed_justified:
  assumes "governed_call env rq st = (Inr res, st')" and "rs_allowed res"
  defines "cat \<equiv> category_of (ge_registry env) (rq_tool_name rq)"
  shows "gov_halted env rq = None \<and> rq_tool_name rq \<notin> gp_denied_tools (ge_policy env) \<and>
    (case dget (ge_gates env) (rq_tool_name rq) of None \<Rightarrow> True | Some gate \<Rightarrow> fst (gate rq)) \<and>
    fst (can_admit (ge_clock env (gs_world st)) (rq_tool_name rq) cat (gs_budget st)) \<and>
    (case fst (policy_allows (ge_policy env) (rq_tool_name rq) cat) of
       ALLOW \<Rightarrow> True | DENY \<Rightarrow> False
     | APPROVAL_REQUIRED \<Rightarrow> (case ge_approval_handler env of None \<Rightarrow> False
         | Some h \<Rightarrow> fst (h rq (gs_world st)) = Inr True)) \<and>
    gs_budget st' = release (acquire (rq_tool_name rq) cat (gs_budget st))"
  using assms(1)
proof (cases rule: governed_call_cases)
  case (executed st1)
  then have nd: "fst (gov_decide env rq st) \<noteq> DENY" by auto
  note allows = gov_decide_allows [OF nd]
  have "rq_tool_name rq \<notin> gp_denied_tools (ge_policy env)"
    using nd allows(1) by (auto simp: policy_allows_def)
  moreover have "case dget (ge_gates env) (rq_tool_name rq) of None \<Rightarrow> True | Some gate \<Rightarrow> fst (gate rq)"
    using allows(2) by (simp split: option.splits)
  moreover have "case fst (policy_allows (ge_policy env) (rq_tool_name rq) cat) of
       ALLOW \<Rightarrow> True | DENY \<Rightarrow> False
     | APPROVAL_REQUIRED \<Rightarrow> (case ge_approval_handler env of None \<Rightarrow> False
         | Some h \<Rightarrow> fst (h rq (gs_world st)) = Inr True)"
    unfolding cat_def allows(1) using executed(2) by auto
  ultimately show ?thesis
    using executed allows(3) by (simp add: cat_def gov_execute_budget)
qed (use assms(2) in auto)

text \<open>A session for the witnesses: the world counts executor calls and is its own clock.\<close>

definition demo_limits :: budget_limits where
  "demo_limits = \<lparr>bl_max_total_calls = 1, bl_max_calls_per_tool = 0, bl_max_runtime_seconds = 0,
     bl_max_parallel = 1, bl_separation = True\<rparr>"

definition demo_policy :: governance_policy where
  "demo_policy = \<lparr>gp_name = ''demo'', gp_description = [], gp_allowed_tools = {''run''},
     gp_denied_tools = {''rm''}, gp_allowed_categories = {}, gp_require_approval_tools = {},
     gp_budget = demo_limits, gp_default_allow = False\<rparr>"

definition demo_gov :: "nat gov_env" where
  "demo_gov = \<lparr>ge_clock = real, ge_executor = (\<lambda>rq w. (Inr (PInt (int w)), Suc w)),
     ge_approval_handler = None, ge_gates = default_gates, ge_policy = demo_policy,
     ge_registry = init_registry [\<lparr>tc_name = ''run'', tc_category = EXECUTION, tc_description = []\<rparr>],
     ge_supervisor = None\<rparr>"

definition demo_request :: "string \<Rightarrow> tool_request" where
  "demo_request tool = \<lparr>rq_request_id = ''r1'', rq_tool_name = tool, rq_arguments = [],
     rq_requester = ''agent'', rq_reason = [], rq_session_id = ''s1'', rq_principal_id = [],
     rq_timestamp = 0\<rparr>"

definition demo_state :: "nat gov_state" where
  "demo_state = \<lparr>gs_budget = init_budget demo_limits 0, gs_artifacts = [], gs_world = 0\<rparr>"

lemmas demo_gov_defs = demo_gov_def demo_request_def demo_state_def demo_policy_def demo_limits_def

lemma demo_denied:
  "governed_call demo_gov (demo_request ''rm'') demo_state =
     (Inr (deny_result (demo_request ''rm'') (''tool '' @ quoted ''rm'' @ '' is in deny list'')),
      snd (governed_call demo_gov (demo_request ''rm'') demo_state))"
proof -
  have "gov_halted demo_gov (demo_request ''rm'') = None"
    by (simp add: gov_halted_def demo_gov_defs)
  moreover have "gov_decide demo_gov (demo_request ''rm'') demo_state =
      (DENY, ''tool '' @ quoted ''rm'' @ '' is in deny list'')"
    by (simp add: gov_decide_def policy_allows_def demo_gov_defs)
  ultimately show ?thesis by (intro prod_eqI) (simp_all add: governed_call_def Let_def)
qed

theorem governed_call_denied_inert_witness:
  "governed_call (demo_gov\<lparr>ge_executor := (\<lambda>rq w. (Inl (''E'', []), 9))\<rparr>) (demo_request ''rm'')
     demo_state = governed_call demo_gov (demo_request ''rm'') demo_state"
  using governed_call_denied_inert [OF demo_denied, of "\<lambda>rq w. (Inl (''E'', []), 9)"] demo_denied
  by simp

lemma demo_executed_decide:
  "gov_halted demo_gov (demo_request ''run'') = None"
  "gov_decide demo_gov (demo_request ''run'') demo_state = (ALLOW, ''tool in allow list'')"
  by (simp_all add: gov_halted_def gov_decide_def policy_allows_def can_admit_def init_budget_def
      default_gates_def dget_def init_registry_def register_def category_of_def demo_gov_defs)

lemma demo_executed:
  "governed_call demo_gov (demo_request ''run'') demo_state =
     (Inr (projr (fst (governed_call demo_gov (demo_request ''run'') demo_state))),
      snd (governed_call demo_gov (demo_request ''run'') demo_state))"
  "rs_allowed (projr (fst (governed_call demo_gov (demo_request ''run'') demo_state)))"
  by (rule prod_eqI) (simp_all add: governed_call_def demo_executed_decide Let_def)

theorem governed_call_allowed_justified_witness:
  "gs_budget (snd (governed_call demo_gov (demo_request ''run'') demo_state)) =
     release (acquire ''run'' (category_of (ge_registry demo_gov) ''run'') (gs_budget demo_state))"
  using governed_call_allowed_justified [OF demo_executed]
  by (simp add: demo_request_def)

text \<open>
  C3: budgets hold over a whole session: from a fresh tracker, after any calls, the total and the
  per-tool counts are within their limits, the counters are consistent (the total is the sum of
  the per-tool counts and the number of calls the executor ran), and nothing is in flight.
\<close>

theorem gov_run_within_budget:
  assumes "gov_run env rqs \<lparr>gs_budget = init_budget lm start, gs_artifacts = arts, gs_world = w\<rparr>
    = (rs, st')"
  shows "(0 < bl_max_total_calls lm \<longrightarrow> int (length (filter executed rs)) \<le> bl_max_total_calls lm) \<and>
    (0 < bl_max_calls_per_tool lm \<longrightarrow>
       (\<forall>t. dget_or (bt_per_tool (gs_budget st')) t 0 \<le> bl_max_calls_per_tool lm)) \<and>
    bt_total_calls (gs_budget st') = int (length (filter executed rs)) \<and>
    sum_list (dvalues (bt_per_tool (gs_budget st'))) = int (length (filter executed rs)) \<and>
    bt_in_flight (gs_budget st') = 0"
proof -
  let ?st = "\<lparr>gs_budget = init_budget lm start, gs_artifacts = arts, gs_world = w\<rparr>"
  have "budget_ok (gs_budget ?st)" by (simp add: budget_ok_init)
  from gov_run_budget_ok [OF this assms]
  have ok: "budget_ok (gs_budget st')" "bt_limits (gs_budget st') = lm"
    "bt_in_flight (gs_budget st') = 0"
    "bt_total_calls (gs_budget st') = int (length (filter executed rs))"
    by (simp_all add: init_budget_def)
  have "dget_or (bt_per_tool (gs_budget st')) t 0 \<le> bl_max_calls_per_tool lm"
    if "0 < bl_max_calls_per_tool lm" for t
    using ok(1,2) that dget_or_values [of "bt_per_tool (gs_budget st')" t 0]
    by (auto simp: budget_ok_def Let_def)
  with ok show ?thesis by (auto simp: budget_ok_def Let_def)
qed

theorem gov_run_within_budget_witness:
  "bt_in_flight (gs_budget (snd (gov_run demo_gov [demo_request ''run'', demo_request ''run'']
     demo_state))) = 0 \<and>
   int (length (filter executed (fst (gov_run demo_gov [demo_request ''run'', demo_request ''run'']
     demo_state)))) \<le> 1"
proof -
  let ?x = "gov_run demo_gov [demo_request ''run'', demo_request ''run''] demo_state"
  have "gov_run demo_gov [demo_request ''run'', demo_request ''run'']
      \<lparr>gs_budget = init_budget demo_limits 0, gs_artifacts = [], gs_world = 0\<rparr> = (fst ?x, snd ?x)"
    by (simp add: demo_state_def)
  from gov_run_within_budget [OF this] show ?thesis by (simp add: demo_limits_def)
qed

text \<open>
  Separation of duties over a whole session: with the separation rule on, the executor never
  runs both a connection tool and an execution tool.
\<close>

theorem gov_run_separation:
  assumes run: "gov_run env rqs \<lparr>gs_budget = init_budget lm start, gs_artifacts = arts, gs_world = w\<rparr>
      = (rs, st')"
    and sep: "bl_separation lm"
    and conn: "(rq, r) \<in> set (zip rqs rs)" "executed r"
      "category_of (ge_registry env) (rq_tool_name rq) = CONNECTION"
    and exec: "(rq', r') \<in> set (zip rqs rs)" "executed r'"
  shows "category_of (ge_registry env) (rq_tool_name rq') \<noteq> EXECUTION"
proof
  assume "category_of (ge_registry env) (rq_tool_name rq') = EXECUTION"
  with gov_run_flags [OF run] conn exec
  have "bt_connection_seen (gs_budget st')" "bt_execution_seen (gs_budget st')" by fastforce+
  moreover have "budget_ok (gs_budget st')" "bt_limits (gs_budget st') = lm"
    using gov_run_budget_ok [OF _ run] budget_ok_init by (auto simp: init_budget_def)
  ultimately show False using sep by (simp add: budget_ok_def Let_def)
qed

definition demo_conn :: "nat gov_env" where
  "demo_conn = demo_gov\<lparr>ge_registry :=
     init_registry [\<lparr>tc_name = ''run'', tc_category = CONNECTION, tc_description = []\<rparr>]\<rparr>"

lemma demo_conn_decide:
  "gov_halted demo_conn (demo_request ''run'') = None"
  "gov_decide demo_conn (demo_request ''run'') demo_state = (ALLOW, ''tool in allow list'')"
  by (simp_all add: gov_halted_def gov_decide_def policy_allows_def can_admit_def init_budget_def
      default_gates_def dget_def init_registry_def register_def category_of_def demo_gov_defs
      demo_conn_def)

theorem gov_run_separation_witness:
  "category_of (ge_registry demo_conn) (rq_tool_name (demo_request ''run'')) \<noteq> EXECUTION"
proof (rule gov_run_separation)
  let ?x = "governed_call demo_conn (demo_request ''run'') demo_state"
  show "gov_run demo_conn [demo_request ''run'']
      \<lparr>gs_budget = init_budget demo_limits 0, gs_artifacts = [], gs_world = 0\<rparr> = ([fst ?x], snd ?x)"
    by (simp add: demo_state_def case_prod_beta)
  show "bl_separation demo_limits" by (simp add: demo_limits_def)
  show "(demo_request ''run'', fst ?x) \<in> set (zip [demo_request ''run''] [fst ?x])"
    "(demo_request ''run'', fst ?x) \<in> set (zip [demo_request ''run''] [fst ?x])" by simp_all
  show "executed (fst ?x)" "executed (fst ?x)"
    by (simp_all add: governed_call_def demo_conn_decide Let_def executed_def)
  show "category_of (ge_registry demo_conn) (rq_tool_name (demo_request ''run'')) = CONNECTION"
    by (simp add: demo_conn_def demo_request_def init_registry_def register_def category_of_def)
qed

text \<open>
  C6: the audit report accounts for the session: it counts every call as a request, every call the
  executor ran as a tool call, and when no approval handler raised, each request exactly once as
  allowed, denied or sent for approval.
\<close>

theorem gov_run_report_complete:
  assumes "gov_run env rqs \<lparr>gs_budget = b, gs_artifacts = [], gs_world = w\<rparr> = (rs, st')"
  defines "su \<equiv> summary (gs_artifacts st')"
  shows "su_total_requests su = length rqs \<and> su_tool_calls su = length (filter executed rs) \<and>
    (list_all (\<lambda>r. \<not> isl r) rs \<longrightarrow>
       su_allowed su + su_denied su + su_approval_requests su = su_total_requests su)"
proof -
  have no_raise: "list_all (\<lambda>r. \<not> isl r) rs \<Longrightarrow> \<forall>e. Inl e \<notin> set rs"
    by (force simp: list_all_iff)
  show ?thesis
    using gov_run_report [OF assms(1)] no_raise settles_split [of "gs_artifacts st'"]
    by (auto simp: su_def summary_def Let_def by_type_def)
qed

theorem gov_run_report_complete_witness:
  "su_total_requests (summary (gs_artifacts (snd (gov_run demo_gov [demo_request ''rm''] demo_state))))
     = 1"
proof -
  let ?x = "gov_run demo_gov [demo_request ''rm''] demo_state"
  have "gov_run demo_gov [demo_request ''rm'']
      \<lparr>gs_budget = init_budget demo_limits 0, gs_artifacts = [], gs_world = 0\<rparr> = (fst ?x, snd ?x)"
    by (simp add: demo_state_def)
  from gov_run_report_complete [OF this] show ?thesis by simp
qed

text \<open>
  Fail-closed: a tool on no allow list and needing no approval runs only under
  \<open>default_allow\<close> or a category rule that names its registered category; a tool the registry does
  not know has category \<open>OTHER\<close>.
\<close>

theorem governed_call_fail_closed:
  assumes "rq_tool_name rq \<notin> gp_allowed_tools (ge_policy env)"
    and "rq_tool_name rq \<notin> gp_require_approval_tools (ge_policy env)"
    and "category_of (ge_registry env) (rq_tool_name rq) \<notin> gp_allowed_categories (ge_policy env)"
    and "\<not> gp_default_allow (ge_policy env)"
  shows "\<exists>reason. fst (governed_call env rq st) = Inr (deny_result rq reason)"
proof -
  obtain r st' where c: "governed_call env rq st = (r, st')" by fastforce
  have "fst (policy_allows (ge_policy env) (rq_tool_name rq)
      (category_of (ge_registry env) (rq_tool_name rq))) = DENY"
    using assms by (simp add: policy_allows_def)
  then have "fst (gov_decide env rq st) = DENY"
    using gov_decide_allows(1) [of env rq st] by metis
  with c have "\<exists>reason. r = Inr (deny_result rq reason)"
    by (cases rule: governed_call_cases) auto
  with c show ?thesis by simp
qed

theorem governed_call_fail_closed_witness:
  "\<exists>reason. fst (governed_call demo_gov (demo_request ''unknown'') demo_state) =
     Inr (deny_result (demo_request ''unknown'') reason)"
  by (rule governed_call_fail_closed) (simp_all add: demo_gov_defs)

end
