(* ===== verification/Observer.thy ===== *)
theory Observer
  imports Prelude
begin

text \<open>
  The anomaly observer, \<open>core/agent_observer.py\<close>: per session a rolling call rate, a tool counter,
  token and cost totals; \<open>evaluate\<close> turns them into signals. Monotonic clock readings are real
  numbers of seconds and are arguments of the operations that take them.
\<close>

section \<open>State\<close>

datatype anomaly_severity = A_OK | A_WARNING | A_CRITICAL

fun anomaly_value :: "anomaly_severity \<Rightarrow> string" where
  "anomaly_value A_OK = ''ok''"
| "anomaly_value A_WARNING = ''warning''"
| "anomaly_value A_CRITICAL = ''critical''"

record anomaly_signal =
  sg_session_id :: string
  sg_detector :: string
  sg_severity :: anomaly_severity
  sg_metric :: string
  sg_observed :: real
  sg_threshold :: real
  sg_detail :: string
  sg_recommend_halt :: bool
  sg_detected_at :: timestamp

record rolling_rate =
  rr_window :: real
  rr_calls :: "real list"

definition rate_trim :: "real \<Rightarrow> rolling_rate \<Rightarrow> rolling_rate" where
  "rate_trim now r = r\<lparr>rr_calls := dropWhile (\<lambda>c. c < now - rr_window r) (rr_calls r)\<rparr>"

definition rate_record :: "real \<Rightarrow> rolling_rate \<Rightarrow> rolling_rate" where
  "rate_record now r = rate_trim now (r\<lparr>rr_calls := rr_calls r @ [now]\<rparr>)"

definition calls_per_minute :: "real \<Rightarrow> rolling_rate \<Rightarrow> real \<times> rolling_rate" where
  "calls_per_minute now r =
     (let r = rate_trim now r
      in (if rr_window r \<le> 0 then 0 else real (length (rr_calls r)) * (60 / rr_window r), r))"

record session_metrics =
  sm_session_id :: string
  sm_started_at :: real
  sm_call_count :: nat
  sm_tool_counter :: "(string, nat) dict"
  sm_input_tokens :: int
  sm_output_tokens :: int
  sm_cost :: real
  sm_rate :: rolling_rate
  sm_rate_history :: "real list"
  sm_last_severity :: anomaly_severity

definition new_session :: "string \<Rightarrow> real \<Rightarrow> session_metrics" where
  "new_session sid now =
     \<lparr>sm_session_id = sid, sm_started_at = now, sm_call_count = 0, sm_tool_counter = [],
      sm_input_tokens = 0, sm_output_tokens = 0, sm_cost = 0,
      sm_rate = \<lparr>rr_window = 60, rr_calls = []\<rparr>, sm_rate_history = [], sm_last_severity = A_OK\<rparr>"

record agent_observer =
  ob_sessions :: "(string, session_metrics) dict"
  ob_zscore_warn :: real
  ob_zscore_critical :: real
  ob_cost_warn :: real
  ob_cost_halt :: real
  ob_token_warn :: real
  ob_token_halt :: real
  ob_tool_shift :: real
  ob_baseline :: "(string, real) dict"

definition init_observer :: "(string, real) dict \<Rightarrow> agent_observer" where
  "init_observer baseline =
     \<lparr>ob_sessions = [], ob_zscore_warn = 2, ob_zscore_critical = 3, ob_cost_warn = 3 / 4, ob_cost_halt = 1,
      ob_token_warn = 3 / 4, ob_token_halt = 1, ob_tool_shift = 1 / 2, ob_baseline = baseline\<rparr>"

section \<open>Recording\<close>

definition session_of :: "string \<Rightarrow> real \<Rightarrow> agent_observer \<Rightarrow> session_metrics" where
  "session_of sid now ob = dget_or (ob_sessions ob) sid (new_session sid now)"

definition put_session :: "session_metrics \<Rightarrow> string \<Rightarrow> agent_observer \<Rightarrow> agent_observer" where
  "put_session s sid ob = ob\<lparr>ob_sessions := dset (ob_sessions ob) sid s\<rparr>"

definition record_tool_call :: "string \<Rightarrow> string \<Rightarrow> real \<Rightarrow> agent_observer \<Rightarrow> agent_observer" where
  "record_tool_call sid tool now ob =
     (let s = session_of sid now ob
      in put_session (s\<lparr>sm_call_count := sm_call_count s + 1,
           sm_tool_counter := dcount tool (sm_tool_counter s),
           sm_rate := rate_record now (sm_rate s)\<rparr>) sid ob)"

definition record_tokens :: "string \<Rightarrow> int \<Rightarrow> int \<Rightarrow> real \<Rightarrow> real \<Rightarrow> agent_observer \<Rightarrow> agent_observer" where
  "record_tokens sid i out cost now ob =
     (let s = session_of sid now ob
      in put_session (s\<lparr>sm_input_tokens := sm_input_tokens s + max 0 i,
           sm_output_tokens := sm_output_tokens s + max 0 out, sm_cost := sm_cost s + max 0 cost\<rparr>) sid ob)"

definition update_baseline :: "(string, real) dict \<Rightarrow> agent_observer \<Rightarrow> agent_observer" where
  "update_baseline baseline ob = ob\<lparr>ob_baseline := baseline\<rparr>"

section \<open>Evaluation\<close>

definition tool_distribution_shift :: "(string, real) dict \<Rightarrow> (string, nat) dict \<Rightarrow> real" where
  "tool_distribution_shift baseline observed =
     (let used = sum_list (dvalues observed)
      in if used = 0 then 0
         else (let dist = map (\<lambda>(k, v). (k, real v / real used)) observed;
                   keys = remdups (map fst dist @ map fst baseline)
               in sum_list (map (\<lambda>k. \<bar>dget_or dist k 0 - dget_or baseline k 0\<bar>) keys) / 2))"

record eval_env =
  ev_mono :: real
  ev_detected_at :: timestamp
  ev_repr :: "real \<Rightarrow> string"

record eval_budget =
  eb_tokens :: "int option"
  eb_cost :: "real option"
  eb_rate :: "real option"

definition mk_signal :: "eval_env \<Rightarrow> string \<Rightarrow> string \<Rightarrow> anomaly_severity \<Rightarrow> string \<Rightarrow> real \<Rightarrow> real \<Rightarrow> string \<Rightarrow>
    bool \<Rightarrow> anomaly_signal" where
  "mk_signal v sid detector sev metric observed threshold detail halt =
     \<lparr>sg_session_id = sid, sg_detector = detector, sg_severity = sev, sg_metric = metric,
      sg_observed = observed, sg_threshold = threshold, sg_detail = detail, sg_recommend_halt = halt,
      sg_detected_at = ev_detected_at v\<rparr>"

definition zscore_signals :: "eval_env \<Rightarrow> string \<Rightarrow> agent_observer \<Rightarrow> real list \<Rightarrow> real \<Rightarrow> anomaly_signal list" where
  "zscore_signals v sid ob history rate =
     (if length history < 3 then []
      else (let m = mean history; sd = (if stdev history = 0 then 1 else stdev history); z = (rate - m) / sd
            in if ob_zscore_critical ob \<le> z
               then [mk_signal v sid ''call_rate_zscore'' A_CRITICAL ''calls_per_minute'' rate
                       (m + ob_zscore_critical ob * sd)
                       (''z='' @ fmt_2f z @ '' >= '' @ ev_repr v (ob_zscore_critical ob)) True]
               else if ob_zscore_warn ob \<le> z
               then [mk_signal v sid ''call_rate_zscore'' A_WARNING ''calls_per_minute'' rate
                       (m + ob_zscore_warn ob * sd) (''z='' @ fmt_2f z) False]
               else []))"

definition rate_budget_signals :: "eval_env \<Rightarrow> string \<Rightarrow> real option \<Rightarrow> real \<Rightarrow> anomaly_signal list" where
  "rate_budget_signals v sid budget rate =
     (case budget of None \<Rightarrow> []
      | Some b \<Rightarrow> if b \<le> rate
          then [mk_signal v sid ''call_rate_budget'' A_CRITICAL ''calls_per_minute'' rate b
                  ''hard ceiling exceeded'' True] else [])"

text \<open>\<open>int(x)\<close> truncates toward zero.\<close>

definition py_trunc :: "real \<Rightarrow> int" where
  "py_trunc x = (if x < 0 then \<lceil>x\<rceil> else \<lfloor>x\<rfloor>)"

definition token_signals :: "eval_env \<Rightarrow> string \<Rightarrow> agent_observer \<Rightarrow> int option \<Rightarrow> int \<Rightarrow> anomaly_signal list" where
  "token_signals v sid ob budget used =
     (case budget of None \<Rightarrow> []
      | Some b \<Rightarrow> if b \<le> 0 then []
          else (let frac = real_of_int used / real_of_int b;
                    detail = fmt_0f (frac * 100) @ ''% of session token budget''
                in if ob_token_halt ob \<le> frac
                   then [mk_signal v sid ''token_budget'' A_CRITICAL ''total_tokens'' (real_of_int used)
                           (real_of_int b) detail True]
                   else if ob_token_warn ob \<le> frac
                   then [mk_signal v sid ''token_budget'' A_WARNING ''total_tokens'' (real_of_int used)
                           (real_of_int (py_trunc (real_of_int b * ob_token_warn ob))) detail False]
                   else []))"

definition cost_signals :: "eval_env \<Rightarrow> string \<Rightarrow> agent_observer \<Rightarrow> real option \<Rightarrow> real \<Rightarrow> anomaly_signal list" where
  "cost_signals v sid ob budget cost =
     (case budget of None \<Rightarrow> []
      | Some b \<Rightarrow> if b \<le> 0 then []
          else (let frac = cost / b; detail = fmt_0f (frac * 100) @ ''% of session cost budget''
                in if ob_cost_halt ob \<le> frac
                   then [mk_signal v sid ''cost_budget'' A_CRITICAL ''estimated_cost_usd'' cost b detail True]
                   else if ob_cost_warn ob \<le> frac
                   then [mk_signal v sid ''cost_budget'' A_WARNING ''estimated_cost_usd'' cost
                           (b * ob_cost_warn ob) detail False]
                   else []))"

definition shift_signals :: "eval_env \<Rightarrow> string \<Rightarrow> agent_observer \<Rightarrow> (string, nat) dict \<Rightarrow> anomaly_signal list" where
  "shift_signals v sid ob counter =
     (if ob_baseline ob = [] then []
      else (let shift = tool_distribution_shift (ob_baseline ob) counter
            in if ob_tool_shift ob \<le> shift
               then [mk_signal v sid ''tool_distribution'' A_WARNING ''tvd_vs_baseline'' shift
                       (ob_tool_shift ob) ''tool selection shifted vs 30-day baseline'' False]
               else []))"

text \<open>\<open>deque(maxlen=30).append\<close>\<close>

definition history_append :: "real \<Rightarrow> real list \<Rightarrow> real list" where
  "history_append x xs = slice_last 30 (xs @ [x])"

definition evaluate_session :: "string \<Rightarrow> eval_budget \<Rightarrow> eval_env \<Rightarrow> agent_observer \<Rightarrow>
    anomaly_signal list \<times> agent_observer" where
  "evaluate_session sid b v ob =
     (let s = session_of sid (ev_mono v) ob;
          (rate, r) = calls_per_minute (ev_mono v) (sm_rate s);
          signals = zscore_signals v sid ob (sm_rate_history s) rate @
            rate_budget_signals v sid (eb_rate b) rate @
            token_signals v sid ob (eb_tokens b) (sm_input_tokens s + sm_output_tokens s) @
            cost_signals v sid ob (eb_cost b) (sm_cost s) @
            shift_signals v sid ob (sm_tool_counter s);
          sev = (if signals = [] then A_OK
                 else if A_CRITICAL \<in> set (map sg_severity signals) then A_CRITICAL else A_WARNING)
      in (signals, put_session (s\<lparr>sm_rate := r, sm_rate_history := history_append rate (sm_rate_history s),
            sm_last_severity := sev\<rparr>) sid ob))"

section \<open>Inspection\<close>

text \<open>Reading the rate trims the window, so a snapshot also updates the session.\<close>

definition session_snapshot :: "string \<Rightarrow> real \<Rightarrow> agent_observer \<Rightarrow> (string, pyval) dict option \<times> agent_observer" where
  "session_snapshot sid now ob =
     (case dget (ob_sessions ob) sid of
        None \<Rightarrow> (None, ob)
      | Some s \<Rightarrow>
          (let (rate, r) = calls_per_minute now (sm_rate s)
           in (Some
             [(''session_id'', PStr (sm_session_id s)),
              (''uptime_seconds'', PFloat (round2 (now - sm_started_at s))),
              (''call_count'', PInt (int (sm_call_count s))),
              (''tool_distribution'', PDict (map (\<lambda>(k, n). (k, PInt (int n))) (sm_tool_counter s))),
              (''input_tokens'', PInt (sm_input_tokens s)), (''output_tokens'', PInt (sm_output_tokens s)),
              (''estimated_cost_usd'', PFloat (round6 (sm_cost s))),
              (''calls_per_minute'', PFloat (round2 rate)),
              (''last_severity'', PStr (anomaly_value (sm_last_severity s)))],
             put_session (s\<lparr>sm_rate := r\<rparr>) sid ob)))"

definition all_sessions :: "agent_observer \<Rightarrow> string list" where
  "all_sessions ob = map fst (ob_sessions ob)"

definition reset_sessions :: "string option \<Rightarrow> agent_observer \<Rightarrow> agent_observer" where
  "reset_sessions sid ob =
     (case sid of None \<Rightarrow> ob\<lparr>ob_sessions := []\<rparr> | Some k \<Rightarrow> ob\<lparr>ob_sessions := ddel (ob_sessions ob) k\<rparr>)"

section \<open>The distance of tool distributions\<close>

text \<open>The relative frequency of a tool.\<close>

definition frequency :: "(string, nat) dict \<Rightarrow> string \<Rightarrow> real" where
  "frequency d k = real (dget_or d k 0) / real (sum_list (dvalues d))"

lemma dget_or_frequency:
  "dget_or (map (\<lambda>(k, v). (k, real v / real n)) d) k 0 = real (dget_or d k 0) / real n"
  by (induction d) (auto simp: dget_or_def dget_Cons)

lemma shift_sum:
  assumes "sum_list (dvalues observed) \<noteq> 0"
  shows "tool_distribution_shift baseline observed =
    (\<Sum>k \<in> set (map fst observed) \<union> set (map fst baseline). \<bar>frequency observed k - dget_or baseline k 0\<bar>) / 2"
proof -
  let ?keys = "map fst observed @ map fst baseline"
  have "map fst (map (\<lambda>(k, v). (k, real v / real n)) observed) = map fst observed" for n
    by (induction observed) auto
  then have "tool_distribution_shift baseline observed =
      sum_list (map (\<lambda>k. \<bar>frequency observed k - dget_or baseline k 0\<bar>) (remdups ?keys)) / 2"
    using assms by (simp only: tool_distribution_shift_def Let_def dget_or_frequency frequency_def if_False)
  also have "sum_list (map (\<lambda>k. \<bar>frequency observed k - dget_or baseline k 0\<bar>) (remdups ?keys)) =
      (\<Sum>k \<in> set ?keys. \<bar>frequency observed k - dget_or baseline k 0\<bar>)"
    by (simp only: sum_list_distinct_conv_sum_set distinct_remdups set_remdups)
  finally show ?thesis by simp
qed

text \<open>
  The tool-distribution shift is a distance between distributions: against a baseline of
  nonnegative weights that add up to one it lies between 0 (before any call, or exactly when every
  tool's relative frequency is its baseline weight) and 1.
\<close>
theorem tool_shift_bounded:
  assumes "dict_ok observed" "dict_ok baseline"
    and "\<forall>w \<in> set (dvalues baseline). 0 \<le> w" "sum_list (dvalues baseline) = 1"
  shows "0 \<le> tool_distribution_shift baseline observed \<and> tool_distribution_shift baseline observed \<le> 1 \<and>
    (sum_list (dvalues observed) \<noteq> 0 \<longrightarrow>
       (tool_distribution_shift baseline observed = 0 \<longleftrightarrow>
        (\<forall>k \<in> set (map fst observed) \<union> set (map fst baseline). frequency observed k = dget_or baseline k 0)))"
proof (cases "sum_list (dvalues observed) = 0")
  case True
  then show ?thesis by (simp add: tool_distribution_shift_def)
next
  case False
  let ?K = "set (map fst observed) \<union> set (map fst baseline)"
  let ?n = "sum_list (dvalues observed)"
  have w: "0 \<le> dget_or baseline k 0" for k
    using assms(3) dget_or_values [of baseline k 0] by auto
  have f: "0 \<le> frequency observed k" for k by (simp add: frequency_def)
  have "(\<Sum>k \<in> ?K. frequency observed k) = real (\<Sum>k \<in> ?K. dget_or observed k 0) / real ?n"
    by (simp add: frequency_def sum_divide_distrib)
  also have "(\<Sum>k \<in> ?K. dget_or observed k 0) = ?n" by (rule sum_dget [OF assms(1)]) auto
  finally have one: "(\<Sum>k \<in> ?K. frequency observed k) = 1" using False by simp
  have "(\<Sum>k \<in> ?K. dget_or baseline k 0) = 1" using sum_dget [OF assms(2), of ?K] assms(4) by auto
  then have "(\<Sum>k \<in> ?K. frequency observed k + dget_or baseline k 0) = 2" using one by (simp add: sum.distrib)
  moreover have "(\<Sum>k \<in> ?K. \<bar>frequency observed k - dget_or baseline k 0\<bar>) \<le>
      (\<Sum>k \<in> ?K. frequency observed k + dget_or baseline k 0)"
    using w f by (intro sum_mono) (auto simp: abs_le_iff)
  moreover have "0 \<le> (\<Sum>k \<in> ?K. \<bar>frequency observed k - dget_or baseline k 0\<bar>)" by (intro sum_nonneg) auto
  moreover have "(\<Sum>k \<in> ?K. \<bar>frequency observed k - dget_or baseline k 0\<bar>) = 0 \<longleftrightarrow>
      (\<forall>k \<in> ?K. frequency observed k = dget_or baseline k 0)"
    by (subst sum_nonneg_eq_0_iff) auto
  ultimately show ?thesis unfolding shift_sum [OF False] by simp
qed

theorem tool_shift_bounded_witness:
  "tool_distribution_shift [(''query'', 1)] [(''query'', 3), (''run'', 1)] \<le> 1"
  using tool_shift_bounded [of "[(''query'', 3), (''run'', 1)]" "[(''query'', 1)]"]
  by (simp add: dict_ok_def)

section \<open>The rolling window\<close>

lemma dropWhile_sorted:
  "sorted xs \<Longrightarrow> dropWhile (\<lambda>c. c < t) xs = filter (\<lambda>c. t \<le> c) xs" for t :: real
proof (induction xs)
  case (Cons x xs)
  show ?case
  proof (cases "x < t")
    case False
    then have "\<forall>y \<in> set (x # xs). t \<le> y" using Cons.prems by auto
    then have "filter (\<lambda>c. t \<le> c) (x # xs) = x # xs" by (simp only: filter_id_conv)
    with False show ?thesis by simp
  qed (use Cons in simp)
qed simp

lemma rate_record_simps [simp]:
  "rr_calls (rate_record now r) = dropWhile (\<lambda>c. c < now - rr_window r) (rr_calls r @ [now])"
  "rr_window (rate_record now r) = rr_window r"
  by (simp_all add: rate_record_def rate_trim_def)

lemma rate_fold:
  assumes "sorted ts" "0 \<le> w"
  shows "rr_calls (fold rate_record ts \<lparr>rr_window = w, rr_calls = []\<rparr>) =
      (if ts = [] then [] else filter (\<lambda>c. last ts - w \<le> c) ts) \<and>
    rr_window (fold rate_record ts \<lparr>rr_window = w, rr_calls = []\<rparr>) = w"
  using assms(1)
proof (induction ts rule: rev_induct)
  case (snoc t ts)
  let ?r = "fold rate_record ts \<lparr>rr_window = w, rr_calls = []\<rparr>"
  have s: "sorted ts" "\<forall>x \<in> set ts. x \<le> t" using snoc.prems by (auto simp: sorted_append)
  note IH = snoc.IH [OF s(1)]
  have sub: "set (rr_calls ?r) \<subseteq> set ts" "sorted (rr_calls ?r)"
    using IH sorted_filter [of id ts] s(1) by (auto simp: sorted_wrt_filter)
  then have "sorted (rr_calls ?r @ [t])" using s(2) by (auto simp: sorted_append)
  then have "rr_calls (rate_record t ?r) = filter (\<lambda>c. t - w \<le> c) (rr_calls ?r @ [t])"
    using IH by (simp only: rate_record_simps dropWhile_sorted)
  also have "\<dots> = filter (\<lambda>c. t - w \<le> c) (ts @ [t])"
  proof (cases "ts = []")
    case True
    then show ?thesis using IH by simp
  next
    case False
    then have "last ts \<le> t" using s(2) by simp
    then have "(t - w \<le> c \<and> last ts - w \<le> c) = (t - w \<le> c)" for c by auto
    then show ?thesis using IH False by (simp add: conj_commute)
  qed
  finally show ?case using IH by simp
qed simp

lemma rate_of_session:
  "sm_rate (session_of sid now (fold (\<lambda>(tool, t). record_tool_call sid tool t) (zip tools ts) ob)) =
     fold rate_record (map snd (zip tools ts)) (sm_rate (session_of sid now ob))"
proof (induction "zip tools ts" arbitrary: tools ts ob)
  case (Cons p ps)
  obtain a as t' ts' where z: "tools = a # as" "ts = t' # ts'" "p = (a, t')" "ps = zip as ts'"
    using Cons.hyps(2) by (cases tools; cases ts) auto
  have "sm_rate (session_of sid now (record_tool_call sid a t' ob)) =
      rate_record t' (sm_rate (session_of sid now ob))"
    by (simp add: record_tool_call_def session_of_def put_session_def dget_or_def new_session_def Let_def
        split: option.splits)
  then show ?case using Cons.hyps(1) [OF z(4), of "record_tool_call sid a t' ob"] by (simp add: z)
qed (auto simp: zip_eq_Nil_iff)

text \<open>
  The call rate counts exactly the calls of the last minute: when a session's calls are
  recorded with a clock that never goes back, the rate at a later moment is the number of its calls
  in the sixty seconds up to that moment, and no call of that minute has been forgotten.
\<close>
theorem rate_counts_last_minute:
  fixes sid :: string and baseline :: "(string, real) dict"
  assumes "sorted ts" and "length tools = length ts" and "\<forall>t \<in> set ts. t \<le> now"
  defines "s \<equiv> session_of sid now (fold (\<lambda>(tool, t). record_tool_call sid tool t) (zip tools ts) (init_observer baseline))"
  shows "fst (calls_per_minute now (sm_rate s)) = real (length (filter (\<lambda>t. now - 60 \<le> t) ts)) \<and>
    rr_calls (snd (calls_per_minute now (sm_rate s))) = filter (\<lambda>t. now - 60 \<le> t) ts"
proof -
  have "sm_rate (session_of sid now (init_observer baseline)) = \<lparr>rr_window = 60, rr_calls = []\<rparr>"
    by (simp add: session_of_def init_observer_def dget_or_def new_session_def)
  then have r: "sm_rate s = fold rate_record ts \<lparr>rr_window = 60, rr_calls = []\<rparr>"
    unfolding s_def rate_of_session using assms(2) by simp
  note fold = rate_fold [OF assms(1), of 60, simplified]
  have calls: "dropWhile (\<lambda>c. c < now - 60) (rr_calls (sm_rate s)) = filter (\<lambda>t. now - 60 \<le> t) ts"
  proof (cases "ts = []")
    case True
    then show ?thesis by (simp add: r)
  next
    case False
    then have "last ts \<le> now" using assms(3) by simp
    then have "(now - 60 \<le> c \<and> last ts - 60 \<le> c) = (now - 60 \<le> c)" for c by auto
    moreover have "sorted (filter (\<lambda>c. last ts - 60 \<le> c) ts)" using assms(1) by (rule sorted_wrt_filter)
    ultimately show ?thesis using fold False by (simp add: r dropWhile_sorted conj_commute)
  qed
  have "rr_window (sm_rate s) = 60" using fold by (simp add: r)
  then show ?thesis using calls by (simp add: calls_per_minute_def rate_trim_def Let_def)
qed

theorem rate_counts_last_minute_witness:
  "fst (calls_per_minute 100 (sm_rate (session_of ''s1'' 100
     (fold (\<lambda>(tool, t). record_tool_call ''s1'' tool t) (zip [''a'', ''b'', ''a''] [10, 50, 90]) (init_observer []))))) = 2"
proof -
  have "sorted [10, 50, 90 :: real]" "length [''a'', ''b'', ''a''] = length [10, 50, 90 :: real]"
    "\<forall>t \<in> set [10, 50, 90 :: real]. t \<le> 100" by simp_all
  from rate_counts_last_minute [OF this, THEN conjunct1] show ?thesis by simp
qed

section \<open>Runs of the observer\<close>

datatype observer_op =
    OCall string string real
  | OTokens string int int real real
  | OBaseline "(string, real) dict"
  | OEvaluate string eval_budget eval_env
  | OSnapshot string real
  | OReset "string option"

fun observer_step :: "observer_op \<Rightarrow> agent_observer \<Rightarrow> agent_observer" where
  "observer_step (OCall sid tool now) ob = record_tool_call sid tool now ob"
| "observer_step (OTokens sid i out cost now) ob = record_tokens sid i out cost now ob"
| "observer_step (OBaseline d) ob = update_baseline d ob"
| "observer_step (OEvaluate sid b v) ob = snd (evaluate_session sid b v ob)"
| "observer_step (OSnapshot sid now) ob = snd (session_snapshot sid now ob)"
| "observer_step (OReset sid) ob = reset_sessions sid ob"

fun resets :: "string \<Rightarrow> observer_op \<Rightarrow> bool" where
  "resets sid (OReset k) = (case k of None \<Rightarrow> True | Some j \<Rightarrow> j = sid)"
| "resets sid _ = False"

text \<open>Tokens and cost a session has used; a session that does not exist has used none.\<close>

definition used_tokens :: "string \<Rightarrow> agent_observer \<Rightarrow> int" where
  "used_tokens sid ob = (case dget (ob_sessions ob) sid of None \<Rightarrow> 0
     | Some s \<Rightarrow> sm_input_tokens s + sm_output_tokens s)"

definition used_cost :: "string \<Rightarrow> agent_observer \<Rightarrow> real" where
  "used_cost sid ob = (case dget (ob_sessions ob) sid of None \<Rightarrow> 0 | Some s \<Rightarrow> sm_cost s)"

lemma used_put [simp]:
  "used_tokens k (put_session s sid ob) = (if k = sid then sm_input_tokens s + sm_output_tokens s else used_tokens k ob)"
  "used_cost k (put_session s sid ob) = (if k = sid then sm_cost s else used_cost k ob)"
  by (simp_all add: used_tokens_def used_cost_def put_session_def)

lemma session_of_used [simp]:
  "sm_input_tokens (session_of sid now ob) + sm_output_tokens (session_of sid now ob) = used_tokens sid ob"
  "sm_cost (session_of sid now ob) = used_cost sid ob"
  by (simp_all add: session_of_def used_tokens_def used_cost_def dget_or_def new_session_def split: option.splits)

lemma thresholds_put [simp]:
  "ob_token_halt (put_session s sid ob) = ob_token_halt ob"
  "ob_cost_halt (put_session s sid ob) = ob_cost_halt ob"
  by (simp_all add: put_session_def)

lemma observer_step_used:
  assumes "\<not> resets sid x"
  shows "used_tokens sid ob \<le> used_tokens sid (observer_step x ob) \<and> used_cost sid ob \<le> used_cost sid (observer_step x ob) \<and>
    ob_token_halt (observer_step x ob) = ob_token_halt ob \<and> ob_cost_halt (observer_step x ob) = ob_cost_halt ob"
proof (cases x)
  case (OCall k tool now)
  then show ?thesis by (simp add: record_tool_call_def Let_def)
next
  case (OTokens k i out cost now)
  have "used_tokens k ob \<le> sm_input_tokens (session_of k now ob) + max 0 i +
      (sm_output_tokens (session_of k now ob) + max 0 out)"
    using session_of_used(1) [of k now ob] by linarith
  then show ?thesis using OTokens by (auto simp: record_tokens_def Let_def)
next
  case (OEvaluate k b v)
  then show ?thesis
    by (simp add: evaluate_session_def Let_def case_prod_beta)
next
  case (OSnapshot k now)
  then show ?thesis
    by (auto simp: session_snapshot_def Let_def case_prod_beta used_tokens_def used_cost_def put_session_def
        split: option.splits)
next
  case (OReset k)
  then show ?thesis using assms
    by (auto simp: reset_sessions_def used_tokens_def used_cost_def split: option.splits)
qed (simp add: update_baseline_def used_tokens_def used_cost_def)

lemma observer_run_used:
  "\<not> list_ex (resets sid) xs \<Longrightarrow>
   used_tokens sid ob \<le> used_tokens sid (fold observer_step xs ob) \<and>
   used_cost sid ob \<le> used_cost sid (fold observer_step xs ob) \<and>
   ob_token_halt (fold observer_step xs ob) = ob_token_halt ob \<and>
   ob_cost_halt (fold observer_step xs ob) = ob_cost_halt ob"
proof (induction xs arbitrary: ob)
  case (Cons x xs)
  then have x: "\<not> resets sid x" and xs: "\<not> list_ex (resets sid) xs" by simp_all
  show ?case using observer_step_used [OF x, of ob] Cons.IH [OF xs, of "observer_step x ob"] by auto
qed simp

text \<open>Signals recommend a halt exactly when they are critical.\<close>

lemma signals_halt:
  assumes "sg \<in> set (fst (evaluate_session sid b v ob))"
  shows "sg_recommend_halt sg \<longleftrightarrow> sg_severity sg = A_CRITICAL"
proof -
  have "list_all (\<lambda>sg. sg_recommend_halt sg \<longleftrightarrow> sg_severity sg = A_CRITICAL)
      (fst (evaluate_session sid b v ob))"
    by (simp add: evaluate_session_def Let_def case_prod_beta zscore_signals_def rate_budget_signals_def
        token_signals_def cost_signals_def shift_signals_def mk_signal_def split: option.splits)
  then show ?thesis using assms by (simp add: list_all_iff)
qed

lemma signals_warn:
  "A_OK \<notin> sg_severity ` set (fst (evaluate_session sid b v ob))"
proof -
  have "list_all (\<lambda>sg. sg_severity sg \<noteq> A_OK) (fst (evaluate_session sid b v ob))"
    by (simp add: evaluate_session_def Let_def case_prod_beta zscore_signals_def rate_budget_signals_def
        token_signals_def cost_signals_def shift_signals_def mk_signal_def split: option.splits)
  then show ?thesis by (force simp: list_all_iff)
qed

definition last_severity :: "string \<Rightarrow> agent_observer \<Rightarrow> anomaly_severity option" where
  "last_severity sid ob = map_option sm_last_severity (dget (ob_sessions ob) sid)"

lemma evaluate_severity:
  "last_severity sid (snd (evaluate_session sid b v ob)) =
     Some (if fst (evaluate_session sid b v ob) = [] then A_OK
           else if list_ex sg_recommend_halt (fst (evaluate_session sid b v ob)) then A_CRITICAL else A_WARNING)"
proof -
  have "A_CRITICAL \<in> set (map sg_severity (fst (evaluate_session sid b v ob))) \<longleftrightarrow>
      list_ex sg_recommend_halt (fst (evaluate_session sid b v ob))"
    using signals_halt by (force simp: list_ex_iff)
  then show ?thesis
    by (simp add: evaluate_session_def Let_def case_prod_beta last_severity_def put_session_def)
qed

lemma token_exhausted_halts:
  assumes "eb_tokens b = Some n" "0 < n" "ob_token_halt ob * real_of_int n \<le> real_of_int (used_tokens sid ob)"
  shows "list_ex sg_recommend_halt (fst (evaluate_session sid b v ob))"
proof -
  have "ob_token_halt ob \<le> real_of_int (used_tokens sid ob) / real_of_int n"
    using assms(2,3) by (simp add: pos_le_divide_eq)
  then have "list_ex sg_recommend_halt (token_signals v sid ob (eb_tokens b) (used_tokens sid ob))"
    using assms(1,2) by (simp add: token_signals_def Let_def mk_signal_def)
  then show ?thesis
    by (simp add: evaluate_session_def Let_def case_prod_beta)
qed

lemma cost_exhausted_halts:
  assumes "eb_cost b = Some c" "0 < c" "ob_cost_halt ob * c \<le> used_cost sid ob"
  shows "list_ex sg_recommend_halt (fst (evaluate_session sid b v ob))"
proof -
  have "ob_cost_halt ob \<le> used_cost sid ob / c" using assms(2,3) by (simp add: pos_le_divide_eq)
  then have "list_ex sg_recommend_halt (cost_signals v sid ob (eb_cost b) (used_cost sid ob))"
    using assms(1,2) by (simp add: cost_signals_def Let_def mk_signal_def)
  then show ?thesis
    by (simp add: evaluate_session_def Let_def case_prod_beta)
qed

text \<open>
  C24: An exhausted budget stays exhausted: once a session has used the halt fraction of its token
  or of its cost budget, every evaluation against that budget recommends a halt and grades the
  session critical, whatever is recorded, evaluated or reset for other sessions in between, until
  the session itself is reset.
\<close>
theorem exhausted_budget_keeps_halting:
  fixes v :: eval_env
  assumes "\<not> list_ex (resets sid) xs"
    and "(\<exists>n. eb_tokens b = Some n \<and> 0 < n \<and> ob_token_halt ob * real_of_int n \<le> real_of_int (used_tokens sid ob)) \<or>
      (\<exists>c. eb_cost b = Some c \<and> 0 < c \<and> ob_cost_halt ob * c \<le> used_cost sid ob)"
  defines "e \<equiv> evaluate_session sid b v (fold observer_step xs ob)"
  shows "list_ex sg_recommend_halt (fst e) \<and> last_severity sid (snd e) = Some A_CRITICAL"
proof -
  let ?ob = "fold observer_step xs ob"
  have run: "used_tokens sid ob \<le> used_tokens sid ?ob" "used_cost sid ob \<le> used_cost sid ?ob"
    "ob_token_halt ?ob = ob_token_halt ob" "ob_cost_halt ?ob = ob_cost_halt ob"
    using observer_run_used [OF assms(1), of ob] by simp_all
  from assms(2) have halt: "list_ex sg_recommend_halt (fst e)"
  proof
    assume "\<exists>n. eb_tokens b = Some n \<and> 0 < n \<and> ob_token_halt ob * real_of_int n \<le> real_of_int (used_tokens sid ob)"
    then obtain n where n: "eb_tokens b = Some n" "0 < n"
      "ob_token_halt ob * real_of_int n \<le> real_of_int (used_tokens sid ob)" by blast
    have "ob_token_halt ?ob * real_of_int n \<le> real_of_int (used_tokens sid ?ob)"
      unfolding run(3) using n(3) run(1) by (meson of_int_le_iff order_trans)
    from token_exhausted_halts [OF n(1,2) this] show ?thesis by (simp add: e_def)
  next
    assume "\<exists>c. eb_cost b = Some c \<and> 0 < c \<and> ob_cost_halt ob * c \<le> used_cost sid ob"
    then obtain c where c: "eb_cost b = Some c" "0 < c" "ob_cost_halt ob * c \<le> used_cost sid ob" by blast
    then have "ob_cost_halt ?ob * c \<le> used_cost sid ?ob" using run(2,4) by simp
    from cost_exhausted_halts [OF c(1,2) this] show ?thesis by (simp add: e_def)
  qed
  then have "fst e \<noteq> []" by auto
  with halt show ?thesis using evaluate_severity [of sid b v ?ob] by (simp add: e_def)
qed

theorem exhausted_budget_keeps_halting_witness:
  "list_ex sg_recommend_halt (fst (evaluate_session ''s1'' \<lparr>eb_tokens = Some 100, eb_cost = None, eb_rate = None\<rparr>
     \<lparr>ev_mono = 9, ev_detected_at = 0, ev_repr = (\<lambda>x. [])\<rparr>
     (fold observer_step [OReset (Some ''s2''), OTokens ''s1'' (- 50) 1 0 8]
        (record_tokens ''s1'' 90 20 1 7 (init_observer [])))))"
proof -
  let ?ob = "record_tokens ''s1'' 90 20 1 7 (init_observer [])"
  let ?b = "\<lparr>eb_tokens = Some 100, eb_cost = None, eb_rate = None\<rparr> :: eval_budget"
  have "used_tokens ''s1'' ?ob = 110" "ob_token_halt ?ob = 1"
    by (simp_all add: record_tokens_def session_of_def new_session_def dget_or_def init_observer_def
        put_session_def used_tokens_def Let_def)
  then have "(\<exists>n. eb_tokens ?b = Some n \<and> 0 < n \<and> ob_token_halt ?ob * real_of_int n \<le> real_of_int (used_tokens ''s1'' ?ob)) \<or>
      (\<exists>c. eb_cost ?b = Some c \<and> 0 < c \<and> ob_cost_halt ?ob * c \<le> used_cost ''s1'' ?ob)"
    by simp
  moreover have "\<not> list_ex (resets ''s1'') [OReset (Some ''s2''), OTokens ''s1'' (- 50) 1 0 8]" by simp
  ultimately show ?thesis using exhausted_budget_keeps_halting by blast
qed

end
