(* ===== verification/Mcp_Server.thy ===== *)
theory Mcp_Server
  imports Governor Observer Filters Validation Audit_Trail
begin

text \<open>
  The routing of a tool call in the MCP server, \<open>handle_tool_call\<close> of \<open>mcp_server/server.py\<close>, with
  the budgets it keeps per principal and the governor it sets up. The hub the tools act on holds
  the audit logger, the observer, the supervisor and the rest of the server's state (\<open>'r\<close>); a tool
  is a function of its arguments and the hub that may raise. The server passes no approval handler.
\<close>

section \<open>State\<close>

record 'r hub =
  hb_audit :: audit_logger
  hb_observer :: agent_observer
  hb_supervisor :: agent_supervisor
  hb_rest :: 'r

type_synonym 'r tool = "(string, pyval) dict \<Rightarrow> 'r hub \<Rightarrow> (exn + pyval) \<times> 'r hub"

record 'r mcp_setup =
  mp_tools :: "(string, string option \<times> 'r tool) dict"
  mp_enabled :: bool
  mp_policy_name :: string
  mp_max_total_calls :: int
  mp_max_calls_per_tool :: int
  mp_max_runtime_seconds :: int
  mp_clock :: "'r hub \<Rightarrow> real"
  mp_sha :: "string \<Rightarrow> string"
  mp_repr :: "pyval \<Rightarrow> string"

record 'r mcp_state =
  mc_budgets :: "(string, budget_tracker) dict"
  mc_artifacts :: "artifact list"
  mc_hub :: "'r hub"

text \<open>What one call draws on: the environment variables, the request's id and time, the audit call.\<close>

record mcp_env =
  me_principal :: "string option"
  me_session :: "string option"
  me_request_id :: string
  me_timestamp :: timestamp
  me_log :: log_env

section \<open>Set-up\<close>

definition principal_limits :: "'r mcp_setup \<Rightarrow> budget_limits" where
  "principal_limits mp =
     \<lparr>bl_max_total_calls = mp_max_total_calls mp, bl_max_calls_per_tool = mp_max_calls_per_tool mp,
      bl_max_runtime_seconds = real_of_int (mp_max_runtime_seconds mp), bl_max_parallel = 1,
      bl_separation = False\<rparr>"

definition principal_key :: "string \<Rightarrow> string" where
  "principal_key pid = str_or pid ''default''"

definition budget_for_principal :: "'r mcp_setup \<Rightarrow> string \<Rightarrow> 'r mcp_state \<Rightarrow> budget_tracker" where
  "budget_for_principal mp pid st =
     dget_or (mc_budgets st) (principal_key pid)
       (init_budget (principal_limits mp) (mp_clock mp (mc_hub st)))"

definition governor_registry :: "'r mcp_setup \<Rightarrow> tool_registry" where
  "governor_registry mp =
     init_registry (map (\<lambda>(name, t). \<lparr>tc_name = name, tc_category = EXECUTION, tc_description = []\<rparr>) (mp_tools mp))"

definition governor_policy :: "'r mcp_setup \<Rightarrow> governance_policy" where
  "governor_policy mp =
     \<lparr>gp_name = mp_policy_name mp, gp_description = [], gp_allowed_tools = {}, gp_denied_tools = {},
      gp_allowed_categories = (if mp_enabled mp then {EXECUTION} else {}), gp_require_approval_tools = {},
      gp_budget = \<lparr>bl_max_total_calls = 0, bl_max_calls_per_tool = 0, bl_max_runtime_seconds = 0,
        bl_max_parallel = 1, bl_separation = False\<rparr>,
      gp_default_allow = (\<not> mp_enabled mp)\<rparr>"

section \<open>Routing a call\<close>

definition status_dict :: "string \<Rightarrow> string \<Rightarrow> pyval" where
  "status_dict status message = PDict [(''status'', PStr status), (''message'', PStr message)]"

text \<open>\<open>str(arguments.pop(key, "")) or os.environ.get(var, dflt)\<close>\<close>

definition reserved_arg :: "(pyval \<Rightarrow> string) \<Rightarrow> (string, pyval) dict \<Rightarrow> string \<Rightarrow> string option \<Rightarrow> string \<Rightarrow> string" where
  "reserved_arg repr args key var dflt =
     str_or (py_str repr (dget_or args key (PStr []))) (case var of None \<Rightarrow> dflt | Some v \<Rightarrow> v)"

definition call_request :: "'r mcp_setup \<Rightarrow> mcp_env \<Rightarrow> string \<Rightarrow> (string, pyval) dict \<Rightarrow> tool_request" where
  "call_request mp v tool args =
     \<lparr>rq_request_id = me_request_id v, rq_tool_name = tool,
      rq_arguments = ddel (ddel args ''_principal_id'') ''_session_id'', rq_requester = ''mcp_client'',
      rq_reason = [],
      rq_session_id = reserved_arg (mp_repr mp) args ''_session_id'' (me_session v) [],
      rq_principal_id = reserved_arg (mp_repr mp) args ''_principal_id'' (me_principal v) ''default'',
      rq_timestamp = me_timestamp v\<rparr>"

text \<open>\<open>observer.record_tool_call\<close>, only for a named session.\<close>

definition observe_call :: "'r mcp_setup \<Rightarrow> tool_request \<Rightarrow> 'r hub \<Rightarrow> 'r hub" where
  "observe_call mp rq hub =
     (if rq_session_id rq = [] then hub
      else hub\<lparr>hb_observer := record_tool_call (rq_session_id rq) (rq_tool_name rq) (mp_clock mp hub) (hb_observer hub)\<rparr>)"

definition call_env :: "'r mcp_setup \<Rightarrow> 'r tool \<Rightarrow> 'r hub \<Rightarrow> 'r hub gov_env" where
  "call_env mp tool hub =
     \<lparr>ge_clock = mp_clock mp, ge_executor = (\<lambda>rq h. tool (rq_arguments rq) h), ge_approval_handler = None,
      ge_gates = default_gates, ge_policy = governor_policy mp, ge_registry = governor_registry mp,
      ge_supervisor = Some (hb_supervisor hub)\<rparr>"

definition redacted :: "(string, pyval) dict \<Rightarrow> pyval" where
  "redacted args = PDict (fst (redact_arguments default_filters args))"

definition call_log :: "'r mcp_setup \<Rightarrow> mcp_env \<Rightarrow> tool_request \<Rightarrow> (string \<times> pyval) list \<Rightarrow> string \<Rightarrow>
    'r hub \<Rightarrow> 'r hub" where
  "call_log mp v rq details outcome hub =
     hub\<lparr>hb_audit := snd (log_entry (mp_sha mp)
       ((default_args (''mcp.tool_call.'' @ rq_tool_name rq) ''mcp_client'' (rq_tool_name rq))
          \<lparr>la_details := (''arguments'', redacted (rq_arguments rq)) # details, la_outcome := outcome\<rparr>)
       (me_log v) (hb_audit hub))\<rparr>"

definition result_status :: "pyval \<Rightarrow> pyval" where
  "result_status r = (case r of PDict d \<Rightarrow> dget_or d ''status'' (PStr ''ok'') | _ \<Rightarrow> PStr ''ok'')"

text \<open>The part of \<open>handle_tool_call\<close> after the governor: the answer, and what is logged.\<close>

definition answer_call :: "'r mcp_setup \<Rightarrow> mcp_env \<Rightarrow> tool_request \<Rightarrow> tool_result \<Rightarrow> 'r hub \<Rightarrow> pyval \<times> 'r hub" where
  "answer_call mp v rq res hub =
     (if \<not> rs_allowed res
      then (status_dict ''denied'' (rs_denial_reason res),
            call_log mp v rq [(''denial_reason'', PStr (rs_denial_reason res))] ''denied'' hub)
      else if rs_error res \<noteq> []
      then (if rs_error_type res = ''ValidationError'' then (status_dict ''error'' (rs_error res), hub)
            else (let msg = safe_error_message (rs_error res)
                  in (status_dict ''error'' msg, call_log mp v rq [(''error'', PStr msg)] ''failure'' hub)))
      else (rs_output res,
            call_log mp v rq [(''result_status'', result_status (rs_output res))] ''success'' hub))"

text \<open>\<open>handle_tool_call\<close>. Without an approval handler \<open>governed_call\<close> does not raise.\<close>

definition handle_tool_call :: "'r mcp_setup \<Rightarrow> mcp_env \<Rightarrow> string \<Rightarrow> (string, pyval) dict \<Rightarrow>
    'r mcp_state \<Rightarrow> pyval \<times> 'r mcp_state" where
  "handle_tool_call mp v tool args st =
     (case dget (mp_tools mp) tool of
        None \<Rightarrow> (status_dict ''error'' (''Unknown tool: '' @ tool), st)
      | Some (doc, f) \<Rightarrow>
          (let rq = call_request mp v tool args;
               hub = observe_call mp rq (mc_hub st);
               (r, g) = governed_call (call_env mp f hub) rq
                 \<lparr>gs_budget = budget_for_principal mp (rq_principal_id rq) st,
                  gs_artifacts = mc_artifacts st, gs_world = hub\<rparr>;
               (answer, hub') = (case r of Inl e \<Rightarrow> (PNone, gs_world g)
                                 | Inr res \<Rightarrow> answer_call mp v rq res (gs_world g))
           in (answer, \<lparr>mc_budgets = dset (mc_budgets st) (principal_key (rq_principal_id rq)) (gs_budget g),
                mc_artifacts = gs_artifacts g, mc_hub = hub'\<rparr>)))"

definition list_tools :: "'r mcp_setup \<Rightarrow> (string \<times> string) list" where
  "list_tools mp = map (\<lambda>(name, doc, f). (name, case doc of None \<Rightarrow> [] | Some d \<Rightarrow> d)) (mp_tools mp)"

section \<open>The call as one step\<close>

lemma call_no_crash:
  "governed_call (call_env mp f hub) rq st = (Inl e, st') \<Longrightarrow> False"
  by (erule governed_call_cases) (auto simp: call_env_def)

lemma handle_known:
  assumes "dget (mp_tools mp) tool = Some (doc, f)"
  obtains res g where
    "governed_call (call_env mp f (observe_call mp (call_request mp v tool args) (mc_hub st)))
       (call_request mp v tool args)
       \<lparr>gs_budget = budget_for_principal mp (rq_principal_id (call_request mp v tool args)) st,
        gs_artifacts = mc_artifacts st,
        gs_world = observe_call mp (call_request mp v tool args) (mc_hub st)\<rparr> = (Inr res, g)"
    "handle_tool_call mp v tool args st =
       (fst (answer_call mp v (call_request mp v tool args) res (gs_world g)),
        \<lparr>mc_budgets = dset (mc_budgets st) (principal_key (rq_principal_id (call_request mp v tool args))) (gs_budget g),
         mc_artifacts = gs_artifacts g,
         mc_hub = snd (answer_call mp v (call_request mp v tool args) res (gs_world g))\<rparr>)"
proof -
  let ?rq = "call_request mp v tool args"
  let ?hub = "observe_call mp ?rq (mc_hub st)"
  let ?g0 = "\<lparr>gs_budget = budget_for_principal mp (rq_principal_id ?rq) st, gs_artifacts = mc_artifacts st, gs_world = ?hub\<rparr>"
  obtain r g where g: "governed_call (call_env mp f ?hub) ?rq ?g0 = (r, g)" by fastforce
  obtain res where r: "r = Inr res"
  proof (cases r)
    case (Inl e)
    from call_no_crash [OF g [unfolded Inl]] show ?thesis ..
  qed blast
  have "handle_tool_call mp v tool args st =
      (fst (answer_call mp v ?rq res (gs_world g)),
       \<lparr>mc_budgets = dset (mc_budgets st) (principal_key (rq_principal_id ?rq)) (gs_budget g),
        mc_artifacts = gs_artifacts g, mc_hub = snd (answer_call mp v ?rq res (gs_world g))\<rparr>)"
    using assms g r by (simp add: handle_tool_call_def Let_def case_prod_beta)
  with g r show ?thesis using that by blast
qed

definition budgets_ok :: "'r mcp_setup \<Rightarrow> 'r mcp_state \<Rightarrow> bool" where
  "budgets_ok mp st \<longleftrightarrow> (\<forall>k b. dget (mc_budgets st) k = Some b \<longrightarrow> budget_ok b \<and> bt_limits b = principal_limits mp)"

lemma budgets_ok_for:
  "budgets_ok mp st \<Longrightarrow> budget_ok (budget_for_principal mp pid st) \<and>
     bt_limits (budget_for_principal mp pid st) = principal_limits mp"
  by (auto simp: budgets_ok_def budget_for_principal_def dget_or_def init_budget_def
      intro: budget_ok_init [unfolded init_budget_def] split: option.splits)

lemma budget_ok_total:
  "budget_ok b \<Longrightarrow> 0 < bl_max_total_calls (bt_limits b) \<Longrightarrow> bt_total_calls b \<le> bl_max_total_calls (bt_limits b)"
  by (simp add: budget_ok_def Let_def)

lemma budgets_ok_total:
  assumes "budgets_ok mp st" and "dget (mc_budgets st) k = Some b" and "0 < mp_max_total_calls mp"
  shows "bt_total_calls b \<le> mp_max_total_calls mp"
proof -
  have "budget_ok b" "bl_max_total_calls (bt_limits b) = mp_max_total_calls mp"
    using assms(1,2) by (auto simp: budgets_ok_def principal_limits_def)
  with assms(3) show ?thesis using budget_ok_total [of b] by simp
qed

lemma handle_budgets:
  assumes "budgets_ok mp st"
  shows "budgets_ok mp (snd (handle_tool_call mp v tool args st))"
proof (cases "dget (mp_tools mp) tool")
  case None
  then show ?thesis using assms by (simp add: handle_tool_call_def)
next
  case (Some p)
  obtain doc f where p: "p = (doc, f)" by (cases p)
  let ?pid = "rq_principal_id (call_request mp v tool args)"
  from handle_known [OF Some [unfolded p], of v args st] obtain res g where
    g: "governed_call (call_env mp f (observe_call mp (call_request mp v tool args) (mc_hub st)))
       (call_request mp v tool args)
       \<lparr>gs_budget = budget_for_principal mp ?pid st, gs_artifacts = mc_artifacts st,
        gs_world = observe_call mp (call_request mp v tool args) (mc_hub st)\<rparr> = (Inr res, g)"
    and h: "mc_budgets (snd (handle_tool_call mp v tool args st)) =
      dset (mc_budgets st) (principal_key ?pid) (gs_budget g)"
    by (metis mcp_state.select_convs(1) snd_conv)
  have "budget_ok (gs_budget g) \<and> bt_limits (gs_budget g) = principal_limits mp"
    using budget_ok_call [OF _ g] call_limits [OF g] budgets_ok_for [OF assms, of ?pid] by simp
  then show ?thesis using assms h by (auto simp: budgets_ok_def)
qed

lemma handle_other_principal:
  "k \<noteq> principal_key (rq_principal_id (call_request mp v tool args)) \<Longrightarrow>
   dget (mc_budgets (snd (handle_tool_call mp v tool args st))) k = dget (mc_budgets st) k"
  by (auto simp: handle_tool_call_def Let_def case_prod_beta split: option.splits)

lemma answer_logged:
  "au_entries (hb_audit (snd (answer_call mp v rq res hub))) = au_entries (hb_audit hub) \<and> rs_error_type res = ''ValidationError'' \<or>
   (\<exists>e. au_entries (hb_audit (snd (answer_call mp v rq res hub))) = au_entries (hb_audit hub) @ [e] \<and>
      dget (ae_details e) ''arguments'' = Some (redacted (rq_arguments rq)) \<and>
      ae_outcome e = (if \<not> rs_allowed res then ''denied'' else if rs_error res \<noteq> [] then ''failure'' else ''success''))"
  by (auto simp: answer_call_def call_log_def Let_def dget_Cons)

lemma answer_rest [simp]:
  "hb_rest (snd (answer_call mp v rq res hub)) = hb_rest hub"
  "hb_observer (snd (answer_call mp v rq res hub)) = hb_observer hub"
  "hb_supervisor (snd (answer_call mp v rq res hub)) = hb_supervisor hub"
  by (auto simp: answer_call_def call_log_def Let_def)

section \<open>What every call is subject to\<close>

text \<open>A session of calls at the server.\<close>

definition mcp_run :: "'r mcp_setup \<Rightarrow> (mcp_env \<times> string \<times> (string, pyval) dict) list \<Rightarrow> 'r mcp_state \<Rightarrow> 'r mcp_state" where
  "mcp_run mp cs st = fold (\<lambda>(v, tool, args) s. snd (handle_tool_call mp v tool args s)) cs st"

lemma mcp_run_budgets: "budgets_ok mp st \<Longrightarrow> budgets_ok mp (mcp_run mp cs st)"
  by (induction cs arbitrary: st) (auto simp: mcp_run_def handle_budgets)

lemma gov_execute_outcome:
  "gs_world (snd (gov_execute env rq st)) = snd (ge_executor env rq (gs_world st)) \<and>
   (case fst (ge_executor env rq (gs_world st)) of
      Inr x \<Rightarrow> rs_error (fst (gov_execute env rq st)) = [] \<and> rs_output (fst (gov_execute env rq st)) = x
    | Inl (ty, msg) \<Rightarrow> rs_error (fst (gov_execute env rq st)) = msg \<and>
        rs_error_type (fst (gov_execute env rq st)) = ty \<and> rs_output (fst (gov_execute env rq st)) = PNone)"
  by (simp add: gov_execute_def deny_result_def Let_def split: prod.splits sum.splits)

text \<open>Where the server's own entry goes, and what is in it.\<close>

definition logged_by_server :: "tool_request \<Rightarrow> 'r hub \<Rightarrow> 'r hub \<Rightarrow> bool" where
  "logged_by_server rq hub hub' \<longleftrightarrow>
     (\<exists>e. au_entries (hb_audit hub') = au_entries (hb_audit hub) @ [e] \<and>
        dget (ae_details e) ''arguments'' = Some (redacted (rq_arguments rq)))"

lemma handle_logged:
  fixes mp :: "'r mcp_setup" and st :: "'r mcp_state" and v :: mcp_env and tool :: string and args :: "(string, pyval) dict"
  assumes "dget (mp_tools mp) tool = Some (doc, f)"
  defines "rq \<equiv> call_request mp v tool args"
  defines "hub \<equiv> observe_call mp rq (mc_hub st)"
  defines "st' \<equiv> snd (handle_tool_call mp v tool args st)"
  shows "logged_by_server rq hub (mc_hub st') \<or> logged_by_server rq (snd (f (rq_arguments rq) hub)) (mc_hub st') \<or>
    (\<exists>m. fst (f (rq_arguments rq) hub) = Inl (''ValidationError'', m))"
proof -
  from handle_known [OF assms(1), of v args st] obtain res g where
    g: "governed_call (call_env mp f hub) rq \<lparr>gs_budget = budget_for_principal mp (rq_principal_id rq) st,
        gs_artifacts = mc_artifacts st, gs_world = hub\<rparr> = (Inr res, g)"
    and h: "mc_hub st' = snd (answer_call mp v rq res (gs_world g))"
    unfolding rq_def hub_def st'_def by (metis mcp_state.select_convs(3) snd_conv)
  have log: "logged_by_server rq (gs_world g) (mc_hub st') \<or> rs_allowed res \<and> rs_error res \<noteq> [] \<and> rs_error_type res = ''ValidationError''"
    unfolding h logged_by_server_def by (auto simp: answer_call_def call_log_def Let_def dget_Cons)
  from g show ?thesis
  proof (cases rule: governed_call_cases)
    case (executed st1)
    then have "gs_world st1 = hub" by (auto simp: call_env_def)
    then show ?thesis
      using gov_execute_outcome [of "call_env mp f hub" rq st1] log executed(5,6)
      by (auto simp: call_env_def split: sum.splits prod.splits)
  qed (use log in \<open>auto simp: call_env_def deny_result_def\<close>)
qed

lemma handle_halted:
  fixes mp :: "'r mcp_setup" and st :: "'r mcp_state" and v :: mcp_env and tool :: string and args :: "(string, pyval) dict"
  assumes "dget (mp_tools mp) tool = Some (doc, f)"
    and "rq_session_id (call_request mp v tool args) \<noteq> []"
    and "is_halted (rq_session_id (call_request mp v tool args)) (hb_supervisor (mc_hub st)) = Some h"
  defines "st' \<equiv> snd (handle_tool_call mp v tool args st)"
  shows "fst (handle_tool_call mp v tool args st) = status_dict ''denied'' (halt_reason h)"
    and "hb_rest (mc_hub st') = hb_rest (mc_hub st)"
    and "hb_supervisor (mc_hub st') = hb_supervisor (mc_hub st)"
    and "dget (mc_budgets st) k = Some b \<Longrightarrow> dget (mc_budgets st') k = Some b"
    and "\<exists>e. au_entries (hb_audit (mc_hub st')) = au_entries (hb_audit (mc_hub st)) @ [e] \<and> ae_outcome e = ''denied''"
proof -
  let ?rq = "call_request mp v tool args"
  let ?hub = "observe_call mp ?rq (mc_hub st)"
  have hub: "hb_supervisor ?hub = hb_supervisor (mc_hub st)" "hb_rest ?hub = hb_rest (mc_hub st)"
    "hb_audit ?hub = hb_audit (mc_hub st)" by (simp_all add: observe_call_def)
  from handle_known [OF assms(1), of v args st] obtain res g where
    g: "governed_call (call_env mp f ?hub) ?rq \<lparr>gs_budget = budget_for_principal mp (rq_principal_id ?rq) st,
        gs_artifacts = mc_artifacts st, gs_world = ?hub\<rparr> = (Inr res, g)"
    and eq: "handle_tool_call mp v tool args st =
       (fst (answer_call mp v ?rq res (gs_world g)),
        \<lparr>mc_budgets = dset (mc_budgets st) (principal_key (rq_principal_id ?rq)) (gs_budget g),
         mc_artifacts = gs_artifacts g, mc_hub = snd (answer_call mp v ?rq res (gs_world g))\<rparr>)" by blast
  have "gov_halted (call_env mp f ?hub) ?rq = Some h"
    using assms(2,3) hub(1) by (simp add: gov_halted_def call_env_def)
  with g have r: "res = deny_result ?rq (halt_reason h)" "gs_world g = ?hub"
    "gs_budget g = budget_for_principal mp (rq_principal_id ?rq) st"
    by (cases rule: governed_call_cases; simp)+
  then show "fst (handle_tool_call mp v tool args st) = status_dict ''denied'' (halt_reason h)"
    and "hb_rest (mc_hub st') = hb_rest (mc_hub st)"
    and "hb_supervisor (mc_hub st') = hb_supervisor (mc_hub st)"
    using hub by (simp_all add: eq st'_def) (simp add: answer_call_def deny_result_def)
  show "dget (mc_budgets st) k = Some b \<Longrightarrow> dget (mc_budgets st') k = Some b"
    by (auto simp: eq st'_def r(3) budget_for_principal_def dget_or_def)
  show "\<exists>e. au_entries (hb_audit (mc_hub st')) = au_entries (hb_audit (mc_hub st)) @ [e] \<and> ae_outcome e = ''denied''"
    using hub by (simp add: eq st'_def r answer_call_def deny_result_def call_log_def)
qed


definition demo_tool :: "nat tool" where
  "demo_tool args hub = (Inr (PStr ''done''), hub\<lparr>hb_rest := hb_rest hub + 1\<rparr>)"

definition demo_setup :: "nat mcp_setup" where
  "demo_setup = \<lparr>mp_tools = [(''pay'', None, demo_tool)], mp_enabled = True, mp_policy_name = ''finops-default'',
     mp_max_total_calls = 2, mp_max_calls_per_tool = 0, mp_max_runtime_seconds = 0, mp_clock = (\<lambda>h. 0),
     mp_sha = demo_sha, mp_repr = (\<lambda>v. [])\<rparr>"

definition demo_call :: mcp_env where
  "demo_call = \<lparr>me_principal = None, me_session = None, me_request_id = ''r1'', me_timestamp = 0,
     me_log = demo_env 0\<rparr>"

definition demo_server :: "nat mcp_state" where
  "demo_server = \<lparr>mc_budgets = [], mc_artifacts = [],
     mc_hub = \<lparr>hb_audit = \<lparr>au_entries = [], au_previous_checksum = [], au_disk = []\<rparr>,
       hb_observer = init_observer [], hb_supervisor = snd (halt ''s1'' demo_halt init_supervisor), hb_rest = 0\<rparr>\<rparr>"


end
