(* ===== verification/Tool_Args.thy ===== *)
theory Tool_Args
  imports Validation Governor
begin

text \<open>
  What the tools of \<open>mcp_server/server.py\<close> share: a call binds its keywords to the function's parameters,
  each argument is validated before the hub is touched, and the first failure is the answer. A tool is a
  step of the state \<open>'w\<close> it works on.
\<close>

section \<open>Keyword arguments\<close>

type_synonym 'w step = "'w \<Rightarrow> (exn + pyval) \<times> 'w"

definition check_then :: "exn + 'a \<Rightarrow> ('a \<Rightarrow> 'w step) \<Rightarrow> 'w step" where
  "check_then r f hub = (case r of Inl e \<Rightarrow> (Inl e, hub) | Inr x \<Rightarrow> f x hub)"

text \<open>The keywords of a call against a function's parameters, those with a default last.\<close>

definition bind_args :: "string \<Rightarrow> string list \<Rightarrow> (string, pyval) dict \<Rightarrow> (string, pyval) dict \<Rightarrow> exn + (string \<Rightarrow> pyval)" where
  "bind_args message required optional args =
     (if list_all (\<lambda>k. k \<in> set required \<union> fst ` set optional) (map fst args) \<and> list_all (dhas args) required
      then Inr (\<lambda>k. dget_or args k (dget_or optional k PNone))
      else Inl (''TypeError'', message))"

definition invalid :: "string + 'a \<Rightarrow> exn + 'a" where
  "invalid r = (case r of Inl m \<Rightarrow> Inl (''ValidationError'', m) | Inr x \<Rightarrow> Inr x)"

definition text_arg :: "(string \<Rightarrow> pyval) \<Rightarrow> string \<Rightarrow> nat \<Rightarrow> exn + string" where
  "text_arg kw k n = invalid (sanitise_string (kw k) k n)"

text \<open>\<open>if v: v = sanitise_string(v, ...)\<close>: a falsy value filters nothing.\<close>

definition optional_text :: "(string \<Rightarrow> pyval) \<Rightarrow> string \<Rightarrow> nat \<Rightarrow> exn + string option" where
  "optional_text kw k n =
     (if truthy (kw k) then map_sum id Some (invalid (sanitise_string (kw k) k n)) else Inr None)"

text \<open>A list comprehension of validated values.\<close>

fun validated :: "('a \<Rightarrow> exn + 'b) \<Rightarrow> 'a list \<Rightarrow> exn + 'b list" where
  "validated f [] = Inr []"
| "validated f (x # xs) = (case f x of Inl e \<Rightarrow> Inl e | Inr y \<Rightarrow> map_sum id (Cons y) (validated f xs))"

definition clean_all :: "string \<Rightarrow> nat \<Rightarrow> pyval list \<Rightarrow> exn + string list" where
  "clean_all field n = validated (\<lambda>x. invalid (sanitise_string x field n))"

definition counted :: "string \<Rightarrow> pyval list \<Rightarrow> (string, pyval) dict" where
  "counted k xs = [(''count'', PInt (int (length xs))), (k, PList xs)]"

section \<open>A checked call\<close>

lemma check_then_Inl [simp]: "check_then (Inl e) f hub = (Inl e, hub)"
  by (simp add: check_then_def)

lemma check_then_Inr [simp]: "check_then (Inr x) f hub = f x hub"
  by (simp add: check_then_def)

lemma check_then_keeps:
  "(\<And>x. r = Inr x \<Longrightarrow> P (snd (f x hub))) \<Longrightarrow> P hub \<Longrightarrow> P (snd (check_then r f hub))"
  by (cases r) simp_all

lemma bind_args_value:
  "bind_args m required optional args = Inr kw \<Longrightarrow> kw k = dget_or args k (dget_or optional k PNone)"
  by (auto simp: bind_args_def split: if_splits)

lemma text_arg_value: "text_arg kw k n = Inr s \<longleftrightarrow> sanitise_string (kw k) k n = Inr s"
  by (auto simp: text_arg_def invalid_def split: sum.splits)

end
