(* ===== verification/Agent_Trace.thy ===== *)
theory Agent_Trace
  imports Audit_Trail
begin

text \<open>
  The canonical agent trace, \<open>core/agent_trace.py\<close>, and its ingestion into the audit trail
  (\<open>ingest_agent_trace\<close> of \<open>core/audit.py\<close>): the step variants with their common base, decision
  records, the trace container, and its export as OpenTelemetry spans and as a transcript.
\<close>

section \<open>Steps, decisions and traces\<close>

datatype agent_verdict = IN_PROGRESS_V | COMPLETED | HALTED_V | FAILED | APPROVAL_DENIED

fun agent_verdict_value :: "agent_verdict \<Rightarrow> string" where
  "agent_verdict_value IN_PROGRESS_V = ''in_progress''"
| "agent_verdict_value COMPLETED = ''completed''"
| "agent_verdict_value HALTED_V = ''halted''"
| "agent_verdict_value FAILED = ''failed''"
| "agent_verdict_value APPROVAL_DENIED = ''approval_denied''"

datatype decision_verdict = D_ALLOW | D_DENY | D_APPROVAL_REQUIRED | D_HALT

fun decision_verdict_value :: "decision_verdict \<Rightarrow> string" where
  "decision_verdict_value D_ALLOW = ''allow''"
| "decision_verdict_value D_DENY = ''deny''"
| "decision_verdict_value D_APPROVAL_REQUIRED = ''approval_required''"
| "decision_verdict_value D_HALT = ''halt''"

text \<open>The fields of the variants, in the order of the classes.\<close>

record model_invocation =
  mi_model_id :: string
  mi_prompt_preview :: string
  mi_response_preview :: string
  mi_input_tokens :: int
  mi_output_tokens :: int
  mi_latency_ms :: real
  mi_inference_config :: "(string, pyval) dict"

record tool_invocation =
  ti_tool_name :: string
  ti_arguments :: "(string, pyval) dict"
  ti_output_preview :: pyval
  ti_duration_ms :: real
  ti_succeeded :: bool
  ti_error :: string

record guardrail_evaluation =
  gu_guardrail_name :: string
  gu_guardrail_version :: string
  gu_triggered :: bool
  gu_triggered_filters :: "string list"
  gu_action :: string

record approval_step =
  ap_request_id :: string
  ap_approver_pool :: "string list"
  ap_expires_at :: "timestamp option"
  ap_approved :: "bool option"
  ap_responded_by :: string
  ap_response_notes :: string

record human_override =
  ho_override_type :: string
  ho_operator :: string
  ho_reason :: string

record filter_decision =
  fd_filter_name :: string
  fd_verdict :: string
  fd_matched_categories :: "string list"

record memory_operation =
  mo_operation :: string
  mo_user_id :: string
  mo_memory_key :: string
  mo_backend :: string
  mo_content_preview :: string
  mo_filter_verdict :: string
  mo_succeeded :: bool
  mo_error :: string

record failure =
  fa_error_type :: string
  fa_error_message :: string
  fa_recoverable :: bool

datatype step_body =
    ModelInvocation model_invocation
  | ToolInvocation tool_invocation
  | GuardrailEvaluation guardrail_evaluation
  | ApprovalStep approval_step
  | HumanOverride human_override
  | FilterDecision filter_decision
  | MemoryOperation memory_operation
  | Failure failure

fun step_type :: "step_body \<Rightarrow> string" where
  "step_type (ModelInvocation b) = ''model_invocation''"
| "step_type (ToolInvocation b) = ''tool_invocation''"
| "step_type (GuardrailEvaluation b) = ''guardrail_evaluation''"
| "step_type (ApprovalStep b) = ''approval_request''"
| "step_type (HumanOverride b) = ''human_override''"
| "step_type (FilterDecision b) = ''filter_decision''"
| "step_type (MemoryOperation b) = ''memory_operation''"
| "step_type (Failure b) = ''failure''"

record agent_step =
  as_step_id :: string
  as_parent_step_id :: string
  as_session_id :: string
  as_correlation_id :: string
  as_timestamp :: timestamp
  as_actor :: string
  as_rationale :: string
  as_raw :: "(string, pyval) dict"
  as_body :: step_body

record decision_record =
  dr_decision_id :: string
  dr_timestamp :: timestamp
  dr_session_id :: string
  dr_correlation_id :: string
  dr_triggering_step_id :: string
  dr_decision :: decision_verdict
  dr_gate_name :: string
  dr_reason :: string
  dr_policy_id :: string
  dr_actor :: string

record agent_trace =
  tc_session_id :: string
  tc_agent_name :: string
  tc_provider :: cloud_provider
  tc_correlation_id :: string
  tc_started_at :: timestamp
  tc_ended_at :: "timestamp option"
  tc_verdict :: agent_verdict
  tc_steps :: "agent_step list"
  tc_decisions :: "decision_record list"

section \<open>Operations\<close>

text \<open>\<open>add_step\<close> fills in the ids of the step object it appends; the caller's object is that object.\<close>

definition adopt_step :: "agent_trace \<Rightarrow> agent_step \<Rightarrow> agent_step" where
  "adopt_step t st =
     (let st = (if as_session_id st = [] then st\<lparr>as_session_id := tc_session_id t\<rparr> else st)
      in if as_correlation_id st = [] \<and> tc_correlation_id t \<noteq> []
         then st\<lparr>as_correlation_id := tc_correlation_id t\<rparr> else st)"

definition add_step :: "agent_step \<Rightarrow> agent_trace \<Rightarrow> agent_trace" where
  "add_step st t = t\<lparr>tc_steps := tc_steps t @ [adopt_step t st]\<rparr>"

definition adopt_decision :: "agent_trace \<Rightarrow> decision_record \<Rightarrow> decision_record" where
  "adopt_decision t d =
     (let d = (if dr_session_id d = [] then d\<lparr>dr_session_id := tc_session_id t\<rparr> else d)
      in if dr_correlation_id d = [] \<and> tc_correlation_id t \<noteq> []
         then d\<lparr>dr_correlation_id := tc_correlation_id t\<rparr> else d)"

definition add_decision :: "decision_record \<Rightarrow> agent_trace \<Rightarrow> agent_trace" where
  "add_decision d t = t\<lparr>tc_decisions := tc_decisions t @ [adopt_decision t d]\<rparr>"

definition close_trace :: "timestamp \<Rightarrow> agent_verdict \<Rightarrow> agent_trace \<Rightarrow> agent_trace" where
  "close_trace now v t = t\<lparr>tc_ended_at := Some now, tc_verdict := v\<rparr>"

definition duration_ms :: "timestamp \<Rightarrow> agent_trace \<Rightarrow> real" where
  "duration_ms now t =
     real_of_int ((case tc_ended_at t of None \<Rightarrow> now | Some e \<Rightarrow> e) - tc_started_at t) / 1000"

section \<open>OpenTelemetry spans\<close>

record otel_span =
  sp_name :: string
  sp_trace_id :: string
  sp_span_id :: string
  sp_parent_span_id :: "string option"
  sp_start_nano :: int
  sp_end_nano :: int
  sp_kind :: string
  sp_attributes :: "(string, pyval) dict"

text \<open>\<open>sha\<close> is \<open>hashlib.sha256(seed.encode()).hexdigest()\<close>.\<close>

definition hex_id :: "(string \<Rightarrow> string) \<Rightarrow> string \<Rightarrow> nat \<Rightarrow> string" where
  "hex_id sha seed n = (if seed \<noteq> [] then take n (sha seed) else replicate n CHR ''0'')"

definition py_bool_opt :: "bool option \<Rightarrow> pyval" where
  "py_bool_opt b = (case b of None \<Rightarrow> PNone | Some x \<Rightarrow> PBool x)"

fun span_attributes :: "step_body \<Rightarrow> (string, pyval) dict" where
  "span_attributes (ModelInvocation b) =
     [(''gen_ai.system'', PStr (if substr ''claude'' (mi_model_id b) then ''anthropic'' else ''gemini'')),
      (''gen_ai.request.model'', PStr (mi_model_id b)),
      (''gen_ai.usage.input_tokens'', PInt (mi_input_tokens b)),
      (''gen_ai.usage.output_tokens'', PInt (mi_output_tokens b)),
      (''gen_ai.response.latency_ms'', PFloat (mi_latency_ms b))]"
| "span_attributes (ToolInvocation b) =
     [(''tool.name'', PStr (ti_tool_name b)), (''tool.duration_ms'', PFloat (ti_duration_ms b)),
      (''tool.succeeded'', PBool (ti_succeeded b))] @
     (if ti_error b \<noteq> [] then [(''tool.error'', PStr (ti_error b))] else [])"
| "span_attributes (GuardrailEvaluation b) =
     [(''guardrail.name'', PStr (gu_guardrail_name b)), (''guardrail.triggered'', PBool (gu_triggered b)),
      (''guardrail.action'', PStr (gu_action b))]"
| "span_attributes (ApprovalStep b) =
     [(''approval.request_id'', PStr (ap_request_id b)), (''approval.approved'', py_bool_opt (ap_approved b))]"
| "span_attributes (HumanOverride b) =
     [(''override.type'', PStr (ho_override_type b)), (''override.operator'', PStr (ho_operator b))]"
| "span_attributes (FilterDecision b) =
     [(''filter.name'', PStr (fd_filter_name b)), (''filter.verdict'', PStr (fd_verdict b))]"
| "span_attributes (MemoryOperation b) =
     [(''memory.operation'', PStr (mo_operation b)), (''memory.backend'', PStr (mo_backend b)),
      (''memory.user_id'', PStr (mo_user_id b)), (''memory.key'', PStr (mo_memory_key b)),
      (''memory.filter_verdict'', PStr (mo_filter_verdict b)), (''memory.succeeded'', PBool (mo_succeeded b))]"
| "span_attributes (Failure b) =
     [(''failure.error_type'', PStr (fa_error_type b)), (''failure.recoverable'', PBool (fa_recoverable b))]"

definition span_of :: "(string \<Rightarrow> string) \<Rightarrow> agent_trace \<Rightarrow> agent_step \<Rightarrow> otel_span" where
  "span_of sha t st =
     \<lparr>sp_name = ''agent.'' @ step_type (as_body st),
      sp_trace_id = hex_id sha (str_or (tc_correlation_id t) (tc_session_id t)) 32,
      sp_span_id = hex_id sha (as_step_id st) 16,
      sp_parent_span_id = (if as_parent_step_id st = [] then None
                           else Some (hex_id sha (as_parent_step_id st) 16)),
      sp_start_nano = as_timestamp st * 1000, sp_end_nano = as_timestamp st * 1000,
      sp_kind = ''SPAN_KIND_INTERNAL'',
      sp_attributes =
        [(''agent.session_id'', PStr (tc_session_id t)), (''agent.correlation_id'', PStr (tc_correlation_id t)),
         (''agent.name'', PStr (tc_agent_name t)), (''agent.provider'', PStr (provider_value (tc_provider t))),
         (''agent.step_type'', PStr (step_type (as_body st))), (''agent.rationale'', PStr (as_rationale st)),
         (''agent.actor'', PStr (as_actor st))] @ span_attributes (as_body st)\<rparr>"

definition to_otel_spans :: "(string \<Rightarrow> string) \<Rightarrow> agent_trace \<Rightarrow> otel_span list" where
  "to_otel_spans sha t = map (span_of sha t) (tc_steps t)"

section \<open>The transcript\<close>

definition show_bool :: "bool \<Rightarrow> string" where
  "show_bool b = (if b then ''True'' else ''False'')"

definition status_str :: "bool \<Rightarrow> string \<Rightarrow> string" where
  "status_str ok err = (if ok then ''ok'' else ''err:'' @ take 60 err)"

fun step_oneliner :: "step_body \<Rightarrow> string" where
  "step_oneliner (ModelInvocation b) =
     ''model='' @ mi_model_id b @ '' in='' @ show_int (mi_input_tokens b) @ '' out='' @ show_int (mi_output_tokens b)"
| "step_oneliner (ToolInvocation b) =
     ''tool='' @ ti_tool_name b @ '' ('' @ status_str (ti_succeeded b) (ti_error b) @ '') '' @
     fmt_0f (ti_duration_ms b) @ ''ms''"
| "step_oneliner (GuardrailEvaluation b) =
     ''guardrail='' @ gu_guardrail_name b @ '' triggered='' @ show_bool (gu_triggered b) @
     '' action='' @ gu_action b"
| "step_oneliner (ApprovalStep b) =
     ''approval='' @ ap_request_id b @ '' '' @
     (case ap_approved b of None \<Rightarrow> ''pending'' | Some True \<Rightarrow> ''approved'' | Some False \<Rightarrow> ''denied'') @
     '' by='' @ str_or (ap_responded_by b) ''-''"
| "step_oneliner (HumanOverride b) =
     ho_override_type b @ '' by='' @ ho_operator b @ '' reason='' @ take 80 (ho_reason b)"
| "step_oneliner (FilterDecision b) =
     ''filter='' @ fd_filter_name b @ '' verdict='' @ fd_verdict b @ '' cats='' @
     str_or (join '','' (fd_matched_categories b)) ''-''"
| "step_oneliner (MemoryOperation b) =
     ''memory='' @ mo_operation b @ '' backend='' @ mo_backend b @ '' user='' @ str_or (mo_user_id b) ''-'' @
     '' key='' @ str_or (mo_memory_key b) ''-'' @ '' ('' @ status_str (mo_succeeded b) (mo_error b) @ '')''"
| "step_oneliner (Failure b) = fa_error_type b @ '': '' @ take 80 (fa_error_message b)"

text \<open>\<open>t.strftime("%H:%M:%S")\<close>\<close>

definition time_str :: "timestamp \<Rightarrow> string" where
  "time_str t =
     (let s = (t mod us_per_day) div 1000000
      in pad_nat 2 (nat (s div 3600)) @ '':'' @ pad_nat 2 (nat (s div 60 mod 60)) @ '':'' @
         pad_nat 2 (nat (s mod 60)))"

definition backtick :: string where
  "backtick = [CHR 0x60]"

definition arrow :: string where
  "arrow = [CHR 0xE2, CHR 0x86, CHR 0x92]"

definition step_line :: "agent_step \<Rightarrow> string" where
  "step_line st = ''- '' @ backtick @ time_str (as_timestamp st) @ backtick @ '' **'' @
     step_type (as_body st) @ ''** '' @ em_dash @ '' '' @ step_oneliner (as_body st)"

definition decision_line :: "decision_record \<Rightarrow> string" where
  "decision_line d = ''- '' @ backtick @ time_str (dr_timestamp d) @ backtick @ '' **'' @
     dr_gate_name d @ ''** '' @ arrow @ '' '' @ backtick @ decision_verdict_value (dr_decision d) @
     backtick @ '': '' @ dr_reason d"

definition to_markdown :: "timestamp \<Rightarrow> agent_trace \<Rightarrow> string" where
  "to_markdown now t = join newline
     ([''# Agent session '' @ tc_session_id t,
       ''- **Agent:** '' @ tc_agent_name t @ '' ('' @ provider_value (tc_provider t) @ '')'',
       ''- **Started:** '' @ isoformat (tc_started_at t),
       ''- **Ended:** '' @ (case tc_ended_at t of None \<Rightarrow> ''(in progress)'' | Some e \<Rightarrow> isoformat e),
       ''- **Verdict:** '' @ agent_verdict_value (tc_verdict t),
       ''- **Duration:** '' @ fmt_0f (duration_ms now t) @ ''ms'',
       [],
       ''## Steps''] @
      map step_line (tc_steps t) @
      (if tc_decisions t = [] then [] else [[], ''## Decisions''] @ map decision_line (tc_decisions t)))"

section \<open>Ingestion into the audit trail\<close>

text \<open>
  The payload of a step is \<open>model_dump(mode="json", exclude={"raw"})\<close>: the fields of the base class
  and then those of the variant. How Pydantic writes a datetime in JSON is the argument \<open>jt\<close>.
\<close>

definition py_strs :: "string list \<Rightarrow> pyval" where
  "py_strs xs = PList (map PStr xs)"

fun body_payload :: "(timestamp \<Rightarrow> string) \<Rightarrow> step_body \<Rightarrow> (string, pyval) dict" where
  "body_payload jt (ModelInvocation b) =
     [(''model_id'', PStr (mi_model_id b)), (''prompt_preview'', PStr (mi_prompt_preview b)),
      (''response_preview'', PStr (mi_response_preview b)), (''input_tokens'', PInt (mi_input_tokens b)),
      (''output_tokens'', PInt (mi_output_tokens b)), (''latency_ms'', PFloat (mi_latency_ms b)),
      (''inference_config'', PDict (mi_inference_config b))]"
| "body_payload jt (ToolInvocation b) =
     [(''tool_name'', PStr (ti_tool_name b)), (''arguments'', PDict (ti_arguments b)),
      (''output_preview'', ti_output_preview b), (''duration_ms'', PFloat (ti_duration_ms b)),
      (''succeeded'', PBool (ti_succeeded b)), (''error'', PStr (ti_error b))]"
| "body_payload jt (GuardrailEvaluation b) =
     [(''guardrail_name'', PStr (gu_guardrail_name b)), (''guardrail_version'', PStr (gu_guardrail_version b)),
      (''triggered'', PBool (gu_triggered b)), (''triggered_filters'', py_strs (gu_triggered_filters b)),
      (''action'', PStr (gu_action b))]"
| "body_payload jt (ApprovalStep b) =
     [(''request_id'', PStr (ap_request_id b)), (''approver_pool'', py_strs (ap_approver_pool b)),
      (''expires_at'', (case ap_expires_at b of None \<Rightarrow> PNone | Some t \<Rightarrow> PStr (jt t))),
      (''approved'', py_bool_opt (ap_approved b)), (''responded_by'', PStr (ap_responded_by b)),
      (''response_notes'', PStr (ap_response_notes b))]"
| "body_payload jt (HumanOverride b) =
     [(''override_type'', PStr (ho_override_type b)), (''operator'', PStr (ho_operator b)),
      (''reason'', PStr (ho_reason b))]"
| "body_payload jt (FilterDecision b) =
     [(''filter_name'', PStr (fd_filter_name b)), (''verdict'', PStr (fd_verdict b)),
      (''matched_categories'', py_strs (fd_matched_categories b))]"
| "body_payload jt (MemoryOperation b) =
     [(''operation'', PStr (mo_operation b)), (''user_id'', PStr (mo_user_id b)),
      (''memory_key'', PStr (mo_memory_key b)), (''backend'', PStr (mo_backend b)),
      (''content_preview'', PStr (mo_content_preview b)), (''filter_verdict'', PStr (mo_filter_verdict b)),
      (''succeeded'', PBool (mo_succeeded b)), (''error'', PStr (mo_error b))]"
| "body_payload jt (Failure b) =
     [(''error_type'', PStr (fa_error_type b)), (''error_message'', PStr (fa_error_message b)),
      (''recoverable'', PBool (fa_recoverable b))]"

definition step_payload :: "(timestamp \<Rightarrow> string) \<Rightarrow> agent_step \<Rightarrow> (string, pyval) dict" where
  "step_payload jt st =
     [(''schema_version'', PStr ''1''), (''step_id'', PStr (as_step_id st)),
      (''parent_step_id'', PStr (as_parent_step_id st)), (''session_id'', PStr (as_session_id st)),
      (''correlation_id'', PStr (as_correlation_id st)), (''timestamp'', PStr (jt (as_timestamp st))),
      (''actor'', PStr (as_actor st)), (''rationale'', PStr (as_rationale st)),
      (''step_type'', PStr (step_type (as_body st)))] @ body_payload jt (as_body st)"

definition step_args :: "(timestamp \<Rightarrow> string) \<Rightarrow> agent_trace \<Rightarrow> agent_step \<Rightarrow> log_args" where
  "step_args jt t st =
     (default_args (''agent.step.'' @ step_type (as_body st)) (str_or (as_actor st) (tc_agent_name t))
        (tc_session_id t))
       \<lparr>la_provider := Some (tc_provider t),
        la_details := [(''step_id'', PStr (as_step_id st)), (''parent_step_id'', PStr (as_parent_step_id st)),
          (''rationale'', PStr (as_rationale st)), (''payload'', PDict (step_payload jt st))],
        la_correlation_id := str_or (tc_correlation_id t) (tc_session_id t),
        la_causation_id := as_parent_step_id st\<rparr>"

definition decision_args :: "agent_trace \<Rightarrow> decision_record \<Rightarrow> log_args" where
  "decision_args t d =
     (default_args (''agent.decision.'' @ decision_verdict_value (dr_decision d)) (dr_actor d)
        (tc_session_id t @ '':'' @ dr_gate_name d))
       \<lparr>la_provider := Some (tc_provider t),
        la_details := [(''decision_id'', PStr (dr_decision_id d)), (''gate_name'', PStr (dr_gate_name d)),
          (''reason'', PStr (dr_reason d)), (''policy_id'', PStr (dr_policy_id d)),
          (''triggering_step_id'', PStr (dr_triggering_step_id d))],
        la_correlation_id := str_or (tc_correlation_id t) (tc_session_id t),
        la_causation_id := dr_triggering_step_id d\<rparr>"

text \<open>The log calls in order; the \<open>n\<close>-th one under \<open>envs n\<close>.\<close>

definition trace_calls :: "(timestamp \<Rightarrow> string) \<Rightarrow> agent_trace \<Rightarrow> log_args list" where
  "trace_calls jt t = map (step_args jt t) (tc_steps t) @ map (decision_args t) (tc_decisions t)"

definition ingest_agent_trace :: "(string \<Rightarrow> string) \<Rightarrow> (timestamp \<Rightarrow> string) \<Rightarrow> (nat \<Rightarrow> log_env) \<Rightarrow>
    agent_trace \<Rightarrow> audit_logger \<Rightarrow> audit_entry list \<times> audit_logger" where
  "ingest_agent_trace sha jt envs t s =
     (let calls = trace_calls jt t;
          s' = log_all sha (zip calls (map envs [0..<length calls])) s
      in (drop (length (au_entries s)) (au_entries s'), s'))"

section \<open>What an ingested trace leaves behind\<close>

lemma ingest_entries:
  "\<exists>es. au_entries (snd (ingest_agent_trace sha jt envs t s)) = au_entries s @ es \<and>
     fst (ingest_agent_trace sha jt envs t s) = es \<and> map entry_args es = trace_calls jt t"
proof -
  let ?calls = "trace_calls jt t"
  obtain es where es: "au_entries (log_all sha (zip ?calls (map envs [0..<length ?calls])) s) = au_entries s @ es"
    "map entry_args es = map fst (zip ?calls (map envs [0..<length ?calls]))"
    using log_all_extends by blast
  then show ?thesis by (simp add: ingest_agent_trace_def Let_def)
qed

lemma ingest_ok: "audit_ok sha s \<Longrightarrow> audit_ok sha (snd (ingest_agent_trace sha jt envs t s))"
  by (simp add: ingest_agent_trace_def Let_def log_all_ok)

definition trace_correlation :: "agent_trace \<Rightarrow> string" where
  "trace_correlation t = str_or (tc_correlation_id t) (tc_session_id t)"

lemma trace_calls_correlation: "a \<in> set (trace_calls jt t) \<Longrightarrow> la_correlation_id a = trace_correlation t"
  by (auto simp: trace_calls_def step_args_def decision_args_def trace_correlation_def)

lemma entry_args_correlation [simp]: "la_correlation_id (entry_args e) = ae_correlation_id e"
  by (simp add: entry_args_def)

text \<open>
  C23: Ingesting a trace continues an intact audit chain and loses nothing: one entry per step and
  per decision, in order, with the full payload of the step; the chain still verifies; and when no
  earlier entry used the trace's correlation id, the entries with that id are exactly the
  transcript.
\<close>
theorem trace_ingest_reconstructs:
  fixes jt :: "timestamp \<Rightarrow> string" and envs :: "nat \<Rightarrow> log_env"
  assumes "audit_ok sha s"
    and "\<forall>e \<in> set (au_entries s). ae_correlation_id e \<noteq> trace_correlation t"
  defines "s' \<equiv> snd (ingest_agent_trace sha jt envs t s)"
    and "transcript \<equiv> \<lambda>s. filter (\<lambda>e. ae_correlation_id e = trace_correlation t) (au_entries s)"
  shows "verify_integrity sha s' = [] \<and>
    au_entries s' = au_entries s @ transcript s' \<and>
    map entry_args (transcript s') = map (step_args jt t) (tc_steps t) @ map (decision_args t) (tc_decisions t) \<and>
    map (\<lambda>e. dget (ae_details e) ''payload'') (take (length (tc_steps t)) (transcript s')) =
      map (\<lambda>st. Some (PDict (step_payload jt st))) (tc_steps t)"
proof -
  obtain es where es: "au_entries s' = au_entries s @ es" "map entry_args es = trace_calls jt t"
    using ingest_entries [of sha jt envs t s] unfolding s'_def by blast
  have "ae_correlation_id e = trace_correlation t" if "e \<in> set es" for e
  proof -
    have "entry_args e \<in> set (map entry_args es)" using that by simp
    then have "entry_args e \<in> set (trace_calls jt t)" unfolding es(2) .
    then show ?thesis using trace_calls_correlation by fastforce
  qed
  then have tr: "transcript s' = es"
    using assms(2) by (simp add: transcript_def es(1) filter_empty_conv filter_id_conv)
  have "map (\<lambda>e. dget (ae_details e) ''payload'') (take n es) =
      map (\<lambda>a. dget (la_details a) ''payload'') (take n (map entry_args es))" for n
    by (simp add: take_map entry_args_def)
  then have "map (\<lambda>e. dget (ae_details e) ''payload'') (take (length (tc_steps t)) es) =
      map (\<lambda>st. Some (PDict (step_payload jt st))) (tc_steps t)"
    unfolding es(2) by (simp add: trace_calls_def step_args_def dget_def)
  then show ?thesis
    using audit_ok_verify [OF ingest_ok [OF assms(1)]] es tr by (simp add: s'_def trace_calls_def)
qed

definition demo_step :: agent_step where
  "demo_step = \<lparr>as_step_id = ''st1'', as_parent_step_id = [], as_session_id = ''s1'', as_correlation_id = [],
     as_timestamp = 0, as_actor = ''agent'', as_rationale = [], as_raw = [],
     as_body = Failure \<lparr>fa_error_type = ''Timeout'', fa_error_message = [], fa_recoverable = True\<rparr>\<rparr>"

definition demo_trace :: agent_trace where
  "demo_trace = add_step demo_step \<lparr>tc_session_id = ''s1'', tc_agent_name = ''finops'', tc_provider = AWS,
     tc_correlation_id = [], tc_started_at = 0, tc_ended_at = None, tc_verdict = IN_PROGRESS_V,
     tc_steps = [], tc_decisions = []\<rparr>"

theorem trace_ingest_reconstructs_witness:
  "map ae_action (au_entries (snd (ingest_agent_trace demo_sha isoformat demo_env demo_trace (init_audit [])))) =
     [''agent.step.failure'']"
proof -
  let ?s = "snd (ingest_agent_trace demo_sha isoformat demo_env demo_trace (init_audit []))"
  have "audit_ok demo_sha (init_audit [])"
    "\<forall>e \<in> set (au_entries (init_audit [])). ae_correlation_id e \<noteq> trace_correlation demo_trace"
    by (rule audit_ok_init, simp add: init_audit_def)
  note facts = trace_ingest_reconstructs [OF this, of isoformat demo_env]
  have "au_entries (init_audit []) = []" by (simp add: init_audit_def)
  with facts have e: "filter (\<lambda>e. ae_correlation_id e = trace_correlation demo_trace) (au_entries ?s) = au_entries ?s"
    by (metis append_Nil)
  from facts have "map entry_args (au_entries ?s) = map (step_args isoformat demo_trace) (tc_steps demo_trace) @
      map (decision_args demo_trace) (tc_decisions demo_trace)"
    unfolding e by blast
  then have "map (la_action \<circ> entry_args) (au_entries ?s) = [''agent.step.failure'']"
    unfolding map_map [symmetric]
    by (simp add: demo_trace_def add_step_def adopt_step_def demo_step_def step_args_def default_args_def)
  moreover have "la_action \<circ> entry_args = ae_action" by (simp add: fun_eq_iff entry_args_def)
  ultimately show ?thesis by simp
qed

text \<open>
  The exported spans mirror the step tree. When step ids are distinct, not empty and do not
  collide under the truncated hash, and each parent is a step of the trace or none, the spans are
  one per step in order, share one trace id, have distinct ids, and one span is the parent of
  another exactly when the steps are.
\<close>
theorem otel_spans_mirror_steps:
  fixes t :: agent_trace and sha :: "string \<Rightarrow> string"
  defines "ids \<equiv> map as_step_id (tc_steps t)" and "spans \<equiv> to_otel_spans sha t"
  assumes "distinct ids" "[] \<notin> set ids" "inj_on (\<lambda>x. take 16 (sha x)) (set ids)"
    and "\<forall>st \<in> set (tc_steps t). as_parent_step_id st \<in> insert [] (set ids)"
  shows "length spans = length (tc_steps t) \<and>
    (\<forall>sp \<in> set spans. sp_trace_id sp = hex_id sha (trace_correlation t) 32) \<and>
    distinct (map sp_span_id spans) \<and>
    (\<forall>i < length spans. \<forall>j < length spans.
       sp_parent_span_id (spans ! i) = Some (sp_span_id (spans ! j)) \<longleftrightarrow>
       as_parent_step_id (tc_steps t ! i) = as_step_id (tc_steps t ! j))"
proof -
  let ?h = "\<lambda>x. take 16 (sha x)"
  have hex: "hex_id sha x 16 = ?h x" if "x \<in> set ids" for x
    using that assms(4) by (auto simp: hex_id_def)
  have "map sp_span_id spans = map (\<lambda>x. hex_id sha x 16) ids"
    by (simp add: spans_def ids_def to_otel_spans_def span_of_def comp_def)
  also have "\<dots> = map ?h ids" using hex by simp
  finally have "distinct (map sp_span_id spans)" using assms(3,5) by (simp add: distinct_map)
  moreover have "sp_parent_span_id (spans ! i) = Some (sp_span_id (spans ! j)) \<longleftrightarrow>
      as_parent_step_id (tc_steps t ! i) = as_step_id (tc_steps t ! j)"
    if "i < length (tc_steps t)" "j < length (tc_steps t)" for i j
  proof -
    have j: "as_step_id (tc_steps t ! j) \<in> set ids" using that(2) by (simp add: ids_def)
    have i: "as_parent_step_id (tc_steps t ! i) \<in> insert [] (set ids)" using that(1) assms(6) by simp
    show ?thesis
    proof (cases "as_parent_step_id (tc_steps t ! i) = []")
      case True
      then show ?thesis using that j assms(4) by (auto simp: spans_def to_otel_spans_def span_of_def)
    next
      case False
      then have i': "as_parent_step_id (tc_steps t ! i) \<in> set ids" using i by simp
      have "sp_parent_span_id (spans ! i) = Some (?h (as_parent_step_id (tc_steps t ! i)))"
        "sp_span_id (spans ! j) = ?h (as_step_id (tc_steps t ! j))"
        using that False hex [OF i'] hex [OF j] by (simp_all add: spans_def to_otel_spans_def span_of_def)
      then show ?thesis using inj_on_eq_iff [OF assms(5) i' j] by simp
    qed
  qed
  ultimately show ?thesis
    by (auto simp: spans_def to_otel_spans_def span_of_def trace_correlation_def)
qed

theorem otel_spans_mirror_steps_witness:
  "map sp_name (to_otel_spans (\<lambda>x. x) demo_trace) = [''agent.failure''] \<and>
   distinct (map sp_span_id (to_otel_spans (\<lambda>x. x) demo_trace))"
proof -
  have "distinct (map as_step_id (tc_steps demo_trace))" "[] \<notin> set (map as_step_id (tc_steps demo_trace))"
    "inj_on (\<lambda>x. take 16 x) (set (map as_step_id (tc_steps demo_trace)))"
    "\<forall>st \<in> set (tc_steps demo_trace). as_parent_step_id st \<in> insert [] (set (map as_step_id (tc_steps demo_trace)))"
    by (simp_all add: demo_trace_def add_step_def adopt_step_def demo_step_def)
  from otel_spans_mirror_steps [OF this]
  have "distinct (map sp_span_id (to_otel_spans (\<lambda>x. x) demo_trace))" by blast
  moreover have "map sp_name (to_otel_spans (\<lambda>x. x) demo_trace) = [''agent.failure'']"
    by (simp add: demo_trace_def add_step_def adopt_step_def demo_step_def to_otel_spans_def span_of_def)
  ultimately show ?thesis by blast
qed

end
