(* ===== verification/Memory.thy ===== *)
theory Memory
  imports Filters Agent_Trace
begin

text \<open>
  Audited agent memory, \<open>core/memory_audit.py\<close>: the backend interface, the in-process backend, and
  the adapter that filters, audits and traces every operation on a backend. A backend is a record
  of its methods over a state of its own; what the adapter relies on is the locale
  \<open>memory_store\<close>, which the in-process backend is shown to provide. Durations are microseconds.
\<close>

section \<open>Records and backends\<close>

record memory_record =
  mm_memory_id :: string
  mm_user_id :: string
  mm_session_id :: string
  mm_content :: string
  mm_provenance :: string
  mm_tags :: "string list"
  mm_created_at :: timestamp
  mm_expires_at :: "timestamp option"

definition memory_expired :: "timestamp \<Rightarrow> memory_record \<Rightarrow> bool" where
  "memory_expired now r = (case mm_expires_at r of None \<Rightarrow> False | Some e \<Rightarrow> e < now)"

text \<open>The methods of \<open>MemoryBackend\<close>; \<open>put\<close> may raise and may rewrite the record it stores.\<close>

record 's memory_backend =
  mb_name :: string
  mb_put :: "memory_record \<Rightarrow> 's \<Rightarrow> (string + memory_record) \<times> 's"
  mb_get :: "string \<Rightarrow> string \<Rightarrow> 's \<Rightarrow> memory_record option"
  mb_query :: "string \<Rightarrow> string option \<Rightarrow> int \<Rightarrow> timestamp \<Rightarrow> 's \<Rightarrow> memory_record list"
  mb_delete :: "string \<Rightarrow> string \<Rightarrow> 's \<Rightarrow> bool \<times> 's"
  mb_delete_all :: "string \<Rightarrow> 's \<Rightarrow> nat \<times> 's"
  mb_sweep :: "timestamp \<Rightarrow> 's \<Rightarrow> nat \<times> 's"

section \<open>The in-process backend\<close>

type_synonym memory_table = "(string, (string, memory_record) dict) dict"

definition user_records :: "memory_table \<Rightarrow> string \<Rightarrow> (string, memory_record) dict" where
  "user_records s u = dget_or s u []"

definition table_put :: "memory_record \<Rightarrow> memory_table \<Rightarrow> (string + memory_record) \<times> memory_table" where
  "table_put r s =
     (if mm_user_id r = []
      then (Inl ''MemoryRecord.user_id is mandatory (cross-tenant isolation)'', s)
      else (Inr r, dset s (mm_user_id r) (dset (user_records s (mm_user_id r)) (mm_memory_id r) r)))"

definition table_get :: "string \<Rightarrow> string \<Rightarrow> memory_table \<Rightarrow> memory_record option" where
  "table_get u m s = dget (user_records s u) m"

definition table_query :: "string \<Rightarrow> string option \<Rightarrow> int \<Rightarrow> timestamp \<Rightarrow> memory_table \<Rightarrow>
    memory_record list" where
  "table_query u tag limit now s =
     slice_first limit (sort_key (\<lambda>r. - mm_created_at r)
       (filter (\<lambda>r. \<not> memory_expired now r \<and>
            (case tag of None \<Rightarrow> True | Some t \<Rightarrow> t = [] \<or> t \<in> set (mm_tags r)))
          (dvalues (user_records s u))))"

definition table_delete :: "string \<Rightarrow> string \<Rightarrow> memory_table \<Rightarrow> bool \<times> memory_table" where
  "table_delete u m s =
     (if \<not> dhas (user_records s u) m then (False, s)
      else (True, dset s u (ddel (user_records s u) m)))"

definition table_delete_all :: "string \<Rightarrow> memory_table \<Rightarrow> nat \<times> memory_table" where
  "table_delete_all u s = (length (user_records s u), ddel s u)"

text \<open>The loop over the users: expired records go, and users without records with them.\<close>

fun table_sweep :: "timestamp \<Rightarrow> memory_table \<Rightarrow> nat \<times> memory_table" where
  "table_sweep now [] = (0, [])"
| "table_sweep now ((u, rs) # s) =
     (let keep = filter (\<lambda>p. \<not> memory_expired now (snd p)) rs; (n, s') = table_sweep now s
      in (length rs - length keep + n, if keep = [] then s' else (u, keep) # s'))"

definition table_backend :: "memory_table memory_backend" where
  "table_backend =
     \<lparr>mb_name = ''in_memory'', mb_put = table_put, mb_get = table_get, mb_query = table_query,
      mb_delete = table_delete, mb_delete_all = table_delete_all, mb_sweep = table_sweep\<rparr>"

section \<open>The adapter\<close>

record memory_filters =
  mf_secret :: "string \<Rightarrow> filter_result"
  mf_pii :: "string \<Rightarrow> filter_result"
  mf_injection :: "string \<Rightarrow> filter_result"

definition default_memory_filters :: memory_filters where
  "default_memory_filters =
     \<lparr>mf_secret = secret_scanner, mf_pii = pii_redactor, mf_injection = prompt_injection\<rparr>"

text \<open>What does not change during the life of an adapter, with the hash and the JSON writer.\<close>

record 's memory_setup =
  ms_backend :: "'s memory_backend"
  ms_filters :: memory_filters
  ms_ttl :: "int option"
  ms_sha :: "string \<Rightarrow> string"
  ms_jt :: "timestamp \<Rightarrow> string"

record 's memory_adapter =
  ad_state :: 's
  ad_trace :: "agent_trace option"
  ad_audit :: "audit_logger option"

text \<open>What an emission draws on: the step's id and time, the wrapper's start, the audit call.\<close>

record emit_env =
  ee_step_id :: string
  ee_timestamp :: timestamp
  ee_started_at :: timestamp
  ee_log :: log_env

record emit_args =
  em_operation :: string
  em_user_id :: string
  em_memory_key :: string
  em_content :: string
  em_filter_verdict :: string
  em_succeeded :: bool
  em_error :: string
  em_session_id :: string
  em_rationale :: string

definition PREVIEW_CHARS :: nat where
  "PREVIEW_CHARS = 512"

definition emit_step :: "'s memory_setup \<Rightarrow> emit_env \<Rightarrow> emit_args \<Rightarrow> 's memory_adapter \<Rightarrow> agent_step" where
  "emit_step ms v a ad =
     \<lparr>as_step_id = ee_step_id v, as_parent_step_id = [],
      as_session_id = str_or (em_session_id a) (case ad_trace ad of None \<Rightarrow> [] | Some t \<Rightarrow> tc_session_id t),
      as_correlation_id = (case ad_trace ad of None \<Rightarrow> [] | Some t \<Rightarrow> tc_correlation_id t),
      as_timestamp = ee_timestamp v, as_actor = ''agent'', as_rationale = em_rationale a, as_raw = [],
      as_body = MemoryOperation
        \<lparr>mo_operation = em_operation a, mo_user_id = em_user_id a, mo_memory_key = em_memory_key a,
         mo_backend = mb_name (ms_backend ms), mo_content_preview = take PREVIEW_CHARS (em_content a),
         mo_filter_verdict = em_filter_verdict a, mo_succeeded = em_succeeded a, mo_error = em_error a\<rparr>\<rparr>"

text \<open>The trace that wraps one step for the audit logger. The step is the object the adapter's own
  trace has adopted before.\<close>

definition wrapper_trace :: "emit_env \<Rightarrow> agent_step \<Rightarrow> agent_trace option \<Rightarrow> agent_trace" where
  "wrapper_trace v st tr =
     add_step st
       \<lparr>tc_session_id = as_session_id st, tc_agent_name = ''memory_adapter'',
        tc_provider = (case tr of None \<Rightarrow> AWS | Some t \<Rightarrow> tc_provider t),
        tc_correlation_id = as_correlation_id st, tc_started_at = ee_started_at v,
        tc_ended_at = None, tc_verdict = IN_PROGRESS_V, tc_steps = [], tc_decisions = []\<rparr>"

definition emit :: "'s memory_setup \<Rightarrow> emit_env \<Rightarrow> emit_args \<Rightarrow> 's memory_adapter \<Rightarrow> 's memory_adapter" where
  "emit ms v a ad =
     (let st = emit_step ms v a ad;
          st' = (case ad_trace ad of None \<Rightarrow> st | Some t \<Rightarrow> adopt_step t st)
      in ad\<lparr>ad_trace := map_option (add_step st) (ad_trace ad),
           ad_audit := map_option
             (\<lambda>au. snd (ingest_agent_trace (ms_sha ms) (ms_jt ms) (\<lambda>n. ee_log v)
                (wrapper_trace v st' (ad_trace ad)) au)) (ad_audit ad)\<rparr>)"

datatype memory_error = ValueError string | MemoryInjectionError string

record write_args =
  wa_user_id :: string
  wa_content :: string
  wa_session_id :: string
  wa_provenance :: string
  wa_tags :: "string list"
  wa_ttl :: "int option"

record write_env =
  we_memory_id :: string
  we_created_at :: timestamp
  we_now :: timestamp
  we_emit :: emit_env

definition write_emit :: "write_args \<Rightarrow> emit_args" where
  "write_emit a = \<lparr>em_operation = ''write'', em_user_id = wa_user_id a, em_memory_key = [],
     em_content = wa_content a, em_filter_verdict = ''block'', em_succeeded = False, em_error = [],
     em_session_id = wa_session_id a, em_rationale = []\<rparr>"

text \<open>\<open>ttl or self._default_ttl\<close>: a zero duration is falsy.\<close>

definition ttl_or :: "int option \<Rightarrow> int option \<Rightarrow> int option" where
  "ttl_or a b = (case a of None \<Rightarrow> b | Some t \<Rightarrow> if t = 0 then b else Some t)"

definition memory_write :: "'s memory_setup \<Rightarrow> write_env \<Rightarrow> write_args \<Rightarrow> 's memory_adapter \<Rightarrow>
    (memory_error + memory_record) \<times> 's memory_adapter" where
  "memory_write ms v a ad =
     (if wa_user_id a = [] then (Inl (ValueError ''user_id is mandatory''), ad)
      else if fr_verdict (mf_secret (ms_filters ms) (wa_content a)) = FBlock
      then (Inl (ValueError ''memory write blocked: secret detected in content''),
            emit ms (we_emit v) ((write_emit a)
              \<lparr>em_error := ''secret detected '' @ em_dash @ '' refusing to persist''\<rparr>) ad)
      else if fr_verdict (mf_injection (ms_filters ms) (wa_content a)) = FBlock
      then (Inl (ValueError ''memory write blocked: prompt-injection pattern''),
            emit ms (we_emit v) ((write_emit a)\<lparr>em_error := ''prompt-injection pattern in content''\<rparr>) ad)
      else
        (let pii = mf_pii (ms_filters ms) (wa_content a);
             clean = (if fr_verdict pii = FRedact then fr_redacted_text pii else wa_content a);
             verdict = (if fr_verdict pii = FRedact then ''redact'' else ''allow'');
             ttl = ttl_or (wa_ttl a) (ms_ttl ms);
             r = \<lparr>mm_memory_id = we_memory_id v, mm_user_id = wa_user_id a, mm_session_id = wa_session_id a,
                  mm_content = clean, mm_provenance = wa_provenance a, mm_tags = wa_tags a,
                  mm_created_at = we_created_at v,
                  mm_expires_at = (case ttl of None \<Rightarrow> None
                    | Some t \<Rightarrow> if t = 0 then None else Some (we_now v + t))\<rparr>
         in case mb_put (ms_backend ms) r (ad_state ad) of
              (Inl msg, s) \<Rightarrow> (Inl (ValueError msg), ad\<lparr>ad_state := s\<rparr>)
            | (Inr stored, s) \<Rightarrow> (Inr stored,
                emit ms (we_emit v) ((write_emit a)
                  \<lparr>em_memory_key := mm_memory_id stored, em_content := clean,
                   em_filter_verdict := verdict, em_succeeded := True\<rparr>) (ad\<lparr>ad_state := s\<rparr>))))"

definition read_emit :: "string \<Rightarrow> string \<Rightarrow> memory_record \<Rightarrow> emit_args" where
  "read_emit u session r = \<lparr>em_operation = ''read'', em_user_id = u, em_memory_key = mm_memory_id r,
     em_content = mm_content r, em_filter_verdict = ''allow'', em_succeeded = True, em_error = [],
     em_session_id = session, em_rationale = []\<rparr>"

text \<open>The loop of \<open>read\<close>: clean records, poisoned ids, and one emission per record (the \<open>n\<close>-th under \<open>envs n\<close>).\<close>

fun read_each :: "'s memory_setup \<Rightarrow> (nat \<Rightarrow> emit_env) \<Rightarrow> string \<Rightarrow> string \<Rightarrow> memory_record list \<Rightarrow> nat \<Rightarrow>
    's memory_adapter \<Rightarrow> memory_record list \<times> string list \<times> 's memory_adapter" where
  "read_each ms envs u session [] n ad = ([], [], ad)"
| "read_each ms envs u session (r # rs) n ad =
     (if fr_verdict (mf_injection (ms_filters ms) (mm_content r)) = FBlock
      then (let ad1 = emit ms (envs n) ((read_emit u session r)
                  \<lparr>em_filter_verdict := ''block'', em_succeeded := False,
                   em_error := ''memory-injection pattern detected''\<rparr>) ad;
                (clean, poisoned, ad2) = read_each ms envs u session rs (Suc n) ad1
            in (clean, mm_memory_id r # poisoned, ad2))
      else (let pii = mf_pii (ms_filters ms) (mm_content r);
                redact = (fr_verdict pii = FRedact);
                r' = (if redact then r\<lparr>mm_content := fr_redacted_text pii\<rparr> else r);
                ad1 = emit ms (envs n) ((read_emit u session r)
                  \<lparr>em_filter_verdict := (if redact then ''redact'' else ''allow'')\<rparr>) ad;
                (clean, poisoned, ad2) = read_each ms envs u session rs (Suc n) ad1
            in (r' # clean, poisoned, ad2)))"

definition memory_read :: "'s memory_setup \<Rightarrow> (nat \<Rightarrow> emit_env) \<Rightarrow> string \<Rightarrow> string option \<Rightarrow> int \<Rightarrow> string \<Rightarrow>
    timestamp \<Rightarrow> 's memory_adapter \<Rightarrow> (memory_error + memory_record list) \<times> 's memory_adapter" where
  "memory_read ms envs u tag limit session now ad =
     (let (clean, poisoned, ad1) =
        read_each ms envs u session (mb_query (ms_backend ms) u tag limit now (ad_state ad)) 0 ad
      in if poisoned \<noteq> []
         then (Inl (MemoryInjectionError (show_nat (length poisoned) @
                '' memory record(s) failed the read-side filter for user_id='' @ u @
                ''; records quarantined.'')), ad1)
         else (Inr clean, ad1))"

definition delete_emit :: "string \<Rightarrow> string \<Rightarrow> string \<Rightarrow> emit_args" where
  "delete_emit u key session = \<lparr>em_operation = ''delete'', em_user_id = u, em_memory_key = key,
     em_content = [], em_filter_verdict = ''allow'', em_succeeded = True, em_error = [],
     em_session_id = session, em_rationale = []\<rparr>"

definition memory_delete :: "'s memory_setup \<Rightarrow> emit_env \<Rightarrow> string \<Rightarrow> string \<Rightarrow> string \<Rightarrow> 's memory_adapter \<Rightarrow>
    bool \<times> 's memory_adapter" where
  "memory_delete ms v u m session ad =
     (let (deleted, s) = mb_delete (ms_backend ms) u m (ad_state ad)
      in (deleted, emit ms v ((delete_emit u m session)
           \<lparr>em_succeeded := deleted, em_error := (if deleted then [] else ''memory_id not found'')\<rparr>)
           (ad\<lparr>ad_state := s\<rparr>)))"

definition delete_for_user :: "'s memory_setup \<Rightarrow> emit_env \<Rightarrow> string \<Rightarrow> string \<Rightarrow> string \<Rightarrow> 's memory_adapter \<Rightarrow>
    nat \<times> 's memory_adapter" where
  "delete_for_user ms v u actor session ad =
     (let (n, s) = mb_delete_all (ms_backend ms) u (ad_state ad)
      in (n, emit ms v ((delete_emit u ''*'' session)
           \<lparr>em_rationale := ''right-to-be-forgotten by '' @ actor @ '' ('' @ show_nat n @ '' records)''\<rparr>)
           (ad\<lparr>ad_state := s\<rparr>)))"

definition memory_sweep :: "'s memory_setup \<Rightarrow> emit_env \<Rightarrow> string \<Rightarrow> timestamp \<Rightarrow> 's memory_adapter \<Rightarrow>
    nat \<times> 's memory_adapter" where
  "memory_sweep ms v session now ad =
     (let (n, s) = mb_sweep (ms_backend ms) now (ad_state ad); ad1 = ad\<lparr>ad_state := s\<rparr>
      in (n, if n = 0 then ad1 else emit ms v ((delete_emit ''*'' ''*'' session)
           \<lparr>em_operation := ''expire'',
            em_rationale := ''retention sweep purged '' @ show_nat n @ '' record(s)''\<rparr>) ad1))"

section \<open>Sequences of operations\<close>

datatype memory_op =
    MWrite write_env write_args
  | MRead "nat \<Rightarrow> emit_env" string "string option" int string timestamp
  | MDelete emit_env string string string
  | MForget emit_env string string string
  | MSweep emit_env string timestamp

fun memory_step :: "'s memory_setup \<Rightarrow> memory_op \<Rightarrow> 's memory_adapter \<Rightarrow> 's memory_adapter" where
  "memory_step ms (MWrite v a) ad = snd (memory_write ms v a ad)"
| "memory_step ms (MRead envs u tag limit session now) ad = snd (memory_read ms envs u tag limit session now ad)"
| "memory_step ms (MDelete v u m session) ad = snd (memory_delete ms v u m session ad)"
| "memory_step ms (MForget v u actor session) ad = snd (delete_for_user ms v u actor session ad)"
| "memory_step ms (MSweep v session now) ad = snd (memory_sweep ms v session now ad)"

text \<open>The operations that can add to, and that can change, what user \<open>u\<close> has stored.\<close>

fun writes_for :: "string \<Rightarrow> memory_op \<Rightarrow> bool" where
  "writes_for u (MWrite v a) = (wa_user_id a = u)"
| "writes_for u _ = False"

fun touches :: "string \<Rightarrow> memory_op \<Rightarrow> bool" where
  "touches u (MWrite v a) = (wa_user_id a = u)"
| "touches u (MRead envs u' tag limit session now) = False"
| "touches u (MDelete v u' m session) = (u' = u)"
| "touches u (MForget v u' actor session) = (u' = u)"
| "touches u (MSweep v session now) = True"

text \<open>The stored form of a text that the secret scanner and the injection heuristic let pass.\<close>

definition screened :: "memory_filters \<Rightarrow> string \<Rightarrow> bool" where
  "screened fl c \<longleftrightarrow> (\<exists>raw. fr_verdict (mf_secret fl raw) \<noteq> FBlock \<and> fr_verdict (mf_injection fl raw) \<noteq> FBlock \<and>
     c = (if fr_verdict (mf_pii fl raw) = FRedact then fr_redacted_text (mf_pii fl raw) else raw))"

lemma emit_state [simp]: "ad_state (emit ms v a ad) = ad_state ad"
  by (simp add: emit_def Let_def)

lemma read_each_state [simp]: "ad_state (snd (snd (read_each ms envs u session rs n ad))) = ad_state ad"
  by (induction ms envs u session rs n ad rule: read_each.induct) (auto simp: Let_def split: prod.splits)

lemma memory_read_state [simp]: "ad_state (snd (memory_read ms envs u tag limit session now ad)) = ad_state ad"
  by (simp add: memory_read_def Let_def case_prod_beta)

text \<open>A write stores nothing, or one record whose content was screened.\<close>

lemma memory_write_state:
  "ad_state (snd (memory_write ms v a ad)) = ad_state ad \<or>
   (\<exists>r. screened (ms_filters ms) (mm_content r) \<and> mm_user_id r = wa_user_id a \<and>
      ad_state (snd (memory_write ms v a ad)) = snd (mb_put (ms_backend ms) r (ad_state ad)))"
proof -
  let ?fl = "ms_filters ms" and ?c = "wa_content a"
  let ?clean = "if fr_verdict (mf_pii ?fl ?c) = FRedact then fr_redacted_text (mf_pii ?fl ?c) else ?c"
  show ?thesis
  proof (cases "wa_user_id a = [] \<or> fr_verdict (mf_secret ?fl ?c) = FBlock \<or> fr_verdict (mf_injection ?fl ?c) = FBlock")
    case True
    then show ?thesis by (auto simp: memory_write_def)
  next
    case False
    then have s: "screened ?fl ?clean" by (auto simp: screened_def)
    define r where "r = \<lparr>mm_memory_id = we_memory_id v, mm_user_id = wa_user_id a,
      mm_session_id = wa_session_id a, mm_content = ?clean, mm_provenance = wa_provenance a,
      mm_tags = wa_tags a, mm_created_at = we_created_at v,
      mm_expires_at = (case ttl_or (wa_ttl a) (ms_ttl ms) of None \<Rightarrow> None
        | Some t \<Rightarrow> if t = 0 then None else Some (we_now v + t))\<rparr>"
    have "ad_state (snd (memory_write ms v a ad)) = snd (mb_put (ms_backend ms) r (ad_state ad))"
      using False by (simp add: memory_write_def Let_def r_def split: prod.splits sum.splits)
    then show ?thesis using s by (auto simp: r_def intro!: exI [of _ r])
  qed
qed

section \<open>The interface\<close>

text \<open>\<open>own s u\<close> are the records user \<open>u\<close> has in the state \<open>s\<close>.\<close>

locale memory_store =
  fixes mb :: "'s memory_backend" and own :: "'s \<Rightarrow> string \<Rightarrow> memory_record list" and ok :: "'s \<Rightarrow> bool"
  assumes put_ok: "ok s \<Longrightarrow> ok (snd (mb_put mb r s))"
    and put_own: "ok s \<Longrightarrow> x \<in> set (own (snd (mb_put mb r s)) u) \<Longrightarrow>
      x \<in> set (own s u) \<or> mm_user_id r = u \<and> mm_content x = mm_content r"
    and put_other: "ok s \<Longrightarrow> u \<noteq> mm_user_id r \<Longrightarrow> own (snd (mb_put mb r s)) u = own s u"
    and own_user: "ok s \<Longrightarrow> x \<in> set (own s u) \<Longrightarrow> mm_user_id x = u"
    and delete_ok: "ok s \<Longrightarrow> ok (snd (mb_delete mb u m s))"
    and delete_own: "ok s \<Longrightarrow> set (own (snd (mb_delete mb u m s)) u) \<subseteq> set (own s u)"
    and delete_other: "ok s \<Longrightarrow> w \<noteq> u \<Longrightarrow> own (snd (mb_delete mb u m s)) w = own s w"
    and delete_all_ok: "ok s \<Longrightarrow> ok (snd (mb_delete_all mb u s))"
    and delete_all_own: "ok s \<Longrightarrow> own (snd (mb_delete_all mb u s)) w = (if w = u then [] else own s w)"
    and sweep_ok: "ok s \<Longrightarrow> ok (snd (mb_sweep mb now s))"
    and sweep_own: "ok s \<Longrightarrow> own (snd (mb_sweep mb now s)) u = filter (\<lambda>r. \<not> memory_expired now r) (own s u)"
    and query_own: "ok s \<Longrightarrow> x \<in> set (mb_query mb u tag limit now s) \<Longrightarrow>
      x \<in> set (own s u) \<and> \<not> memory_expired now x"
    and query_local: "own s u = own s' u \<Longrightarrow> mb_query mb u tag limit now s = mb_query mb u tag limit now s'"
begin

lemma step_ok:
  assumes "ms_backend ms = mb" "ok (ad_state ad)"
  shows "ok (ad_state (memory_step ms x ad))"
proof (cases x)
  case (MWrite v a)
  then show ?thesis using memory_write_state [of ms v a ad] put_ok assms by auto
next
  case (MDelete v u m session)
  then show ?thesis using delete_ok [OF assms(2)] assms(1)
    by (simp add: memory_delete_def Let_def case_prod_beta)
next
  case (MForget v u actor session)
  then show ?thesis using delete_all_ok [OF assms(2)] assms(1)
    by (simp add: delete_for_user_def Let_def case_prod_beta)
next
  case (MSweep v session now)
  then show ?thesis using sweep_ok [OF assms(2)] assms(1)
    by (simp add: memory_sweep_def Let_def case_prod_beta)
qed (use assms in simp)

lemma step_own:
  assumes "ms_backend ms = mb" "ok (ad_state ad)" "y \<in> set (own (ad_state (memory_step ms x ad)) u)"
  shows "y \<in> set (own (ad_state ad) u) \<or> writes_for u x \<and> screened (ms_filters ms) (mm_content y)"
proof (cases x)
  case (MWrite v a)
  then show ?thesis using memory_write_state [of ms v a ad] put_own [OF assms(2)] assms by fastforce
next
  case (MDelete v w m session)
  then show ?thesis using delete_own [OF assms(2), of w m] delete_other [OF assms(2), of u w m] assms
    by (cases "u = w") (auto simp: memory_delete_def Let_def case_prod_beta)
next
  case (MForget v w actor session)
  then show ?thesis using delete_all_own [OF assms(2), of w u] assms
    by (simp add: delete_for_user_def Let_def case_prod_beta split: if_splits)
next
  case (MSweep v session now)
  then show ?thesis using sweep_own [OF assms(2), of now u] assms
    by (simp add: memory_sweep_def Let_def case_prod_beta split: if_splits)
qed (use assms in simp)

lemma step_untouched:
  assumes "ms_backend ms = mb" "ok (ad_state ad)" "\<not> touches u x"
  shows "own (ad_state (memory_step ms x ad)) u = own (ad_state ad) u"
proof (cases x)
  case (MWrite v a)
  then show ?thesis using memory_write_state [of ms v a ad] put_other [OF assms(2)] assms by auto
next
  case (MDelete v w m session)
  then show ?thesis using delete_other [OF assms(2), of u w m] assms
    by (simp add: memory_delete_def Let_def case_prod_beta)
next
  case (MForget v w actor session)
  then show ?thesis using delete_all_own [OF assms(2), of w u] assms
    by (auto simp: delete_for_user_def Let_def case_prod_beta)
qed (use assms in simp_all)

lemma run_ok:
  assumes "ms_backend ms = mb"
  shows "ok (ad_state ad) \<Longrightarrow> ok (ad_state (fold (memory_step ms) xs ad))"
  by (induction xs arbitrary: ad) (simp_all add: step_ok [OF assms])

lemma run_own:
  assumes "ms_backend ms = mb"
  shows "ok (ad_state ad) \<Longrightarrow> y \<in> set (own (ad_state (fold (memory_step ms) xs ad)) u) \<Longrightarrow>
    y \<in> set (own (ad_state ad) u) \<or> list_ex (writes_for u) xs \<and> screened (ms_filters ms) (mm_content y)"
proof (induction xs arbitrary: ad)
  case (Cons x xs)
  then show ?case using step_own [OF assms Cons.prems(1), of y x u] step_ok [OF assms Cons.prems(1), of x]
    by fastforce
qed simp

lemma run_untouched:
  assumes "ms_backend ms = mb"
  shows "ok (ad_state ad) \<Longrightarrow> \<not> list_ex (touches u) xs \<Longrightarrow>
    own (ad_state (fold (memory_step ms) xs ad)) u = own (ad_state ad) u"
  by (induction xs arbitrary: ad) (simp_all add: step_ok [OF assms] step_untouched [OF assms])

lemma forget_own:
  assumes "ms_backend ms = mb" "ok (ad_state ad)"
  shows "own (ad_state (snd (delete_for_user ms v u actor session ad))) u = []"
  using delete_all_own [OF assms(2), of u u] assms(1)
  by (simp add: delete_for_user_def Let_def case_prod_beta)

lemma query_empty: "ok s \<Longrightarrow> own s u = [] \<Longrightarrow> mb_query mb u tag limit now s = []"
  using query_own [of s _ u tag limit now] by (cases "mb_query mb u tag limit now s") auto

end

section \<open>The in-process backend provides the interface\<close>

definition table_ok :: "memory_table \<Rightarrow> bool" where
  "table_ok s \<longleftrightarrow> dict_ok s \<and> (\<forall>p \<in> set s. \<forall>r \<in> set (dvalues (snd p)). mm_user_id r = fst p)"

definition table_own :: "memory_table \<Rightarrow> string \<Rightarrow> memory_record list" where
  "table_own s u = dvalues (user_records s u)"

lemma user_records_dset [simp]: "user_records (dset s u rs) w = (if w = u then rs else user_records s w)"
  by (simp add: user_records_def dget_or_def)

lemma user_records_ddel [simp]: "user_records (ddel s u) w = (if w = u then [] else user_records s w)"
  by (simp add: user_records_def dget_or_def)

lemma table_own_user: "table_ok s \<Longrightarrow> x \<in> set (table_own s u) \<Longrightarrow> mm_user_id x = u"
proof -
  assume ok: "table_ok s" and x: "x \<in> set (table_own s u)"
  then obtain rs where "dget s u = Some rs" "x \<in> set (dvalues rs)"
    by (cases "dget s u") (simp_all add: table_own_def user_records_def dget_or_def)
  moreover from this(1) have "(u, rs) \<in> set s" using ok by (simp add: table_ok_def dget_mem)
  ultimately show ?thesis using ok by (fastforce simp: table_ok_def)
qed

lemma table_ok_dset:
  "table_ok s \<Longrightarrow> \<forall>r \<in> set (dvalues rs). mm_user_id r = u \<Longrightarrow> table_ok (dset s u rs)"
  by (auto simp: table_ok_def set_dset)

lemma sweep_keys: "set (map fst (snd (table_sweep now s))) \<subseteq> set (map fst s)"
proof (induction now s rule: table_sweep.induct)
  case (2 now u rs s)
  then show ?case by (simp only: table_sweep.simps Let_def case_prod_beta snd_conv) auto
qed simp

lemma sweep_ok: "table_ok s \<Longrightarrow> table_ok (snd (table_sweep now s))"
proof (induction now s rule: table_sweep.induct)
  case (2 now u rs s)
  then have "table_ok (snd (table_sweep now s))" by (simp add: table_ok_def dict_ok_def)
  moreover have "u \<notin> set (map fst (snd (table_sweep now s)))"
    using sweep_keys [of now s] 2(2) by (auto simp: table_ok_def dict_ok_def)
  ultimately show ?case using 2(2) by (auto simp: table_ok_def dict_ok_def Let_def split: prod.splits)
qed simp

lemma sweep_records:
  "dict_ok s \<Longrightarrow> user_records (snd (table_sweep now s)) u =
     filter (\<lambda>p. \<not> memory_expired now (snd p)) (user_records s u)"
proof (induction now s rule: table_sweep.induct)
  case (2 now w rs s)
  then have w: "w \<notin> set (map fst s)" "dict_ok s" by (auto simp: dict_ok_def)
  then have "dget (snd (table_sweep now s)) w = None"
    using sweep_keys [of now s] by (auto simp: dget_def map_of_eq_None_iff)
  then show ?case
    using 2(1) [OF refl w(2)]
    by (auto simp: user_records_def dget_or_def dget_Cons Let_def split: prod.splits option.splits)
qed (simp add: user_records_def dget_or_def)

interpretation table: memory_store table_backend table_own table_ok
proof unfold_locales
  fix s :: memory_table and r x :: memory_record and u w m :: string and now tag limit
  assume ok: "table_ok s"
  have own_user: "mm_user_id y = v" if "(k, y) \<in> set (user_records s v)" for k y v
    using table_own_user [OF ok, of y v] that by (force simp: table_own_def)
  show "table_ok (snd (mb_put table_backend r s))"
    using ok own_user by (auto simp: table_backend_def table_put_def intro!: table_ok_dset dest!: dset_memD)
  show "x \<in> set (table_own (snd (mb_put table_backend r s)) u) \<Longrightarrow>
      x \<in> set (table_own s u) \<or> mm_user_id r = u \<and> mm_content x = mm_content r"
    by (auto simp: table_backend_def table_put_def table_own_def image_iff dest!: dset_memD split: if_splits)
  show "u \<noteq> mm_user_id r \<Longrightarrow> table_own (snd (mb_put table_backend r s)) u = table_own s u"
    by (auto simp: table_backend_def table_put_def table_own_def)
  show "x \<in> set (table_own s u) \<Longrightarrow> mm_user_id x = u" by (rule table_own_user [OF ok])
  show "table_ok (snd (mb_delete table_backend u m s))"
    using ok own_user
    by (auto simp: table_backend_def table_delete_def set_ddel intro!: table_ok_dset)
  show "set (table_own (snd (mb_delete table_backend u m s)) u) \<subseteq> set (table_own s u)"
    by (auto simp: table_backend_def table_delete_def table_own_def set_ddel)
  show "w \<noteq> u \<Longrightarrow> table_own (snd (mb_delete table_backend u m s)) w = table_own s w"
    by (auto simp: table_backend_def table_delete_def table_own_def)
  show "table_ok (snd (mb_delete_all table_backend u s))"
    using ok by (auto simp: table_backend_def table_delete_all_def table_ok_def set_ddel)
  show "table_own (snd (mb_delete_all table_backend u s)) w = (if w = u then [] else table_own s w)"
    by (simp add: table_backend_def table_delete_all_def table_own_def)
  show "table_ok (snd (mb_sweep table_backend now s))"
    using sweep_ok [OF ok] by (simp add: table_backend_def)
  show "table_own (snd (mb_sweep table_backend now s)) u =
      filter (\<lambda>r. \<not> memory_expired now r) (table_own s u)"
    using ok sweep_records [of s now u]
    by (simp add: table_backend_def table_own_def table_ok_def filter_map comp_def)
  show "x \<in> set (mb_query table_backend u tag limit now s) \<Longrightarrow>
      x \<in> set (table_own s u) \<and> \<not> memory_expired now x"
    by (auto simp: table_backend_def table_query_def table_own_def dest!: set_slice_first)
next
  fix s s' :: memory_table and u tag limit now
  assume "table_own s u = table_own s' u"
  then show "mb_query table_backend u tag limit now s = mb_query table_backend u tag limit now s'"
    by (simp add: table_backend_def table_query_def table_own_def)
qed

section \<open>Reads, and what an emission logs\<close>

definition pii_form :: "memory_filters \<Rightarrow> string \<Rightarrow> string" where
  "pii_form fl c = (if fr_verdict (mf_pii fl c) = FRedact then fr_redacted_text (mf_pii fl c) else c)"

definition steered :: "memory_filters \<Rightarrow> memory_record \<Rightarrow> bool" where
  "steered fl r \<longleftrightarrow> fr_verdict (mf_injection fl (mm_content r)) = FBlock"

lemma read_each_result:
  "fst (read_each ms envs u session rs n ad) =
     map (\<lambda>r. r\<lparr>mm_content := pii_form (ms_filters ms) (mm_content r)\<rparr>) (filter (\<lambda>r. \<not> steered (ms_filters ms) r) rs)"
  "fst (snd (read_each ms envs u session rs n ad)) = map mm_memory_id (filter (steered (ms_filters ms)) rs)"
  by (induction ms envs u session rs n ad rule: read_each.induct)
    (simp_all add: steered_def pii_form_def Let_def case_prod_beta)

lemma memory_read_Inr:
  "fst (memory_read ms envs u tag limit session now ad) = Inr rs \<longleftrightarrow>
     list_all (\<lambda>r. \<not> steered (ms_filters ms) r) (mb_query (ms_backend ms) u tag limit now (ad_state ad)) \<and>
     rs = map (\<lambda>r. r\<lparr>mm_content := pii_form (ms_filters ms) (mm_content r)\<rparr>)
       (mb_query (ms_backend ms) u tag limit now (ad_state ad))"
proof -
  let ?q = "mb_query (ms_backend ms) u tag limit now (ad_state ad)" and ?P = "steered (ms_filters ms)"
  have none: "filter ?P ?q = [] \<longleftrightarrow> list_all (\<lambda>r. \<not> ?P r) ?q"
    by (simp add: filter_empty_conv list_all_iff)
  have all: "filter (\<lambda>r. \<not> ?P r) ?q = ?q" if "filter ?P ?q = []"
    using that by (simp add: filter_empty_conv filter_id_conv)
  show ?thesis
    using read_each_result [of ms envs u session ?q 0 ad] none all
    by (auto simp: memory_read_def Let_def case_prod_beta)
qed

lemma screened_iff: "screened fl c \<longleftrightarrow>
    (\<exists>raw. fr_verdict (mf_secret fl raw) \<noteq> FBlock \<and> fr_verdict (mf_injection fl raw) \<noteq> FBlock \<and> c = pii_form fl raw)"
  by (simp add: screened_def pii_form_def)

lemma emit_audit:
  assumes "ad_audit ad = Some au"
  shows "\<exists>au' e. ad_audit (emit ms v a ad) = Some au' \<and> au_entries au' = au_entries au @ [e] \<and>
    ae_action e = ''agent.step.memory_operation'' \<and>
    (\<exists>d. dget (ae_details e) ''payload'' = Some (PDict d) \<and>
       dget d ''content_preview'' = Some (PStr (take PREVIEW_CHARS (em_content a))) \<and>
       dget d ''user_id'' = Some (PStr (em_user_id a))) \<and>
    dget (ae_details e) ''rationale'' = Some (PStr (em_rationale a)) \<and>
    (audit_ok (ms_sha ms) au \<longrightarrow> audit_ok (ms_sha ms) au')"
proof -
  define st where "st = (case ad_trace ad of None \<Rightarrow> emit_step ms v a ad | Some t \<Rightarrow> adopt_step t (emit_step ms v a ad))"
  define w where "w = wrapper_trace v st (ad_trace ad)"
  have body: "as_body st = as_body (emit_step ms v a ad)" "as_rationale st = em_rationale a"
    by (simp_all add: st_def adopt_step_def emit_step_def Let_def split: option.splits)
  obtain st' where w: "tc_steps w = [st']" "tc_decisions w = []"
    and st': "as_body st' = as_body st" "as_rationale st' = as_rationale st"
    by (simp add: w_def wrapper_trace_def add_step_def adopt_step_def Let_def)
  let ?i = "ingest_agent_trace (ms_sha ms) (ms_jt ms) (\<lambda>n. ee_log v) w au"
  obtain es where es: "au_entries (snd ?i) = au_entries au @ es" "map entry_args es = [step_args (ms_jt ms) w st']"
    using ingest_entries [of "ms_sha ms" "ms_jt ms" "\<lambda>n. ee_log v" w au] w by (auto simp: trace_calls_def)
  then obtain e where e: "es = [e]" "entry_args e = step_args (ms_jt ms) w st'" by auto
  have audit: "ad_audit (emit ms v a ad) = Some (snd ?i)"
    using assms by (simp add: emit_def Let_def st_def w_def)
  have "ae_action e = la_action (entry_args e)" "ae_details e = la_details (entry_args e)"
    by (simp_all add: entry_args_def)
  then have "ae_action e = ''agent.step.memory_operation''"
    "ae_details e = [(''step_id'', PStr (as_step_id st')), (''parent_step_id'', PStr (as_parent_step_id st')),
      (''rationale'', PStr (em_rationale a)), (''payload'', PDict (step_payload (ms_jt ms) st'))]"
    using st' body by (simp_all add: e(2) step_args_def emit_step_def default_args_def)
  moreover have "dget (step_payload (ms_jt ms) st') ''content_preview'' =
      Some (PStr (take PREVIEW_CHARS (em_content a)))"
    "dget (step_payload (ms_jt ms) st') ''user_id'' = Some (PStr (em_user_id a))"
    using st' body by (simp_all add: step_payload_def emit_step_def dget_def)
  ultimately show ?thesis
    using audit es(1) e(1) ingest_ok [of "ms_sha ms" au]
    by (intro exI [of _ "snd ?i"] exI [of _ e]) (auto simp: dget_Cons)
qed

section \<open>What the adapter guarantees\<close>

definition table_setup :: "(string \<Rightarrow> string) \<Rightarrow> (timestamp \<Rightarrow> string) \<Rightarrow> int option \<Rightarrow> memory_table memory_setup" where
  "table_setup sha jt ttl =
     \<lparr>ms_backend = table_backend, ms_filters = default_memory_filters, ms_ttl = ttl, ms_sha = sha, ms_jt = jt\<rparr>"

definition init_adapter :: "agent_trace option \<Rightarrow> audit_logger option \<Rightarrow> memory_table memory_adapter" where
  "init_adapter tr au = \<lparr>ad_state = [], ad_trace = tr, ad_audit = au\<rparr>"

lemma table_setup_simps [simp]:
  "ms_backend (table_setup sha jt ttl) = table_backend"
  "ms_filters (table_setup sha jt ttl) = default_memory_filters"
  "ms_sha (table_setup sha jt ttl) = sha"
  by (simp_all add: table_setup_def)

lemma table_run_ok: "table_ok (ad_state (fold (memory_step (table_setup sha jt ttl)) xs (init_adapter tr au)))"
  by (rule table.run_ok) (simp_all add: init_adapter_def table_ok_def)

text \<open>
  C20: No credential and no steering text is ever stored as it was submitted, or returned: after any
  sequence of operations each stored record belongs to the user it is filed under and is the
  redacted form of a text that passed the secret scanner and the injection heuristic; a write of a
  text either of them blocks raises and stores nothing; and a read that returns gives redacted
  records of that user only, unexpired and none of them steering.
\<close>
theorem memory_holds_only_screened:
  fixes sha jt ttl xs tr au
  defines "ms \<equiv> table_setup sha jt ttl"
  defines "ad \<equiv> fold (memory_step ms) xs (init_adapter tr au)"
  shows "(\<forall>u. \<forall>r \<in> set (table_own (ad_state ad) u). mm_user_id r = u \<and>
      (\<exists>raw. fr_verdict (secret_scanner raw) \<noteq> FBlock \<and> fr_verdict (prompt_injection raw) \<noteq> FBlock \<and>
         mm_content r = pii_form default_memory_filters raw)) \<and>
    (fr_verdict (secret_scanner (wa_content a)) = FBlock \<or> fr_verdict (prompt_injection (wa_content a)) = FBlock \<longrightarrow>
      (\<exists>e. fst (memory_write ms v a ad) = Inl e) \<and> ad_state (snd (memory_write ms v a ad)) = ad_state ad) \<and>
    (fst (memory_read ms envs u tag limit session now ad) = Inr rs \<longrightarrow>
      (\<forall>r \<in> set rs. \<exists>r0 \<in> set (table_own (ad_state ad) u). mm_user_id r = u \<and> \<not> memory_expired now r0 \<and>
         fr_verdict (prompt_injection (mm_content r0)) \<noteq> FBlock \<and>
         r = r0\<lparr>mm_content := pii_form default_memory_filters (mm_content r0)\<rparr>))"
proof (intro conjI allI ballI impI)
  have ok: "table_ok (ad_state ad)" unfolding ad_def ms_def by (rule table_run_ok)
  have ms: "ms_backend ms = table_backend" "ms_filters ms = default_memory_filters" by (simp_all add: ms_def)
  fix w r
  assume r: "r \<in> set (table_own (ad_state ad) w)"
  then show "mm_user_id r = w" by (rule table_own_user [OF ok])
  have "table_ok (ad_state (init_adapter tr au))" "table_own (ad_state (init_adapter tr au)) w = []"
    by (simp_all add: init_adapter_def table_ok_def table_own_def user_records_def dget_or_def)
  with table.run_own [OF ms(1), of "init_adapter tr au" r xs w] r
  have "screened default_memory_filters (mm_content r)" by (simp add: ad_def ms(2))
  then show "\<exists>raw. fr_verdict (secret_scanner raw) \<noteq> FBlock \<and> fr_verdict (prompt_injection raw) \<noteq> FBlock \<and>
      mm_content r = pii_form default_memory_filters raw"
    by (simp add: screened_iff default_memory_filters_def)
next
  assume "fr_verdict (secret_scanner (wa_content a)) = FBlock \<or> fr_verdict (prompt_injection (wa_content a)) = FBlock"
  then show "\<exists>e. fst (memory_write ms v a ad) = Inl e"
    and "ad_state (snd (memory_write ms v a ad)) = ad_state ad"
    by (auto simp: memory_write_def ms_def default_memory_filters_def)
next
  have ok: "table_ok (ad_state ad)" unfolding ad_def ms_def by (rule table_run_ok)
  fix r
  assume "fst (memory_read ms envs u tag limit session now ad) = Inr rs" and "r \<in> set rs"
  then obtain r0 where q: "r0 \<in> set (mb_query table_backend u tag limit now (ad_state ad))"
    and r: "r = r0\<lparr>mm_content := pii_form default_memory_filters (mm_content r0)\<rparr>"
    and "\<not> steered default_memory_filters r0"
    by (auto simp: memory_read_Inr ms_def list_all_iff)
  moreover from q table.query_own [OF ok, of r0 u tag limit now]
  have "r0 \<in> set (table_own (ad_state ad) u)" "\<not> memory_expired now r0" by simp_all
  moreover from this(1) have "mm_user_id r0 = u" by (rule table_own_user [OF ok])
  ultimately show "\<exists>r0 \<in> set (table_own (ad_state ad) u). mm_user_id r = u \<and> \<not> memory_expired now r0 \<and>
      fr_verdict (prompt_injection (mm_content r0)) \<noteq> FBlock \<and>
      r = r0\<lparr>mm_content := pii_form default_memory_filters (mm_content r0)\<rparr>"
    by (intro bexI [of _ r0]) (auto simp: steered_def default_memory_filters_def)
qed

text \<open>
  C21: A user can be forgotten and users are isolated: after \<open>delete_for_user\<close>, every read of that
  user is empty until somebody writes for the user again, whatever else happens, and the deletion
  is on the audit trail; and operations that concern other users, sweeps apart, change nothing in
  what a user reads.
\<close>
theorem memory_forgets_and_isolates:
  fixes sha jt ttl xs tr au ys
  defines "ms \<equiv> table_setup sha jt ttl"
  defines "ad \<equiv> fold (memory_step ms) xs (init_adapter tr au)"
  assumes "\<not> list_ex (writes_for u) ys" and "\<not> list_ex (touches w) zs"
  shows "fst (memory_read ms envs u tag limit session now
      (fold (memory_step ms) ys (snd (delete_for_user ms v u actor s0 ad)))) = Inr [] \<and>
    (\<forall>log. ad_audit ad = Some log \<longrightarrow>
      (\<exists>log' e. ad_audit (snd (delete_for_user ms v u actor s0 ad)) = Some log' \<and>
         au_entries log' = au_entries log @ [e] \<and> ae_action e = ''agent.step.memory_operation'' \<and>
         dget (ae_details e) ''rationale'' = Some (PStr (''right-to-be-forgotten by '' @ actor @ '' ('' @
           show_nat (fst (delete_for_user ms v u actor s0 ad)) @ '' records)'')))) \<and>
    fst (memory_read ms envs w tag limit session now (fold (memory_step ms) zs ad)) =
      fst (memory_read ms envs w tag limit session now ad)"
proof (intro conjI allI impI)
  have ms: "ms_backend ms = table_backend" by (simp add: ms_def)
  have ok: "table_ok (ad_state ad)" unfolding ad_def ms_def by (rule table_run_ok)
  let ?f = "snd (delete_for_user ms v u actor s0 ad)"
  have okf: "table_ok (ad_state ?f)" using table.step_ok [OF ms ok, of "MForget v u actor s0"] by simp
  have "table_own (ad_state ?f) u = []" by (rule table.forget_own [OF ms ok])
  then have "y \<notin> set (table_own (ad_state (fold (memory_step ms) ys ?f)) u)" for y
    using table.run_own [OF ms okf, of y ys u] assms(3) by auto
  then have "table_own (ad_state (fold (memory_step ms) ys ?f)) u = []"
    by (cases "table_own (ad_state (fold (memory_step ms) ys ?f)) u") auto
  from table.query_empty [OF table.run_ok [OF ms okf] this]
  show "fst (memory_read ms envs u tag limit session now (fold (memory_step ms) ys ?f)) = Inr []"
    by (simp add: memory_read_Inr ms)
  show "\<exists>log' e. ad_audit ?f = Some log' \<and> au_entries log' = au_entries log @ [e] \<and>
      ae_action e = ''agent.step.memory_operation'' \<and>
      dget (ae_details e) ''rationale'' = Some (PStr (''right-to-be-forgotten by '' @ actor @ '' ('' @
        show_nat (fst (delete_for_user ms v u actor s0 ad)) @ '' records)''))"
    if "ad_audit ad = Some log" for log
  proof -
    let ?a = "(delete_emit u ''*'' s0)\<lparr>em_rationale := ''right-to-be-forgotten by '' @ actor @ '' ('' @
        show_nat (fst (delete_for_user ms v u actor s0 ad)) @ '' records)''\<rparr>"
    let ?ad = "ad\<lparr>ad_state := snd (mb_delete_all (ms_backend ms) u (ad_state ad))\<rparr>"
    have "?f = emit ms v ?a ?ad" by (simp add: delete_for_user_def Let_def case_prod_beta)
    moreover have "ad_audit ?ad = Some log" using that by simp
    from emit_audit [OF this, of ms v ?a] show ?thesis unfolding calculation by auto
  qed
  have "table_own (ad_state (fold (memory_step ms) zs ad)) w = table_own (ad_state ad) w"
    by (rule table.run_untouched [OF ms ok assms(4)])
  from table.query_local [OF this, of tag limit now]
  have q: "mb_query (ms_backend ms) w tag limit now (ad_state (fold (memory_step ms) zs ad)) =
      mb_query (ms_backend ms) w tag limit now (ad_state ad)" by (simp add: ms)
  show "fst (memory_read ms envs w tag limit session now (fold (memory_step ms) zs ad)) =
      fst (memory_read ms envs w tag limit session now ad)"
    using read_each_result [of ms envs w session "mb_query (ms_backend ms) w tag limit now (ad_state ad)" 0]
    by (simp add: memory_read_def q Let_def case_prod_beta)
qed

text \<open>A refused write puts the first 512 characters of the refused text on the audit trail.\<close>

lemma blocked_write_logs_content:
  assumes "ad_audit ad = Some au" and "wa_user_id a \<noteq> []"
    and "fr_verdict (mf_secret (ms_filters ms) (wa_content a)) = FBlock"
  shows "\<exists>au' e d. ad_audit (snd (memory_write ms v a ad)) = Some au' \<and> au_entries au' = au_entries au @ [e] \<and>
    dget (ae_details e) ''payload'' = Some (PDict d) \<and>
    dget d ''content_preview'' = Some (PStr (take PREVIEW_CHARS (wa_content a)))"
  using emit_audit [OF assms(1), of ms "we_emit v"
      "(write_emit a)\<lparr>em_error := ''secret detected '' @ em_dash @ '' refusing to persist''\<rparr>"]
    assms(2,3)
  by (auto simp: memory_write_def write_emit_def)

section \<open>Concrete runs\<close>

definition demo_emit :: emit_env where
  "demo_emit = \<lparr>ee_step_id = ''st'', ee_timestamp = 5, ee_started_at = 5, ee_log = demo_env 0\<rparr>"

definition demo_write :: "string \<Rightarrow> string \<Rightarrow> memory_op" where
  "demo_write u c = MWrite \<lparr>we_memory_id = ''m1'', we_created_at = 5, we_now = 5, we_emit = demo_emit\<rparr>
     \<lparr>wa_user_id = u, wa_content = c, wa_session_id = ''s1'', wa_provenance = ''agent'', wa_tags = [], wa_ttl = None\<rparr>"

theorem memory_holds_only_screened_witness:
  "\<exists>e. fst (memory_write (table_setup demo_sha isoformat None)
     \<lparr>we_memory_id = ''m1'', we_created_at = 5, we_now = 5, we_emit = demo_emit\<rparr>
     \<lparr>wa_user_id = ''u1'', wa_content = ''please DO ANYTHING now'', wa_session_id = [], wa_provenance = [],
      wa_tags = [], wa_ttl = None\<rparr>
     (fold (memory_step (table_setup demo_sha isoformat None)) [demo_write ''u1'' ''hello''] (init_adapter None None))) = Inl e"
proof -
  have "fr_verdict (prompt_injection ''please DO ANYTHING now'') = FBlock" by code_simp
  then show ?thesis
    using memory_holds_only_screened [where xs = "[demo_write ''u1'' ''hello'']" and tr = None and au = None
        and sha = demo_sha and jt = isoformat and ttl = None
        and a = "\<lparr>wa_user_id = ''u1'', wa_content = ''please DO ANYTHING now'', wa_session_id = [],
          wa_provenance = [], wa_tags = [], wa_ttl = None\<rparr>"]
    by simp
qed

theorem memory_forgets_and_isolates_witness:
  "fst (memory_read (table_setup demo_sha isoformat None) (\<lambda>n. demo_emit) ''u1'' None 50 [] 9
     (fold (memory_step (table_setup demo_sha isoformat None)) [demo_write ''u2'' ''hi'']
       (snd (delete_for_user (table_setup demo_sha isoformat None) demo_emit ''u1'' ''dpo'' []
         (fold (memory_step (table_setup demo_sha isoformat None)) [demo_write ''u1'' ''hello'']
           (init_adapter None (Some (init_audit []))))))))  = Inr []"
proof -
  have "\<not> list_ex (writes_for ''u1'') [demo_write ''u2'' ''hi'']" by (simp add: demo_write_def)
  moreover have "\<not> list_ex (touches ''u1'') []" by simp
  ultimately show ?thesis by (rule memory_forgets_and_isolates [THEN conjunct1])
qed

end
