(* ===== verification/Session_Tools.thy ===== *)
theory Session_Tools
  imports Mcp_Server Tool_Args Approvals Memory
begin

text \<open>
  The governance, transcript and memory tools of \<open>mcp_server/server.py\<close>, as tools the routing of
  \<open>Mcp_Server\<close> runs: halting and resuming a session, the approval queue, session statistics, the
  replay of a session's trail and the audited memory. A tool reads its keyword arguments, checks them
  and raises or answers with a JSON value. The hub's rest is the approval store and the memory's state;
  identifiers, clocks and log times of one call are its environment.
\<close>

section \<open>State\<close>

record 's session_rest =
  sr_approvals :: approval_store
  sr_memory :: 's

record 's session_setup =
  ss_sha :: "string \<Rightarrow> string"
  ss_hmac :: "string \<Rightarrow> string \<Rightarrow> string"
  ss_memory :: "'s memory_setup"
  ss_jt :: "timestamp \<Rightarrow> string"

text \<open>\<open>sn_type_error\<close> is the text of the interpreter's \<open>TypeError\<close>s.\<close>

record session_env =
  sn_halt_id :: string
  sn_now :: timestamp
  sn_sweep :: timestamp
  sn_log :: log_env
  sn_approval :: approval_env
  sn_snapshot :: real
  sn_eval :: eval_env
  sn_write :: write_env
  sn_reads :: "nat \<Rightarrow> emit_env"
  sn_type_error :: string

type_synonym 's session_hub = "'s session_rest hub"

section \<open>The hub\<close>

definition hub_log :: "'s session_setup \<Rightarrow> log_args \<Rightarrow> log_env \<Rightarrow> 'r hub \<Rightarrow> 'r hub" where
  "hub_log su a v hub = hub\<lparr>hb_audit := snd (log_entry (ss_sha su) a v (hb_audit hub))\<rparr>"

definition set_approvals :: "approval_store \<Rightarrow> 's session_hub \<Rightarrow> 's session_hub" where
  "set_approvals st hub = hub\<lparr>hb_rest := (hb_rest hub)\<lparr>sr_approvals := st\<rparr>\<rparr>"

section \<open>JSON of the records\<close>

definition json_time :: "'s session_setup \<Rightarrow> timestamp option \<Rightarrow> pyval" where
  "json_time su t = (case t of None \<Rightarrow> PNone | Some t \<Rightarrow> PStr (ss_jt su t))"

definition schema_1 :: "string \<times> pyval" where
  "schema_1 = (''schema_version'', PStr ''1'')"

definition halt_json :: "'s session_setup \<Rightarrow> halt_entry \<Rightarrow> pyval" where
  "halt_json su e = PDict [schema_1, (''halt_id'', PStr (he_halt_id e)), (''session_id'', PStr (he_session_id e)),
     (''correlation_id'', PStr (he_correlation_id e)), (''operator'', PStr (he_operator e)),
     (''reason'', PStr (he_reason e)), (''halted_at'', PStr (ss_jt su (he_halted_at e))),
     (''resumed_at'', json_time su (he_resumed_at e)), (''resumed_by'', PStr (he_resumed_by e)),
     (''resume_reason'', PStr (he_resume_reason e))]"

definition decision_json :: "'s session_setup \<Rightarrow> approval_decision \<Rightarrow> pyval" where
  "decision_json su d = PDict [schema_1, (''decision_id'', PStr (ad_decision_id d)),
     (''request_id'', PStr (ad_request_id d)), (''approver'', PStr (ad_approver d)),
     (''verdict'', PStr (verdict_value (ad_verdict d))), (''notes'', PStr (ad_notes d)),
     (''decided_at'', PStr (ss_jt su (ad_decided_at d))), (''token'', PStr (ad_token d))]"

definition request_json :: "'s session_setup \<Rightarrow> approval_request \<Rightarrow> pyval" where
  "request_json su r = PDict [schema_1, (''request_id'', PStr (ar_request_id r)),
     (''session_id'', PStr (ar_session_id r)), (''correlation_id'', PStr (ar_correlation_id r)),
     (''tool_name'', PStr (ar_tool_name r)), (''action_summary'', PStr (ar_action_summary r)),
     (''arguments_preview'', PDict (ar_arguments_preview r)), (''requested_by'', PStr (ar_requested_by r)),
     (''approver_pool'', PList (map PStr (ar_approver_pool r))), (''quorum'', PInt (ar_quorum r)),
     (''blast_radius'', PStr (ar_blast_radius r)), (''rollback_procedure'', PStr (ar_rollback_procedure r)),
     (''rationale'', PStr (ar_rationale r)), (''created_at'', PStr (ss_jt su (ar_created_at r))),
     (''expires_at'', PStr (ss_jt su (ar_expires_at r))), (''verdict'', PStr (verdict_value (ar_verdict r))),
     (''decisions'', PList (map (decision_json su) (ar_decisions r)))]"

definition entry_json :: "'s session_setup \<Rightarrow> audit_entry \<Rightarrow> pyval" where
  "entry_json su e = PDict [(''schema_version'', PStr ''2''), (''audit_id'', PStr (ae_audit_id e)),
     (''timestamp'', PStr (ss_jt su (ae_timestamp e))), (''action'', PStr (ae_action e)),
     (''actor'', PStr (ae_actor e)), (''target'', PStr (ae_target e)),
     (''provider'', (case ae_provider e of None \<Rightarrow> PNone | Some p \<Rightarrow> PStr (provider_value p))),
     (''correlation_id'', PStr (ae_correlation_id e)), (''causation_id'', PStr (ae_causation_id e)),
     (''details'', PDict (ae_details e)), (''outcome'', PStr (ae_outcome e)),
     (''related_alert_id'', PStr (ae_related_alert_id e)), (''related_policy_id'', PStr (ae_related_policy_id e)),
     (''checksum'', PStr (ae_checksum e))]"

definition signal_json :: "'s session_setup \<Rightarrow> anomaly_signal \<Rightarrow> pyval" where
  "signal_json su s = PDict [schema_1, (''session_id'', PStr (sg_session_id s)),
     (''detector'', PStr (sg_detector s)), (''severity'', PStr (anomaly_value (sg_severity s))),
     (''metric'', PStr (sg_metric s)), (''observed'', PFloat (sg_observed s)),
     (''threshold'', PFloat (sg_threshold s)), (''detail'', PStr (sg_detail s)),
     (''recommend_halt'', PBool (sg_recommend_halt s)), (''detected_at'', PStr (ss_jt su (sg_detected_at s)))]"

definition memory_json :: "'s session_setup \<Rightarrow> memory_record \<Rightarrow> pyval" where
  "memory_json su r = PDict [schema_1, (''memory_id'', PStr (mm_memory_id r)), (''user_id'', PStr (mm_user_id r)),
     (''session_id'', PStr (mm_session_id r)), (''content'', PStr (mm_content r)),
     (''provenance'', PStr (mm_provenance r)), (''tags'', PList (map PStr (mm_tags r))),
     (''created_at'', PStr (ss_jt su (mm_created_at r))), (''expires_at'', json_time su (mm_expires_at r))]"

section \<open>Halting, approvals, statistics\<close>

definition halt_args_of :: "session_env \<Rightarrow> string \<Rightarrow> string \<Rightarrow> halt_args" where
  "halt_args_of v operator reason = \<lparr>ha_halt_id = sn_halt_id v, ha_now = sn_now v, ha_operator = operator,
     ha_reason = reason, ha_correlation_id = []\<rparr>"

definition session_args :: "string \<Rightarrow> string \<Rightarrow> string \<Rightarrow> halt_entry \<Rightarrow> string \<Rightarrow> string \<Rightarrow> log_args" where
  "session_args action operator sid e reason outcome = (default_args action operator sid)
     \<lparr>la_details := [(''halt_id'', PStr (he_halt_id e)), (''reason'', PStr reason)], la_outcome := outcome,
      la_correlation_id := sid\<rparr>"

definition finops_halt_session :: "'s session_setup \<Rightarrow> session_env \<Rightarrow> 's session_rest tool" where
  "finops_halt_session su v args =
     check_then (bind_args (sn_type_error v) [''session_id'', ''operator''] [(''reason'', PStr [])] args) (\<lambda>kw.
     check_then (text_arg kw ''session_id'' 256) (\<lambda>sid.
     check_then (text_arg kw ''operator'' 256) (\<lambda>operator.
     check_then (text_arg kw ''reason'' 2048) (\<lambda>reason hub.
       let (e, sv) = halt sid (halt_args_of v operator reason) (hb_supervisor hub)
       in (Inr (PDict [(''status'', PStr ''halted''), (''halt'', halt_json su e)]),
           hub_log su (session_args ''agent.session.halt'' operator sid e reason ''halted'') (sn_log v)
             (hub\<lparr>hb_supervisor := sv\<rparr>))))))"

definition finops_resume_session :: "'s session_setup \<Rightarrow> session_env \<Rightarrow> 's session_rest tool" where
  "finops_resume_session su v args =
     check_then (bind_args (sn_type_error v) [''session_id'', ''operator''] [(''reason'', PStr [])] args) (\<lambda>kw.
     check_then (text_arg kw ''session_id'' 256) (\<lambda>sid.
     check_then (text_arg kw ''operator'' 256) (\<lambda>operator.
     check_then (text_arg kw ''reason'' 2048) (\<lambda>reason hub.
       let (r, sv) = resume sid \<lparr>ra_now = sn_now v, ra_operator = operator, ra_reason = reason\<rparr> (hb_supervisor hub)
       in case r of
            None \<Rightarrow> (Inr (PDict [(''status'', PStr ''not_halted''), (''session_id'', PStr sid)]), hub\<lparr>hb_supervisor := sv\<rparr>)
          | Some e \<Rightarrow> (Inr (PDict [(''status'', PStr ''resumed''), (''halt'', halt_json su e)]),
              hub_log su (session_args ''agent.session.resume'' operator sid e reason ''resumed'') (sn_log v)
                (hub\<lparr>hb_supervisor := sv\<rparr>))))))"

definition finops_pending_approvals :: "'s session_setup \<Rightarrow> session_env \<Rightarrow> 's session_rest tool" where
  "finops_pending_approvals su v args =
     check_then (bind_args (sn_type_error v) []
       [(''session_id'', PNone), (''approver'', PNone), (''limit'', PInt 50)] args) (\<lambda>kw.
     check_then (optional_text kw ''session_id'' 256) (\<lambda>sid.
     check_then (optional_text kw ''approver'' 256) (\<lambda>approver.
     check_then (invalid (validate_query_limit (kw ''limit''))) (\<lambda>limit hub.
       let st = snd (sweep_expired (sn_sweep v) (sr_approvals (hb_rest hub)));
           pending = slice_first limit (list_pending sid approver (sn_now v) st)
       in (Inr (PDict (counted ''requests'' (map (request_json su) pending))), set_approvals st hub)))))"

definition approval_error_text :: "approval_error \<Rightarrow> string" where
  "approval_error_text e = (case e of
     SelfApproval \<Rightarrow> ''out-of-band approval: requester cannot approve their own request''
   | DuplicateApprover who \<Rightarrow> ''approver '' @ quoted who @ '' already decided this request''
   | ApprovalNotFound rid \<Rightarrow> ''approval '' @ rid @ '' not found''
   | ApprovalExpired rid \<Rightarrow> ''approval '' @ rid @ '' has expired''
   | InvalidVerdict d \<Rightarrow> [])"

text \<open>
  A token is compared as it is: a falsy one is not checked, one that is not a text makes the comparison
  raise. \<open>record_decision\<close> gets one of the two verdicts it accepts.
\<close>

definition token_check :: "'s session_setup \<Rightarrow> session_env \<Rightarrow> string \<Rightarrow> string \<Rightarrow> approval_verdict \<Rightarrow> pyval \<Rightarrow> exn + bool" where
  "token_check su v rid approver verdict token =
     (if \<not> truthy token then Inr True
      else (case token of
          PStr t \<Rightarrow> Inr (verify_decision_token (ss_hmac su) (ap_key (sn_approval v)) rid approver verdict t)
        | _ \<Rightarrow> Inl (''TypeError'', sn_type_error v)))"

definition decided_args :: "string \<Rightarrow> string \<Rightarrow> string \<Rightarrow> approval_request \<Rightarrow> string \<Rightarrow> log_args" where
  "decided_args verdict approver rid r notes = (default_args (''approval.'' @ verdict) approver rid)
     \<lparr>la_details := [(''verdict'', PStr (verdict_value (ar_verdict r))), (''quorum'', PInt (ar_quorum r)),
        (''decisions'', PInt (int (length (ar_decisions r)))), (''notes'', PStr notes)],
      la_correlation_id := ar_session_id r\<rparr>"

definition last_token :: "approval_request \<Rightarrow> string" where
  "last_token r = (if ar_decisions r = [] then [] else ad_token (List.last (ar_decisions r)))"

definition decide :: "'s session_setup \<Rightarrow> session_env \<Rightarrow> string \<Rightarrow> string \<Rightarrow> string \<Rightarrow> approval_verdict \<Rightarrow> string \<Rightarrow>
    's session_hub step" where
  "decide su v rid approver verdict parsed notes hub =
     (let (r, st) = record_decision (ss_hmac su) (sn_approval v) rid approver parsed notes (sr_approvals (hb_rest hub));
          hub1 = set_approvals st hub
      in case r of
           Inl (ApprovalExpired i) \<Rightarrow> (Inr (status_dict ''expired'' (approval_error_text (ApprovalExpired i))), hub1)
         | Inl e \<Rightarrow> (Inr (status_dict ''error'' (approval_error_text e)), hub1)
         | Inr x \<Rightarrow> (Inr (PDict [(''status'', PStr (verdict_value (ar_verdict x))), (''request'', request_json su x),
                (''decision_token'', PStr (last_token x))]),
              hub_log su (decided_args verdict approver rid x notes) (sn_log v) hub1))"

definition finops_respond_approval :: "'s session_setup \<Rightarrow> session_env \<Rightarrow> 's session_rest tool" where
  "finops_respond_approval su v args =
     check_then (bind_args (sn_type_error v) [''request_id'', ''approver'', ''verdict'']
       [(''notes'', PStr []), (''token'', PStr [])] args) (\<lambda>kw.
     check_then (text_arg kw ''request_id'' 256) (\<lambda>rid.
     check_then (text_arg kw ''approver'' 256) (\<lambda>approver.
     check_then (text_arg kw ''verdict'' 32) (\<lambda>verdict0.
     check_then (text_arg kw ''notes'' 2048) (\<lambda>notes hub.
       let verdict = lower verdict0; parsed = (if verdict = ''approved'' then Approved else Denied)
       in if verdict \<noteq> ''approved'' \<and> verdict \<noteq> ''denied''
          then (Inr (status_dict ''error'' (''verdict must be '' @ quoted ''approved'' @ '' or '' @ quoted ''denied'')), hub)
          else check_then (token_check su v rid approver parsed (kw ''token'')) (\<lambda>valid hub.
            if \<not> valid
            then (Inr (status_dict ''error'' ''invalid decision token''),
                  hub_log su ((default_args ''approval.token.invalid'' approver rid)
                    \<lparr>la_details := [(''verdict'', PStr verdict)], la_outcome := ''denied''\<rparr>) (sn_log v) hub)
            else decide su v rid approver verdict parsed notes hub) hub)))))"

definition empty_metrics :: "string \<Rightarrow> (string, pyval) dict" where
  "empty_metrics sid = [(''session_id'', PStr sid), (''call_count'', PInt 0), (''tool_distribution'', PDict []),
     (''input_tokens'', PInt 0), (''output_tokens'', PInt 0), (''estimated_cost_usd'', PFloat 0),
     (''calls_per_minute'', PFloat 0), (''last_severity'', PStr ''ok'')]"

definition finops_session_stats :: "'s session_setup \<Rightarrow> session_env \<Rightarrow> 's session_rest tool" where
  "finops_session_stats su v args =
     check_then (bind_args (sn_type_error v) [''session_id''] [] args) (\<lambda>kw.
     check_then (text_arg kw ''session_id'' 256) (\<lambda>sid hub.
       let (snap, ob1) = session_snapshot sid (sn_snapshot v) (hb_observer hub);
           pending = list_pending (Some sid) None (sn_now v) (sr_approvals (hb_rest hub));
           (signals, ob2) = evaluate_session sid \<lparr>eb_tokens = None, eb_cost = None, eb_rate = None\<rparr> (sn_eval v) ob1
       in (Inr (PDict [(''session_id'', PStr sid),
            (''metrics'', PDict (case snap of None \<Rightarrow> empty_metrics sid | Some d \<Rightarrow> d)),
            (''halt'', (case session_status sid (hb_supervisor hub) of None \<Rightarrow> PNone | Some e \<Rightarrow> halt_json su e)),
            (''pending_approvals'', PList (map (request_json su) pending)),
            (''anomaly_signals'', PList (map (signal_json su) signals))]),
           hub\<lparr>hb_observer := ob2\<rparr>)))"

section \<open>The transcript of a session\<close>

definition session_entries :: "string \<Rightarrow> audit_logger \<Rightarrow> audit_entry list" where
  "session_entries sid au =
     filter (\<lambda>e. ae_correlation_id e = sid \<or> ae_target e = sid) (get_entries None None None None 10000 au)"

definition arrow :: string where
  "arrow = [CHR 0xE2, CHR 0x86, CHR 0x92]"

definition clock_str :: "timestamp \<Rightarrow> string" where
  "clock_str t = (let s = t mod us_per_day div 1000000
     in pad_nat 2 (nat (s div 3600)) @ '':'' @ pad_nat 2 (nat (s div 60 mod 60)) @ '':'' @ pad_nat 2 (nat (s mod 60)))"

definition backticked :: "string \<Rightarrow> string" where
  "backticked s = CHR 0x60 # s @ [CHR 0x60]"

definition trail_line :: "audit_entry \<Rightarrow> string" where
  "trail_line e = ''- '' @ backticked (clock_str (ae_timestamp e)) @ '' **'' @ ae_action e @ ''** by '' @
     backticked (ae_actor e) @ '' '' @ arrow @ '' '' @ backticked (ae_outcome e) @ '' (target: '' @
     backticked (ae_target e) @ '')''"

definition transcript :: "string \<Rightarrow> audit_entry list \<Rightarrow> string" where
  "transcript sid es = join newline
     ([CHR 0x23 # '' Session replay '' @ em_dash @ '' '' @ sid,
       ''- **Entries:** '' @ show_nat (length es),
       ''- **Window:** '' @ isoformat (ae_timestamp (hd es)) @ '' '' @ arrow @ '' '' @
         isoformat (ae_timestamp (List.last es)), [], replicate 2 CHR 0x23 @ '' Trail''] @ map trail_line es)"

definition finops_replay_session :: "'s session_setup \<Rightarrow> session_env \<Rightarrow> 's session_rest tool" where
  "finops_replay_session su v args =
     check_then (bind_args (sn_type_error v) [''session_id''] [(''fmt'', PStr ''markdown'')] args) (\<lambda>kw.
     check_then (text_arg kw ''session_id'' 256) (\<lambda>sid.
     check_then (text_arg kw ''fmt'' 16) (\<lambda>fmt hub.
       let es = session_entries sid (hb_audit hub)
       in if es = []
          then (Inr (PDict [(''status'', PStr ''not_found''), (''session_id'', PStr sid),
                 (''message'', PStr ''no audit entries match this session_id'')]), hub)
          else (let md = PStr (transcript sid es); js = PList (map (entry_json su) es)
                in (Inr (PDict [(''status'', PStr ''ok''), (''session_id'', PStr sid), (''count'', PInt (int (length es))),
                     (''transcript'', if lower fmt = ''markdown'' then md else js), (''markdown'', md), (''entries'', js)]), hub)))))"

section \<open>Audited memory\<close>

text \<open>The adapter the server keeps shares the hub's audit logger and has no trace.\<close>

definition hub_adapter :: "'s session_hub \<Rightarrow> 's memory_adapter" where
  "hub_adapter hub = \<lparr>ad_state = sr_memory (hb_rest hub), ad_trace = None, ad_audit = Some (hb_audit hub)\<rparr>"

definition set_adapter :: "'s memory_adapter \<Rightarrow> 's session_hub \<Rightarrow> 's session_hub" where
  "set_adapter ad hub = hub\<lparr>hb_rest := (hb_rest hub)\<lparr>sr_memory := ad_state ad\<rparr>,
     hb_audit := (case ad_audit ad of None \<Rightarrow> hb_audit hub | Some au \<Rightarrow> au)\<rparr>"

text \<open>\<open>[sanitise_string(t, "tag", max_length=128) for t in (tags or [])[:50]]\<close>\<close>

definition tags_arg :: "session_env \<Rightarrow> pyval \<Rightarrow> exn + string list" where
  "tags_arg v tags =
     (if \<not> truthy tags then Inr []
      else (case tags of
          PList xs \<Rightarrow> clean_all ''tag'' 128 (take 50 xs)
        | PStr s \<Rightarrow> clean_all ''tag'' 128 (take 50 (map (\<lambda>c. PStr [c]) s))
        | _ \<Rightarrow> Inl (''TypeError'', sn_type_error v)))"

text \<open>A positive number of seconds, truncated, in microseconds; no expiry otherwise.\<close>

definition ttl_arg :: "session_env \<Rightarrow> pyval \<Rightarrow> exn + int option" where
  "ttl_arg v ttl =
     (let us = (\<lambda>x :: real. if 0 < x then Some (\<lfloor>x\<rfloor> * 1000000) else None)
      in case ttl of
           PInt i \<Rightarrow> Inr (us (real_of_int i))
         | PBool b \<Rightarrow> Inr (us (if b then 1 else 0))
         | PFloat x \<Rightarrow> Inr (us x)
         | _ \<Rightarrow> Inl (''TypeError'', sn_type_error v))"

fun memory_error_text :: "memory_error \<Rightarrow> string" where
  "memory_error_text (ValueError m) = m"
| "memory_error_text (MemoryInjectionError m) = m"

definition finops_memory_write :: "'s session_setup \<Rightarrow> session_env \<Rightarrow> 's session_rest tool" where
  "finops_memory_write su v args =
     check_then (bind_args (sn_type_error v) [''user_id'', ''content'']
       [(''session_id'', PStr []), (''provenance'', PStr ''agent''), (''tags'', PNone), (''ttl_seconds'', PInt 0)] args) (\<lambda>kw.
     check_then (text_arg kw ''user_id'' 256) (\<lambda>uid.
     check_then (text_arg kw ''content'' 8192) (\<lambda>content.
     check_then (text_arg kw ''session_id'' 256) (\<lambda>sid.
     check_then (text_arg kw ''provenance'' 64) (\<lambda>provenance.
     check_then (tags_arg v (kw ''tags'')) (\<lambda>tags.
     check_then (ttl_arg v (kw ''ttl_seconds'')) (\<lambda>ttl hub.
       let (r, ad) = memory_write (ss_memory su) (sn_write v)
             \<lparr>wa_user_id = uid, wa_content = content, wa_session_id = sid, wa_provenance = provenance,
              wa_tags = tags, wa_ttl = ttl\<rparr> (hub_adapter hub)
       in (Inr (case r of
              Inl e \<Rightarrow> status_dict ''blocked'' (memory_error_text e)
            | Inr m \<Rightarrow> PDict [(''status'', PStr ''stored''), (''memory_id'', PStr (mm_memory_id m))]),
           set_adapter ad hub))))))))"

definition finops_memory_read :: "'s session_setup \<Rightarrow> session_env \<Rightarrow> 's session_rest tool" where
  "finops_memory_read su v args =
     check_then (bind_args (sn_type_error v) [''user_id'']
       [(''tag'', PNone), (''limit'', PInt 50), (''session_id'', PStr [])] args) (\<lambda>kw.
     check_then (text_arg kw ''user_id'' 256) (\<lambda>uid.
     check_then (optional_text kw ''tag'' 128) (\<lambda>tag.
     check_then (text_arg kw ''session_id'' 256) (\<lambda>sid.
     check_then (invalid (validate_query_limit (kw ''limit''))) (\<lambda>limit hub.
       let (r, ad) = memory_read (ss_memory su) (sn_reads v) uid tag limit sid (sn_now v) (hub_adapter hub)
       in (Inr (case r of
              Inl e \<Rightarrow> PDict [(''status'', PStr ''quarantined''), (''message'', PStr (memory_error_text e)), (''records'', PList [])]
            | Inr ms \<Rightarrow> PDict ((''status'', PStr ''ok'') # counted ''records'' (map (memory_json su) ms))),
           set_adapter ad hub))))))"

definition finops_memory_forget_user :: "'s session_setup \<Rightarrow> session_env \<Rightarrow> 's session_rest tool" where
  "finops_memory_forget_user su v args =
     check_then (bind_args (sn_type_error v) [''user_id''] [(''actor'', PStr ''system'')] args) (\<lambda>kw.
     check_then (text_arg kw ''user_id'' 256) (\<lambda>uid.
     check_then (text_arg kw ''actor'' 256) (\<lambda>actor hub.
       let (n, ad) = delete_for_user (ss_memory su) (sn_reads v 0) uid actor [] (hub_adapter hub)
       in (Inr (PDict [(''status'', PStr ''completed''), (''user_id'', PStr uid), (''records_deleted'', PInt (int n))]),
           set_adapter ad hub))))"

text \<open>The part of \<open>MCP_TOOLS\<close> these tools are; every call draws its environment from \<open>envs\<close>.\<close>

definition session_tools :: "'s session_setup \<Rightarrow> session_env \<Rightarrow> (string, 's session_rest tool) dict" where
  "session_tools su v =
     [(''finops_halt_session'', finops_halt_session su v), (''finops_resume_session'', finops_resume_session su v),
      (''finops_pending_approvals'', finops_pending_approvals su v),
      (''finops_respond_approval'', finops_respond_approval su v),
      (''finops_session_stats'', finops_session_stats su v), (''finops_replay_session'', finops_replay_session su v),
      (''finops_memory_write'', finops_memory_write su v), (''finops_memory_read'', finops_memory_read su v),
      (''finops_memory_forget_user'', finops_memory_forget_user su v)]"

end
