(* ===== verification/Session_Server.thy ===== *)
theory Session_Server
  imports Session_Tools
begin

text \<open>
  The session tools behind the routing of the server: what the operator's halt means for every later
  call, and what an approver's answer through the server does to the queue and the trail.
\<close>

section \<open>Calls\<close>

definition tools_at :: "'s session_rest mcp_setup \<Rightarrow> 's session_setup \<Rightarrow> session_env \<Rightarrow> 's session_rest mcp_setup" where
  "tools_at mp su v = mp\<lparr>mp_tools := map (\<lambda>(n, t). (n, None, t)) (session_tools su v)\<rparr>"

type_synonym session_call = "mcp_env \<times> session_env \<times> string \<times> (string, pyval) dict"

definition session_call :: "'s session_rest mcp_setup \<Rightarrow> 's session_setup \<Rightarrow> session_call \<Rightarrow> 's session_rest mcp_state \<Rightarrow>
    pyval \<times> 's session_rest mcp_state" where
  "session_call mp su c st = (case c of (v, sv, tool, args) \<Rightarrow> handle_tool_call (tools_at mp su sv) v tool args st)"

definition session_run :: "'s session_rest mcp_setup \<Rightarrow> 's session_setup \<Rightarrow> session_call list \<Rightarrow> 's session_rest mcp_state \<Rightarrow>
    's session_rest mcp_state" where
  "session_run mp su cs st = fold (\<lambda>c st. snd (session_call mp su c st)) cs st"

text \<open>A registered tool either is kept from running or runs once on the hub the observer has updated.\<close>

lemma handle_cases:
  fixes mp :: "'r mcp_setup" and st :: "'r mcp_state" and v :: mcp_env and tool :: string and args :: "(string, pyval) dict"
  assumes "dget (mp_tools mp) tool = Some (doc, f)"
  defines "rq \<equiv> call_request mp v tool args"
  defines "hub \<equiv> observe_call mp rq (mc_hub st)"
  defines "r \<equiv> handle_tool_call mp v tool args st"
  obtains (blocked) why where "fst r = status_dict ''denied'' why"
      "hb_supervisor (mc_hub (snd r)) = hb_supervisor (mc_hub st)" "hb_rest (mc_hub (snd r)) = hb_rest (mc_hub st)"
  | (ran) "hb_supervisor (mc_hub (snd r)) = hb_supervisor (snd (f (rq_arguments rq) hub))"
      "hb_rest (mc_hub (snd r)) = hb_rest (snd (f (rq_arguments rq) hub))"
      "case fst (f (rq_arguments rq) hub) of Inr x \<Rightarrow> fst r = x
         | Inl (ty, m) \<Rightarrow> if m = [] then fst r = PNone else (\<exists>e. fst r = status_dict ''error'' e)"
proof -
  from handle_known [OF assms(1), of v args st] obtain res g where
    g: "governed_call (call_env mp f hub) rq \<lparr>gs_budget = budget_for_principal mp (rq_principal_id rq) st,
        gs_artifacts = mc_artifacts st, gs_world = hub\<rparr> = (Inr res, g)"
    and ans: "fst r = fst (answer_call mp v rq res (gs_world g))"
    and h: "mc_hub (snd r) = snd (answer_call mp v rq res (gs_world g))"
    unfolding rq_def hub_def r_def by (metis fst_conv mcp_state.select_convs(3) snd_conv)
  have hub: "hb_supervisor hub = hb_supervisor (mc_hub st)" "hb_rest hub = hb_rest (mc_hub st)"
    by (simp_all add: hub_def observe_call_def)
  have denied: thesis if "res = deny_result rq why" "gs_world g = hub" for why
    by (rule blocked [of why]) (use that ans h hub in \<open>simp_all add: answer_call_def deny_result_def call_log_def\<close>)
  from g show thesis
  proof (cases rule: governed_call_cases)
    case (executed st1)
    then have w: "gs_world st1 = hub" by (auto simp: call_env_def)
    have run: "ge_executor (call_env mp f hub) rq (gs_world st1) = f (rq_arguments rq) hub"
      by (simp add: call_env_def w)
    have res: "res = fst (gov_execute (call_env mp f hub) rq st1)" and g': "g = snd (gov_execute (call_env mp f hub) rq st1)"
      using executed(5,6) by simp_all
    have allowed: "rs_allowed res"
      unfolding res by (auto simp: gov_execute_def Let_def deny_result_def split: prod.splits sum.splits)
    note out = gov_execute_outcome [of "call_env mp f hub" rq st1, unfolded run, folded res g']
    then have "hb_supervisor (mc_hub (snd r)) = hb_supervisor (snd (f (rq_arguments rq) hub))"
      "hb_rest (mc_hub (snd r)) = hb_rest (snd (f (rq_arguments rq) hub))" by (simp_all add: h)
    then show thesis
      by (rule ran) (use out allowed in \<open>auto simp: ans answer_call_def Let_def split: sum.splits prod.splits\<close>)
  qed (use denied in \<open>auto simp: call_env_def\<close>)
qed

section \<open>The kill switch through the server\<close>

text \<open>A call that lifts the halt of \<open>sid\<close> when it runs: a resume that names it.\<close>

definition lifts :: "string \<Rightarrow> string \<Rightarrow> (string, pyval) dict \<Rightarrow> bool" where
  "lifts sid tool args \<longleftrightarrow> tool = ''finops_resume_session'' \<and>
     sanitise_string (dget_or args ''session_id'' PNone) ''session_id'' 256 = Inr sid"

lemma hub_supervisor_simps [simp]:
  "hb_supervisor (hub_log su a v hub) = hb_supervisor hub" "hb_rest (hub_log su a v hub) = hb_rest hub"
  "hb_supervisor (set_approvals st shub) = hb_supervisor shub"
  "hb_supervisor (set_adapter ad shub) = hb_supervisor shub"
  by (simp_all add: hub_log_def set_approvals_def set_adapter_def)

text \<open>No tool but the two that are for it touches the supervisor.\<close>

lemma other_tools_supervisor:
  "hb_supervisor (snd (finops_pending_approvals su v args hub)) = hb_supervisor hub"
  "hb_supervisor (snd (finops_respond_approval su v args hub)) = hb_supervisor hub"
  "hb_supervisor (snd (finops_session_stats su v args hub)) = hb_supervisor hub"
  "hb_supervisor (snd (finops_replay_session su v args hub)) = hb_supervisor hub"
  "hb_supervisor (snd (finops_memory_write su v args hub)) = hb_supervisor hub"
  "hb_supervisor (snd (finops_memory_read su v args hub)) = hb_supervisor hub"
  "hb_supervisor (snd (finops_memory_forget_user su v args hub)) = hb_supervisor hub"
  unfolding finops_pending_approvals_def finops_respond_approval_def finops_session_stats_def finops_replay_session_def
    finops_memory_write_def finops_memory_read_def finops_memory_forget_user_def
  by ((rule check_then_keeps [where P = "\<lambda>h. hb_supervisor h = hb_supervisor hub"])+;
      simp add: Let_def case_prod_beta check_then_def decide_def split: sum.splits approval_error.splits)+

lemma halt_tool_supervisor:
  "is_halted sid (hb_supervisor hub) = Some h \<Longrightarrow>
   is_halted sid (hb_supervisor (snd (finops_halt_session su v args hub))) = Some h"
  unfolding finops_halt_session_def
  by ((rule check_then_keeps [where P = "\<lambda>h'. is_halted sid (hb_supervisor h') = Some h"])+;
      simp add: case_prod_beta is_halted_halt_keeps)

lemma resume_tool_supervisor:
  assumes "is_halted sid (hb_supervisor hub) = Some h" and "\<not> lifts sid ''finops_resume_session'' args"
  shows "is_halted sid (hb_supervisor (snd (finops_resume_session su v args hub))) = Some h"
proof -
  have other: "s \<noteq> sid" if "bind_args m [''session_id'', ''operator''] [(''reason'', PStr [])] args = Inr kw"
    "text_arg kw ''session_id'' 256 = Inr s" for m kw s
    using that assms(2) by (auto simp: lifts_def text_arg_value bind_args_value dget_or_def dget_Cons)
  show ?thesis unfolding finops_resume_session_def
    by ((rule check_then_keeps [where P = "\<lambda>h'. is_halted sid (hb_supervisor h') = Some h"])+;
      (use assms(1) other in \<open>auto simp: case_prod_beta is_halted_resume_other split: option.splits\<close>)?)
qed

lemma halt_tool_halts:
  assumes "fst (finops_halt_session su v args hub) = Inr x"
    and "sanitise_string (dget_or args ''session_id'' PNone) ''session_id'' 256 = Inr sid"
  shows "\<exists>h. is_halted sid (hb_supervisor (snd (finops_halt_session su v args hub))) = Some h"
proof -
  obtain kw where kw: "bind_args (sn_type_error v) [''session_id'', ''operator''] [(''reason'', PStr [])] args = Inr kw"
    using assms(1) by (auto simp: finops_halt_session_def check_then_def split: sum.splits)
  have "text_arg kw ''session_id'' 256 = Inr sid"
    using assms(2) by (auto simp: text_arg_value bind_args_value [OF kw] dget_or_def dget_Cons split: option.splits)
  with assms(1) kw show ?thesis
    by (auto simp: finops_halt_session_def check_then_def case_prod_beta Let_def is_halted_halt split: sum.splits)
qed

lemma tool_registered:
  "dget (mp_tools (tools_at mp su v)) tool = Some (doc, f) \<Longrightarrow> (tool, f) \<in> set (session_tools su v)"
  by (auto simp: tools_at_def session_tools_def dget_Cons split: if_splits)

lemma tool_keeps_halt:
  assumes "(tool, f) \<in> set (session_tools su v)" and "is_halted sid (hb_supervisor hub) = Some h" and "\<not> lifts sid tool args"
  shows "is_halted sid (hb_supervisor (snd (f args hub))) = Some h"
  using assms(1) unfolding session_tools_def
  by (auto simp: other_tools_supervisor assms(2) halt_tool_supervisor [OF assms(2)])
    (rule resume_tool_supervisor, use assms in \<open>simp_all add: lifts_def\<close>)

lemma call_keeps_halt:
  assumes "is_halted sid (hb_supervisor (mc_hub st)) = Some h" and "\<not> lifts sid tool args"
  shows "is_halted sid (hb_supervisor (mc_hub (snd (session_call mp su (v, sv, tool, args) st)))) = Some h"
proof (cases "dget (mp_tools (tools_at mp su sv)) tool")
  case None
  then show ?thesis using assms(1) by (simp add: session_call_def handle_tool_call_def)
next
  case (Some p)
  obtain doc f where p: "p = (doc, f)" by (cases p)
  let ?mp = "tools_at mp su sv"
  let ?rq = "call_request ?mp v tool args"
  have "\<not> lifts sid tool (rq_arguments ?rq)"
    using assms(2) by (simp add: lifts_def call_request_def dget_or_def)
  moreover have "hb_supervisor (observe_call ?mp ?rq (mc_hub st)) = hb_supervisor (mc_hub st)"
    by (simp add: observe_call_def)
  ultimately have ran: "is_halted sid (hb_supervisor (snd (f (rq_arguments ?rq) (observe_call ?mp ?rq (mc_hub st))))) = Some h"
    using tool_keeps_halt [OF tool_registered [OF Some [unfolded p]]] assms(1) by metis
  show ?thesis
    by (rule handle_cases [OF Some [unfolded p], of v args st]) (use assms(1) ran in \<open>simp_all add: session_call_def\<close>)
qed

lemma run_keeps_halt:
  assumes "is_halted sid (hb_supervisor (mc_hub st)) = Some h"
    and "\<forall>(v, sv, tool, args) \<in> set cs. \<not> lifts sid tool args"
  shows "is_halted sid (hb_supervisor (mc_hub (session_run mp su cs st))) = Some h"
  using assms
proof (induction cs arbitrary: st)
  case (Cons c cs)
  obtain v sv tool args where c: "c = (v, sv, tool, args)" by (cases c)
  show ?case
    using Cons.IH [OF call_keeps_halt [OF Cons.prems(1)]] Cons.prems(2) by (simp add: session_run_def c)
qed (simp add: session_run_def)

text \<open>
  C27: Once an operator's call of \<open>finops_halt_session\<close> has been answered with a halt, and whatever the
  clients call afterwards short of a resume that names the session, every call of the session is answered
  with that halt as a denial: no tool runs, the approval queue, the memory and the supervisor stay as they
  were, the denial is logged and no budget is charged. A halted session cannot resume itself.
\<close>

theorem operator_halt_holds:
  assumes "session_call mp su (v, sv, ''finops_halt_session'', args) st0 = (PDict ((''status'', PStr ''halted'') # d), st1)"
    and "sanitise_string (dget_or args ''session_id'' PNone) ''session_id'' 256 = Inr sid" and "sid \<noteq> []"
    and "\<forall>(v, sv, tool, args) \<in> set cs. \<not> lifts sid tool args"
    and "(tool, f) \<in> set (session_tools su sv')" and "rq_session_id (call_request mp v' tool args') = sid"
  defines "st \<equiv> session_run mp su cs st1"
  defines "r \<equiv> session_call mp su (v', sv', tool, args') st"
  shows "\<exists>h. is_halted sid (hb_supervisor (mc_hub st1)) = Some h \<and> fst r = status_dict ''denied'' (halt_reason h) \<and>
    hb_rest (mc_hub (snd r)) = hb_rest (mc_hub st) \<and>
    is_halted sid (hb_supervisor (mc_hub (snd r))) = Some h \<and>
    (\<forall>k b. dget (mc_budgets st) k = Some b \<longrightarrow> dget (mc_budgets (snd r)) k = Some b) \<and>
    (\<exists>e. au_entries (hb_audit (mc_hub (snd r))) = au_entries (hb_audit (mc_hub st)) @ [e] \<and> ae_outcome e = ''denied'')"
proof -
  let ?mp = "tools_at mp su sv"
  let ?rq = "call_request ?mp v ''finops_halt_session'' args"
  have tool: "dget (mp_tools ?mp) ''finops_halt_session'' = Some (None, finops_halt_session su sv)"
    by (simp add: tools_at_def session_tools_def dget_Cons)
  have sid: "sanitise_string (dget_or (rq_arguments ?rq) ''session_id'' PNone) ''session_id'' 256 = Inr sid"
    using assms(2) by (simp add: call_request_def dget_or_def)
  have "\<exists>h. is_halted sid (hb_supervisor (mc_hub st1)) = Some h"
  proof (rule handle_cases [OF tool, of v args st0])
    fix why assume "fst (handle_tool_call ?mp v ''finops_halt_session'' args st0) = status_dict ''denied'' why"
    then show ?thesis using assms(1) by (simp add: session_call_def status_dict_def)
  next
    let ?out = "finops_halt_session su sv (rq_arguments ?rq) (observe_call ?mp ?rq (mc_hub st0))"
    assume sup: "hb_supervisor (mc_hub (snd (handle_tool_call ?mp v ''finops_halt_session'' args st0))) = hb_supervisor (snd ?out)"
      and "case fst ?out of Inr x \<Rightarrow> fst (handle_tool_call ?mp v ''finops_halt_session'' args st0) = x
         | Inl (ty, m) \<Rightarrow> if m = [] then fst (handle_tool_call ?mp v ''finops_halt_session'' args st0) = PNone
             else (\<exists>e. fst (handle_tool_call ?mp v ''finops_halt_session'' args st0) = status_dict ''error'' e)"
    then obtain x where "fst ?out = Inr x"
      using assms(1) by (auto simp: session_call_def status_dict_def split: sum.splits if_splits)
    from halt_tool_halts [OF this sid] show ?thesis using sup assms(1) by (simp add: session_call_def)
  qed
  then obtain h where h: "is_halted sid (hb_supervisor (mc_hub st1)) = Some h" ..
  have halted: "is_halted sid (hb_supervisor (mc_hub st)) = Some h"
    unfolding st_def by (rule run_keeps_halt [OF h assms(4)])
  let ?mp' = "tools_at mp su sv'"
  obtain doc g where known: "dget (mp_tools ?mp') tool = Some (doc, g)"
    using assms(5) by (auto simp: tools_at_def session_tools_def dget_Cons)
  have rq: "rq_session_id (call_request ?mp' v' tool args') = sid"
    using assms(6) by (simp add: call_request_def tools_at_def)
  note denied = handle_halted [OF known, of v' args' st h, unfolded rq, OF assms(3) halted]
  have r: "r = handle_tool_call ?mp' v' tool args' st" by (simp add: r_def session_call_def)
  with h denied halted show ?thesis unfolding r by (intro exI [of _ h]) auto
qed

text \<open>Without limits, a registered tool of a session that is not halted runs.\<close>

lemma category_of_fold:
  "category_of (fold register (map (\<lambda>(name, t). \<lparr>tc_name = name, tc_category = EXECUTION, tc_description = []\<rparr>) ts) reg) tool =
     (if tool \<in> fst ` set ts then EXECUTION else category_of reg tool)"
  by (induction ts arbitrary: reg) (auto simp: register_def category_of_def)

lemma governor_category:
  "tool \<in> fst ` set (mp_tools mp) \<Longrightarrow> category_of (governor_registry mp) tool = EXECUTION"
  by (simp add: governor_registry_def init_registry_def category_of_fold)

lemma dget_key: "dget d k = Some x \<Longrightarrow> k \<in> fst ` set d"
  by (induction d) (auto simp: dget_Cons split: if_splits)

lemma handle_unlimited:
  assumes "dget (mp_tools mp) tool = Some (doc, f)" and "mp_enabled mp" and "mc_budgets st = []"
    and "mp_max_total_calls mp = 0" "mp_max_calls_per_tool mp = 0" "mp_max_runtime_seconds mp = 0"
    and "dget default_gates tool = None" and "rq_session_id (call_request mp v tool args) = []"
    and "fst (f (rq_arguments (call_request mp v tool args)) (mc_hub st)) = Inr x"
  shows "fst (handle_tool_call mp v tool args st) = x"
proof -
  let ?rq = "call_request mp v tool args"
  have hub: "observe_call mp ?rq (mc_hub st) = mc_hub st" using assms(8) by (simp add: observe_call_def)
  let ?env = "call_env mp f (mc_hub st)"
  let ?g0 = "\<lparr>gs_budget = budget_for_principal mp (rq_principal_id ?rq) st, gs_artifacts = mc_artifacts st, gs_world = mc_hub st\<rparr>"
  from handle_known [OF assms(1), of v args st] obtain res g where
    g: "governed_call ?env ?rq ?g0 = (Inr res, g)"
    and ans: "fst (handle_tool_call mp v tool args st) = fst (answer_call mp v ?rq res (gs_world g))"
    unfolding hub by (metis fst_conv)
  have "category_of (governor_registry mp) tool = EXECUTION"
    by (rule governor_category [OF dget_key [OF assms(1)]])
  moreover have "gs_budget ?g0 = init_budget (principal_limits mp) (mp_clock mp (mc_hub st))"
    by (simp add: budget_for_principal_def dget_or_def assms(3))
  ultimately have allow: "fst (gov_decide ?env ?rq st1) = ALLOW"
    if "gs_budget st1 = gs_budget ?g0" for st1
    using that assms(2,4-7)
    by (simp add: gov_decide_def call_env_def call_request_def policy_allows_def governor_policy_def can_admit_def
        init_budget_def principal_limits_def Let_def dget_or_def)
  have free: "gov_halted ?env ?rq = None" using assms(8) by (simp add: gov_halted_def call_env_def)
  from g show ?thesis
  proof (cases rule: governed_call_cases)
    case (executed st1)
    then have w: "gs_world st1 = mc_hub st" by (auto simp: call_env_def)
    have res: "res = fst (gov_execute ?env ?rq st1)" using executed by simp
    have "rs_allowed res"
      unfolding res by (auto simp: gov_execute_def Let_def deny_result_def split: prod.splits sum.splits)
    moreover have "rs_error res = [] \<and> rs_output res = x"
      using gov_execute_outcome [of ?env ?rq st1] assms(9) unfolding res by (simp add: call_env_def w)
    ultimately show ?thesis by (simp add: ans answer_call_def)
  qed (use allow [of ?g0] free in \<open>simp_all add: call_env_def\<close>)
qed

definition demo_session_setup :: "memory_table session_setup" where
  "demo_session_setup = \<lparr>ss_sha = demo_sha, ss_hmac = (\<lambda>k m. m), ss_memory = table_setup demo_sha isoformat None,
     ss_jt = isoformat\<rparr>"

definition demo_session_env :: session_env where
  "demo_session_env = \<lparr>sn_halt_id = ''h1'', sn_now = 5, sn_sweep = 5, sn_log = demo_env 0,
     sn_approval = \<lparr>ap_now = 5, ap_decision_id = ''d1'', ap_key = []\<rparr>, sn_snapshot = 0,
     sn_eval = \<lparr>ev_mono = 0, ev_detected_at = 0, ev_repr = (\<lambda>x. [])\<rparr>,
     sn_write = \<lparr>we_memory_id = ''m1'', we_created_at = 0, we_now = 0, we_emit = demo_emit\<rparr>,
     sn_reads = (\<lambda>n. demo_emit), sn_type_error = []\<rparr>"

definition demo_mcp :: "memory_table session_rest mcp_setup" where
  "demo_mcp = \<lparr>mp_tools = [], mp_enabled = True, mp_policy_name = ''finops-default'',
     mp_max_total_calls = 0, mp_max_calls_per_tool = 0, mp_max_runtime_seconds = 0, mp_clock = (\<lambda>h. 0),
     mp_sha = demo_sha, mp_repr = (\<lambda>v. [])\<rparr>"

definition demo_session_server :: "memory_table session_rest mcp_state" where
  "demo_session_server = \<lparr>mc_budgets = [], mc_artifacts = [],
     mc_hub = \<lparr>hb_audit = init_audit [], hb_observer = init_observer [], hb_supervisor = init_supervisor,
       hb_rest = \<lparr>sr_approvals = [], sr_memory = []\<rparr>\<rparr>\<rparr>"

lemma demo_halt_answered:
  obtains d st1 where "session_call demo_mcp demo_session_setup (demo_call, demo_session_env, ''finops_halt_session'',
      [(''session_id'', PStr ''s1''), (''operator'', PStr ''oncall'')]) demo_session_server =
    (PDict ((''status'', PStr ''halted'') # d), st1)"
proof -
  let ?args = "[(''session_id'', PStr ''s1''), (''operator'', PStr ''oncall'')]"
  let ?mp = "tools_at demo_mcp demo_session_setup demo_session_env"
  have tool: "dget (mp_tools ?mp) ''finops_halt_session'' = Some (None, finops_halt_session demo_session_setup demo_session_env)"
    by (simp add: tools_at_def session_tools_def dget_Cons)
  have rq: "rq_session_id (call_request ?mp demo_call ''finops_halt_session'' ?args) = []"
    "rq_arguments (call_request ?mp demo_call ''finops_halt_session'' ?args) = ?args"
    by (simp_all add: call_request_def reserved_arg_def demo_call_def dget_or_def dget_Cons str_or_def ddel_def)
  have clean: "sanitise_string (PStr ''s1'') ''session_id'' 256 = Inr ''s1''"
    "sanitise_string (PStr ''oncall'') ''operator'' 256 = Inr ''oncall''" "sanitise_string (PStr []) ''reason'' 2048 = Inr []"
    by code_simp+
  have "\<exists>d. fst (finops_halt_session demo_session_setup demo_session_env ?args (mc_hub demo_session_server)) =
      Inr (PDict ((''status'', PStr ''halted'') # d))"
    by (simp add: finops_halt_session_def bind_args_def dget_or_def dget_Cons dhas_def text_arg_def invalid_def clean
        case_prod_beta)
  then obtain d where "fst (finops_halt_session demo_session_setup demo_session_env ?args (mc_hub demo_session_server)) =
      Inr (PDict ((''status'', PStr ''halted'') # d))" ..
  from handle_unlimited [OF tool _ _ _ _ _ _ rq(1), unfolded rq(2), OF _ _ _ _ _ _ this]
  have "fst (handle_tool_call ?mp demo_call ''finops_halt_session'' ?args demo_session_server) =
      PDict ((''status'', PStr ''halted'') # d)"
    by (simp add: tools_at_def demo_mcp_def demo_session_server_def default_gates_def dget_Cons)
  then show ?thesis by (intro that prod_eqI) (simp_all add: session_call_def)
qed

theorem operator_halt_holds_witness:
  "\<exists>st h. is_halted ''s1'' (hb_supervisor (mc_hub st)) = Some h \<and>
     fst (session_call demo_mcp demo_session_setup (demo_call, demo_session_env, ''finops_resume_session'',
        [(''_session_id'', PStr ''s1''), (''session_id'', PStr ''s1''), (''operator'', PStr ''agent'')]) st) =
       status_dict ''denied'' (halt_reason h)"
proof -
  obtain d st1 where halted: "session_call demo_mcp demo_session_setup (demo_call, demo_session_env, ''finops_halt_session'',
      [(''session_id'', PStr ''s1''), (''operator'', PStr ''oncall'')]) demo_session_server =
    (PDict ((''status'', PStr ''halted'') # d), st1)" by (rule demo_halt_answered)
  have sid: "sanitise_string (dget_or [(''session_id'', PStr ''s1''), (''operator'', PStr ''oncall'')] ''session_id'' PNone)
      ''session_id'' 256 = Inr ''s1''" by code_simp
  have tool: "(''finops_resume_session'', finops_resume_session demo_session_setup demo_session_env) \<in>
      set (session_tools demo_session_setup demo_session_env)" by (simp add: session_tools_def)
  have rq: "rq_session_id (call_request demo_mcp demo_call ''finops_resume_session''
      [(''_session_id'', PStr ''s1''), (''session_id'', PStr ''s1''), (''operator'', PStr ''agent'')]) = ''s1''"
    by (simp add: call_request_def reserved_arg_def dget_or_def dget_Cons str_or_def)
  from operator_halt_holds [OF halted sid _ _ tool rq, of "[]"] show ?thesis
    by (auto simp: session_run_def)
qed

end
