(* ===== verification/Py_Access.thy ===== *)
theory Py_Access
  imports Prelude "HOL-Library.Monad_Syntax"
begin

text \<open>
  Reading nested Python values the way the provider integrations do: \<open>v.get(k, d)\<close>, \<open>v[k]\<close>, \<open>k in v\<close>,
  iteration. An operation a value does not support raises, the result \<open>None\<close>; the callers catch every
  exception alike.
\<close>

text \<open>\<open>v.get(k, d)\<close> and \<open>v.get(k)\<close>\<close>

definition py_get_or :: "pyval \<Rightarrow> string \<Rightarrow> pyval \<Rightarrow> pyval option" where
  "py_get_or v k d = (case v of PDict e \<Rightarrow> Some (dget_or e k d) | _ \<Rightarrow> None)"

text \<open>\<open>v or d\<close>\<close>

definition py_or :: "pyval \<Rightarrow> pyval \<Rightarrow> pyval" where
  "py_or v d = (if truthy v then v else d)"

text \<open>\<open>v.get(k) or {}\<close>\<close>

definition py_sub :: "pyval \<Rightarrow> string \<Rightarrow> pyval option" where
  "py_sub v k = map_option (\<lambda>x. py_or x (PDict [])) (py_get_or v k PNone)"

text \<open>\<open>v[k]\<close> for a text \<open>k\<close>, \<open>v[0]\<close> and \<open>v[-1]\<close>; the keys of a dictionary are texts.\<close>

definition py_key :: "pyval \<Rightarrow> string \<Rightarrow> pyval option" where
  "py_key v k = (case v of PDict e \<Rightarrow> dget e k | _ \<Rightarrow> None)"

fun py_first :: "pyval \<Rightarrow> pyval option" where
  "py_first (PList (x # xs)) = Some x"
| "py_first (PStr (c # s)) = Some (PStr [c])"
| "py_first v = None"

text \<open>\<open>k in v\<close> for a text \<open>k\<close>\<close>

fun py_has :: "pyval \<Rightarrow> string \<Rightarrow> bool option" where
  "py_has (PDict e) k = Some (dhas e k)"
| "py_has (PList xs) k = Some (PStr k \<in> set xs)"
| "py_has (PStr s) k = Some (substr k s)"
| "py_has v k = None"

text \<open>\<open>for x in v\<close> and \<open>len(v)\<close>\<close>

fun py_iter :: "pyval \<Rightarrow> pyval list option" where
  "py_iter (PList xs) = Some xs"
| "py_iter (PDict e) = Some (map (PStr \<circ> fst) e)"
| "py_iter (PStr s) = Some (map (\<lambda>c. PStr [c]) s)"
| "py_iter v = None"

definition py_len :: "pyval \<Rightarrow> int option" where
  "py_len v = map_option (int \<circ> length) (py_iter v)"

text \<open>A field of a Pydantic model of type \<open>str\<close> or \<open>dict\<close> takes nothing else.\<close>

definition as_text :: "pyval \<Rightarrow> string option" where
  "as_text v = (case v of PStr s \<Rightarrow> Some s | _ \<Rightarrow> None)"

definition as_dict :: "pyval \<Rightarrow> (string, pyval) dict option" where
  "as_dict v = (case v of PDict d \<Rightarrow> Some d | _ \<Rightarrow> None)"

text \<open>\<open>table.get(v)\<close> of a table of texts: a list or dictionary is not hashable.\<close>

definition table_lookup :: "(string, 'a) dict \<Rightarrow> pyval \<Rightarrow> 'a option option" where
  "table_lookup t v = (case v of PStr s \<Rightarrow> Some (dget t s) | PList xs \<Rightarrow> None | PDict d \<Rightarrow> None | _ \<Rightarrow> Some None)"

text \<open>\<open>s.split("/")[-1] if "/" in s else s\<close>\<close>

definition after_slash :: "string \<Rightarrow> string" where
  "after_slash s = (if CHR ''/'' \<in> set s then List.last (split_on (CHR ''/'') s) else s)"

lemma py_get_or_Some: "py_get_or v k d = Some x \<longleftrightarrow> (\<exists>e. v = PDict e \<and> x = dget_or e k d)"
  by (auto simp: py_get_or_def split: pyval.splits)

lemma py_key_Some: "py_key v k = Some x \<longleftrightarrow> (\<exists>e. v = PDict e \<and> dget e k = Some x)"
  by (auto simp: py_key_def split: pyval.splits)

lemma as_text_Some [simp]: "as_text v = Some s \<longleftrightarrow> v = PStr s"
  by (auto simp: as_text_def split: pyval.splits)

lemma as_value [simp]: "as_text (PStr s) = Some s" "as_dict (PDict d) = Some d"
  by (simp_all add: as_text_def as_dict_def)

lemma as_dict_Some [simp]: "as_dict v = Some d \<longleftrightarrow> v = PDict d"
  by (auto simp: as_dict_def split: pyval.splits)

lemma table_lookup_value: "table_lookup t v = Some (Some x) \<Longrightarrow> x \<in> set (dvalues t)"
  by (auto simp: table_lookup_def split: pyval.splits dest: dget_in_values)

end
