(* ===== verification/Listeners.thy ===== *)
theory Listeners
  imports Py_Access Models Pricing Cost_Monitor
begin

text \<open>
  The event sources of the cost monitor: \<open>providers/aws/listener.py\<close> over CloudTrail,
  \<open>providers/gcp/listener.py\<close> over Cloud Audit Logs, and their \<open>cost_analyzer.py\<close>. What the cloud
  clients answer, Pydantic's reading of a datetime and \<open>datetime.fromisoformat\<close> are arguments. An
  exception inside one region or project is caught there: it ends that region's events only.
\<close>

section \<open>Shared steps\<close>

text \<open>Identifiers and clock of the \<open>n\<close>-th event an answer creates.\<close>

record event_ids =
  ei_event_id :: string
  ei_correlation_id :: string
  ei_now :: timestamp

text \<open>\<open>timedelta(minutes=v)\<close> in microseconds, rounded to the nearest as \<open>timedelta\<close> does.\<close>

definition minutes_us :: "pyval \<Rightarrow> int option" where
  "minutes_us v = (case v of PInt i \<Rightarrow> Some (i * 60000000) | PBool b \<Rightarrow> Some (if b then 60000000 else 0)
     | PFloat x \<Rightarrow> Some (round_half_even (x * 60000000)) | _ \<Rightarrow> None)"

text \<open>The loop over the raw events of one region or project.\<close>

fun translate_all :: "(nat \<Rightarrow> pyval \<Rightarrow> resource_event option option) \<Rightarrow> nat \<Rightarrow> pyval list \<Rightarrow> resource_event list" where
  "translate_all f n [] = []"
| "translate_all f n (raw # raws) = (case f n raw of
     None \<Rightarrow> []
   | Some None \<Rightarrow> translate_all f n raws
   | Some (Some e) \<Rightarrow> e # translate_all f (n + 1) raws)"

text \<open>The loop over regions or projects.\<close>

fun listen_each :: "(nat \<Rightarrow> pyval \<Rightarrow> 'w \<Rightarrow> resource_event list \<times> 'w) \<Rightarrow> nat \<Rightarrow> pyval list \<Rightarrow> 'w \<Rightarrow>
    resource_event list \<times> 'w" where
  "listen_each f n [] w = ([], w)"
| "listen_each f n (x # xs) w =
     (let (es, w1) = f n x w; (rest, w2) = listen_each f (n + length es) xs w1 in (es @ rest, w2))"

section \<open>AWS\<close>

definition CREATION_EVENTS :: "(string, string) dict" where
  "CREATION_EVENTS =
     [(''RunInstances'', ''ec2:instance''), (''CreateDBInstance'', ''rds:db''), (''CreateDBCluster'', ''rds:cluster''),
      (''CreateCluster'', ''eks:cluster''), (''CreateBucket'', ''s3:bucket''),
      (''CreateFunction20150331'', ''lambda:function''), (''CreateCacheCluster'', ''elasticache:cluster''),
      (''CreateReplicationGroup'', ''elasticache:replication-group''), (''CreateNatGateway'', ''nat_gateway''),
      (''CreateLoadBalancer'', ''elb:load-balancer''), (''CreateVolume'', ''ebs:volume'')]"

text \<open>
  \<open>al_client\<close> tells whether a client for the region could be made, \<open>al_lookup\<close> answers
  \<open>lookup_events\<close> for a region, an event name and a start time, \<open>None\<close> when it raises.
\<close>

record 'w aws_listener =
  al_boto3 :: bool
  al_client :: "pyval \<Rightarrow> 'w \<Rightarrow> bool \<times> 'w"
  al_lookup :: "pyval \<Rightarrow> string \<Rightarrow> timestamp \<Rightarrow> 'w \<Rightarrow> pyval option \<times> 'w"
  al_clock :: "'w \<Rightarrow> timestamp"
  al_ids :: "nat \<Rightarrow> event_ids"
  al_datetime :: "pyval \<Rightarrow> timestamp option"

definition aws_estimate :: "string \<Rightarrow> price_config \<Rightarrow> real option" where
  "aws_estimate rt c = local_monthly_cost ''aws'' rt c None"

definition aws_creator_identity :: "pyval \<Rightarrow> (pyval \<times> pyval) option" where
  "aws_creator_identity raw = do {
     ui \<leftarrow> py_get_or raw ''userIdentity'' (PDict []);
     pid \<leftarrow> py_get_or ui ''principalId'' (PStr ''unknown'');
     principal \<leftarrow> py_get_or ui ''arn'' pid;
     email \<leftarrow> py_get_or ui ''userName'' (PStr []);
     session \<leftarrow> (if truthy email then Some False else py_has ui ''sessionContext'');
     email \<leftarrow> (if \<not> session then Some email else do {
       sc \<leftarrow> py_key ui ''sessionContext'';
       si \<leftarrow> py_get_or sc ''sessionIssuer'' (PDict []);
       py_get_or si ''userName'' (PStr [])});
     Some (principal, email)}"

definition aws_resource_config :: "pyval \<Rightarrow> string \<Rightarrow> price_config option" where
  "aws_resource_config raw rt = do {
     params \<leftarrow> py_get_or raw ''requestParameters'' (PDict []);
     if rt = ''ec2:instance'' then do {
       ty \<leftarrow> py_get_or params ''instanceType'' (PStr ''m5.large'');
       is \<leftarrow> py_get_or params ''instancesSet'' (PDict []);
       items \<leftarrow> py_get_or is ''items'' (PList [PDict []]);
       n \<leftarrow> (if truthy items then py_len items else Some 1);
       Some [(''instance_type'', ty), (''count'', PInt n)]}
     else if rt = ''rds:db'' then do {
       cls \<leftarrow> py_get_or params ''dBInstanceClass'' (PStr ''db.m5.large'');
       eng \<leftarrow> py_get_or params ''engine'' (PStr ''postgres'');
       az \<leftarrow> py_get_or params ''multiAZ'' (PBool False);
       Some [(''instance_class'', cls), (''engine'', eng), (''multi_az'', az)]}
     else if rt = ''eks:cluster'' then Some [(''node_count'', PInt 3)]
     else if rt = ''nat_gateway'' then Some [(''count'', PInt 1)]
     else Some []}"

definition aws_resource_id :: "pyval \<Rightarrow> pyval option" where
  "aws_resource_id raw = do {
     resources \<leftarrow> py_get_or raw ''Resources'' (PList []);
     if truthy resources then do { r \<leftarrow> py_first resources; py_key r ''ResourceName'' } else Some (PStr ''unknown'')}"

definition event_time :: "(pyval \<Rightarrow> timestamp option) \<Rightarrow> timestamp \<Rightarrow> pyval \<Rightarrow> string \<Rightarrow> timestamp option" where
  "event_time parse now raw k = (case raw of
     PDict d \<Rightarrow> (case dget d k of None \<Rightarrow> Some now | Some v \<Rightarrow> parse v) | _ \<Rightarrow> None)"

definition aws_translate :: "'w aws_listener \<Rightarrow> pyval \<Rightarrow> nat \<Rightarrow> pyval \<Rightarrow> resource_event option option" where
  "aws_translate su region n raw = do {
     name \<leftarrow> py_get_or raw ''EventName'' (PStr []);
     ty \<leftarrow> table_lookup CREATION_EVENTS name;
     case ty of None \<Rightarrow> Some None | Some rt \<Rightarrow> do {
       (principal, email) \<leftarrow> aws_creator_identity raw;
       rid \<leftarrow> aws_resource_id raw;
       config \<leftarrow> aws_resource_config raw rt;
       cost \<leftarrow> aws_estimate rt config;
       t \<leftarrow> event_time (al_datetime su) (ei_now (al_ids su n)) raw ''EventTime'';
       account \<leftarrow> Option.bind (py_get_or raw ''recipientAccountId'' (PStr ''unknown'')) as_text;
       name \<leftarrow> Option.bind (py_get_or raw ''ResourceName'' (PStr [])) as_text;
       region \<leftarrow> as_text region;
       rid \<leftarrow> as_text rid;
       principal \<leftarrow> as_text principal;
       email \<leftarrow> as_text email;
       d \<leftarrow> as_dict raw;
       Some (Some \<lparr>ev_event_id = ei_event_id (al_ids su n), ev_correlation_id = ei_correlation_id (al_ids su n),
         ev_provider = AWS, ev_timestamp = t, ev_account_id = account, ev_region = region,
         ev_resource_type = rt, ev_resource_id = rid, ev_resource_name = name, ev_creator_identity = principal,
         ev_creator_email = email, ev_cost = cost, ev_purchase_type = ''on-demand'', ev_tags = [],
         ev_raw_event = d\<rparr>)}}"

text \<open>A lookup that raises, or answers something that cannot be read, loses that event name only.\<close>

definition aws_answer :: "pyval option \<Rightarrow> pyval list" where
  "aws_answer r = (case Option.bind r (\<lambda>resp. Option.bind (py_get_or resp ''Events'' (PList [])) py_iter) of
     None \<Rightarrow> [] | Some es \<Rightarrow> es)"

fun aws_lookup_each :: "'w aws_listener \<Rightarrow> pyval \<Rightarrow> timestamp \<Rightarrow> string list \<Rightarrow> 'w \<Rightarrow> pyval list \<times> 'w" where
  "aws_lookup_each su region start [] w = ([], w)"
| "aws_lookup_each su region start (name # names) w =
     (let (r, w1) = al_lookup su region name start w; (rest, w2) = aws_lookup_each su region start names w1
      in (aws_answer r @ rest, w2))"

definition aws_raws :: "'w aws_listener \<Rightarrow> pyval \<Rightarrow> pyval \<Rightarrow> 'w \<Rightarrow> pyval list \<times> 'w" where
  "aws_raws su lookback region w =
     (case al_client su region w of
        (False, w1) \<Rightarrow> ([], w1)
      | (True, w1) \<Rightarrow> (case minutes_us lookback of
          None \<Rightarrow> ([], w1)
        | Some us \<Rightarrow> aws_lookup_each su region (al_clock su w1 - us) (map fst CREATION_EVENTS) w1))"

definition aws_region :: "'w aws_listener \<Rightarrow> pyval \<Rightarrow> nat \<Rightarrow> pyval \<Rightarrow> 'w \<Rightarrow> resource_event list \<times> 'w" where
  "aws_region su lookback n region w =
     (let (raws, w1) = aws_raws su lookback region w in (translate_all (aws_translate su region) n raws, w1))"

definition aws_listen :: "'w aws_listener \<Rightarrow> (string, pyval) dict \<Rightarrow> 'w \<Rightarrow> (string + resource_event list) \<times> 'w" where
  "aws_listen su config w =
     (if \<not> al_boto3 su then (Inr [], w)
      else case py_iter (dget_or config ''regions'' (PList [PStr ''eu-west-2''])) of
        None \<Rightarrow> (Inl ''TypeError'', w)
      | Some regions \<Rightarrow>
          (let (es, w1) = listen_each (aws_region su (dget_or config ''lookback_minutes'' (PInt 15))) 0 regions w
           in (Inr es, w1)))"

section \<open>GCP\<close>

definition CREATION_METHODS :: "(string, string) dict" where
  "CREATION_METHODS =
     [(''v1.compute.instances.insert'', ''compute.instances''), (''v1.compute.disks.insert'', ''compute.disks''),
      (''cloudsql.instances.create'', ''cloudsql.instances''),
      (''google.container.v1.ClusterManager.CreateCluster'', ''container.clusters''),
      (''storage.buckets.create'', ''storage.buckets''),
      (''google.cloud.functions.v2.FunctionService.CreateFunction'', ''cloudfunctions.functions''),
      (''google.cloud.bigquery.v2.DatasetService.InsertDataset'', ''bigquery.datasets''),
      (''google.cloud.redis.v1.CloudRedis.CreateInstance'', ''redis.instances''),
      (''google.cloud.memcache.v1.CloudMemcache.CreateInstance'', ''memcache.instances''),
      (''google.pubsub.v1.Subscriber.CreateSubscription'', ''pubsub.subscriptions''),
      (''v1.compute.addresses.insert'', ''compute.addresses'')]"

text \<open>\<open>gl_list\<close> answers the entries \<open>list_entries\<close> yields for a project and a filter before it ends or raises.\<close>

record 'w gcp_listener =
  gl_client :: bool
  gl_list :: "pyval \<Rightarrow> string \<Rightarrow> 'w \<Rightarrow> pyval list \<times> 'w"
  gl_clock :: "'w \<Rightarrow> timestamp"
  gl_ids :: "nat \<Rightarrow> event_ids"
  gl_fromiso :: "string \<Rightarrow> timestamp option"

definition gcp_estimate :: "string \<Rightarrow> price_config \<Rightarrow> real option" where
  "gcp_estimate rt c = local_monthly_cost ''gcp'' rt c None"

definition gcp_creator_identity :: "pyval \<Rightarrow> (pyval \<times> pyval) option" where
  "gcp_creator_identity raw = do {
     payload \<leftarrow> py_get_or raw ''protoPayload'' (PDict []);
     auth \<leftarrow> py_get_or payload ''authenticationInfo'' (PDict []);
     principal \<leftarrow> py_get_or auth ''principalEmail'' (PStr ''unknown'');
     Some (principal, principal)}"

definition gcp_region :: "pyval \<Rightarrow> pyval option" where
  "gcp_region raw = do {
     resource \<leftarrow> py_get_or raw ''resource'' (PDict []);
     labels \<leftarrow> py_get_or resource ''labels'' (PDict []);
     location \<leftarrow> py_get_or labels ''location'' (PStr ''europe-west2'');
     py_get_or labels ''zone'' location}"

text \<open>
  A machine type that is not a text raises: at \<open>in\<close>, at \<open>split\<close>, or, a list or dictionary without a
  slash, when the estimator looks it up.
\<close>

definition gcp_resource_config :: "pyval \<Rightarrow> string \<Rightarrow> price_config option" where
  "gcp_resource_config raw rt = do {
     payload \<leftarrow> py_get_or raw ''protoPayload'' (PDict []);
     request \<leftarrow> py_get_or payload ''request'' (PDict []);
     if rt = ''compute.instances'' then do {
       mt \<leftarrow> Option.bind (py_get_or request ''machineType'' (PStr ''n2-standard-2'')) as_text;
       Some [(''machine_type'', PStr (after_slash mt))]}
     else if rt = ''cloudsql.instances'' then do {
       settings \<leftarrow> py_get_or request ''settings'' (PDict []);
       tier \<leftarrow> py_get_or settings ''tier'' (PStr ''db-custom-2-7680'');
       availability \<leftarrow> py_get_or settings ''availabilityType'' (PStr ''ZONAL'');
       Some [(''tier'', tier), (''availability_type'', availability)]}
     else if rt = ''container.clusters'' then do {
       pools \<leftarrow> py_get_or request ''nodePools'' (PList [PDict []]);
       if truthy pools then do {
         pool \<leftarrow> py_first pools;
         nodes \<leftarrow> py_get_or pool ''initialNodeCount'' (PInt 3);
         node_config \<leftarrow> py_get_or pool ''config'' (PDict []);
         mt \<leftarrow> py_get_or node_config ''machineType'' (PStr ''n2-standard-2'');
         Some [(''node_count'', nodes), (''machine_type'', mt)]}
       else Some []}
     else Some []}"

text \<open>A resource name that is not a text raises, at \<open>in\<close>, at \<open>split\<close> or in the model's field.\<close>

definition gcp_translate :: "'w gcp_listener \<Rightarrow> pyval \<Rightarrow> nat \<Rightarrow> pyval \<Rightarrow> resource_event option option" where
  "gcp_translate su project n raw = do {
     payload \<leftarrow> py_get_or raw ''protoPayload'' (PDict []);
     name \<leftarrow> py_get_or payload ''methodName'' (PStr []);
     ty \<leftarrow> table_lookup CREATION_METHODS name;
     case ty of None \<Rightarrow> Some None | Some rt \<Rightarrow> do {
       (principal, email) \<leftarrow> gcp_creator_identity raw;
       name \<leftarrow> Option.bind (py_get_or payload ''resourceName'' (PStr ''unknown'')) as_text;
       config \<leftarrow> gcp_resource_config raw rt;
       cost \<leftarrow> gcp_estimate rt config;
       region \<leftarrow> Option.bind (gcp_region raw) as_text;
       t \<leftarrow> event_time (\<lambda>v. Option.bind (as_text v) (gl_fromiso su)) (ei_now (gl_ids su n)) raw ''timestamp'';
       account \<leftarrow> as_text project;
       principal \<leftarrow> as_text principal;
       email \<leftarrow> as_text email;
       d \<leftarrow> as_dict raw;
       Some (Some \<lparr>ev_event_id = ei_event_id (gl_ids su n), ev_correlation_id = ei_correlation_id (gl_ids su n),
         ev_provider = GCP, ev_timestamp = t, ev_account_id = account, ev_region = region,
         ev_resource_type = rt, ev_resource_id = after_slash name, ev_resource_name = name,
         ev_creator_identity = principal, ev_creator_email = email, ev_cost = cost,
         ev_purchase_type = ''on-demand'', ev_tags = [], ev_raw_event = d\<rparr>)}}"

text \<open>\<open>t.strftime("%Y-%m-%dT%H:%M:%SZ")\<close>\<close>

definition rfc3339 :: "timestamp \<Rightarrow> string" where
  "rfc3339 t = (let s = t mod us_per_day div 1000000
     in date_str t @ ''T'' @ pad_nat 2 (nat (s div 3600)) @ '':'' @ pad_nat 2 (nat (s div 60 mod 60)) @ '':'' @
        pad_nat 2 (nat (s mod 60)) @ ''Z'')"

definition gcp_filter :: "timestamp \<Rightarrow> string" where
  "gcp_filter since =
     ''logName:\"cloudaudit.googleapis.com%2Factivity\" AND ('' @
     join '' OR '' (map (\<lambda>(name, ty). ''protoPayload.methodName=\"'' @ name @ ''\"'') CREATION_METHODS) @
     '') AND timestamp>=\"'' @ rfc3339 since @ ''\"''"

definition gcp_raws :: "'w gcp_listener \<Rightarrow> pyval \<Rightarrow> pyval \<Rightarrow> 'w \<Rightarrow> pyval list \<times> 'w" where
  "gcp_raws su lookback project w =
     (case minutes_us lookback of
        None \<Rightarrow> ([], w)
      | Some us \<Rightarrow> gl_list su project (gcp_filter (gl_clock su w - us)) w)"

definition gcp_project :: "'w gcp_listener \<Rightarrow> pyval \<Rightarrow> nat \<Rightarrow> pyval \<Rightarrow> 'w \<Rightarrow> resource_event list \<times> 'w" where
  "gcp_project su lookback n project w =
     (let (raws, w1) = gcp_raws su lookback project w in (translate_all (gcp_translate su project) n raws, w1))"

definition gcp_listen :: "'w gcp_listener \<Rightarrow> (string, pyval) dict \<Rightarrow> 'w \<Rightarrow> (string + resource_event list) \<times> 'w" where
  "gcp_listen su config w =
     (if \<not> gl_client su then (Inr [], w)
      else case py_iter (dget_or config ''project_ids'' (PList [])) of
        None \<Rightarrow> (Inl ''TypeError'', w)
      | Some projects \<Rightarrow>
          (let (es, w1) = listen_each (gcp_project su (dget_or config ''lookback_minutes'' (PInt 15))) 0 projects w
           in (Inr es, w1)))"

section \<open>What a poll reports\<close>

text \<open>Of a source's raw events: those the translation does not raise on, and those of a listed creation.\<close>

type_synonym translation = "pyval \<Rightarrow> nat \<Rightarrow> pyval \<Rightarrow> resource_event option option"

definition readable :: "translation \<Rightarrow> pyval \<Rightarrow> pyval \<Rightarrow> bool" where
  "readable translate src raw \<longleftrightarrow> translate src 0 raw \<noteq> None"

definition creation :: "translation \<Rightarrow> pyval \<Rightarrow> pyval \<Rightarrow> bool" where
  "creation translate src raw \<longleftrightarrow> (case translate src 0 raw of Some (Some e) \<Rightarrow> True | _ \<Rightarrow> False)"

definition reported :: "translation \<Rightarrow> pyval \<times> pyval list \<Rightarrow> pyval list" where
  "reported translate x = filter (creation translate (fst x)) (takeWhile (readable translate (fst x)) (snd x))"

text \<open>What the sources answer, one after the other.\<close>

fun poll_sources :: "(pyval \<Rightarrow> 'w \<Rightarrow> pyval list \<times> 'w) \<Rightarrow> pyval list \<Rightarrow> 'w \<Rightarrow> pyval list list \<times> 'w" where
  "poll_sources raws [] w = ([], w)"
| "poll_sources raws (src # srcs) w =
     (let (xs, w1) = raws src w; (rest, w2) = poll_sources raws srcs w1 in (xs # rest, w2))"

text \<open>
  A listener's translation of one raw event of a source (a region or a project): the event carries the raw
  event and the listener's provider, and neither the outcome nor its kind depends on the identifiers drawn.
  A source is polled for raw events, whatever has been reported before.
\<close>

locale event_source =
  fixes translate :: translation and provider :: cloud_provider
    and poll :: "nat \<Rightarrow> pyval \<Rightarrow> 'w \<Rightarrow> resource_event list \<times> 'w" and raws :: "pyval \<Rightarrow> 'w \<Rightarrow> pyval list \<times> 'w"
  assumes translated: "translate src n raw = Some (Some e) \<Longrightarrow> raw = PDict (ev_raw_event e) \<and> ev_provider e = provider"
    and kind_fixed: "map_option (\<lambda>r. r \<noteq> None) (translate src n raw) = map_option (\<lambda>r. r \<noteq> None) (translate src m raw)"
    and polled: "poll n src w = map_prod (translate_all (translate src) n) id (raws src w)"
begin

lemma translate_cases:
  "(translate src n raw = None \<longleftrightarrow> \<not> readable translate src raw) \<and>
   (translate src n raw = Some None \<longleftrightarrow> readable translate src raw \<and> \<not> creation translate src raw)"
  using kind_fixed [of src n raw 0]
  by (cases "translate src n raw"; cases "translate src 0 raw") (auto simp: readable_def creation_def split: option.splits)

lemma translate_all_raws:
  "map (PDict \<circ> ev_raw_event) (translate_all (translate src) n xs) = reported translate (src, xs)"
proof (induction xs arbitrary: n)
  case (Cons raw xs)
  consider "translate src n raw = None" | "translate src n raw = Some None"
    | e where "translate src n raw = Some (Some e)"
    by (cases "translate src n raw") auto
  then show ?case
  proof cases
    case (3 e)
    then have "readable translate src raw" "creation translate src raw" "raw = PDict (ev_raw_event e)"
      using translate_cases [of src n raw] translated [OF 3] by auto
    with 3 Cons.IH show ?thesis by (simp add: reported_def)
  qed (use translate_cases [of src n raw] Cons.IH in \<open>auto simp: reported_def\<close>)
qed (simp add: reported_def)

lemma translate_all_events:
  "e \<in> set (translate_all (translate src) n xs) \<Longrightarrow> \<exists>m. translate src m (PDict (ev_raw_event e)) = Some (Some e)"
proof (induction xs arbitrary: n)
  case (Cons raw xs)
  consider "translate src n raw = None" | "translate src n raw = Some None"
    | e' where "translate src n raw = Some (Some e')"
    by (cases "translate src n raw") auto
  then show ?case
  proof cases
    case (3 e')
    with Cons show ?thesis using translated [OF 3] by auto
  qed (use Cons in auto)
qed simp

lemma listen_each_exact:
  assumes "listen_each poll n srcs w = (es, w')"
  shows "map (PDict \<circ> ev_raw_event) es = concat (map (reported translate) (zip srcs (fst (poll_sources raws srcs w)))) \<and>
    w' = snd (poll_sources raws srcs w) \<and>
    (\<forall>e \<in> set es. \<exists>src \<in> set srcs. \<exists>m. translate src m (PDict (ev_raw_event e)) = Some (Some e))"
  using assms
proof (induction srcs arbitrary: n w es w')
  case (Cons src srcs)
  obtain xs w1 where xs: "raws src w = (xs, w1)" by fastforce
  obtain rest w2 where rest: "listen_each poll (n + length (translate_all (translate src) n xs)) srcs w1 = (rest, w2)"
    by fastforce
  from Cons.prems have es: "es = translate_all (translate src) n xs @ rest" "w' = w2"
    using polled [of n src w] by (auto simp: xs rest Let_def)
  from Cons.IH [OF rest] show ?case
    using translate_all_events [of _ src n xs]
    by (auto simp: es xs translate_all_raws [unfolded comp_def] Let_def case_prod_beta)
qed simp

end

text \<open>Two translations that differ in what they draw only.\<close>

definition same_kind :: "'a option option \<Rightarrow> 'b option option \<Rightarrow> bool" where
  "same_kind x y \<longleftrightarrow> map_option (\<lambda>r. r \<noteq> None) x = map_option (\<lambda>r. r \<noteq> None) y"

lemma same_kind_intros:
  "same_kind None None" "same_kind (Some None) (Some None)" "same_kind (Some (Some e)) (Some (Some e'))"
  "(\<And>x. same_kind (f x) (g x)) \<Longrightarrow> same_kind (Option.bind r f) (Option.bind r g)"
  by (simp_all add: same_kind_def split: Option.bind_splits)

lemma same_kind_time:
  "(\<And>t u. same_kind (f t) (g u)) \<Longrightarrow>
     same_kind (Option.bind (event_time parse a raw k) f) (Option.bind (event_time parse b raw k) g)"
  by (auto simp: event_time_def same_kind_def split: Option.bind_splits pyval.splits option.splits)

lemma aws_same_kind: "same_kind (aws_translate su region n raw) (aws_translate su region m raw)"
  unfolding aws_translate_def
  by (intro same_kind_intros same_kind_time) (auto split: option.splits prod.splits intro!: same_kind_intros same_kind_time)

lemma gcp_same_kind: "same_kind (gcp_translate su project n raw) (gcp_translate su project m raw)"
  unfolding gcp_translate_def
  by (intro same_kind_intros same_kind_time) (auto split: option.splits prod.splits intro!: same_kind_intros same_kind_time)

lemma aws_translate_Some:
  assumes "aws_translate su region n raw = Some (Some e)"
  shows "raw = PDict (ev_raw_event e) \<and> ev_provider e = AWS \<and> ev_resource_type e \<in> set (dvalues CREATION_EVENTS) \<and>
    region = PStr (ev_region e) \<and> ev_event_id e = ei_event_id (al_ids su n) \<and>
    (\<exists>c. aws_resource_config raw (ev_resource_type e) = Some c \<and> aws_estimate (ev_resource_type e) c = Some (ev_cost e))"
  using assms table_lookup_value
  by (fastforce simp: aws_translate_def split: Option.bind_splits option.splits prod.splits)

lemma gcp_translate_Some:
  assumes "gcp_translate su project n raw = Some (Some e)"
  shows "raw = PDict (ev_raw_event e) \<and> ev_provider e = GCP \<and> ev_resource_type e \<in> set (dvalues CREATION_METHODS) \<and>
    project = PStr (ev_account_id e) \<and> ev_event_id e = ei_event_id (gl_ids su n) \<and>
    (\<exists>c. gcp_resource_config raw (ev_resource_type e) = Some c \<and> gcp_estimate (ev_resource_type e) c = Some (ev_cost e))"
  using assms table_lookup_value
  by (fastforce simp: gcp_translate_def split: Option.bind_splits option.splits prod.splits)

interpretation aws_source: event_source "aws_translate su" AWS "aws_region su lookback" "aws_raws su lookback" for su lookback
  by (unfold_locales, blast dest: aws_translate_Some, rule aws_same_kind [unfolded same_kind_def],
    simp add: aws_region_def map_prod_def case_prod_beta Let_def)

interpretation gcp_source: event_source "gcp_translate su" GCP "gcp_project su lookback" "gcp_raws su lookback" for su lookback
  by (unfold_locales, blast dest: gcp_translate_Some, rule gcp_same_kind [unfolded same_kind_def],
    simp add: gcp_project_def map_prod_def case_prod_beta Let_def)

text \<open>The configuration read from a CloudTrail event never makes a negative estimate.\<close>

lemma count_nonneg: "0 \<le> n \<Longrightarrow> dget c k = Some (PInt n) \<Longrightarrow> nonneg_price (number c k d)"
  by (simp add: number_def nonneg_price_def)

lemma default_nonneg: "0 \<le> d \<Longrightarrow> dget c k = None \<Longrightarrow> nonneg_price (number c k d)"
  by (simp add: number_def nonneg_price_def)

lemma estimated_nonneg: "dget es rt = Some f \<Longrightarrow> nonneg_price (f c) \<Longrightarrow> nonneg_price (estimate es rt c)"
  by (auto simp: estimate_def nonneg_price_def round2_nonneg split: option.splits)

lemma aws_config_nonneg:
  assumes "aws_resource_config raw rt = Some c"
  shows "nonneg_price (aws_estimate rt c)"
proof -
  consider "rt = ''ec2:instance''" | "rt = ''rds:db''" | "numbers_nonneg c"
    using assms by (auto simp: aws_resource_config_def numbers_nonneg_def dget_Cons
        split: Option.bind_splits if_splits)
  then show ?thesis
  proof cases
    case 1
    then obtain ty n where c: "c = [(''instance_type'', ty), (''count'', PInt n)]" "0 \<le> n"
      using assms by (auto simp: aws_resource_config_def py_len_def split: Option.bind_splits if_splits)
    have "nonneg_price (aws_ec2 c)" unfolding aws_ec2_def
      by (intro price_nonneg count_nonneg [of n]) (auto simp: c dget_Cons)
    then show ?thesis
      by (simp add: 1 aws_estimate_def local_monthly_cost_def estimated_nonneg aws_estimators_def dget_Cons)
  next
    case 2
    then have "nonneg_price (aws_rds c)" unfolding aws_rds_def
      using assms by (intro price_nonneg default_nonneg)
        (auto simp: aws_resource_config_def dget_Cons split: Option.bind_splits if_splits)
    then show ?thesis
      by (simp add: 2 aws_estimate_def local_monthly_cost_def estimated_nonneg aws_estimators_def dget_Cons)
  next
    case 3
    then show ?thesis
      using monthly_cost_nonneg [of c "''aws''" rt None]
      by (auto simp: aws_estimate_def nonneg_price_def split: option.splits)
  qed
qed

lemma cloudtrail_poll_exact':
  assumes "al_boto3 su" and "py_iter (dget_or config ''regions'' (PList [PStr ''eu-west-2''])) = Some regions"
  defines "lookback \<equiv> dget_or config ''lookback_minutes'' (PInt 15)"
  shows "\<exists>es. aws_listen su config w = (Inr es, snd (poll_sources (aws_raws su lookback) regions w)) \<and>
    map (PDict \<circ> ev_raw_event) es =
      concat (map (reported (aws_translate su)) (zip regions (fst (poll_sources (aws_raws su lookback) regions w)))) \<and>
    (\<forall>e \<in> set es. ev_provider e = AWS \<and> PStr (ev_region e) \<in> set regions \<and>
       ev_resource_type e \<in> set (dvalues CREATION_EVENTS) \<and> 0 \<le> ev_cost e)"
proof -
  obtain es w' where es: "listen_each (aws_region su lookback) 0 regions w = (es, w')" by fastforce
  have "aws_listen su config w = (Inr es, w')"
    using assms(1,2) es by (simp add: aws_listen_def lookback_def)
  moreover have "ev_provider e = AWS \<and> PStr (ev_region e) \<in> set regions \<and>
      ev_resource_type e \<in> set (dvalues CREATION_EVENTS) \<and> 0 \<le> ev_cost e"
    if mem: "e \<in> set es" for e
  proof -
    obtain src m where src: "src \<in> set regions"
      and tr: "aws_translate su src m (PDict (ev_raw_event e)) = Some (Some e)"
      using aws_source.listen_each_exact [OF es, THEN conjunct2, THEN conjunct2, rule_format, OF mem] by blast
    note T = aws_translate_Some [OF tr]
    then obtain c where c: "aws_resource_config (PDict (ev_raw_event e)) (ev_resource_type e) = Some c"
      "aws_estimate (ev_resource_type e) c = Some (ev_cost e)" by (elim conjE exE)
    have "0 \<le> ev_cost e"
      using aws_config_nonneg [OF c(1)] by (simp add: c(2) nonneg_price_def)
    then show ?thesis using T src by simp
  qed
  ultimately show ?thesis
    using aws_source.listen_each_exact [OF es, THEN conjunct1]
    by (intro exI [of _ es] conjI ballI)
      (simp_all only: aws_source.listen_each_exact [OF es, THEN conjunct2, THEN conjunct1] simp_thms)
qed


definition demo_cloudtrail :: "nat aws_listener" where
  "demo_cloudtrail = \<lparr>al_boto3 = True, al_client = (\<lambda>r n. (r \<noteq> PStr ''us-east-1'', n)),
     al_lookup = (\<lambda>r name t n.
       (if name = ''RunInstances'' then Some (PDict [(''Events'', PList [
            PDict [(''EventName'', PStr ''RunInstances''), (''EventTime'', PInt 7)],
            PDict [(''EventName'', PStr ''RunInstances''), (''Resources'', PList [PDict []])]])])
        else if name = ''CreateVolume'' then Some (PDict [(''Events'', PList [PDict [(''EventName'', PStr ''CreateVolume'')]])])
        else None, n + 1)),
     al_clock = (\<lambda>n. 0), al_ids = (\<lambda>n. \<lparr>ei_event_id = show_nat n, ei_correlation_id = show_nat n, ei_now = 9\<rparr>),
     al_datetime = (\<lambda>v. case v of PInt i \<Rightarrow> Some i | _ \<Rightarrow> None)\<rparr>"


text \<open>The same of Cloud Audit Logs, but for the cost: a listed node count is taken as it is.\<close>

lemma audit_log_poll_exact:
  assumes "gl_client su" and "py_iter (dget_or config ''project_ids'' (PList [])) = Some projects"
  defines "lookback \<equiv> dget_or config ''lookback_minutes'' (PInt 15)"
  shows "\<exists>es. gcp_listen su config w = (Inr es, snd (poll_sources (gcp_raws su lookback) projects w)) \<and>
    map (PDict \<circ> ev_raw_event) es =
      concat (map (reported (gcp_translate su)) (zip projects (fst (poll_sources (gcp_raws su lookback) projects w)))) \<and>
    (\<forall>e \<in> set es. ev_provider e = GCP \<and> PStr (ev_account_id e) \<in> set projects \<and>
       ev_resource_type e \<in> set (dvalues CREATION_METHODS))"
proof -
  obtain es w' where es: "listen_each (gcp_project su lookback) 0 projects w = (es, w')" by fastforce
  have "gcp_listen su config w = (Inr es, w')"
    using assms(1,2) es by (simp add: gcp_listen_def lookback_def)
  moreover have "\<forall>e \<in> set es. ev_provider e = GCP \<and> PStr (ev_account_id e) \<in> set projects \<and>
      ev_resource_type e \<in> set (dvalues CREATION_METHODS)"
    using gcp_source.listen_each_exact [OF es] gcp_translate_Some by fastforce
  ultimately show ?thesis
    using gcp_source.listen_each_exact [OF es, THEN conjunct1]
    by (intro exI [of _ es] conjI)
      (simp_all only: gcp_source.listen_each_exact [OF es, THEN conjunct2, THEN conjunct1] simp_thms)
qed

text \<open>
  What CloudTrail does not put at the top level of an event is not found: without identity, resources and
  parameters there the creator is \<open>unknown\<close>, the resource is \<open>unknown\<close> and the cost is that of the
  default configuration.
\<close>

lemma bare_event_unknown:
  assumes "dget d ''userIdentity'' = None" "dget d ''Resources'' = None" "dget d ''requestParameters'' = None"
  shows "aws_creator_identity (PDict d) = Some (PStr ''unknown'', PStr [])"
    and "aws_resource_id (PDict d) = Some (PStr ''unknown'')"
    and "Option.bind (aws_resource_config (PDict d) ''ec2:instance'') (aws_estimate ''ec2:instance'') =
      Some (round2 (9636 / 100))"
  using assms
  by (simp_all add: aws_creator_identity_def aws_resource_id_def aws_resource_config_def py_get_or_def dget_or_def
      dhas_dget py_len_def aws_estimate_def local_monthly_cost_def estimate_def aws_estimators_def dget_Cons aws_ec2_def
      price_of_def number_def lift2_def AWS_EC2_def)

text \<open>Listed types the price tables do not know cost nothing.\<close>

lemma unpriced_creations:
  "filter (\<lambda>rt. \<not> dhas aws_estimators rt) (dvalues CREATION_EVENTS) = [''elasticache:replication-group'']"
  "filter (\<lambda>rt. \<not> dhas gcp_estimators rt) (dvalues CREATION_METHODS) = [''memcache.instances'', ''pubsub.subscriptions'']"
  by (simp_all add: CREATION_EVENTS_def CREATION_METHODS_def aws_estimators_def gcp_estimators_def dhas_dget dget_Cons)

section \<open>The listeners in the monitor\<close>

record 'w sources =
  so_aws :: "'w aws_listener"
  so_aws_config :: "(string, pyval) dict"
  so_gcp :: "'w gcp_listener"
  so_gcp_config :: "(string, pyval) dict"

text \<open>The monitor only holds the two providers it has a listener for.\<close>

definition listen_for_events :: "'w sources \<Rightarrow> cloud_provider \<Rightarrow> 'w \<Rightarrow> (string + resource_event list) \<times> 'w" where
  "listen_for_events so p w = (case p of
     AWS \<Rightarrow> aws_listen (so_aws so) (so_aws_config so) w
   | GCP \<Rightarrow> gcp_listen (so_gcp so) (so_gcp_config so) w
   | AZURE \<Rightarrow> (Inr [], w))"

lemma poll_reports_listed_creations:
  assumes "mo_listen su = listen_for_events so" and "al_boto3 (so_aws so)"
    and "py_iter (dget_or (so_aws_config so) ''regions'' (PList [PStr ''eu-west-2''])) = Some regions"
    and "cm_providers m = [AWS]" and "poll_once su envs m w = (es, m', w')" and "e \<in> set es"
  shows "ev_provider e = AWS \<and> PStr (ev_region e) \<in> set regions \<and> 0 \<le> ev_cost e \<and>
    ev_event_id e \<notin> ev_event_id ` set (cm_history m)"
proof -
  obtain xs where xs: "aws_listen (so_aws so) (so_aws_config so) w = (Inr xs, snd (aws_listen (so_aws so) (so_aws_config so) w))"
    and ok: "\<forall>e \<in> set xs. ev_provider e = AWS \<and> PStr (ev_region e) \<in> set regions \<and> 0 \<le> ev_cost e"
    using cloudtrail_poll_exact' [OF assms(2,3), of w] by fastforce
  have listened: "mo_listen su AWS w = (Inr xs, snd (aws_listen (so_aws so) (so_aws_config so) w))"
    using xs by (simp add: assms(1) listen_for_events_def)
  have "fst (answers su (cm_providers m) w) = [(AWS, Inr xs)]"
    by (simp add: assms(4) listened)
  with poll_onceE [OF assms(5)] have "e \<in> set (fresh_events m (AWS, Inr xs))"
    using assms(6) by (metis concat.simps append_Nil2 list.map)
  moreover from this have "e \<in> set xs" by (simp add: fresh_events_def deduplicate_def Let_def)
  ultimately show ?thesis using ok fresh_events_new [of e m "(AWS, Inr xs)"] by blast
qed

end
