(* ===== verification/Trace_Adapters.thy ===== *)
theory Trace_Adapters
  imports Agent_Trace Governor Validation Py_Access "HOL-Library.Sublist"
begin

text \<open>
  The provider traces made canonical: \<open>providers/aws/agent_trace_adapter.py\<close>, which reads Bedrock's
  \<open>TracePart\<close> chunks, and \<open>providers/gcp/agent_trace_plugin.py\<close>, the callbacks of an ADK plugin. Step
  identifiers and times are arguments; \<open>repr\<close> of a value, \<open>float\<close> of a text and SHA-256 too.
\<close>

section \<open>Steps of a trace\<close>

record step_env =
  se_step_id :: string
  se_timestamp :: timestamp

definition PROMPT_PREVIEW_CHARS :: nat where
  "PROMPT_PREVIEW_CHARS = 512"

definition new_step :: "step_env \<Rightarrow> agent_trace \<Rightarrow> string \<Rightarrow> string \<Rightarrow> (string, pyval) dict \<Rightarrow> step_body \<Rightarrow> agent_step" where
  "new_step v t parent rationale raw body =
     \<lparr>as_step_id = se_step_id v, as_parent_step_id = parent, as_session_id = tc_session_id t,
      as_correlation_id = tc_correlation_id t, as_timestamp = se_timestamp v, as_actor = ''agent'',
      as_rationale = rationale, as_raw = raw, as_body = body\<rparr>"

definition new_trace :: "string \<Rightarrow> string \<Rightarrow> string \<Rightarrow> cloud_provider \<Rightarrow> timestamp \<Rightarrow> agent_trace" where
  "new_trace agent session correlation p now =
     \<lparr>tc_session_id = session, tc_agent_name = agent, tc_provider = p, tc_correlation_id = str_or correlation session,
      tc_started_at = now, tc_ended_at = None, tc_verdict = IN_PROGRESS_V, tc_steps = [], tc_decisions = []\<rparr>"

section \<open>Reading Bedrock's values\<close>

record bedrock_setup =
  br_repr :: "pyval \<Rightarrow> string"
  br_float :: "string \<Rightarrow> real option"
  br_sha :: "string \<Rightarrow> string"

definition truncate :: "bedrock_setup \<Rightarrow> pyval \<Rightarrow> nat \<Rightarrow> string" where
  "truncate su v n =
     (if v = PNone then [] else let s = py_str (br_repr su) v in if length s \<le> n then s else take n s @ ellipsis)"

text \<open>\<open>int(v)\<close>, \<open>float(v)\<close> and \<open>dict(v)\<close>\<close>

fun py_int_of :: "pyval \<Rightarrow> int option" where
  "py_int_of (PInt i) = Some i"
| "py_int_of (PBool b) = Some (if b then 1 else 0)"
| "py_int_of (PFloat x) = Some (if 0 \<le> x then \<lfloor>x\<rfloor> else \<lceil>x\<rceil>)"
| "py_int_of (PStr s) = py_int s"
| "py_int_of v = None"

fun py_float_of :: "(string \<Rightarrow> real option) \<Rightarrow> pyval \<Rightarrow> real option" where
  "py_float_of f (PInt i) = Some (of_int i)"
| "py_float_of f (PBool b) = Some (if b then 1 else 0)"
| "py_float_of f (PFloat x) = Some x"
| "py_float_of f (PStr s) = f s"
| "py_float_of f v = None"

definition py_pair :: "pyval \<Rightarrow> (string \<times> pyval) option" where
  "py_pair v = do {
     xs \<leftarrow> py_iter v;
     (case xs of [k, x] \<Rightarrow> map_option (\<lambda>s. (s, x)) (as_text k) | _ \<Rightarrow> None)}"

definition dict_of_pairs :: "(string \<times> pyval) list \<Rightarrow> (string, pyval) dict" where
  "dict_of_pairs kvs = fold (\<lambda>(k, x) d. dset d k x) kvs []"

definition py_dict :: "pyval \<Rightarrow> (string, pyval) dict option" where
  "py_dict v = (case v of PDict d \<Rightarrow> Some d | _ \<Rightarrow> do {
     xs \<leftarrow> py_iter v; kvs \<leftarrow> those (map py_pair xs); Some (dict_of_pairs kvs)})"

text \<open>\<open>{p.get("name", ""): p.get("value", "") for p in v}\<close>; a key that is not a text is refused by the model.\<close>

definition named_value :: "pyval \<Rightarrow> (string \<times> pyval) option" where
  "named_value p = do {
     k \<leftarrow> Option.bind (py_get_or p ''name'' (PStr [])) as_text;
     v \<leftarrow> py_get_or p ''value'' (PStr []);
     Some (k, v)}"

definition named_values :: "pyval \<Rightarrow> (string, pyval) dict option" where
  "named_values v = do { ps \<leftarrow> py_iter v; kvs \<leftarrow> those (map named_value ps); Some (dict_of_pairs kvs)}"

section \<open>Bedrock chunks\<close>

text \<open>The immediate caller's alias, hashed, is the parent of the steps of a chunk.\<close>

definition chunk_parent :: "bedrock_setup \<Rightarrow> pyval \<Rightarrow> string option" where
  "chunk_parent su part = do {
     chain \<leftarrow> map_option (\<lambda>c. py_or c (PList [])) (py_get_or part ''callerChain'' PNone);
     (case chain of
        PList (x # xs) \<Rightarrow> do {
          alias \<leftarrow> py_get_or (py_or (List.last (x # xs)) (PDict [])) ''agentAliasArn'' (PStr []);
          if truthy alias then map_option (\<lambda>s. take 32 (br_sha su s)) (as_text alias) else Some []}
      | _ \<Rightarrow> Some [])}"

text \<open>\<open>model_step\<close> reads the input and output of a model call, shared by the two consumers of such calls.\<close>

definition model_step :: "bedrock_setup \<Rightarrow> pyval \<Rightarrow> pyval \<Rightarrow> step_body option" where
  "model_step su model_input model_output = do {
     metadata \<leftarrow> py_sub model_output ''metadata'';
     usage \<leftarrow> py_sub metadata ''usage'';
     model_id \<leftarrow> Option.bind (py_get_or model_input ''foundationModel'' (PStr [])) as_text;
     prompt \<leftarrow> py_get_or model_input ''text'' (PStr []);
     parsed \<leftarrow> py_sub model_output ''parsedResponse'';
     response \<leftarrow> py_get_or parsed ''text'' (PStr []);
     tokens_in \<leftarrow> Option.bind (py_get_or usage ''inputTokens'' (PInt 0)) py_int_of;
     tokens_out \<leftarrow> Option.bind (py_get_or usage ''outputTokens'' (PInt 0)) py_int_of;
     latency \<leftarrow> Option.bind (py_get_or metadata ''totalTimeMs'' (PInt 0)) (py_float_of (br_float su));
     config \<leftarrow> Option.bind (py_sub model_input ''inferenceConfiguration'') py_dict;
     Some (ModelInvocation \<lparr>mi_model_id = model_id, mi_prompt_preview = truncate su prompt PROMPT_PREVIEW_CHARS,
       mi_response_preview = truncate su response PROMPT_PREVIEW_CHARS, mi_input_tokens = tokens_in,
       mi_output_tokens = tokens_out, mi_latency_ms = latency, mi_inference_config = config\<rparr>)}"

text \<open>
  A stage of a chunk: \<open>None\<close> raises, \<open>Some None\<close> adds nothing. A stage only reads the chunk and the
  trace's identifiers.
\<close>

type_synonym stage = "step_env \<Rightarrow> agent_trace \<Rightarrow> agent_step option option"

definition orchestration_model :: "bedrock_setup \<Rightarrow> string \<Rightarrow> pyval \<Rightarrow> stage" where
  "orchestration_model su parent orch v t = do {
     model_input \<leftarrow> py_sub orch ''modelInvocationInput'';
     model_output \<leftarrow> py_sub orch ''modelInvocationOutput'';
     if \<not> truthy model_input \<and> \<not> truthy model_output then Some None
     else do {
       raw_response \<leftarrow> py_sub model_output ''rawResponse'';
       content \<leftarrow> py_get_or raw_response ''content'' (PStr []);
       body \<leftarrow> model_step su model_input model_output;
       Some (Some (new_step v t parent (truncate su content PROMPT_PREVIEW_CHARS)
         [(''input'', model_input), (''output'', model_output)] body))}}"

definition extract_tool_call :: "bedrock_setup \<Rightarrow> pyval \<Rightarrow> (pyval \<times> (string, pyval) dict) option" where
  "extract_tool_call su invocation = do {
     fn \<leftarrow> py_sub invocation ''actionGroupInvocationInput'';
     if truthy fn then do {
       group \<leftarrow> py_get_or fn ''actionGroupName'' (PStr []);
       func \<leftarrow> py_get_or fn ''function'' (PStr []);
       params \<leftarrow> Option.bind (py_get_or fn ''parameters'' (PList [])) named_values;
       Some (if truthy func then PStr (py_str (br_repr su) group @ ''.'' @ py_str (br_repr su) func)
             else py_or group (PStr ''action_group''), params)}
     else do {
       api \<leftarrow> py_sub invocation ''apiInvocationInput'';
       if truthy api then do {
         group \<leftarrow> py_get_or api ''actionGroup'' (PStr []);
         path \<leftarrow> py_get_or api ''apiPath'' (PStr []);
         ps \<leftarrow> map_option (\<lambda>p. py_or p (PList [])) (py_get_or api ''parameters'' (PList []));
         params \<leftarrow> named_values ps;
         body \<leftarrow> py_sub api ''requestBody'';
         Some (if truthy group \<and> truthy path then PStr (py_str (br_repr su) group @ py_str (br_repr su) path)
               else py_or group (PStr ''api_call''),
               if truthy body then dset params ''_body'' body else params)}
       else do {
         kb \<leftarrow> py_sub invocation ''knowledgeBaseLookupInput'';
         if truthy kb then do {
           kid \<leftarrow> py_get_or kb ''knowledgeBaseId'' (PStr []);
           tx \<leftarrow> py_get_or kb ''text'' (PStr []);
           Some (PStr (''knowledge_base:'' @ py_str (br_repr su) kid), [(''text'', tx)])}
         else Some (PStr ''unknown_tool'', [])}}}"

definition summarise_observation :: "bedrock_setup \<Rightarrow> pyval \<Rightarrow> pyval option" where
  "summarise_observation su obs = do {
     final \<leftarrow> py_has obs ''finalResponse'';
     if final then Some (PDict [(''type'', PStr ''final_response'')])
     else do {
       group \<leftarrow> py_has obs ''actionGroupInvocationOutput'';
       if group then do {
         out \<leftarrow> py_key obs ''actionGroupInvocationOutput'';
         let tx = (case out of PDict d \<Rightarrow> dget_or d ''text'' (PStr []) | _ \<Rightarrow> PStr []);
         Some (PDict [(''type'', PStr ''action_group''), (''text_preview'', PStr (truncate su tx 256))])}
       else do {
         kb \<leftarrow> py_has obs ''knowledgeBaseLookupOutput'';
         if kb then do {
           out \<leftarrow> py_key obs ''knowledgeBaseLookupOutput'';
           n \<leftarrow> py_len (case out of PDict d \<Rightarrow> dget_or d ''retrievedReferences'' (PList []) | _ \<Rightarrow> PList []);
           Some (PDict [(''type'', PStr ''knowledge_base''), (''references'', PInt n)])}
         else do {
           reprompt \<leftarrow> py_has obs ''repromptResponse'';
           Some (PDict [(''type'', PStr (if reprompt then ''reprompt'' else ''unknown''))])}}}}"

text \<open>The step of a tool call has no parent.\<close>

definition orchestration_tool :: "bedrock_setup \<Rightarrow> pyval \<Rightarrow> stage" where
  "orchestration_tool su orch v t = do {
     invocation \<leftarrow> py_sub orch ''invocationInput'';
     obs \<leftarrow> py_sub orch ''observation'';
     if \<not> truthy invocation \<and> \<not> truthy obs then Some None
     else do {
       (name, arguments) \<leftarrow> extract_tool_call su invocation;
       group \<leftarrow> py_has obs ''actionGroupInvocationOutput'';
       kb \<leftarrow> py_has obs ''knowledgeBaseLookupOutput'';
       final \<leftarrow> py_has obs ''finalResponse'';
       let succeeded = (group \<or> kb);
       error \<leftarrow> (if \<not> final \<and> \<not> succeeded then do {
           f \<leftarrow> py_sub obs ''failureTrace''; py_get_or f ''failureReason'' (PStr [])} else Some (PStr []));
       rationale \<leftarrow> Option.bind (py_sub orch ''rationale'') (\<lambda>r. Option.bind (py_get_or r ''text'' (PStr [])) as_text);
       preview \<leftarrow> summarise_observation su obs;
       name \<leftarrow> as_text name;
       err \<leftarrow> as_text error;
       Some (Some (new_step v t [] (take PROMPT_PREVIEW_CHARS rationale)
         [(''invocationInput'', invocation), (''observation'', obs)]
         (ToolInvocation \<lparr>ti_tool_name = name, ti_arguments = arguments, ti_output_preview = preview,
            ti_duration_ms = 0, ti_succeeded = (succeeded \<and> \<not> truthy error), ti_error = err\<rparr>)))}}"

definition phase_model :: "bedrock_setup \<Rightarrow> string \<Rightarrow> string \<Rightarrow> pyval \<Rightarrow> stage" where
  "phase_model su parent phase payload v t = do {
     model_input \<leftarrow> py_sub payload ''modelInvocationInput'';
     model_output \<leftarrow> py_sub payload ''modelInvocationOutput'';
     if \<not> truthy model_input \<and> \<not> truthy model_output then Some None
     else do {
       body \<leftarrow> model_step su model_input model_output;
       Some (Some (new_step v t parent (''phase='' @ phase)
         [(''phase'', PStr phase), (''input'', model_input), (''output'', model_output)] body))}}"

text \<open>The filters of one assessment: of every list in it, its name with the kinds of its members.\<close>

definition assessment_filters :: "bedrock_setup \<Rightarrow> pyval \<Rightarrow> string list option" where
  "assessment_filters su a = do {
     items \<leftarrow> as_dict a;
     found \<leftarrow> those (map (\<lambda>(name, fs). (case fs of
         PList xs \<Rightarrow> those (map (\<lambda>f. map_option (\<lambda>ty. name @ '':'' @ py_str (br_repr su) ty)
             (py_get_or f ''type'' (PStr ''unknown''))) xs)
       | _ \<Rightarrow> Some [])) items);
     Some (concat found)}"

text \<open>\<open>a + b\<close> as something to iterate over.\<close>

definition py_concat :: "pyval \<Rightarrow> pyval \<Rightarrow> pyval list option" where
  "py_concat a b = (case (a, b) of
     (PList xs, PList ys) \<Rightarrow> Some (xs @ ys) | (PStr x, PStr y) \<Rightarrow> py_iter (PStr (x @ y)) | _ \<Rightarrow> None)"

definition guardrail_stage :: "bedrock_setup \<Rightarrow> string \<Rightarrow> pyval \<Rightarrow> stage" where
  "guardrail_stage su parent g v t = do {
     action \<leftarrow> py_get_or g ''action'' (PStr ''NONE'');
     ins \<leftarrow> py_get_or g ''inputAssessments'' (PList []);
     outs \<leftarrow> py_get_or g ''outputAssessments'' (PList []);
     assessments \<leftarrow> py_concat ins outs;
     filters \<leftarrow> those (map (assessment_filters su) assessments);
     mapped \<leftarrow> table_lookup [(''NONE'', ''none''), (''GUARDRAIL_INTERVENED'', ''block'')] action;
     version \<leftarrow> py_get_or g ''guardrailVersion'' (PStr []);
     raw \<leftarrow> as_dict g;
     Some (Some (new_step v t parent [] raw (GuardrailEvaluation \<lparr>gu_guardrail_name = ''bedrock-guardrail'',
       gu_guardrail_version = py_str (br_repr su) version, gu_triggered = (action \<noteq> PStr ''NONE''),
       gu_triggered_filters = concat filters,
       gu_action = (case mapped of None \<Rightarrow> ''block'' | Some a \<Rightarrow> a)\<rparr>)))}"

definition failure_stage :: "bedrock_setup \<Rightarrow> string \<Rightarrow> pyval \<Rightarrow> stage" where
  "failure_stage su parent f v t = do {
     code \<leftarrow> Option.bind (py_get_or f ''failureCode'' (PStr ''BedrockFailure'')) as_text;
     reason \<leftarrow> Option.bind (py_get_or f ''failureReason'' (PStr [])) as_text;
     raw \<leftarrow> as_dict f;
     Some (Some (new_step v t parent [] raw
       (Failure \<lparr>fa_error_type = code, fa_error_message = reason, fa_recoverable = False\<rparr>)))}"

text \<open>\<open>if k in trace: stage(trace[k])\<close>\<close>

definition when_has :: "pyval \<Rightarrow> string \<Rightarrow> (pyval \<Rightarrow> stage) \<Rightarrow> stage" where
  "when_has tr k stage v t = do {
     has \<leftarrow> py_has tr k;
     if has then Option.bind (py_key tr k) (\<lambda>x. stage x v t) else Some None}"

definition stages :: "bedrock_setup \<Rightarrow> string \<Rightarrow> pyval \<Rightarrow> stage list" where
  "stages su parent tr =
     [when_has tr ''orchestrationTrace'' (orchestration_model su parent),
      when_has tr ''orchestrationTrace'' (orchestration_tool su),
      when_has tr ''preProcessingTrace'' (phase_model su parent ''preprocessing''),
      when_has tr ''postProcessingTrace'' (phase_model su parent ''postprocessing''),
      when_has tr ''routingClassifierTrace'' (phase_model su parent ''routing''),
      when_has tr ''customOrchestrationTrace'' (phase_model su parent ''custom_orchestration''),
      when_has tr ''guardrailTrace'' (guardrail_stage su parent),
      when_has tr ''failureTrace'' (failure_stage su parent)]"

text \<open>Stages run until one raises; what was added before stays. The flag tells whether all ran.\<close>

fun run_stages :: "(nat \<Rightarrow> step_env) \<Rightarrow> nat \<Rightarrow> stage list \<Rightarrow> agent_trace \<Rightarrow> bool \<times> agent_trace" where
  "run_stages envs n [] t = (True, t)"
| "run_stages envs n (s # ss) t = (case s (envs n) t of
     None \<Rightarrow> (False, t)
   | Some None \<Rightarrow> run_stages envs (n + 1) ss t
   | Some (Some st) \<Rightarrow> run_stages envs (n + 1) ss (add_step st t))"

definition consume :: "bedrock_setup \<Rightarrow> (nat \<Rightarrow> step_env) \<Rightarrow> pyval \<Rightarrow> agent_trace \<Rightarrow> bool \<times> agent_trace" where
  "consume su envs part t =
     (case do { tr \<leftarrow> map_option (\<lambda>x. py_or x (PDict [])) (py_get_or part ''trace'' (PDict []));
                parent \<leftarrow> chunk_parent su part;
                Some (tr, parent)} of
        None \<Rightarrow> (False, t)
      | Some (tr, parent) \<Rightarrow> run_stages envs 0 (stages su parent tr) t)"

definition bedrock_trace :: "string \<Rightarrow> string \<Rightarrow> string \<Rightarrow> timestamp \<Rightarrow> agent_trace" where
  "bedrock_trace agent session correlation now = new_trace agent session correlation AWS now"

section \<open>The ADK plugin\<close>

text \<open>
  What the callbacks read of the SDK's objects: the texts of a request's contents and of a response's parts,
  token counts, names, and what \<open>model_dump\<close> answers.
\<close>

record llm_request =
  lr_model :: string
  lr_contents :: "pyval list list"
  lr_config :: "(string, pyval) dict"
  lr_dump :: "(string, pyval) dict"

record llm_response =
  lp_parts :: "pyval list"
  lp_prompt_tokens :: "int option"
  lp_candidates_tokens :: "int option"
  lp_dump :: "(string, pyval) dict"

definition agent_rationale :: "string option \<Rightarrow> string" where
  "agent_rationale agent = ''agent='' @ (case agent of None \<Rightarrow> ''None'' | Some a \<Rightarrow> a)"

definition joined_texts :: "(pyval \<Rightarrow> string) \<Rightarrow> pyval list \<Rightarrow> string" where
  "joined_texts repr parts = take PROMPT_PREVIEW_CHARS (join '' '' (map (\<lambda>p. py_str repr (py_or p (PStr []))) parts))"

definition preview_prompt :: "(pyval \<Rightarrow> string) \<Rightarrow> llm_request \<Rightarrow> string" where
  "preview_prompt repr rq = (if lr_contents rq = [] then [] else joined_texts repr (List.last (lr_contents rq)))"

definition preview_response :: "(pyval \<Rightarrow> string) \<Rightarrow> llm_response \<Rightarrow> string" where
  "preview_response repr rp = joined_texts repr (lp_parts rp)"

definition safe_dump :: "(pyval \<Rightarrow> string) \<Rightarrow> pyval \<Rightarrow> (string, pyval) dict" where
  "safe_dump py_repr v = (case v of
     PNone \<Rightarrow> [] | PDict d \<Rightarrow> d
   | _ \<Rightarrow> [(''type'', PStr (type_name v)), (''repr'', PStr (take PROMPT_PREVIEW_CHARS (py_repr v)))])"

definition summarise_output :: "pyval \<Rightarrow> pyval" where
  "summarise_output v = (case v of
     PStr s \<Rightarrow> PStr (if length s \<le> 256 then s else take 256 s @ ellipsis)
   | PDict d \<Rightarrow> PDict [(''type'', PStr ''dict''), (''keys'', PList (map PStr (take 20 (sort (map fst d)))))]
   | PList xs \<Rightarrow> PDict [(''type'', PStr ''list''), (''length'', PInt (int (length xs)))]
   | _ \<Rightarrow> v)"

text \<open>The last element with a property, changed.\<close>

fun update_first :: "('a \<Rightarrow> bool) \<Rightarrow> ('a \<Rightarrow> 'a) \<Rightarrow> 'a list \<Rightarrow> 'a list" where
  "update_first P f [] = []"
| "update_first P f (x # xs) = (if P x then f x # xs else x # update_first P f xs)"

definition update_last :: "('a \<Rightarrow> bool) \<Rightarrow> ('a \<Rightarrow> 'a) \<Rightarrow> 'a list \<Rightarrow> 'a list" where
  "update_last P f xs = rev (update_first P f (rev xs))"

definition is_model_step :: "agent_step \<Rightarrow> bool" where
  "is_model_step st = (case as_body st of ModelInvocation b \<Rightarrow> True | _ \<Rightarrow> False)"

definition is_tool_step :: "agent_step \<Rightarrow> bool" where
  "is_tool_step st = (case as_body st of ToolInvocation b \<Rightarrow> True | _ \<Rightarrow> False)"

definition before_model :: "(pyval \<Rightarrow> string) \<Rightarrow> step_env \<Rightarrow> string option \<Rightarrow> llm_request \<Rightarrow> agent_trace \<Rightarrow> agent_trace" where
  "before_model repr v agent rq t =
     add_step (new_step v t [] (agent_rationale agent) [(''llm_request'', PDict (lr_dump rq))]
       (ModelInvocation \<lparr>mi_model_id = lr_model rq, mi_prompt_preview = preview_prompt repr rq, mi_response_preview = [],
          mi_input_tokens = 0, mi_output_tokens = 0, mi_latency_ms = 0, mi_inference_config = lr_config rq\<rparr>)) t"

definition with_response :: "(pyval \<Rightarrow> string) \<Rightarrow> llm_response \<Rightarrow> agent_step \<Rightarrow> agent_step" where
  "with_response repr rp st = (case as_body st of
     ModelInvocation b \<Rightarrow> st\<lparr>as_raw := dset (as_raw st) ''llm_response'' (PDict (lp_dump rp)),
       as_body := ModelInvocation (b\<lparr>mi_response_preview := preview_response repr rp,
         mi_input_tokens := (case lp_prompt_tokens rp of None \<Rightarrow> 0 | Some n \<Rightarrow> n),
         mi_output_tokens := (case lp_candidates_tokens rp of None \<Rightarrow> 0 | Some n \<Rightarrow> n)\<rparr>)\<rparr>
   | _ \<Rightarrow> st)"

definition after_model :: "(pyval \<Rightarrow> string) \<Rightarrow> llm_response \<Rightarrow> agent_trace \<Rightarrow> agent_trace" where
  "after_model repr rp t = t\<lparr>tc_steps := update_last is_model_step (with_response repr rp) (tc_steps t)\<rparr>"

text \<open>A tool without a name is called by its class.\<close>

definition before_tool :: "step_env \<Rightarrow> string option \<Rightarrow> string \<Rightarrow> string \<Rightarrow> (string, pyval) dict \<Rightarrow> agent_trace \<Rightarrow> agent_trace" where
  "before_tool v agent name cls args t =
     add_step (new_step v t [] (agent_rationale agent) [(''args'', PDict args)]
       (ToolInvocation \<lparr>ti_tool_name = str_or name cls, ti_arguments = args, ti_output_preview = PNone,
          ti_duration_ms = 0, ti_succeeded = True, ti_error = []\<rparr>)) t"

definition with_output :: "(pyval \<Rightarrow> string) \<Rightarrow> pyval \<Rightarrow> agent_step \<Rightarrow> agent_step" where
  "with_output py_repr out st = (case as_body st of
     ToolInvocation b \<Rightarrow> st\<lparr>as_raw := dset (as_raw st) ''tool_response'' (PDict (safe_dump py_repr out)),
       as_body := ToolInvocation (b\<lparr>ti_output_preview := summarise_output out\<rparr>)\<rparr>
   | _ \<Rightarrow> st)"

definition after_tool :: "(pyval \<Rightarrow> string) \<Rightarrow> pyval \<Rightarrow> agent_trace \<Rightarrow> agent_trace" where
  "after_tool py_repr out t = t\<lparr>tc_steps := update_last is_tool_step (with_output py_repr out) (tc_steps t)\<rparr>"

definition record_model_armor_verdict :: "step_env \<Rightarrow> string \<Rightarrow> string \<Rightarrow> string list \<Rightarrow> (string, pyval) dict \<Rightarrow>
    agent_trace \<Rightarrow> agent_trace" where
  "record_model_armor_verdict v template action filters raw t =
     add_step (new_step v t [] [] raw (GuardrailEvaluation \<lparr>gu_guardrail_name = ''model-armor:'' @ template,
       gu_guardrail_version = [], gu_triggered = (action \<noteq> ''allow''), gu_triggered_filters = filters,
       gu_action = (if action = ''allow'' then ''none'' else if action = ''mask'' then ''mask'' else ''block'')\<rparr>)) t"

definition record_trace_failure :: "step_env \<Rightarrow> exn \<Rightarrow> bool \<Rightarrow> agent_trace \<Rightarrow> agent_trace" where
  "record_trace_failure v e recoverable t =
     add_step (new_step v t [] [] [(''exception_class'', PStr (fst e))] (Failure \<lparr>fa_error_type = fst e,
       fa_error_message = take 512 (snd e), fa_recoverable = recoverable\<rparr>)) t"

definition create_trace_plugin :: "string \<Rightarrow> string \<Rightarrow> string \<Rightarrow> timestamp \<Rightarrow> agent_trace" where
  "create_trace_plugin agent session correlation now = new_trace agent session correlation GCP now"

section \<open>What a chunk records\<close>

definition stamped :: "agent_trace \<Rightarrow> agent_step \<Rightarrow> bool" where
  "stamped t st \<longleftrightarrow> as_session_id st = tc_session_id t \<and> as_correlation_id st = tc_correlation_id t"

lemma stamped_new [simp]: "stamped t (new_step v t p r raw b)"
  by (simp add: stamped_def new_step_def)

lemma add_stamped: "stamped t st \<Longrightarrow> add_step st t = t\<lparr>tc_steps := tc_steps t @ [st]\<rparr>"
  by (auto simp: add_step_def adopt_step_def stamped_def)

text \<open>The law of a stage: its steps are stamped, and it reads nothing of a trace but its identifiers.\<close>

definition stage_ok :: "stage \<Rightarrow> bool" where
  "stage_ok s \<longleftrightarrow> (\<forall>v t st. s v t = Some (Some st) \<longrightarrow> stamped t st) \<and>
     (\<forall>v t xs. s v (t\<lparr>tc_steps := xs\<rparr>) = s v t)"

lemma stage_okI:
  assumes "\<And>v t st. s v t = Some (Some st) \<Longrightarrow> stamped t st" "\<And>v t xs. s v (t\<lparr>tc_steps := xs\<rparr>) = s v t"
  shows "stage_ok s"
  using assms by (simp add: stage_ok_def)

lemma new_step_steps [simp]: "new_step v (t\<lparr>tc_steps := xs\<rparr>) p r raw b = new_step v t p r raw b"
  by (simp add: new_step_def)

lemma when_has_ok: "(\<And>x. stage_ok (s x)) \<Longrightarrow> stage_ok (when_has tr k s)"
  by (auto simp: stage_ok_def when_has_def Option.bind_eq_Some_conv split: if_splits cong: if_cong)

lemma stage_ok_bodies:
  "stage_ok (orchestration_model su parent x)" "stage_ok (orchestration_tool su x)"
  "stage_ok (phase_model su parent phase x)" "stage_ok (guardrail_stage su parent x)"
  "stage_ok (failure_stage su parent x)"
  by (rule stage_okI, auto simp: orchestration_model_def orchestration_tool_def phase_model_def guardrail_stage_def
      failure_stage_def Let_def Option.bind_eq_Some_conv case_prod_beta split: if_splits cong: if_cong)+

lemma stages_ok: "list_all stage_ok (stages su parent tr)"
  by (simp add: stages_def when_has_ok stage_ok_bodies)

fun stage_steps :: "(nat \<Rightarrow> step_env) \<Rightarrow> nat \<Rightarrow> stage list \<Rightarrow> agent_trace \<Rightarrow> agent_step list" where
  "stage_steps envs n [] t = []"
| "stage_steps envs n (s # ss) t =
     (case s (envs n) t of Some (Some st) \<Rightarrow> [st] | _ \<Rightarrow> []) @ stage_steps envs (n + 1) ss t"

lemma stage_steps_same:
  "\<forall>s \<in> set ss. \<forall>v. s v t1 = s v t \<Longrightarrow> stage_steps envs n ss t1 = stage_steps envs n ss t"
  by (induction ss arbitrary: n) auto

lemma run_stages_exact:
  assumes "list_all stage_ok ss" and "run_stages envs n ss t = (ok, t')"
  shows "\<exists>k \<le> length ss. t' = t\<lparr>tc_steps := tc_steps t @ stage_steps envs n (take k ss) t\<rparr> \<and>
    (ok \<longleftrightarrow> k = length ss) \<and> (\<not> ok \<longrightarrow> (ss ! k) (envs (n + k)) t = None)"
  using assms
proof (induction ss arbitrary: n t)
  case Nil
  then show ?case by auto
next
  case (Cons s ss)
  then have ok: "list_all stage_ok ss" "stage_ok s" by simp_all
  show ?case
  proof (cases "s (envs n) t")
    case None
    with Cons.prems(2) show ?thesis by (intro exI [of _ 0]) auto
  next
    case (Some r)
    define t1 where "t1 = t\<lparr>tc_steps := tc_steps t @ (case r of None \<Rightarrow> [] | Some st \<Rightarrow> [st])\<rparr>"
    have "run_stages envs (n + 1) ss t1 = (ok, t')"
      using Cons.prems(2) Some ok(2) by (cases r) (auto simp: t1_def stage_ok_def add_stamped)
    from Cons.IH [OF ok(1) this] obtain k where k: "k \<le> length ss"
      "t' = t1\<lparr>tc_steps := tc_steps t1 @ stage_steps envs (n + 1) (take k ss) t1\<rparr>"
      "ok \<longleftrightarrow> k = length ss" "\<not> ok \<longrightarrow> (ss ! k) (envs (n + 1 + k)) t1 = None" by blast
    have same: "s' v t1 = s' v t" if "s' \<in> set ss" for s' v
      using that ok(1) by (auto simp: t1_def stage_ok_def list_all_iff)
    have "stage_steps envs (n + 1) (take k ss) t1 = stage_steps envs (n + 1) (take k ss) t"
      by (rule stage_steps_same) (auto dest: in_set_takeD same)
    moreover have "stage_steps envs n (take (Suc k) (s # ss)) t =
        (case r of None \<Rightarrow> [] | Some st \<Rightarrow> [st]) @ stage_steps envs (n + 1) (take k ss) t"
      using Some by (simp split: option.splits)
    ultimately have "t' = t\<lparr>tc_steps := tc_steps t @ stage_steps envs n (take (Suc k) (s # ss)) t\<rparr>"
      by (simp add: k(2) t1_def)
    moreover have "\<not> ok \<longrightarrow> ((s # ss) ! Suc k) (envs (n + Suc k)) t = None"
      using k(1,3,4) same [OF nth_mem, of k] by auto
    ultimately show ?thesis
      using k(1,3) by (intro exI [of _ "Suc k"]) simp
  qed
qed

lemma stage_steps_ids: "list_all stage_ok ss \<Longrightarrow> st \<in> set (stage_steps envs n ss t) \<Longrightarrow> stamped t st"
  by (induction ss arbitrary: n) (auto simp: stage_ok_def split: option.splits)

lemma length_stage_steps: "length (stage_steps envs n ss t) \<le> length ss"
proof (induction ss arbitrary: n)
  case (Cons s ss)
  from Cons [of "n + 1"] show ?case by (simp split: option.splits)
qed simp

lemma stage_steps_mem: "i < length ss \<Longrightarrow> (ss ! i) (envs (n + i)) t = Some (Some st) \<Longrightarrow> st \<in> set (stage_steps envs n ss t)"
proof (induction ss arbitrary: n i)
  case (Cons s ss)
  then show ?case using Cons.IH [of "i - 1" "n + 1"] by (cases i) auto
qed simp

lemma run_stages_all_ran:
  "run_stages envs n ss t = (True, t') \<Longrightarrow> list_all stage_ok ss \<Longrightarrow> i < length ss \<Longrightarrow> (ss ! i) (envs (n + i)) t \<noteq> None"
proof (induction ss arbitrary: n t i)
  case (Cons s ss)
  then obtain r where r: "s (envs n) t = Some r" by (cases "s (envs n) t") auto
  define t1 where "t1 = t\<lparr>tc_steps := tc_steps t @ (case r of None \<Rightarrow> [] | Some st \<Rightarrow> [st])\<rparr>"
  have run: "run_stages envs (n + 1) ss t1 = (True, t')"
    using Cons.prems(1,2) r by (cases r) (auto simp: t1_def stage_ok_def add_stamped)
  show ?case
  proof (cases i)
    case (Suc j)
    then have "(ss ! j) (envs (n + 1 + j)) t1 \<noteq> None"
      using Cons.IH [OF run, of j] Cons.prems(2,3) by simp
    moreover have "(ss ! j) v t1 = (ss ! j) v t" for v
      using Cons.prems(2,3) Suc by (auto simp: t1_def stage_ok_def list_all_length)
    ultimately show ?thesis using Suc by simp
  qed (use r in simp)
qed simp

lemma chunk_stage_ran:
  assumes "run_stages envs 0 (stages su parent tr) t = (True, t')" and "i < 8"
    and "stages su parent tr ! i = when_has tr k s" and "py_key tr k = Some x"
  obtains r where "s x (envs i) t = Some r" and "\<And>st. r = Some st \<Longrightarrow> st \<in> set (stage_steps envs 0 (stages su parent tr) t)"
proof -
  have len: "i < length (stages su parent tr)" using assms(2) by (simp add: stages_def)
  obtain r where r: "(stages su parent tr ! i) (envs i) t = Some r"
    using run_stages_all_ran [OF assms(1) stages_ok len] by auto
  have "py_has tr k = Some True" using assms(4) by (auto simp: py_key_Some dhas_dget)
  with r have "s x (envs i) t = Some r" by (simp add: assms(3,4) when_has_def)
  moreover have "st \<in> set (stage_steps envs 0 (stages su parent tr) t)" if "r = Some st" for st
    using stage_steps_mem [OF len, of envs 0 t st] r that by simp
  ultimately show ?thesis by (rule that)
qed

lemma guardrail_stage_Some:
  assumes "guardrail_stage su parent g v t = Some r"
  obtains st b where "r = Some st" "as_body st = GuardrailEvaluation b" "PDict (as_raw st) = g"
    "gu_triggered b \<longleftrightarrow> py_get_or g ''action'' (PStr ''NONE'') \<noteq> Some (PStr ''NONE'')"
    "gu_action b = (if gu_triggered b then ''block'' else ''none'')"
  using assms
  by (auto simp: guardrail_stage_def Option.bind_eq_Some_conv new_step_def table_lookup_def dget_Cons
      split: option.splits pyval.splits if_splits)

lemma failure_stage_Some:
  assumes "failure_stage su parent f v t = Some r"
  obtains st b where "r = Some st" "as_body st = Failure b" "PDict (as_raw st) = f" "\<not> fa_recoverable b"
  using assms by (auto simp: failure_stage_def Option.bind_eq_Some_conv new_step_def)

text \<open>
  C39: Consuming a chunk of a Bedrock trace only appends: at most eight steps, each with the trace's session
  and correlation id. A chunk whose consumption does not raise has its guardrail verdict and its failure
  on the trace with the provider's payload as it came; the verdict is recorded as triggered and as a block
  exactly when Bedrock's action is not \<open>NONE\<close>, whatever other action it names.
\<close>

theorem bedrock_chunk_recorded:
  assumes "consume su envs part t = (ok, t')"
  defines "new \<equiv> drop (length (tc_steps t)) (tc_steps t')"
  shows "t' = t\<lparr>tc_steps := tc_steps t @ new\<rparr> \<and> length new \<le> 8 \<and> (\<forall>st \<in> set new. stamped t st) \<and>
    (ok \<longrightarrow> (\<forall>g. Option.bind (py_get_or part ''trace'' (PDict [])) (\<lambda>tr. py_key tr ''guardrailTrace'') = Some g \<longrightarrow>
       (\<exists>st \<in> set new. \<exists>b. as_body st = GuardrailEvaluation b \<and> PDict (as_raw st) = g \<and>
          (gu_triggered b \<longleftrightarrow> py_get_or g ''action'' (PStr ''NONE'') \<noteq> Some (PStr ''NONE'')) \<and>
          gu_action b = (if gu_triggered b then ''block'' else ''none'')))) \<and>
    (ok \<longrightarrow> (\<forall>f. Option.bind (py_get_or part ''trace'' (PDict [])) (\<lambda>tr. py_key tr ''failureTrace'') = Some f \<longrightarrow>
       (\<exists>st \<in> set new. \<exists>b. as_body st = Failure b \<and> PDict (as_raw st) = f \<and> \<not> fa_recoverable b)))"
proof (cases "do { tr \<leftarrow> map_option (\<lambda>x. py_or x (PDict [])) (py_get_or part ''trace'' (PDict []));
                parent \<leftarrow> chunk_parent su part; Some (tr, parent)}")
  case None
  then show ?thesis using assms(1) by (simp add: consume_def new_def)
next
  case (Some x)
  then obtain tr0 tr parent where x: "x = (tr, parent)" "py_get_or part ''trace'' (PDict []) = Some tr0"
    "tr = py_or tr0 (PDict [])" by (auto simp: Option.bind_eq_Some_conv)
  have run: "run_stages envs 0 (stages su parent tr) t = (ok, t')"
    using assms(1) Some by (simp add: consume_def x(1))
  from run_stages_exact [OF stages_ok run] obtain k where k: "k \<le> length (stages su parent tr)"
    "t' = t\<lparr>tc_steps := tc_steps t @ stage_steps envs 0 (take k (stages su parent tr)) t\<rparr>"
    "ok \<longleftrightarrow> k = length (stages su parent tr)" by blast
  then have new: "new = stage_steps envs 0 (take k (stages su parent tr)) t" by (simp add: new_def)
  have len: "length (stages su parent tr) = 8" by (simp add: stages_def)
  have ids: "\<forall>st \<in> set new. stamped t st"
  proof -
    have "list_all stage_ok (take k (stages su parent tr))"
      using stages_ok [of su parent tr] by (auto simp: list_all_iff dest: in_set_takeD)
    from stage_steps_ids [OF this] show ?thesis by (simp add: new)
  qed
  have "length new \<le> 8"
    using length_stage_steps [of envs 0 "take k (stages su parent tr)" t] by (simp add: new len)
  moreover have key: "py_key tr key = Some y" if "py_key tr0 key = Some y" for key y
    using that by (auto simp: x(3) py_or_def py_key_Some)
  have "\<exists>st \<in> set new. \<exists>b. as_body st = GuardrailEvaluation b \<and> PDict (as_raw st) = g \<and>
        (gu_triggered b \<longleftrightarrow> py_get_or g ''action'' (PStr ''NONE'') \<noteq> Some (PStr ''NONE'')) \<and>
        gu_action b = (if gu_triggered b then ''block'' else ''none'')"
    if ran: ok and gk: "py_key tr0 ''guardrailTrace'' = Some g" for g
  proof -
    have all: "run_stages envs 0 (stages su parent tr) t = (True, t')" using run ran by simp
    obtain r where r: "guardrail_stage su parent g (envs 6) t = Some r"
      and mem: "\<And>st. r = Some st \<Longrightarrow> st \<in> set (stage_steps envs 0 (stages su parent tr) t)"
      by (rule chunk_stage_ran [OF all, of 6 "''guardrailTrace''" "guardrail_stage su parent" g])
        (use key [OF gk] in \<open>simp_all add: stages_def\<close>)
    from guardrail_stage_Some [OF r] mem ran k(3) show ?thesis by (metis new take_all_iff order_refl)
  qed
  moreover have "\<exists>st \<in> set new. \<exists>b. as_body st = Failure b \<and> PDict (as_raw st) = f \<and> \<not> fa_recoverable b"
    if ran: ok and gk: "py_key tr0 ''failureTrace'' = Some f" for f
  proof -
    have all: "run_stages envs 0 (stages su parent tr) t = (True, t')" using run ran by simp
    obtain r where r: "failure_stage su parent f (envs 7) t = Some r"
      and mem: "\<And>st. r = Some st \<Longrightarrow> st \<in> set (stage_steps envs 0 (stages su parent tr) t)"
      by (rule chunk_stage_ran [OF all, of 7 "''failureTrace''" "failure_stage su parent" f])
        (use key [OF gk] in \<open>simp_all add: stages_def\<close>)
    from failure_stage_Some [OF r] mem ran k(3) show ?thesis by (metis new take_all_iff order_refl)
  qed
  ultimately show ?thesis using ids k(2) by (simp add: new x(2))
qed

definition demo_bedrock :: bedrock_setup where
  "demo_bedrock = \<lparr>br_repr = (\<lambda>v. []), br_float = (\<lambda>s. None), br_sha = (\<lambda>s. s)\<rparr>"

definition demo_chunk :: pyval where
  "demo_chunk = PDict [(''sessionId'', PStr ''s1''),
     (''callerChain'', PList [PDict [(''agentAliasArn'', PStr ''arn:alias'')]]),
     (''trace'', PDict [
       (''orchestrationTrace'', PDict [(''observation'', PDict [(''finalResponse'', PDict [(''text'', PStr ''done'')])])]),
       (''guardrailTrace'', PDict [(''action'', PStr ''MASKED'')])])]"

definition demo_steps :: "nat \<Rightarrow> step_env" where
  "demo_steps n = \<lparr>se_step_id = show_nat n, se_timestamp = 0\<rparr>"

lemma demo_chunk_consumed: "fst (consume demo_bedrock demo_steps demo_chunk (bedrock_trace ''a'' ''s1'' [] 0))"
  by code_simp

theorem bedrock_chunk_recorded_witness:
  "\<exists>st b. st \<in> set (tc_steps (snd (consume demo_bedrock demo_steps demo_chunk (bedrock_trace ''a'' ''s1'' [] 0)))) \<and>
     as_body st = GuardrailEvaluation b \<and> gu_action b = ''block''"
proof -
  let ?t = "bedrock_trace ''a'' ''s1'' [] 0"
  have "consume demo_bedrock demo_steps demo_chunk ?t = (True, snd (consume demo_bedrock demo_steps demo_chunk ?t))"
    using demo_chunk_consumed by (simp add: prod_eq_iff)
  from bedrock_chunk_recorded [OF this] obtain st b where
    st: "st \<in> set (drop (length (tc_steps ?t)) (tc_steps (snd (consume demo_bedrock demo_steps demo_chunk ?t))))"
    and b: "as_body st = GuardrailEvaluation b" "gu_action b = (if gu_triggered b then ''block'' else ''none'')"
      "gu_triggered b \<longleftrightarrow> py_get_or (PDict [(''action'', PStr ''MASKED'')]) ''action'' (PStr ''NONE'') \<noteq> Some (PStr ''NONE'')"
    by (auto simp: demo_chunk_def py_get_or_def py_key_def dget_or_def dget_Cons)
  then have "gu_action b = ''block''" by (simp add: py_get_or_def dget_or_def dget_Cons)
  with b(1) in_set_dropD [OF st] show ?thesis by blast
qed

text \<open>
  The agent's final response comes as an observation without a tool's output: it is recorded as the failed
  call of a tool \<open>unknown_tool\<close>, with no error, and no step of a tool call has a parent.
\<close>

lemma final_response_failed_call:
  assumes "orch = PDict [(''observation'', PDict [(''finalResponse'', x)])]"
  shows "\<exists>st b. orchestration_tool su orch v t = Some (Some st) \<and> as_body st = ToolInvocation b \<and>
    ti_tool_name b = ''unknown_tool'' \<and> \<not> ti_succeeded b \<and> ti_error b = []"
  by (simp add: assms orchestration_tool_def extract_tool_call_def summarise_observation_def py_sub_def py_get_or_def
      py_or_def dget_or_def dget_Cons dhas_dget new_step_def)

lemma tool_calls_parentless: "orchestration_tool su orch v t = Some (Some st) \<Longrightarrow> as_parent_step_id st = []"
  by (auto simp: orchestration_tool_def Let_def Option.bind_eq_Some_conv new_step_def split: if_splits)

section \<open>What the plugin records\<close>

datatype plugin_op =
    BeforeModel step_env "string option" llm_request
  | AfterModel llm_response
  | BeforeTool step_env "string option" string string "(string, pyval) dict"
  | AfterTool pyval
  | ArmorVerdict step_env string string "string list" "(string, pyval) dict"
  | PluginFailure step_env exn bool

fun plugin_step :: "(pyval \<Rightarrow> string) \<Rightarrow> plugin_op \<Rightarrow> agent_trace \<Rightarrow> agent_trace" where
  "plugin_step repr (BeforeModel v agent rq) t = before_model repr v agent rq t"
| "plugin_step repr (AfterModel rp) t = after_model repr rp t"
| "plugin_step repr (BeforeTool v agent name cls args) t = before_tool v agent name cls args t"
| "plugin_step repr (AfterTool out) t = after_tool repr out t"
| "plugin_step repr (ArmorVerdict v template action filters raw) t = record_model_armor_verdict v template action filters raw t"
| "plugin_step repr (PluginFailure v e recoverable) t = record_trace_failure v e recoverable t"

text \<open>What the answer to a call leaves as it was.\<close>

definition step_identity :: "agent_step \<Rightarrow> string \<times> string \<times> string \<times> string \<times> timestamp \<times> string" where
  "step_identity st = (as_step_id st, as_session_id st, as_correlation_id st, as_rationale st, as_timestamp st, step_type (as_body st))"

lemma update_first_map: "(\<And>x. g (f x) = g x) \<Longrightarrow> map g (update_first P f xs) = map g xs"
  by (induction xs) auto

lemma update_last_map: "(\<And>x. g (f x) = g x) \<Longrightarrow> map g (update_last P f xs) = map g xs"
  by (simp add: update_last_def update_first_map flip: rev_map)

lemma length_update_last [simp]: "length (update_last P f xs) = length xs"
proof -
  have "length (update_first P f ys) = length ys" for ys by (induction ys) auto
  then show ?thesis by (simp add: update_last_def)
qed

lemma update_last_snoc: "update_last P f (xs @ [x]) = (if P x then xs @ [f x] else update_last P f xs @ [x])"
  by (simp add: update_last_def)

lemma update_last_append: "list_all (\<lambda>x. \<not> P x) ys \<Longrightarrow> update_last P f (xs @ ys) = update_last P f xs @ ys"
proof (induction ys rule: rev_induct)
  case (snoc y ys)
  then show ?case using update_last_snoc [of P f "xs @ ys" y] by simp
qed simp

lemma with_response_identity: "step_identity (with_response repr rp st) = step_identity st"
  by (simp add: with_response_def step_identity_def split: step_body.split)

lemma with_output_identity: "step_identity (with_output repr out st) = step_identity st"
  by (simp add: with_output_def step_identity_def split: step_body.split)

lemma plugin_step_identity:
  "prefix (map step_identity (tc_steps t)) (map step_identity (tc_steps (plugin_step repr op t))) \<and>
   length (tc_steps (plugin_step repr op t)) \<le> Suc (length (tc_steps t))"
  by (cases op)
    (simp_all add: before_model_def after_model_def before_tool_def after_tool_def record_model_armor_verdict_def
      record_trace_failure_def add_step_def update_last_map with_response_identity with_output_identity)

definition plugin_run :: "(pyval \<Rightarrow> string) \<Rightarrow> plugin_op list \<Rightarrow> agent_trace \<Rightarrow> agent_trace" where
  "plugin_run repr ops t = fold (plugin_step repr) ops t"

fun opens_step :: "plugin_op \<Rightarrow> bool" where
  "opens_step (AfterModel rp) = False"
| "opens_step (AfterTool out) = False"
| "opens_step op = True"

fun model_op :: "plugin_op \<Rightarrow> bool" where
  "model_op (BeforeModel v agent rq) = True"
| "model_op (AfterModel rp) = True"
| "model_op op = False"

lemma plugin_run_identity:
  "prefix (map step_identity (tc_steps t)) (map step_identity (tc_steps (plugin_run repr ops t))) \<and>
   length (tc_steps (plugin_run repr ops t)) = length (tc_steps t) + length (filter opens_step ops)"
proof (induction ops arbitrary: t)
  case (Cons op ops)
  have "length (tc_steps (plugin_step repr op t)) = length (tc_steps t) + (if opens_step op then 1 else 0)"
    by (cases op) (simp_all add: before_model_def after_model_def before_tool_def after_tool_def
        record_model_armor_verdict_def record_trace_failure_def add_step_def)
  with Cons [of "plugin_step repr op t"] plugin_step_identity [of t repr op] show ?case
    by (auto simp: plugin_run_def intro: prefix_order.trans)
qed (simp add: plugin_run_def)

text \<open>Between the start of a model call and its response nothing touches the steps before the call's, nor the call's.\<close>

lemma steps_after_add [simp]: "tc_steps (add_step (new_step v t p r raw b) t) = tc_steps t @ [new_step v t p r raw b]"
  by (simp add: add_stamped)

lemma snoc_shape:
  assumes "tc_steps t' = (xs @ st # ys) @ [s]" "\<not> Q s" "list_all (\<lambda>s. \<not> Q s) ys"
  shows "\<exists>xs' ys'. tc_steps t' = xs' @ st # ys' \<and> list_all (\<lambda>s. \<not> Q s) ys' \<and> length xs' = length xs"
  using assms by (intro exI [of _ xs] exI [of _ "ys @ [s]"]) simp

lemma is_model_new [simp]: "is_model_step (new_step v t p r raw b) \<longleftrightarrow> (case b of ModelInvocation m \<Rightarrow> True | _ \<Rightarrow> False)"
  by (simp add: is_model_step_def new_step_def)

lemma tool_op_keeps:
  assumes "\<not> model_op op" and "is_model_step st" and "tc_steps t = xs @ st # ys" and "list_all (\<lambda>s. \<not> is_model_step s) ys"
  shows "\<exists>xs' ys'. tc_steps (plugin_step repr op t) = xs' @ st # ys' \<and> list_all (\<lambda>s. \<not> is_model_step s) ys' \<and>
    length xs' = length xs"
proof -
  have "\<not> is_model_step (with_output repr out s)" if "is_tool_step s" for out s
    using that by (simp add: is_model_step_def is_tool_step_def with_output_def split: step_body.splits)
  then have upd: "\<exists>xs' ys'. update_last is_tool_step (with_output repr out) (xs @ st # ys) = xs' @ st # ys' \<and>
      list_all (\<lambda>s. \<not> is_model_step s) ys' \<and> length xs' = length xs" for out
    using assms(2,4)
  proof (induction ys rule: rev_induct)
    case Nil
    then have "\<not> is_tool_step st" by (simp add: is_model_step_def is_tool_step_def split: step_body.splits)
    then show ?case
      by (intro exI [of _ "update_last is_tool_step (with_output repr out) xs"] exI [of _ "[]"])
        (simp add: update_last_snoc)
  next
    case (snoc y ys)
    show ?case
    proof (cases "is_tool_step y")
      case True
      with snoc.prems show ?thesis
        by (intro exI [of _ xs] exI [of _ "ys @ [with_output repr out y]"])
          (simp add: update_last_snoc [of _ _ "xs @ st # ys" y, simplified])
    next
      case False
      from snoc obtain xs' ys' where "update_last is_tool_step (with_output repr out) (xs @ st # ys) = xs' @ st # ys'"
        "list_all (\<lambda>s. \<not> is_model_step s) ys'" "length xs' = length xs" by auto
      with False snoc.prems show ?thesis
        by (intro exI [of _ xs'] exI [of _ "ys' @ [y]"])
          (simp add: update_last_snoc [of _ _ "xs @ st # ys" y, simplified])
    qed
  qed
  show ?thesis
  proof (cases op)
    case (AfterTool out)
    then show ?thesis using upd [of out] by (simp add: after_tool_def assms(3))
  next
    case (BeforeTool v agent name cls args)
    then show ?thesis using assms(3,4) by (intro snoc_shape) (auto simp: before_tool_def)
  next
    case (ArmorVerdict v template action filters raw)
    then show ?thesis using assms(3,4) by (intro snoc_shape) (auto simp: record_model_armor_verdict_def)
  next
    case (PluginFailure v e recoverable)
    then show ?thesis using assms(3,4) by (intro snoc_shape) (auto simp: record_trace_failure_def)
  qed (use assms(1) in simp_all)
qed

lemma tool_ops_keep:
  "list_all (\<lambda>op. \<not> model_op op) ops \<Longrightarrow> is_model_step st \<Longrightarrow> tc_steps t = xs @ st # ys \<Longrightarrow>
   list_all (\<lambda>s. \<not> is_model_step s) ys \<Longrightarrow>
   \<exists>xs' ys'. tc_steps (plugin_run repr ops t) = xs' @ st # ys' \<and> list_all (\<lambda>s. \<not> is_model_step s) ys' \<and>
     length xs' = length xs"
proof (induction ops arbitrary: t xs ys)
  case Nil
  then show ?case by (auto simp: plugin_run_def)
next
  case (Cons op ops)
  from tool_op_keeps [of op st t xs ys repr] Cons.prems obtain xs1 ys1 where
    "tc_steps (plugin_step repr op t) = xs1 @ st # ys1" "list_all (\<lambda>s. \<not> is_model_step s) ys1" "length xs1 = length xs"
    by auto
  with Cons.IH [of "plugin_step repr op t" xs1 ys1] Cons.prems show ?case by (auto simp: plugin_run_def)
qed

text \<open>
  C40: The plugin's trace only grows: whatever callbacks run, the steps there were keep their place, identity,
  time, kind and rationale, and one step is added per call begun, verdict and failure. The response to a
  model call is written into the step of that call, with the prompt's preview next to the response's and the
  token counts, whatever tools, verdicts and failures came in between.
\<close>

theorem plugin_trace_faithful:
  "prefix (map step_identity (tc_steps t)) (map step_identity (tc_steps (plugin_run repr ops t))) \<and>
   length (tc_steps (plugin_run repr ops t)) = length (tc_steps t) + length (filter opens_step ops) \<and>
   (list_all (\<lambda>op. \<not> model_op op) ops' \<longrightarrow>
     (let t1 = plugin_run repr ops t; t2 = plugin_run repr (BeforeModel v agent rq # ops' @ [AfterModel rp]) t1;
          st = tc_steps t2 ! length (tc_steps t1)
      in length (tc_steps t1) < length (tc_steps t2) \<and>
         (\<exists>b. as_body st = ModelInvocation b \<and> as_step_id st = se_step_id v \<and> mi_model_id b = lr_model rq \<and>
            mi_prompt_preview b = preview_prompt repr rq \<and> mi_response_preview b = preview_response repr rp \<and>
            mi_input_tokens b = (case lp_prompt_tokens rp of None \<Rightarrow> 0 | Some n \<Rightarrow> n)) \<and>
         dget (as_raw st) ''llm_response'' = Some (PDict (lp_dump rp))))"
proof -
  let ?t1 = "plugin_run repr ops t"
  let ?t2 = "plugin_run repr (BeforeModel v agent rq # ops' @ [AfterModel rp]) ?t1"
  define st where "st = new_step v ?t1 [] (agent_rationale agent) [(''llm_request'', PDict (lr_dump rq))]
     (ModelInvocation \<lparr>mi_model_id = lr_model rq, mi_prompt_preview = preview_prompt repr rq, mi_response_preview = [],
        mi_input_tokens = 0, mi_output_tokens = 0, mi_latency_ms = 0, mi_inference_config = lr_config rq\<rparr>)"
  have tail: "length (tc_steps ?t1) < length (tc_steps ?t2) \<and>
      tc_steps ?t2 ! length (tc_steps ?t1) = with_response repr rp st"
    if between: "list_all (\<lambda>op. \<not> model_op op) ops'"
  proof -
    have "tc_steps (before_model repr v agent rq ?t1) = tc_steps ?t1 @ st # []"
      by (simp add: before_model_def st_def)
    moreover have model: "is_model_step st" by (simp add: st_def)
    ultimately obtain xs' ys' where
      mid: "tc_steps (plugin_run repr ops' (before_model repr v agent rq ?t1)) = xs' @ st # ys'"
        "list_all (\<lambda>s. \<not> is_model_step s) ys'" "length xs' = length (tc_steps ?t1)"
      using tool_ops_keep [OF between model, of "before_model repr v agent rq ?t1" "tc_steps ?t1" "[]" repr] by auto
    have "?t2 = after_model repr rp (plugin_run repr ops' (before_model repr v agent rq ?t1))"
      by (simp add: plugin_run_def)
    moreover have "update_last is_model_step (with_response repr rp) (xs' @ st # ys') =
        xs' @ with_response repr rp st # ys'"
      using update_last_append [OF mid(2), of "with_response repr rp" "xs' @ [st]"] model
      by (simp add: update_last_snoc)
    ultimately have "tc_steps ?t2 = xs' @ with_response repr rp st # ys'"
      by (simp add: after_model_def mid(1))
    then show ?thesis by (simp add: nth_append flip: mid(3))
  qed
  show ?thesis
    using plugin_run_identity [of t repr ops] tail
    by (simp add: Let_def with_response_def st_def new_step_def)
qed

theorem plugin_trace_faithful_witness:
  "let t1 = create_trace_plugin ''a'' ''s'' [] 0;
       rp = \<lparr>lp_parts = [PStr ''yes''], lp_prompt_tokens = Some 3, lp_candidates_tokens = None, lp_dump = []\<rparr>;
       t2 = plugin_run (\<lambda>v. []) (BeforeModel (demo_steps 0) None
          \<lparr>lr_model = ''m'', lr_contents = [[PStr ''hi'']], lr_config = [], lr_dump = []\<rparr> #
          [BeforeTool (demo_steps 1) None ''tool'' ''T'' []] @ [AfterModel rp]) t1
   in \<exists>b. as_body (tc_steps t2 ! 0) = ModelInvocation b \<and> mi_input_tokens b = 3"
  using plugin_trace_faithful [of "create_trace_plugin ''a'' ''s'' [] 0" "\<lambda>v. []" "[]"
      "[BeforeTool (demo_steps 1) None ''tool'' ''T'' []]" "demo_steps 0" None
      "\<lparr>lr_model = ''m'', lr_contents = [[PStr ''hi'']], lr_config = [], lr_dump = []\<rparr>"
      "\<lparr>lp_parts = [PStr ''yes''], lp_prompt_tokens = Some 3, lp_candidates_tokens = None, lp_dump = []\<rparr>"]
  by (auto simp: Let_def plugin_run_def create_trace_plugin_def new_trace_def)

text \<open>With two tool calls open at once, the output of the first is written into the step of the second.\<close>

lemma parallel_tools_misattributed:
  "tc_steps (plugin_run repr [BeforeTool v1 agent ''a'' cls1 args1, BeforeTool v2 agent ''b'' cls2 args2, AfterTool out] t) =
   tc_steps t @ [new_step v1 t [] (agent_rationale agent) [(''args'', PDict args1)]
       (ToolInvocation \<lparr>ti_tool_name = ''a'', ti_arguments = args1, ti_output_preview = PNone,
          ti_duration_ms = 0, ti_succeeded = True, ti_error = []\<rparr>),
     with_output repr out (new_step v2 t [] (agent_rationale agent) [(''args'', PDict args2)]
       (ToolInvocation \<lparr>ti_tool_name = ''b'', ti_arguments = args2, ti_output_preview = PNone,
          ti_duration_ms = 0, ti_succeeded = True, ti_error = []\<rparr>))]"
  using update_last_snoc [of is_tool_step "with_output repr out"]
  by (simp add: plugin_run_def before_tool_def after_tool_def str_or_def add_stamped stamped_def new_step_def
      is_tool_step_def update_last_def)

end
