(* ===== verification/Agent_Callbacks.thy ===== *)
theory Agent_Callbacks
  imports Filters Observer Supervisor
begin

text \<open>
  The governance callbacks of the ADK agent in \<open>providers/gcp/agents/finops_agent.py\<close>: screening a prompt
  before the model, the kill switch before a tool, telemetry after both. The ADK's objects are records of
  the attributes the callbacks read; a missing attribute is \<open>None\<close>. A callback that returns \<open>None\<close> lets
  the request or call go on.
\<close>

section \<open>Contexts and prompts\<close>

record adk_context =
  cx_session_id :: "string option"
  cx_id :: "string option"
  cx_invocation_session :: "(string option \<times> string option) option"

text \<open>An attribute that is missing or empty is passed over.\<close>

definition given :: "string option \<Rightarrow> string option" where
  "given s = (if s = Some [] then None else s)"

definition extract_session_id :: "adk_context \<Rightarrow> string" where
  "extract_session_id ctx =
     (case given (cx_session_id ctx) of
        Some s \<Rightarrow> s
      | None \<Rightarrow> (case given (cx_id ctx) of
          Some s \<Rightarrow> s
        | None \<Rightarrow> (case cx_invocation_session ctx of
            None \<Rightarrow> []
          | Some (i, s) \<Rightarrow> (case given i of Some t \<Rightarrow> t | None \<Rightarrow> (case given s of Some t \<Rightarrow> t | None \<Rightarrow> [])))))"

text \<open>A request is its contents, each the texts of its parts.\<close>

type_synonym prompt = "string option list list"

datatype callback = Proceed | Blocked string

definition part_texts :: "string option list \<Rightarrow> string list" where
  "part_texts parts = map the (filter (\<lambda>p. given p \<noteq> None) parts)"

definition prompt_text :: "string option list \<Rightarrow> string" where
  "prompt_text parts = join '' '' (part_texts parts)"

text \<open>\<open>for p in parts: if p.text: p.text = redacted; break\<close>\<close>

fun replace_first_text :: "string \<Rightarrow> string option list \<Rightarrow> string option list" where
  "replace_first_text s [] = []"
| "replace_first_text s (p # ps) = (if given p \<noteq> None then Some s # ps else p # replace_first_text s ps)"

definition secret_message :: string where
  "secret_message = ''Request blocked: detected what appears to be credentials in the prompt. Strip the secret and try again.''"

definition injection_message :: string where
  "injection_message = ''Request blocked: prompt-injection patterns detected. Please rephrase without embedded instruction overrides.''"

definition before_model_callback :: "prompt \<Rightarrow> callback \<times> prompt" where
  "before_model_callback contents =
     (if contents = [] then (Proceed, contents)
      else
        (let parts = List.last contents; tx = prompt_text parts
         in if tx = [] then (Proceed, contents)
            else if fr_verdict (secret_scanner tx) = FBlock then (Blocked secret_message, contents)
            else if fr_verdict (prompt_injection tx) = FBlock then (Blocked injection_message, contents)
            else
              (let pii = pii_redactor tx
               in if fr_verdict pii = FRedact \<and> fr_redacted_text pii \<noteq> []
                  then (Proceed, butlast contents @ [replace_first_text (fr_redacted_text pii) parts])
                  else (Proceed, contents))))"

section \<open>Tools and telemetry\<close>

definition halted_response :: "halt_entry \<Rightarrow> pyval" where
  "halted_response h = PDict [(''status'', PStr ''halted''), (''halt_id'', PStr (he_halt_id h)),
     (''operator'', PStr (he_operator h)), (''reason'', PStr (he_reason h)),
     (''message'', PStr ''session halted; tool call denied'')]"

definition before_tool_callback :: "adk_context \<Rightarrow> agent_supervisor \<Rightarrow> pyval option" where
  "before_tool_callback ctx sv =
     (let sid = extract_session_id ctx
      in if sid = [] then None else map_option halted_response (is_halted sid sv))"

definition after_tool_callback :: "adk_context \<Rightarrow> string option \<Rightarrow> real \<Rightarrow> agent_observer \<Rightarrow> agent_observer" where
  "after_tool_callback ctx tool now ob =
     (let sid = extract_session_id ctx
      in if sid = [] then ob else record_tool_call sid (case tool of None \<Rightarrow> ''unknown'' | Some n \<Rightarrow> n) now ob)"

record usage_metadata =
  um_prompt_tokens :: "int option"
  um_candidates_tokens :: "int option"
  um_cost :: "real option"

definition or_zero :: "'a::zero option \<Rightarrow> 'a" where
  "or_zero x = (case x of None \<Rightarrow> 0 | Some n \<Rightarrow> n)"

definition after_model_callback :: "adk_context \<Rightarrow> usage_metadata option \<Rightarrow> real \<Rightarrow> agent_observer \<Rightarrow> agent_observer" where
  "after_model_callback ctx usage now ob =
     (case usage of
        None \<Rightarrow> ob
      | Some u \<Rightarrow>
          (let sid = extract_session_id ctx
           in if sid = [] then ob
              else record_tokens sid (or_zero (um_prompt_tokens u)) (or_zero (um_candidates_tokens u))
                     (or_zero (um_cost u)) now ob))"

definition SAFETY_SETTINGS :: "(string \<times> string) list" where
  "SAFETY_SETTINGS =
     [(''HARM_CATEGORY_HATE_SPEECH'', ''BLOCK_LOW_AND_ABOVE''), (''HARM_CATEGORY_HARASSMENT'', ''BLOCK_LOW_AND_ABOVE''),
      (''HARM_CATEGORY_SEXUALLY_EXPLICIT'', ''BLOCK_LOW_AND_ABOVE''),
      (''HARM_CATEGORY_DANGEROUS_CONTENT'', ''BLOCK_LOW_AND_ABOVE'')]"

section \<open>What reaches the model\<close>

lemma replace_first_single:
  assumes "part_texts parts = [tx]" and "s \<noteq> []"
  shows "part_texts (replace_first_text s parts) = [s]"
  using assms(1)
proof (induction parts)
  case (Cons p ps)
  show ?case
  proof (cases "given p = None")
    case True
    with Cons show ?thesis by (simp add: part_texts_def)
  next
    case False
    then have "filter (\<lambda>p. given p \<noteq> None) ps = []" using Cons.prems by (simp add: part_texts_def)
    with False assms(2) show ?thesis by (simp add: part_texts_def given_def)
  qed
qed (simp add: part_texts_def)

lemma list_one:
  assumes "length xs = 1"
  obtains x where "xs = [x]"
  using assms by (cases xs) auto

lemma filters_allow_or_block:
  "fr_verdict (secret_scanner s) = FAllow \<longleftrightarrow> fr_verdict (secret_scanner s) \<noteq> FBlock"
  "fr_verdict (prompt_injection s) = FAllow \<longleftrightarrow> fr_verdict (prompt_injection s) \<noteq> FBlock"
  by (simp_all add: secret_scanner_def prompt_injection_def passed_def Let_def)

lemma pii_allows: "fr_verdict (pii_redactor s) \<noteq> FRedact \<Longrightarrow> fr_redacted_text (pii_redactor s) = s"
  by (auto simp: pii_redactor_def passed_def split: prod.splits if_splits)

lemma filters_pass_empty: "fr_verdict (secret_scanner []) = FAllow" "fr_verdict (prompt_injection []) = FAllow"
  "pii_redactor [] = passed []"
  by (simp_all add: secret_scanner_def prompt_injection_def pii_redactor_def passed_def)



text \<open>
  The redacted text goes into the first part only: the parts after it reach the model as they were, personal
  data and all. And only the last content is looked at.
\<close>

lemma later_parts_unredacted:
  assumes "given p \<noteq> None" and "fst (before_model_callback [p # parts]) = Proceed"
  shows "tl (List.last (snd (before_model_callback [p # parts]))) = parts"
  using assms by (auto simp: before_model_callback_def Let_def split: if_splits)

lemma later_part_leaks:
  "snd (before_model_callback [[Some ''a'', Some ''b@c.de'']]) =
     [[Some ''a b***@c.de'', Some ''b@c.de'']]"
  by code_simp

lemma earlier_contents_unscreened:
  assumes "ys \<noteq> []"
  shows "before_model_callback (xs @ ys) = map_prod id ((@) xs) (before_model_callback ys)"
  using assms by (auto simp: before_model_callback_def Let_def butlast_append)

section \<open>The kill switch of the agent\<close>

text \<open>
  Once a session is halted, and whatever the supervisor is told afterwards short of resuming it, the
  callback answers every tool call of that session, through whichever attribute it is named, with the halt
  in place of the tool; a call without a session is let through.
\<close>

theorem agent_kill_switch:
  fixes sid :: string and a :: halt_args and sv :: agent_supervisor and xs :: "sup_op list"
  assumes "\<not> list_ex (resumes sid) xs" and "sid \<noteq> []"
  defines "sv' \<equiv> fold sup_step xs (snd (halt sid a sv))" and "h \<equiv> fst (halt sid a sv)"
  shows "(extract_session_id ctx = sid \<longrightarrow> before_tool_callback ctx sv' = Some (halted_response h)) \<and>
    (given (cx_session_id ctx) = Some sid \<longrightarrow> extract_session_id ctx = sid) \<and>
    (given (cx_session_id ctx) = None \<and> given (cx_id ctx) = Some sid \<longrightarrow> extract_session_id ctx = sid) \<and>
    (extract_session_id ctx = [] \<longrightarrow> before_tool_callback ctx sv' = None)"
  using assms(2) halt_persists [OF assms(1), of a sv]
  by (simp add: before_tool_callback_def extract_session_id_def Let_def sv'_def h_def)

theorem agent_kill_switch_witness:
  "\<exists>h. before_tool_callback \<lparr>cx_session_id = None, cx_id = Some ''s1'', cx_invocation_session = None\<rparr>
     (fold sup_step [Halt ''s2'' demo_halt] (snd (halt ''s1'' demo_halt init_supervisor))) = Some (halted_response h)"
  using agent_kill_switch [where sid = "''s1''" and xs = "[Halt ''s2'' demo_halt]" and a = demo_halt
      and sv = init_supervisor and ctx = "\<lparr>cx_session_id = None, cx_id = Some ''s1'', cx_invocation_session = None\<rparr>"]
  by (auto simp: extract_session_id_def given_def resumes_def)

end
