(* ===== verification/Hub_Tools.thy ===== *)
theory Hub_Tools
  imports Mcp_Server Tool_Args Alert_Agent Reports Pricing Notifications Reconciliation Py_Access
begin

text \<open>
  The cost tools of \<open>mcp_server/server.py\<close>: policies, alerts, reports, the audit trail, cost estimates,
  the hub's status and the retry of failed notifications. They work on the alert agent's state, which
  holds the policy engine and through it the hub's audit logger; \<open>as_mcp_tool\<close> puts them behind the
  routing of \<open>Mcp_Server\<close>. \<open>datetime.fromisoformat\<close>, the event store's query and count, the dispatcher's
  retry and the dump of a report are arguments.
\<close>

section \<open>State\<close>

record ('s, 'd) hub_setup =
  hu_agent :: "('s, 'd) agent_setup"
  hu_jt :: "timestamp \<Rightarrow> string"
  hu_repr :: "pyval \<Rightarrow> string"
  hu_fromiso :: "string \<Rightarrow> timestamp option"
  hu_query :: "cloud_provider option \<Rightarrow> timestamp \<Rightarrow> timestamp \<Rightarrow> int \<Rightarrow> 's \<Rightarrow> resource_event list"
  hu_count :: "'s \<Rightarrow> nat"
  hu_retry :: "'d \<Rightarrow> retry_counts \<times> 'd"
  hu_dead_letters :: "'d \<Rightarrow> nat"
  hu_channels :: "'d \<Rightarrow> string list"
  hu_dump_report :: "cost_report \<Rightarrow> pyval"
  hu_version :: string
  hu_backend :: string

text \<open>What one call draws on: texts of the interpreter's errors, identifiers, clocks, log times, the environment.\<close>

record hub_env =
  ht_type_error :: string
  ht_value_error :: string
  ht_os_error :: string
  ht_policy_id :: string
  ht_policy :: policy_env
  ht_event_id :: string
  ht_correlation_id :: string
  ht_process :: process_env
  ht_report :: report_env
  ht_log :: log_env
  ht_aws :: bool
  ht_gcp :: bool

type_synonym ('s, 'd) hub_tool = "(string, pyval) dict \<Rightarrow> ('s, 'd) alert_agent step"

section \<open>Arguments\<close>

definition severity_of_value :: "string \<Rightarrow> severity option" where
  "severity_of_value s = find (\<lambda>x. severity_value x = s) all_severities"

definition status_of_value :: "string \<Rightarrow> action_status option" where
  "status_of_value s = find (\<lambda>x. status_value x = s) all_statuses"

text \<open>\<open>if v: v = validate(v)\<close>, then the enum's member of that value.\<close>

definition optional_member :: "(pyval \<Rightarrow> string + string) \<Rightarrow> (string \<Rightarrow> 'a option) \<Rightarrow> pyval \<Rightarrow> exn + 'a option" where
  "optional_member validate member v =
     (if truthy v then map_sum id member (invalid (validate v)) else Inr None)"

definition provider_arg :: "(string \<Rightarrow> pyval) \<Rightarrow> exn + cloud_provider option" where
  "provider_arg kw = optional_member validate_provider provider_of_value (kw ''provider'')"

text \<open>\<open>if v is not None: v = validate_cost(v, k)\<close>\<close>

definition cost_arg :: "(string \<Rightarrow> pyval) \<Rightarrow> string \<Rightarrow> exn + real option" where
  "cost_arg kw k = (if kw k = PNone then Inr None else map_sum id Some (invalid (validate_cost (kw k) k)))"

text \<open>A list of at most \<open>n\<close> validated values; a falsy one is the empty list.\<close>

definition list_arg :: "hub_env \<Rightarrow> (string \<Rightarrow> pyval) \<Rightarrow> string \<Rightarrow> nat \<Rightarrow> (pyval \<Rightarrow> string + string) \<Rightarrow> exn + string list" where
  "list_arg v kw k n validate =
     (if \<not> truthy (kw k) then Inr []
      else case py_iter (kw k) of
        None \<Rightarrow> Inl (''TypeError'', ht_type_error v)
      | Some xs \<Rightarrow>
          if n < length xs then Inl (''ValidationError'', k @ '': exceeds maximum of '' @ show_nat n)
          else validated (invalid \<circ> validate) xs)"

text \<open>\<open>datetime.fromisoformat(s).replace(tzinfo=UTC)\<close>\<close>

definition time_of :: "('s, 'd) hub_setup \<Rightarrow> hub_env \<Rightarrow> string \<Rightarrow> exn + timestamp" where
  "time_of su v s = (case hu_fromiso su s of None \<Rightarrow> Inl (''ValueError'', ht_value_error v) | Some t \<Rightarrow> Inr t)"

text \<open>A text stripped to nothing stands for no time.\<close>

definition optional_time :: "('s, 'd) hub_setup \<Rightarrow> hub_env \<Rightarrow> (string option) \<Rightarrow> exn + timestamp option" where
  "optional_time su v s = (case s of None \<Rightarrow> Inr None | Some t \<Rightarrow> if t = [] then Inr None else map_sum id Some (time_of su v t))"

section \<open>JSON of the records\<close>

definition strs_json :: "string list \<Rightarrow> pyval" where
  "strs_json xs = PList (map PStr xs)"

definition policy_json :: "('s, 'd) hub_setup \<Rightarrow> cost_policy \<Rightarrow> pyval" where
  "policy_json su p = PDict [(''policy_id'', PStr (po_policy_id p)), (''name'', PStr (po_name p)),
     (''description'', PStr (po_description p)), (''provider'', py_opt (PStr \<circ> provider_value) (po_provider p)),
     (''resource_types'', strs_json (po_resource_types p)), (''max_monthly_cost_usd'', py_opt PFloat (po_max_monthly_cost_usd p)),
     (''require_tags'', strs_json (po_require_tags p)),
     (''require_approval_above_usd'', py_opt PFloat (po_require_approval_above_usd p)),
     (''auto_actions'', strs_json (po_auto_actions p)), (''enabled'', PBool (po_enabled p)),
     (''created_at'', PStr (hu_jt su (po_created_at p))), (''updated_at'', PStr (hu_jt su (po_updated_at p))),
     (''blocked_regions'', strs_json (po_blocked_regions p)), (''preferred_regions'', strs_json (po_preferred_regions p)),
     (''required_purchase_type'', py_opt PStr (po_required_purchase_type p)),
     (''schedule'', PDict (map (map_prod id PStr) (po_schedule p))),
     (''min_commitment_coverage_pct'', py_opt PFloat (po_min_commitment_coverage_pct p)),
     (''acknowledgement_sla_hours'', py_opt PInt (po_acknowledgement_sla_hours p)),
     (''resolution_sla_hours'', py_opt PInt (po_resolution_sla_hours p)),
     (''max_account_monthly_budget_usd'', py_opt PFloat (po_max_account_monthly_budget_usd p)),
     (''unit_cost_metric'', py_opt PStr (po_unit_cost_metric p)),
     (''unit_cost_threshold_usd'', py_opt PFloat (po_unit_cost_threshold_usd p))]"

definition alert_json :: "('s, 'd) hub_setup \<Rightarrow> cost_alert \<Rightarrow> pyval" where
  "alert_json su a = PDict [(''schema_version'', PStr ''2''), (''alert_id'', PStr (al_alert_id a)),
     (''created_at'', PStr (hu_jt su (al_created_at a))), (''severity'', PStr (severity_value (al_severity a))),
     (''provider'', PStr (provider_value (al_provider a))), (''account_id'', PStr (al_account_id a)),
     (''region'', PStr (al_region a)), (''title'', PStr (al_title a)), (''summary'', PStr (al_summary a)),
     (''resource_creator'', PStr (al_resource_creator a)), (''creator_email'', PStr (al_creator_email a)),
     (''team'', PStr (al_team a)), (''cost_centre'', PStr (al_cost_centre a)),
     (''resource_type'', PStr (al_resource_type a)), (''resource_id'', PStr (al_resource_id a)),
     (''resource_name'', PStr (al_resource_name a)), (''estimated_monthly_cost_usd'', PFloat (al_cost a)),
     (''threshold_exceeded_usd'', PFloat (al_threshold_exceeded_usd a)),
     (''baseline_monthly_usd'', PFloat (al_baseline_monthly_usd a)),
     (''cost_increase_percentage'', PFloat (al_cost_increase_percentage a)),
     (''recommended_actions'', strs_json (al_recommended_actions a)),
     (''accountability_note'', PStr (al_accountability_note a)), (''escalation_path'', PStr (al_escalation_path a)),
     (''status'', PStr (status_value (al_status a))), (''acknowledged_by'', PStr (al_acknowledged_by a)),
     (''resolved_by'', PStr (al_resolved_by a)), (''source_event_id'', PStr (al_source_event_id a)),
     (''correlation_id'', PStr (al_correlation_id a)), (''policy_id'', PStr (al_policy_id a))]"

definition row_json :: "export_row \<Rightarrow> pyval" where
  "row_json r = PDict [(''audit_id'', PStr (er_audit_id r)), (''timestamp'', PStr (export_row.er_timestamp r)),
     (''action'', PStr (er_action r)), (''actor'', PStr (er_actor r)), (''target'', PStr (er_target r)),
     (''provider'', py_opt PStr (export_row.er_provider r)), (''outcome'', PStr (er_outcome r)),
     (''details'', PDict (er_details r)), (''integrity_checksum'', PStr (er_integrity_checksum r))]"

definition hub_entry_json :: "('s, 'd) hub_setup \<Rightarrow> audit_entry \<Rightarrow> pyval" where
  "hub_entry_json su e = PDict [(''schema_version'', PStr ''2''), (''audit_id'', PStr (ae_audit_id e)),
     (''timestamp'', PStr (hu_jt su (ae_timestamp e))), (''action'', PStr (ae_action e)),
     (''actor'', PStr (ae_actor e)), (''target'', PStr (ae_target e)),
     (''provider'', py_opt (PStr \<circ> provider_value) (ae_provider e)),
     (''correlation_id'', PStr (ae_correlation_id e)), (''causation_id'', PStr (ae_causation_id e)),
     (''details'', PDict (ae_details e)), (''outcome'', PStr (ae_outcome e)),
     (''related_alert_id'', PStr (ae_related_alert_id e)), (''related_policy_id'', PStr (ae_related_policy_id e)),
     (''checksum'', PStr (ae_checksum e))]"

definition hub_audit :: "('s, 'd) alert_agent \<Rightarrow> audit_logger" where
  "hub_audit ag = pe_audit (aa_policies ag)"

section \<open>Policies\<close>

text \<open>A file that cannot be written makes \<open>create_policy\<close> raise.\<close>

definition store_policy :: "('s, 'd) hub_setup \<Rightarrow> hub_env \<Rightarrow> cost_policy \<Rightarrow> ('s, 'd) alert_agent step" where
  "store_policy su v p ag =
     (let (r, pe) = create_policy (as_sha (hu_agent su)) (ht_policy v) p ''mcp_user'' (aa_policies ag)
      in (case r of
            None \<Rightarrow> Inl (''OSError'', ht_os_error v)
          | Some p \<Rightarrow> Inr (PDict [(''status'', PStr ''created''), (''policy'', policy_json su p)]),
          ag\<lparr>aa_policies := pe\<rparr>))"

definition finops_create_policy :: "('s, 'd) hub_setup \<Rightarrow> hub_env \<Rightarrow> ('s, 'd) hub_tool" where
  "finops_create_policy su v args =
     check_then (bind_args (ht_type_error v) [''name'', ''description''] [(''provider'', PNone), (''resource_types'', PNone),
       (''max_monthly_cost_usd'', PNone), (''require_tags'', PNone), (''require_approval_above_usd'', PNone),
       (''auto_actions'', PNone)] args) (\<lambda>kw.
     check_then (text_arg kw ''name'' 256) (\<lambda>name.
     check_then (text_arg kw ''description'' 2048) (\<lambda>description.
     check_then (provider_arg kw) (\<lambda>provider.
     check_then (list_arg v kw ''resource_types'' 50 validate_resource_type) (\<lambda>types.
     check_then (cost_arg kw ''max_monthly_cost_usd'') (\<lambda>max_cost.
     check_then (list_arg v kw ''require_tags'' 50 (\<lambda>t. sanitise_string t ''tag'' 128)) (\<lambda>tags.
     check_then (cost_arg kw ''require_approval_above_usd'') (\<lambda>approval.
     check_then (list_arg v kw ''auto_actions'' 20 (\<lambda>a. sanitise_string a ''action'' 256)) (\<lambda>actions.
       store_policy su v \<lparr>po_policy_id = ht_policy_id v, po_name = name, po_description = description,
         po_provider = provider, po_resource_types = types, po_max_monthly_cost_usd = max_cost, po_require_tags = tags,
         po_require_approval_above_usd = approval, po_auto_actions = actions, po_enabled = True,
         po_created_at = pv_now (ht_policy v), po_updated_at = pv_now (ht_policy v), po_blocked_regions = [],
         po_preferred_regions = [], po_required_purchase_type = None, po_schedule = [],
         po_min_commitment_coverage_pct = None, po_acknowledgement_sla_hours = None, po_resolution_sla_hours = None,
         po_max_account_monthly_budget_usd = None, po_unit_cost_metric = None, po_unit_cost_threshold_usd = None\<rparr>)))))))))"

definition finops_list_policies :: "('s, 'd) hub_setup \<Rightarrow> hub_env \<Rightarrow> ('s, 'd) hub_tool" where
  "finops_list_policies su v args =
     check_then (bind_args (ht_type_error v) [] [(''provider'', PNone), (''enabled_only'', PBool True)] args) (\<lambda>kw.
     check_then (provider_arg kw) (\<lambda>provider ag.
       (Inr (PDict (counted ''policies'' (map (policy_json su)
          (get_policies provider (truthy (kw ''enabled_only'')) (aa_policies ag))))), ag)))"

definition finops_delete_policy :: "('s, 'd) hub_setup \<Rightarrow> hub_env \<Rightarrow> ('s, 'd) hub_tool" where
  "finops_delete_policy su v args =
     check_then (bind_args (ht_type_error v) [''policy_id''] [] args) (\<lambda>kw.
     check_then (text_arg kw ''policy_id'' 256) (\<lambda>pid ag.
       let (deleted, pe) = delete_policy (as_sha (hu_agent su)) (ht_policy v) pid ''mcp_user'' (aa_policies ag)
       in (Inr (PDict [(''status'', PStr (if deleted then ''deleted'' else ''not_found'')), (''policy_id'', PStr pid)]),
           ag\<lparr>aa_policies := pe\<rparr>)))"

section \<open>Alerts\<close>

definition threshold_exn :: "hub_env \<Rightarrow> threshold_error \<Rightarrow> exn" where
  "threshold_exn v e = (case e of
     StatisticsError \<Rightarrow> (''StatisticsError'', ht_value_error v)
   | KeyErr k \<Rightarrow> (''KeyError'', quoted k)
   | TypeErr \<Rightarrow> (''TypeError'', ht_type_error v))"

definition evaluate :: "('s, 'd) hub_setup \<Rightarrow> hub_env \<Rightarrow> resource_event \<Rightarrow> ('s, 'd) alert_agent step" where
  "evaluate su v e ag =
     (let (r, ag1) = process_event (hu_agent su) (ht_process v) e ag
      in (case r of
            Inl err \<Rightarrow> Inl (threshold_exn v err)
          | Inr (Some a) \<Rightarrow> Inr (PDict [(''status'', PStr ''alert_generated''), (''alert'', alert_json su a),
              (''human_readable'', PStr (format_alert a))])
          | Inr None \<Rightarrow> Inr (PDict [(''status'', PStr ''within_thresholds''), (''resource_id'', PStr (ev_resource_id e)),
              (''estimated_cost'', PFloat (ev_cost e)),
              (''message'', PStr ''Resource cost is within acceptable thresholds.'')]),
          ag1))"

text \<open>The validators of the arguments, in order; the provider is a member after its check.\<close>

definition event_of_args :: "('s, 'd) hub_setup \<Rightarrow> hub_env \<Rightarrow> (string \<Rightarrow> pyval) \<Rightarrow> (exn + resource_event)" where
  "event_of_args su v kw =
     and_then (invalid (validate_provider (kw ''provider''))) (\<lambda>provider.
     and_then (invalid (validate_account_id (kw ''account_id''))) (\<lambda>account.
     and_then (text_arg kw ''region'' 64) (\<lambda>region.
     and_then (invalid (validate_resource_type (kw ''resource_type''))) (\<lambda>rt.
     and_then (invalid (validate_resource_id (kw ''resource_id''))) (\<lambda>rid.
     and_then (invalid (validate_cost (kw ''estimated_monthly_cost_usd'') ''estimated_monthly_cost_usd'')) (\<lambda>cost.
     and_then (text_arg kw ''creator_identity'' 512) (\<lambda>creator.
     and_then (invalid (validate_email (kw ''creator_email''))) (\<lambda>email.
     and_then (text_arg kw ''resource_name'' 256) (\<lambda>name.
     and_then (invalid (validate_tags (hu_repr su) (kw ''tags''))) (\<lambda>tags.
        Inr \<lparr>ev_event_id = ht_event_id v, ev_correlation_id = ht_correlation_id v,
          ev_provider = the (provider_of_value provider), ev_timestamp = pv_now (ht_policy v),
          ev_account_id = account, ev_region = region, ev_resource_type = rt, ev_resource_id = rid,
          ev_resource_name = name, ev_creator_identity = creator, ev_creator_email = email, ev_cost = cost,
          ev_purchase_type = ''on-demand'', ev_tags = tags, ev_raw_event = []\<rparr>))))))))))"

definition finops_evaluate_resource :: "('s, 'd) hub_setup \<Rightarrow> hub_env \<Rightarrow> ('s, 'd) hub_tool" where
  "finops_evaluate_resource su v args =
     check_then (bind_args (ht_type_error v) [''provider'', ''account_id'', ''region'', ''resource_type'', ''resource_id'',
       ''estimated_monthly_cost_usd'', ''creator_identity''] [(''creator_email'', PStr []), (''resource_name'', PStr []),
       (''tags'', PNone)] args) (\<lambda>kw.
     check_then (event_of_args su v kw) (evaluate su v))"

definition finops_list_alerts :: "('s, 'd) hub_setup \<Rightarrow> hub_env \<Rightarrow> ('s, 'd) hub_tool" where
  "finops_list_alerts su v args =
     check_then (bind_args (ht_type_error v) [] [(''severity'', PNone), (''status'', PNone), (''provider'', PNone),
       (''limit'', PInt 50)] args) (\<lambda>kw.
     check_then (optional_member validate_severity severity_of_value (kw ''severity'')) (\<lambda>sev.
     check_then (optional_member validate_status status_of_value (kw ''status'')) (\<lambda>status.
     check_then (provider_arg kw) (\<lambda>provider.
     check_then (invalid (validate_query_limit (kw ''limit''))) (\<lambda>n ag.
       (Inr (PDict (counted ''alerts'' (map (alert_json su) (get_alerts sev status provider n ag)))), ag))))))"

text \<open>The two answers of the tools that change an alert.\<close>

definition alert_answer :: "('s, 'd) hub_setup \<Rightarrow> string \<Rightarrow> string \<Rightarrow> cost_alert option \<Rightarrow> exn + pyval" where
  "alert_answer su status aid r = (case r of
     None \<Rightarrow> Inr (status_dict ''error'' (''Alert '' @ aid @ '' not found''))
   | Some a \<Rightarrow> Inr (PDict [(''status'', PStr status), (''alert'', alert_json su a)]))"

definition finops_acknowledge_alert :: "('s, 'd) hub_setup \<Rightarrow> hub_env \<Rightarrow> ('s, 'd) hub_tool" where
  "finops_acknowledge_alert su v args =
     check_then (bind_args (ht_type_error v) [''alert_id'', ''acknowledged_by''] [] args) (\<lambda>kw.
     check_then (text_arg kw ''alert_id'' 256) (\<lambda>aid.
     check_then (text_arg kw ''acknowledged_by'' 256) (\<lambda>who ag.
       let (r, ag1) = acknowledge_alert (hu_agent su) (ht_log v) aid who ag
       in (alert_answer su ''acknowledged'' aid r, ag1))))"

definition finops_resolve_alert :: "('s, 'd) hub_setup \<Rightarrow> hub_env \<Rightarrow> ('s, 'd) hub_tool" where
  "finops_resolve_alert su v args =
     check_then (bind_args (ht_type_error v) [''alert_id'', ''resolved_by''] [(''resolution_notes'', PStr [])] args) (\<lambda>kw.
     check_then (text_arg kw ''alert_id'' 256) (\<lambda>aid.
     check_then (text_arg kw ''resolved_by'' 256) (\<lambda>who.
     check_then (text_arg kw ''resolution_notes'' 2048) (\<lambda>resolution ag.
       let (r, ag1) = resolve_alert (hu_agent su) (ht_log v) aid who resolution ag
       in (alert_answer su ''resolved'' aid r, ag1)))))"

definition finops_alert_stats :: "hub_env \<Rightarrow> ('s, 'd) hub_tool" where
  "finops_alert_stats v args =
     check_then (bind_args (ht_type_error v) [] [] args) (\<lambda>kw ag. (Inr (PDict (get_alert_stats ag)), ag))"

section \<open>Reports\<close>

text \<open>The report is logged to the audit trail before its period's totals are handed out.\<close>

definition report_answer :: "('s, 'd) hub_setup \<Rightarrow> hub_env \<Rightarrow> cloud_provider option \<Rightarrow> timestamp \<Rightarrow> timestamp \<Rightarrow>
    ('s, 'd) alert_agent step" where
  "report_answer su v prov start end_time ag =
     (let (r, au) = generate_report (as_sha (hu_agent su)) (ht_report v)
            (hu_query su prov start end_time 10000 (aa_events ag)) (get_alerts None None prov 1000 ag)
            start end_time prov (hub_audit ag)
      in (Inr (PDict [(''report'', hu_dump_report su r), (''human_readable'', PStr (format_report_for_humans r))]),
          ag\<lparr>aa_policies := (aa_policies ag)\<lparr>pe_audit := au\<rparr>\<rparr>))"

definition finops_generate_report :: "('s, 'd) hub_setup \<Rightarrow> hub_env \<Rightarrow> ('s, 'd) hub_tool" where
  "finops_generate_report su v args =
     check_then (bind_args (ht_type_error v) [''period_start'', ''period_end''] [(''provider'', PNone)] args) (\<lambda>kw.
     check_then (text_arg kw ''period_start'' 64) (\<lambda>s.
     check_then (text_arg kw ''period_end'' 64) (\<lambda>e.
     check_then (provider_arg kw) (\<lambda>prov.
     check_then (time_of su v s) (\<lambda>start.
     check_then (time_of su v e) (\<lambda>end_time. report_answer su v prov start end_time))))))"

section \<open>The audit trail\<close>

definition finops_query_audit :: "('s, 'd) hub_setup \<Rightarrow> hub_env \<Rightarrow> ('s, 'd) hub_tool" where
  "finops_query_audit su v args =
     check_then (bind_args (ht_type_error v) [] [(''action'', PNone), (''actor'', PNone), (''provider'', PNone),
       (''since'', PNone), (''limit'', PInt 100)] args) (\<lambda>kw.
     check_then (optional_text kw ''action'' 256) (\<lambda>action.
     check_then (optional_text kw ''actor'' 256) (\<lambda>actor.
     check_then (provider_arg kw) (\<lambda>prov.
     check_then (optional_text kw ''since'' 64) (\<lambda>since.
     check_then (invalid (validate_query_limit (kw ''limit''))) (\<lambda>n.
     check_then (optional_time su v since) (\<lambda>t ag.
       (Inr (PDict (counted ''entries'' (map (hub_entry_json su) (get_entries action actor prov t n (hub_audit ag))))),
        ag))))))))"

definition violation_json :: "violation \<Rightarrow> pyval" where
  "violation_json w = PDict [(''audit_id'', PStr (vi_audit_id w)), (''timestamp'', PStr (vi_timestamp w)),
     (''action'', PStr (vi_action w)), (''expected_checksum'', PStr (vi_expected w)),
     (''actual_checksum'', PStr (vi_actual w))]"

definition integrity_word :: "violation list \<Rightarrow> pyval" where
  "integrity_word ws = PStr (if ws = [] then ''intact'' else ''violations_detected'')"

text \<open>\<open>len(audit_logger.get_entries(limit=10000))\<close>\<close>

definition entry_total :: "audit_logger \<Rightarrow> pyval" where
  "entry_total au = PInt (int (length (get_entries None None None None 10000 au)))"

definition finops_verify_audit_integrity :: "('s, 'd) hub_setup \<Rightarrow> hub_env \<Rightarrow> ('s, 'd) hub_tool" where
  "finops_verify_audit_integrity su v args =
     check_then (bind_args (ht_type_error v) [] [] args) (\<lambda>kw ag.
       (Inr (let ws = verify_integrity (as_sha (hu_agent su)) (hub_audit ag)
             in PDict [(''status'', integrity_word ws), (''total_entries'', entry_total (hub_audit ag)),
               (''violations'', PList (map violation_json ws))]), ag))"

definition finops_export_audit :: "('s, 'd) hub_setup \<Rightarrow> hub_env \<Rightarrow> ('s, 'd) hub_tool" where
  "finops_export_audit su v args =
     check_then (bind_args (ht_type_error v) [] [(''since'', PNone), (''until'', PNone)] args) (\<lambda>kw.
     check_then (optional_text kw ''since'' 64) (\<lambda>s.
     check_then (optional_text kw ''until'' 64) (\<lambda>u.
     check_then (optional_time su v s) (\<lambda>since.
     check_then (optional_time su v u) (\<lambda>til ag.
       (Inr (PDict (counted ''entries'' (map row_json (export_for_compliance since til (hub_audit ag))))), ag))))))"

section \<open>Estimates, status, notifications\<close>

text \<open>A configuration that is no dictionary fails where an estimator reads it.\<close>

definition monthly_estimate :: "hub_env \<Rightarrow> string \<Rightarrow> string \<Rightarrow> pyval \<Rightarrow> exn + real" where
  "monthly_estimate v provider rt config =
     (case config of
        PDict d \<Rightarrow> (case local_monthly_cost provider rt d None of
            None \<Rightarrow> Inl (''TypeError'', ht_type_error v) | Some x \<Rightarrow> Inr x)
      | _ \<Rightarrow> if rt \<in> fst ` set (if provider = ''aws'' then aws_estimators else if provider = ''gcp'' then gcp_estimators else [])
             then Inl (''AttributeError'', ht_type_error v) else Inr 0)"

definition finops_estimate_cost :: "hub_env \<Rightarrow> ('s, 'd) hub_tool" where
  "finops_estimate_cost v args =
     check_then (bind_args (ht_type_error v) [''provider'', ''resource_type'', ''config''] [] args) (\<lambda>kw.
     check_then (invalid (validate_provider (kw ''provider''))) (\<lambda>provider.
     check_then (invalid (validate_resource_type (kw ''resource_type''))) (\<lambda>rt.
     check_then (invalid (validate_dict_depth (kw ''config'') ''config'' 3)) (\<lambda>u.
     check_then (monthly_estimate v provider rt (kw ''config'')) (\<lambda>cost ag.
       (Inr (PDict [(''provider'', PStr provider), (''resource_type'', PStr rt), (''config'', kw ''config''),
          (''estimated_monthly_cost_usd'', PFloat cost)]), ag))))))"

definition finops_hub_status :: "('s, 'd) hub_setup \<Rightarrow> hub_env \<Rightarrow> ('s, 'd) hub_tool" where
  "finops_hub_status su v args =
     check_then (bind_args (ht_type_error v) [] [] args) (\<lambda>kw ag.
       (Inr (PDict [(''status'', PStr ''running''), (''version'', PStr (hu_version su)),
          (''policies_loaded'', PInt (int (length (get_policies None False (aa_policies ag))))),
          (''alert_stats'', PDict (get_alert_stats ag)), (''events_stored'', PInt (int (hu_count su (aa_events ag)))),
          (''event_store_backend'', PStr (hu_backend su)), (''audit_entries'', entry_total (hub_audit ag)),
          (''audit_integrity'', integrity_word (verify_integrity (as_sha (hu_agent su)) (hub_audit ag))),
          (''notification_channels'', strs_json (hu_channels su (aa_dispatcher ag))),
          (''providers_configured'', PDict [(''aws'', PBool (ht_aws v)), (''gcp'', PBool (ht_gcp v))])]), ag))"

definition finops_retry_failed_notifications :: "('s, 'd) hub_setup \<Rightarrow> hub_env \<Rightarrow> ('s, 'd) hub_tool" where
  "finops_retry_failed_notifications su v args =
     check_then (bind_args (ht_type_error v) [] [] args) (\<lambda>kw ag.
       let (c, d) = hu_retry su (aa_dispatcher ag)
       in (Inr (PDict [(''status'', PStr ''completed''), (''retried'', PInt (int (rt_retried c))),
            (''succeeded'', PInt (int (rt_succeeded c))), (''still_failed'', PInt (int (rt_failed c))),
            (''remaining_dead_letters'', PInt (int (hu_dead_letters su d)))]), ag\<lparr>aa_dispatcher := d\<rparr>))"

section \<open>Registration\<close>

definition hub_tools :: "('s, 'd) hub_setup \<Rightarrow> hub_env \<Rightarrow> (string, ('s, 'd) hub_tool) dict" where
  "hub_tools su v =
    [(''finops_create_policy'', finops_create_policy su v), (''finops_list_policies'', finops_list_policies su v),
     (''finops_delete_policy'', finops_delete_policy su v), (''finops_evaluate_resource'', finops_evaluate_resource su v),
     (''finops_list_alerts'', finops_list_alerts su v), (''finops_acknowledge_alert'', finops_acknowledge_alert su v),
     (''finops_resolve_alert'', finops_resolve_alert su v), (''finops_alert_stats'', finops_alert_stats v),
     (''finops_generate_report'', finops_generate_report su v), (''finops_query_audit'', finops_query_audit su v),
     (''finops_verify_audit_integrity'', finops_verify_audit_integrity su v),
     (''finops_export_audit'', finops_export_audit su v), (''finops_estimate_cost'', finops_estimate_cost v),
     (''finops_hub_status'', finops_hub_status su v),
     (''finops_retry_failed_notifications'', finops_retry_failed_notifications su v)]"

text \<open>
  A tool behind the routing: the alert agent is the hub's rest, and its policy engine's audit logger is
  the hub's, the one object the server hands to both.
\<close>

definition as_mcp_tool :: "('s, 'd) hub_tool \<Rightarrow> ('s, 'd) alert_agent tool" where
  "as_mcp_tool f args hub =
     (let ag = hb_rest hub; (r, ag1) = f args (ag\<lparr>aa_policies := (aa_policies ag)\<lparr>pe_audit := hb_audit hub\<rparr>\<rparr>)
      in (r, hub\<lparr>hb_rest := ag1, hb_audit := hub_audit ag1\<rparr>))"

section \<open>What every tool keeps\<close>

text \<open>
  One call: the agent stays well formed and its audit trail only grows at the end, and a call refused
  by a validator has changed nothing.
\<close>

definition append_only :: "('s, 'd) hub_setup \<Rightarrow> ('s, 'd) alert_agent \<Rightarrow> ('s, 'd) alert_agent \<Rightarrow> bool" where
  "append_only su ag ag' \<longleftrightarrow> (agent_ok (as_sha (hu_agent su)) ag \<longrightarrow>
     agent_ok (as_sha (hu_agent su)) ag' \<and> (\<exists>es. agent_trail ag' = agent_trail ag @ es))"

definition orderly :: "('s, 'd) hub_setup \<Rightarrow> ('s, 'd) alert_agent \<Rightarrow> (exn + pyval) \<times> ('s, 'd) alert_agent \<Rightarrow> bool" where
  "orderly su ag p \<longleftrightarrow> append_only su ag (snd p) \<and> (\<forall>m. fst p = Inl (''ValidationError'', m) \<longrightarrow> snd p = ag)"

lemma append_only_refl [simp]: "append_only su ag ag"
  by (simp add: append_only_def)

lemma append_only_trans: "append_only su a b \<Longrightarrow> append_only su b c \<Longrightarrow> append_only su a c"
  unfolding append_only_def by (metis append.assoc)

lemma orderly_same [simp]: "orderly su ag (r, ag)"
  by (simp add: orderly_def)

lemma orderly_check: "(\<And>x. r = Inr x \<Longrightarrow> orderly su ag (f x ag)) \<Longrightarrow> orderly su ag (check_then r f ag)"
  by (cases r) simp_all

lemma append_only_policies:
  assumes "audit_ok (as_sha (hu_agent su)) (pe_audit (aa_policies ag)) \<Longrightarrow> audit_ok (as_sha (hu_agent su)) (pe_audit pe)"
    and "\<exists>es. au_entries (pe_audit pe) = au_entries (pe_audit (aa_policies ag)) @ es"
  shows "append_only su ag (ag\<lparr>aa_policies := pe\<rparr>)"
  using assms by (auto simp: append_only_def agent_ok_def agent_trail_def)

lemma append_only_log [simp]: "append_only su ag (agent_log (hu_agent su) a v ag)"
  unfolding agent_log_def by (rule append_only_policies) simp_all

lemma policy_step_grows:
  "\<exists>es. au_entries (pe_audit (policy_step sha x pe)) = au_entries (pe_audit pe) @ es"
  by (cases x) (auto simp: create_policy_def update_policy_def delete_policy_def persist_policy_def
      Let_def split: option.splits prod.splits)

lemma append_only_policy_step:
  "append_only su ag (ag\<lparr>aa_policies := policy_step (as_sha (hu_agent su)) x (aa_policies ag)\<rparr>)"
  by (rule append_only_policies) (simp_all add: policy_step_audit policy_step_grows)

lemma append_only_set_alert: "append_only su ag (set_alert i a ag)"
  by (simp add: append_only_def agent_ok_def set_alert_def agent_trail_def)

lemma append_only_dispatcher: "append_only su ag (ag\<lparr>aa_dispatcher := d\<rparr>)"
  by (simp add: append_only_def agent_ok_def agent_trail_def)

lemma threshold_exn_type [simp]: "threshold_exn v err \<noteq> (''ValidationError'', m)"
  by (cases err) (simp_all add: threshold_exn_def)

lemma evaluate_not_refused: "fst (evaluate su v e ag) \<noteq> Inl (''ValidationError'', m)"
  by (simp add: evaluate_def case_prod_beta split: sum.splits option.splits)

lemma evaluate_event_grows:
  "\<exists>es. au_entries (pe_audit (snd (evaluate_event sha envs e pe))) = au_entries (pe_audit pe) @ es"
  using log_all_extends by (fastforce simp: evaluate_event_violations)

lemma agent_trail_log [simp]:
  "agent_trail (agent_log su a v ag) = agent_trail ag @ [fst (log_entry (as_sha su) a v (pe_audit (aa_policies ag)))]"
  by (simp add: agent_trail_def agent_log_def)

lemma process_event_grows: "\<exists>es. agent_trail (snd (process_event su v e ag)) = agent_trail ag @ es"
  using evaluate_event_grows [of "as_sha su" "pn_violations v" e "aa_policies ag"]
  by (auto simp: process_event_def agent_trail_def agent_log_def Let_def case_prod_beta split: sum.splits option.splits)

lemma append_only_evaluate: "append_only su ag (snd (evaluate su v e ag))"
proof -
  have "snd (evaluate su v e ag) = snd (process_event (hu_agent su) (ht_process v) e ag)"
    by (simp add: evaluate_def case_prod_beta)
  moreover have "agent_ok (as_sha (hu_agent su)) (snd (process_event (hu_agent su) (ht_process v) e ag))"
    if "agent_ok (as_sha (hu_agent su)) ag"
    by (rule process_event_step [OF that, of "ht_process v" e]) simp
  ultimately show ?thesis
    using process_event_grows [of "hu_agent su" "ht_process v" e ag] by (simp add: append_only_def)
qed

lemma orderly_evaluate: "orderly su ag (evaluate su v e ag)"
  by (simp add: orderly_def append_only_evaluate evaluate_not_refused)

lemma orderly_store: "orderly su ag (store_policy su v p ag)"
  using append_only_policy_step [of su ag "Create (ht_policy v) p ''mcp_user''"]
  by (auto simp: orderly_def store_policy_def Let_def split: prod.splits option.splits)

lemma append_only_delete:
  "append_only su ag (ag\<lparr>aa_policies := snd (delete_policy (as_sha (hu_agent su)) v pid actor (aa_policies ag))\<rparr>)"
  using append_only_policy_step [of su ag "Delete v pid actor"] by simp

lemma orderly_delete: "orderly su ag (finops_delete_policy su v args ag)"
  unfolding finops_delete_policy_def
  by (intro orderly_check) (simp add: orderly_def append_only_delete case_prod_beta)

lemma orderly_acknowledge: "orderly su ag (finops_acknowledge_alert su v args ag)"
  unfolding finops_acknowledge_alert_def
  by (intro orderly_check) (auto simp: orderly_def acknowledge_alert_def alert_answer_def Let_def
      intro: append_only_trans [OF append_only_set_alert append_only_log] split: option.splits)

lemma orderly_resolve: "orderly su ag (finops_resolve_alert su v args ag)"
  unfolding finops_resolve_alert_def
  by (intro orderly_check) (auto simp: orderly_def resolve_alert_def alert_answer_def Let_def
      intro: append_only_trans [OF append_only_set_alert append_only_log] split: option.splits)

lemma orderly_report: "orderly su ag (report_answer su v prov s e ag)"
proof -
  have "snd (report_answer su v prov s e ag) = agent_log (hu_agent su)
      (report_args (fst (generate_report (as_sha (hu_agent su)) (ht_report v)
            (hu_query su prov s e 10000 (aa_events ag)) (get_alerts None None prov 1000 ag) s e prov (hub_audit ag)))
         (filter_events (hu_query su prov s e 10000 (aa_events ag)) s e prov)
         (filter_alerts (get_alerts None None prov 1000 ag) s e prov)) (re_log (ht_report v)) ag"
    by (simp add: report_answer_def generate_report_def agent_log_def policy_log_def hub_audit_def Let_def)
  then show ?thesis by (simp add: orderly_def) (simp add: report_answer_def case_prod_beta)
qed

lemma orderly_retry: "orderly su ag (finops_retry_failed_notifications su v args ag)"
  unfolding finops_retry_failed_notifications_def
  by (intro orderly_check) (auto simp: orderly_def append_only_dispatcher Let_def split: prod.splits)

lemmas read_only_tools = finops_list_policies_def finops_list_alerts_def finops_alert_stats_def finops_query_audit_def
  finops_verify_audit_integrity_def finops_export_audit_def finops_estimate_cost_def finops_hub_status_def

lemma read_only:
  "snd (finops_list_policies su v args ag) = ag" "snd (finops_list_alerts su v args ag) = ag"
  "snd (finops_alert_stats v args ag) = ag" "snd (finops_query_audit su v args ag) = ag"
  "snd (finops_verify_audit_integrity su v args ag) = ag" "snd (finops_export_audit su v args ag) = ag"
  "snd (finops_estimate_cost v args ag) = ag" "snd (finops_hub_status su v args ag) = ag"
  unfolding read_only_tools by ((rule check_then_keeps [where P = "\<lambda>x. x = ag"])+; simp)+

lemma orderly_read: "snd p = ag \<Longrightarrow> orderly su ag p"
  by (simp add: orderly_def)

lemma hub_tool_orderly: "(name, f) \<in> set (hub_tools su v) \<Longrightarrow> orderly su ag (f args ag)"
  by (auto simp: hub_tools_def finops_create_policy_def finops_evaluate_resource_def finops_generate_report_def
      intro!: orderly_store orderly_delete orderly_evaluate orderly_acknowledge orderly_resolve orderly_report orderly_retry
        orderly_check orderly_read [OF read_only(1)] orderly_read [OF read_only(2)] orderly_read [OF read_only(3)]
        orderly_read [OF read_only(4)] orderly_read [OF read_only(5)] orderly_read [OF read_only(6)]
        orderly_read [OF read_only(7)] orderly_read [OF read_only(8)])

section \<open>A session of tool calls\<close>

type_synonym hub_call = "hub_env \<times> string \<times> (string, pyval) dict"

definition hub_call :: "('s, 'd) hub_setup \<Rightarrow> hub_call \<Rightarrow> ('s, 'd) alert_agent \<Rightarrow> ('s, 'd) alert_agent" where
  "hub_call su c ag = (case c of (v, name, args) \<Rightarrow>
     (case dget (hub_tools su v) name of None \<Rightarrow> ag | Some f \<Rightarrow> snd (f args ag)))"

definition hub_run :: "('s, 'd) hub_setup \<Rightarrow> hub_call list \<Rightarrow> ('s, 'd) alert_agent \<Rightarrow> ('s, 'd) alert_agent" where
  "hub_run su cs ag = fold (hub_call su) cs ag"

lemma dget_found: "dget d k = Some x \<Longrightarrow> (k, x) \<in> set d"
  by (induction d) (auto simp: dget_Cons split: if_splits)

lemma dget_hub_tool: "dget (hub_tools su v) name = Some f \<Longrightarrow> orderly su ag (f args ag)"
  by (rule hub_tool_orderly) (rule dget_found)

lemma append_only_call: "append_only su ag (hub_call su c ag)"
  using dget_hub_tool by (fastforce simp: hub_call_def orderly_def split: prod.splits option.splits)

lemma append_only_run: "append_only su ag (hub_run su cs ag)"
  by (induction cs arbitrary: ag) (auto simp: hub_run_def intro: append_only_trans [OF append_only_call])

text \<open>
  C37: Whatever tools a client calls, in whatever order and with whatever arguments, the hub's agent
  stays well formed and the audit trail it had is a prefix of the one it has: no tool rewrites or
  drops an entry, the chain verifies, and the integrity tool itself answers \<open>intact\<close> with no
  violations. A call that a validator refuses has changed nothing at all, whatever came before it.
\<close>
theorem hub_tools_append_only:
  fixes su :: "('s, 'd) hub_setup" and ag :: "('s, 'd) alert_agent" and cs :: "hub_call list"
  assumes "agent_ok (as_sha (hu_agent su)) ag"
  defines "ag' \<equiv> hub_run su cs ag"
  shows "agent_ok (as_sha (hu_agent su)) ag' \<and> (\<exists>es. agent_trail ag' = agent_trail ag @ es) \<and>
    (\<forall>v. fst (finops_verify_audit_integrity su v [] ag') =
       Inr (PDict [(''status'', PStr ''intact''), (''total_entries'', entry_total (hub_audit ag')), (''violations'', PList [])])) \<and>
    (\<forall>v name f args m. dget (hub_tools su v) name = Some f \<and> fst (f args ag') = Inl (''ValidationError'', m) \<longrightarrow>
       snd (f args ag') = ag')"
proof -
  have run: "agent_ok (as_sha (hu_agent su)) ag' \<and> (\<exists>es. agent_trail ag' = agent_trail ag @ es)"
    using append_only_run [of su ag cs] assms(1) by (simp add: append_only_def ag'_def)
  then have "verify_integrity (as_sha (hu_agent su)) (hub_audit ag') = []"
    by (auto simp: agent_ok_def hub_audit_def intro: audit_ok_verify)
  then have "\<forall>v. fst (finops_verify_audit_integrity su v [] ag') =
       Inr (PDict [(''status'', PStr ''intact''), (''total_entries'', entry_total (hub_audit ag')), (''violations'', PList [])])"
    by (simp add: finops_verify_audit_integrity_def bind_args_def integrity_word_def Let_def)
  moreover have "\<forall>v name f args m. dget (hub_tools su v) name = Some f \<and>
      fst (f args ag') = Inl (''ValidationError'', m) \<longrightarrow> snd (f args ag') = ag'"
    using dget_hub_tool unfolding orderly_def by blast
  ultimately show ?thesis using run by simp
qed

definition demo_hub :: "(mem_store, string list) hub_setup" where
  "demo_hub = \<lparr>hu_agent = demo_agent_setup, hu_jt = isoformat, hu_repr = (\<lambda>v. []), hu_fromiso = (\<lambda>s. None),
     hu_query = (\<lambda>p s e n st. []), hu_count = (\<lambda>st. 0), hu_retry = (\<lambda>d. (\<lparr>rt_retried = 0, rt_succeeded = 0,
     rt_failed = 0, rt_expired = 0\<rparr>, d)), hu_dead_letters = (\<lambda>d. 0), hu_channels = (\<lambda>d. []),
     hu_dump_report = (\<lambda>r. PNone), hu_version = ''0.3.0'', hu_backend = ''memory''\<rparr>"

theorem hub_tools_append_only_witness:
  "\<forall>v. fst (finops_verify_audit_integrity demo_hub v []
       (hub_run demo_hub [(v, ''finops_delete_policy'', [(''policy_id'', PStr ''p1'')])] demo_agent)) =
     Inr (PDict [(''status'', PStr ''intact''), (''total_entries'', PInt 1), (''violations'', PList [])])"
proof
  fix v :: hub_env
  let ?call = "(v, ''finops_delete_policy'', [(''policy_id'', PStr ''p1'')])"
  have clean: "sanitise_string (PStr ''p1'') ''policy_id'' 256 = Inr ''p1''" by code_simp
  have "entry_total (hub_audit (hub_run demo_hub [?call] demo_agent)) = PInt 1"
    by (simp add: hub_run_def hub_call_def hub_tools_def dget_Cons finops_delete_policy_def bind_args_def dhas_def dget_or_def
        text_arg_def invalid_def clean case_prod_beta hub_audit_def delete_policy_def demo_agent_def init_alert_agent_def
        demo_engine_def entry_total_def get_entries_def MAX_AUDIT_QUERY_def init_audit_def slice_last_def Let_def)
  moreover have "agent_ok (as_sha (hu_agent demo_hub)) demo_agent" using demo_agent_ok by (simp add: demo_hub_def)
  ultimately show "fst (finops_verify_audit_integrity demo_hub v [] (hub_run demo_hub [?call] demo_agent)) =
      Inr (PDict [(''status'', PStr ''intact''), (''total_entries'', PInt 1), (''violations'', PList [])])"
    using hub_tools_append_only [of demo_hub demo_agent "[?call]"] by simp
qed

end
