(* ===== verification/Spec2Isabelle.thy ===== *)
theory Spec2Isabelle
  imports Lifecycle Alert_Store Tagging_Health Pricing Reports Cost_Monitor Health Replay Session_Server
    Listeners Trace_Adapters Agent_Callbacks Hub_Tools
begin

text \<open>
  Verification of the FinOps automation hub: the Python packages \<open>core/\<close>, \<open>agents/\<close>, \<open>mcp_server/\<close> and
  the parts of \<open>providers/\<close> that feed them.

  \<^bold>\<open>The program and its parts.\<close> Listeners poll the clouds for resource creations; the cost monitor removes
  the ones it has seen; the alert agent stores each event, checks it against the policies and against a
  threshold computed from the cost history, raises an alert, dispatches it and logs every outcome to the
  audit trail. The report, reconciliation, health and tagging agents read what that pipeline leaves. An
  agent or an operator reaches all of it through the MCP server, whose every tool call passes the tool
  governor: kill switch, policy, argument gates, budget, approval, execution, in this order.

  \<^bold>\<open>Theories and sources.\<close>
  \<^item> \<open>Prelude\<close>, \<open>Py_Access\<close>: Python values, insertion-ordered dictionaries, slices, texts of numbers and
    times; reading nested values. \<open>Models\<close>: \<open>core/models.py\<close>, a datatype per enum and a record per model.
  \<^item> \<open>Lifecycle\<close>, \<open>Circuit\<close>: \<open>core/lifecycle.py\<close>, \<open>core/circuit_breaker.py\<close>, \<open>core/retry.py\<close>.
  \<^item> \<open>Audit_Trail\<close>: \<open>core/audit.py\<close>. \<open>Supervisor\<close>: \<open>core/agent_supervisor.py\<close>. \<open>Governor\<close>:
    \<open>core/tool_governor.py\<close>. \<open>Approvals\<close>: \<open>core/approvals.py\<close>.
  \<^item> \<open>Config\<close>, \<open>Policies\<close>, \<open>Alerts\<close>: \<open>core/config.py\<close>, \<open>core/policies.py\<close>, \<open>core/thresholds.py\<close> with
    \<open>core/alerts.py\<close>. \<open>Pricing\<close>: \<open>core/pricing.py\<close>. \<open>Notifications\<close>: \<open>core/notifications.py\<close>.
  \<^item> \<open>Iso_Time\<close>, \<open>Event_Store\<close>, \<open>Alert_Store\<close>: times as texts, \<open>core/event_store.py\<close>, \<open>core/alert_store.py\<close>.
  \<^item> \<open>Regex\<close>, \<open>Filters\<close>, \<open>Validation\<close>: the part of \<open>re\<close> the filters use, \<open>core/filters.py\<close>, \<open>core/validation.py\<close>.
  \<^item> \<open>Agent_Trace\<close>, \<open>Memory\<close>, \<open>Observer\<close>: \<open>core/agent_trace.py\<close>, \<open>core/memory_audit.py\<close>, \<open>core/agent_observer.py\<close>.
  \<^item> \<open>Tagging\<close>, \<open>Tagging_Health\<close>: \<open>core/tagging.py\<close>, \<open>agents/tagging_health_agent.py\<close>.
  \<^item> \<open>Alert_Agent\<close>, \<open>Reconciliation\<close>, \<open>Reports\<close>, \<open>Cost_Monitor\<close>, \<open>Health\<close>: the agents of those names.
  \<^item> \<open>Listeners\<close>, \<open>Trace_Adapters\<close>, \<open>Agent_Callbacks\<close>: the listeners and cost analysers of both
    providers, \<open>providers/aws/agent_trace_adapter.py\<close> and \<open>providers/gcp/agent_trace_plugin.py\<close>, and the
    governance callbacks of \<open>providers/gcp/agents/finops_agent.py\<close>.
  \<^item> \<open>Mcp_Server\<close>, \<open>Tool_Args\<close>, \<open>Session_Tools\<close>, \<open>Session_Server\<close>, \<open>Hub_Tools\<close>, \<open>Replay\<close>:
    \<open>mcp_server/server.py\<close>, its routing, what its tools share, the tools on sessions, approvals and memory
    alone and behind the routing, the cost tools, and the replay of events.

  \<^bold>\<open>State and operations.\<close> A class is a record of its attributes; a method is a function from the arguments
  and the state to the result and the state. A method that raises has a sum or an option as its result, and the
  state beside it is what the exception leaves behind. A dictionary is an association list in
  insertion order. A tool is a function of its keyword arguments and the hub. What one call draws from
  outside (identifiers, clock readings, whether a file could be written) is a record named after the
  call, such as \<open>log_env\<close> or \<open>process_env\<close>.

  \<^bold>\<open>Interfaces.\<close> \<open>audit_sink\<close> is what the components rely on of the audit logger, \<open>halt_registry\<close> what the
  governor relies on of the supervisor, \<open>event_store\<close> and \<open>alert_store\<close> what both backends of the stores
  promise, \<open>memory_store\<close> what the memory adapter relies on of a backend, \<open>event_source\<close> what the polling
  loops rely on of a listener's translation. Each is interpreted on the model of the code, next to
  it, both backends and both listeners included.

  \<^bold>\<open>What the lemmas show.\<close>
  \<^item> Governance: nothing runs that the governor denies, a call that ran passed every check and was charged
    once, budgets hold over any session, and a halt holds until a resume names the session, alone and
    through the server. Approvals need distinct approvers other than the requester, and their tokens bind.
  \<^item> Audit: the chain verifies after any operations, edits of the covered fields are reported or are hash
    collisions, the last checksum binds the history, a restart restores the trail, ingested traces can be
    read back. Over any calls of the cost tools the trail only grows, and a refused call changes nothing.
  \<^item> The pipeline: violations and thresholds are decided exactly, every event leaves exactly one outcome,
    a batch leaves nothing to reconcile, a replay settles what a crash left open, the monitor's history
    stays bounded and without duplicates, and a poll reports exactly the creations that were listed before
    the first one that cannot be read.
  \<^item> Data: the stores refine a map and a sequence and agree with each other, policies survive a restart, the
    cached prices are the prices, a report accounts for its period.
  \<^item> Screening: redacted arguments pass the scanner, memories and prompts are screened, requests only go to
    permitted targets, the adapters never lose or reorder a step.
  Where the code does not do what a reader would expect, a lemma states what it does (for instance
  \<open>late_decision_unapproves\<close>, \<open>audit_details_unprotected\<close>, \<open>later_part_leaks\<close>).

  \<^bold>\<open>Conventions and bounds.\<close> Floats are exact reals. Texts are lists of characters, ASCII where a
  pattern or a case conversion looks at them; the few other characters the code writes are their UTF-8
  bytes. Times are microseconds since the epoch in UTC. A lock makes a method one atomic step. Loops are
  structural recursions, or bounded by the list they run over; the retry loop counts down its attempts and
  the matcher of \<open>Regex\<close> the length of the text it has left, so no result depends on fuel; the loop of
  the monitor, which need not end, is a step relation with its reachable states.

  \<^bold>\<open>Arguments of the model.\<close> SHA-256 and HMAC, JSON and YAML parsing, \<open>urlparse\<close>, \<open>fromisoformat\<close>, the HTTP
  client, the cloud clients and the SDK's objects. What a lemma needs of them is a named hypothesis or
  a collision in its conclusion.

  \<^bold>\<open>Not modelled.\<close> The tool \<open>finops_update_policy\<close>, which assigns raw values of any type to a policy
  (\<open>update_policy\<close> of the engine is modelled over typed values); the JSON-RPC loop over stdio; the
  approval gateways, which only send text; schema set-up and health statements of SQLite; the tools of the
  two cloud agents, which query the clouds and format rows; resource catalogues and MCP configurations,
  which are static data; the command line, logging set-up, scripts, infrastructure code and tests.
\<close>

section \<open>Kill switch and enforcement point together\<close>

lemma gov_run_halted:
  assumes "ge_supervisor env = Some sv" "sid \<noteq> []" "is_halted sid sv = Some h"
    and "\<forall>rq \<in> set rqs. rq_session_id rq = sid"
  shows "fst (gov_run env rqs st) = map (\<lambda>rq. Inr (deny_result rq (halt_reason h))) rqs \<and>
    gs_world (snd (gov_run env rqs st)) = gs_world st \<and>
    gs_budget (snd (gov_run env rqs st)) = gs_budget st"
  using assms(4)
proof (induction rqs arbitrary: st)
  case (Cons rq rqs)
  then have halted: "gov_halted env rq = Some h"
    using assms(1-3) by (simp add: gov_halted_def)
  then have "fst (governed_call env rq st) = Inr (deny_result rq (halt_reason h))"
    "gs_world (snd (governed_call env rq st)) = gs_world st"
    "gs_budget (snd (governed_call env rq st)) = gs_budget st"
    by (simp_all add: governed_call_def Let_def halted)
  with Cons show ?case by (simp add: case_prod_beta Let_def)
qed simp

text \<open>
  C4: The kill switch works: once a session is halted, and whatever the supervisor is told
  afterwards short of resuming that session, every governed call of the session is denied with
  the reason of the halt, neither the executor nor the approval handler runs (the world and the
  budget stay as they were), and a resume lifts the halt again.
\<close>
theorem halted_session_runs_nothing:
  fixes env :: "'w gov_env" and sid :: string and a :: halt_args and sv :: agent_supervisor
    and xs :: "sup_op list"
  assumes "\<not> list_ex (resumes sid) xs" and "sid \<noteq> []"
    and "\<forall>rq \<in> set rqs. rq_session_id rq = sid"
  defines "sv' \<equiv> fold sup_step xs (snd (halt sid a sv))"
  defines "env' \<equiv> env\<lparr>ge_supervisor := Some sv'\<rparr>"
  shows "fst (gov_run env' rqs st) =
      map (\<lambda>rq. Inr (deny_result rq (halt_reason (fst (halt sid a sv))))) rqs \<and>
    gs_world (snd (gov_run env' rqs st)) = gs_world st \<and>
    gs_budget (snd (gov_run env' rqs st)) = gs_budget st \<and>
    (\<forall>rq \<in> set rqs. gov_halted (env\<lparr>ge_supervisor := Some (snd (resume sid r sv'))\<rparr>) rq = None)"
proof -
  have h: "is_halted sid sv' = Some (fst (halt sid a sv))"
    unfolding sv'_def by (rule halt_persists [OF assms(1)])
  have "ge_supervisor env' = Some sv'" by (simp add: env'_def)
  from gov_run_halted [OF this assms(2) h assms(3)] show ?thesis
    using assms(3) by (simp add: gov_halted_def is_halted_resume)
qed

theorem halted_session_runs_nothing_witness:
  "fst (gov_run (demo_gov\<lparr>ge_supervisor := Some (fold sup_step [Halt ''s2'' demo_halt]
        (snd (halt ''s1'' demo_halt init_supervisor)))\<rparr>) [demo_request ''run''] demo_state) =
     [Inr (deny_result (demo_request ''run'') ''session halted by oncall: loop'')]"
proof -
  have reason: "halt_reason (fst (halt ''s1'' demo_halt init_supervisor)) = ''session halted by oncall: loop''"
    by (simp add: halt_def demo_halt_def halt_reason_def init_supervisor_def Let_def)
  have side: "\<not> list_ex (resumes ''s1'') [Halt ''s2'' demo_halt]" "''s1'' \<noteq> []"
    "\<forall>rq \<in> set [demo_request ''run'']. rq_session_id rq = ''s1''"
    by (simp_all add: resumes_def demo_request_def)
  show ?thesis
    using halted_session_runs_nothing [OF side, where env = demo_gov and a = demo_halt
        and sv = init_supervisor and st = demo_state]
    unfolding reason by (simp only: list.map)
qed

end
